(* ===== verification/Exceptions.thy ===== *)
theory Exceptions
  imports Prelude
begin

text \<open>
  Butler's exceptions: the builder of \<open>core/utils/exception.utils.ts\<close>, the HTTP exception
  it builds and the two exception filters of \<open>core/filters\<close>. The NestJS class
  \<open>HttpException\<close> only carries the response and the status it is given.
\<close>

subsection \<open>The builder\<close>

record ErrorDetails =
  title :: string
  detail :: "string option"
  source :: "string option"
  status :: nat

record ErrorResponse =
  errors :: "ErrorDetails list"

datatype response = PlainText string | Structured ErrorResponse | OtherObject string

record HttpException =
  response :: response
  statusCode :: nat

text \<open>\<open>HttpStatus.INTERNAL_SERVER_ERROR\<close> and the other codes the code names.\<close>

definition INTERNAL_SERVER_ERROR :: nat where "INTERNAL_SERVER_ERROR = 500"
definition BAD_REQUEST :: nat where "BAD_REQUEST = 400"
definition CONFLICT :: nat where "CONFLICT = 409"
definition UNPROCESSABLE_ENTITY :: nat where "UNPROCESSABLE_ENTITY = 422"

definition ExceptionBuilder :: "string \<Rightarrow> nat \<Rightarrow> ErrorDetails" where
  "ExceptionBuilder t s =
     \<lparr>title = t, detail = None, source = None,
      status = (if s \<noteq> 0 then s else INTERNAL_SERVER_ERROR)\<rparr>"

definition withDetail :: "string \<Rightarrow> ErrorDetails \<Rightarrow> ErrorDetails" where
  "withDetail d b = b\<lparr>detail := Some d\<rparr>"

definition withSource :: "string \<Rightarrow> ErrorDetails \<Rightarrow> ErrorDetails" where
  "withSource s b = b\<lparr>source := Some s\<rparr>"

definition build :: "ErrorDetails \<Rightarrow> HttpException" where
  "build b =
     (let errorDetails = \<lparr>title = title b, detail = detail b, source = source b, status = status b\<rparr>
      in \<lparr>response = Structured \<lparr>errors = [errorDetails]\<rparr>, statusCode = status b\<rparr>)"

definition buildFromArray :: "ErrorDetails list \<Rightarrow> nat \<Rightarrow> HttpException" where
  "buildFromArray es s = \<lparr>response = Structured \<lparr>errors = es\<rparr>, statusCode = s\<rparr>"

subsection \<open>The exception filters\<close>

record JsonError =
  j_title :: string
  j_detail :: "string option"
  j_component :: string
  j_timestamp :: int
  j_status :: nat
  j_pointer :: "string option"

datatype json_body = JsonAPIError "JsonError list" | RawResponse response

text \<open>
  \<open>convertToObject\<close>: a string response has no errors; an object is read as an
  \<open>ErrorResponse\<close>, whose \<open>errors\<close> field is there or not.
\<close>

fun convertToObject :: "response \<Rightarrow> ErrorResponse option option" where
  "convertToObject (PlainText s) = None"
| "convertToObject (Structured r) = Some (Some r)"
| "convertToObject (OtherObject s) = Some None"

definition extractDetailedResponse :: "int \<Rightarrow> ErrorResponse \<Rightarrow> JsonError list" where
  "extractDetailedResponse now r =
     map (\<lambda>e. \<lparr>j_title = title e, j_detail = detail e, j_component = ''butler'',
               j_timestamp = now, j_status = status e, j_pointer = source e\<rparr>)
         (errors r)"

definition getJsonResponse :: "int \<Rightarrow> ErrorResponse option option \<Rightarrow> HttpException \<Rightarrow> json_body" where
  "getJsonResponse now obj ex =
     (case obj of
        Some (Some r) \<Rightarrow> JsonAPIError (extractDetailedResponse now r)
      | _ \<Rightarrow> RawResponse (response ex))"

definition HttpExceptionFilter_catch :: "int \<Rightarrow> HttpException \<Rightarrow> nat \<times> json_body" where
  "HttpExceptionFilter_catch now ex =
     (let responseObject = convertToObject (response ex)
      in (statusCode ex, getJsonResponse now responseObject ex))"

definition EntityNotFoundExceptionFilter_catch :: "nat \<times> nat \<times> string \<times> string" where
  "EntityNotFoundExceptionFilter_catch = (404, 404, ''Not Found'', ''Entity not found'')"

subsection \<open>Every exception a request may end with\<close>

text \<open>
  \<open>EntityNotFound\<close> is TypeORM's \<open>EntityNotFoundError\<close>, \<open>TypeError\<close> JavaScript's own
  (reading a property of \<open>undefined\<close>), \<open>ClusterError\<close> a failed call of the Kubernetes API
  with its HTTP status where it has one, \<open>NamespaceLookupError\<close> the internal server error of
  a failed namespace lookup (the namespace and the status the API gave),
  \<open>NotFoundException\<close> NestJS's, \<open>PlainError\<close> a bare \<open>throw new Error\<close>.
\<close>

datatype app_error =
    HttpError HttpException
  | EntityNotFound
  | TypeError
  | ClusterError "nat option"
  | NamespaceLookupError string nat
  | NotFoundException string
  | PlainError string

lemma build_sections:
  "statusCode (build b) = status b"
  "response (build b) = Structured \<lparr>errors = [b]\<rparr>"
  by (simp_all add: build_def)

lemma status_ExceptionBuilder: "status (ExceptionBuilder t s) \<noteq> 0"
  by (simp add: ExceptionBuilder_def INTERNAL_SERVER_ERROR_def)

lemma builder_steps:
  "title (withDetail d b) = title b" "status (withDetail d b) = status b"
  "source (withDetail d b) = source b" "detail (withDetail d b) = Some d"
  "title (withSource s b) = title b" "status (withSource s b) = status b"
  "detail (withSource s b) = detail b" "source (withSource s b) = Some s"
  by (simp_all add: withDetail_def withSource_def)

end
