(* ===== verification/Domain.thy ===== *)
theory Domain
  imports Exceptions
begin

text \<open>
  The data of butler: its enumerations, the rows of its four tables (the entities under
  \<open>api/deployments/entity\<close>), the requests of its HTTP interface (\<open>api/deployments/dto\<close>), the
  Kubernetes manifests it stores and the custom and Istio resources it writes. Dates are
  milliseconds (\<open>Date.getTime()\<close>); a nullable column is an \<open>option\<close>.
\<close>

subsection \<open>Enumerations\<close>

datatype DeploymentStatusEnum =
    CREATED | SUCCEEDED | FAILED | TIMED_OUT | UNDEPLOYED | UNDEPLOY_FAILED

datatype ExecutionTypeEnum = DEPLOYMENT | UNDEPLOYMENT

datatype NotificationStatusEnum = SENT | NOT_SENT | ERROR

datatype GitProvidersEnum = GITHUB | GITLAB

datatype ResourceType = FILE | DIR

subsection \<open>Kubernetes manifests\<close>

text \<open>
  A manifest is a JSON document. The parts the code reads or writes are fields; whatever
  else it holds is kept in the \<open>rest\<close> fields and travels unchanged.
\<close>

record V1ObjectMeta =
  md_name :: "string option"
  md_namespace :: "string option"
  md_labels :: "object option"
  md_rest :: object

definition no_metadata :: V1ObjectMeta where
  "no_metadata = \<lparr>md_name = None, md_namespace = None, md_labels = None, md_rest = []\<rparr>"

record SpecTemplate =
  tp_metadata :: "V1ObjectMeta option"
  tp_rest :: object

record ManifestSpec =
  sp_template :: "SpecTemplate option"
  sp_rest :: object

record KubernetesManifest =
  m_apiVersion :: "string option"
  m_kind :: "string option"
  m_metadata :: "V1ObjectMeta option"
  m_spec :: "ManifestSpec option"

subsection \<open>Rows of the database\<close>

record ComponentEntityV2 =
  comp_id :: string
  helmUrl :: string
  imageTag :: string
  imageUrl :: string
  hostValue :: "string option"
  gatewayName :: "string option"
  comp_name :: string
  running :: bool
  componentId :: string
  merged :: bool
  deployment_id :: string
  manifests :: "KubernetesManifest list"

record DeploymentEntityV2 =
  dep_id :: string
  authorId :: string
  callbackUrl :: string
  createdAt :: int
  priority :: int
  circleId :: string
  previousDeploymentId :: "string option"
  current :: bool
  namespace :: string
  healthy :: bool
  routed :: bool
  timeoutInSeconds :: int
  defaultCircle :: bool

record Execution =
  exec_id :: string
  exec_type :: ExecutionTypeEnum
  exec_status :: DeploymentStatusEnum
  notificationStatus :: NotificationStatusEnum
  exec_deploymentId :: string
  exec_createdAt :: int
  finishedAt :: "int option"
  incomingCircleId :: "string option"

record Log =
  log_type :: string
  log_title :: string
  log_details :: "string option"
  log_timestamp :: string

record LogEntity =
  log_id :: string
  log_deploymentId :: string
  logs :: "Log list"

text \<open>
  A component as the queries return it, joined with its deployment (the interface
  \<open>Component\<close>), and a deployment loaded with its components.
\<close>

record Component =
  component :: ComponentEntityV2
  deployment :: DeploymentEntityV2

abbreviation "c_name c \<equiv> comp_name (component c)"
abbreviation "c_tag c \<equiv> imageTag (component c)"
abbreviation "c_circle c \<equiv> circleId (deployment c)"
abbreviation "c_default c \<equiv> defaultCircle (deployment c)"

record DeploymentWithComponents =
  dwc_deployment :: DeploymentEntityV2
  dwc_components :: "ComponentEntityV2 list"

subsection \<open>Constructors of the entities\<close>

text \<open>
  The constructors leave the generated columns to the database: the id, the dates and the
  columns that have a default. They are filled when the entity is saved.
\<close>

definition new_ComponentEntityV2 ::
  "string \<Rightarrow> string \<Rightarrow> string \<Rightarrow> string \<Rightarrow> string \<Rightarrow> string option \<Rightarrow> string option
    \<Rightarrow> KubernetesManifest list \<Rightarrow> bool \<Rightarrow> ComponentEntityV2" where
  "new_ComponentEntityV2 hu tag img nm cid host gw ms mg =
     \<lparr>comp_id = [], helmUrl = hu, imageTag = tag, imageUrl = img, hostValue = host,
      gatewayName = gw, comp_name = nm, running = False, componentId = cid, merged = mg,
      deployment_id = [], manifests = ms\<rparr>"

definition clone :: "ComponentEntityV2 \<Rightarrow> ComponentEntityV2" where
  "clone c = new_ComponentEntityV2 (helmUrl c) (imageTag c) (imageUrl c) (comp_name c)
     (componentId c) (hostValue c) (gatewayName c) (manifests c) True"

definition new_DeploymentEntityV2 ::
  "string \<Rightarrow> string \<Rightarrow> string \<Rightarrow> string \<Rightarrow> ComponentEntityV2 list \<Rightarrow> bool \<Rightarrow> string \<Rightarrow> int
    \<Rightarrow> DeploymentWithComponents" where
  "new_DeploymentEntityV2 did author circle cb comps isDefault ns timeout =
     \<lparr>dwc_deployment =
        \<lparr>dep_id = did, authorId = author, callbackUrl = cb, createdAt = 0, priority = 0,
         circleId = circle, previousDeploymentId = None, current = False, namespace = ns,
         healthy = False, routed = False, timeoutInSeconds = timeout,
         defaultCircle = isDefault\<rparr>,
      dwc_components = comps\<rparr>"

definition new_Execution ::
  "DeploymentEntityV2 \<Rightarrow> ExecutionTypeEnum \<Rightarrow> string option \<Rightarrow> DeploymentStatusEnum \<Rightarrow> Execution" where
  "new_Execution d ty inc st =
     \<lparr>exec_id = [], exec_type = ty, exec_status = st, notificationStatus = NOT_SENT,
      exec_deploymentId = dep_id d, exec_createdAt = 0, finishedAt = None,
      incomingCircleId = inc\<rparr>"

record ReadComponentDeploymentDto =
  rc_id :: string
  rc_componentId :: string
  rc_componentName :: string
  rc_helmRepository :: string
  rc_buildImageUrl :: string
  rc_buildImageTag :: string
  rc_hostValue :: "string option"
  rc_gatewayName :: "string option"

definition formatComponents :: "DeploymentWithComponents \<Rightarrow> ReadComponentDeploymentDto list" where
  "formatComponents d =
     map (\<lambda>c. \<lparr>rc_id = comp_id c, rc_componentId = componentId c,
               rc_componentName = comp_name c, rc_helmRepository = helmUrl c,
               rc_buildImageUrl = imageUrl c, rc_buildImageTag = imageTag c,
               rc_hostValue = hostValue c, rc_gatewayName = gatewayName c\<rparr>)
         (dwc_components d)"

definition concatLogs :: "LogEntity \<Rightarrow> Log list \<Rightarrow> LogEntity" where
  "concatLogs e ls = e\<lparr>logs := logs e @ ls\<rparr>"

record ReadLogsDto =
  rl_id :: string
  rl_logs :: "Log list"

definition LogEntity_toReadDto :: "LogEntity \<Rightarrow> ReadLogsDto" where
  "LogEntity_toReadDto e = \<lparr>rl_id = log_id e, rl_logs = logs e\<rparr>"

subsection \<open>Requests\<close>

record CreateCircleDeploymentDto =
  circle_id :: string
  circle_default :: bool

record CreateGitDeploymentDto =
  git_token :: string
  git_provider :: GitProvidersEnum

record CreateComponentRequestDto =
  cr_componentId :: string
  cr_buildImageUrl :: string
  cr_buildImageTag :: string
  cr_componentName :: string
  cr_hostValue :: "string option"
  cr_gatewayName :: "string option"
  cr_helmRepository :: string

definition toEntity ::
  "CreateComponentRequestDto \<Rightarrow> string \<Rightarrow> KubernetesManifest list \<Rightarrow> ComponentEntityV2" where
  "toEntity c helmRepositoryUrl ms =
     new_ComponentEntityV2 helmRepositoryUrl (cr_buildImageTag c) (cr_buildImageUrl c)
       (cr_componentName c) (cr_componentId c)
       (if truthy (cr_hostValue c) then cr_hostValue c else None)
       (if truthy (cr_gatewayName c) then cr_gatewayName c else None)
       ms False"

text \<open>
  \<open>timeoutInSeconds\<close> is optional in the request; left out, the column takes its default
  when the entity is saved.
\<close>

record CreateDeploymentRequestDto =
  rq_deploymentId :: string
  rq_authorId :: string
  rq_callbackUrl :: string
  rq_circle :: CreateCircleDeploymentDto
  rq_git :: CreateGitDeploymentDto
  rq_namespace :: string
  rq_timeoutInSeconds :: "int option"
  rq_status :: DeploymentStatusEnum
  rq_components :: "CreateComponentRequestDto list"

text \<open>The default of the column, set by the migration \<open>20210430161500\<close>.\<close>

definition default_timeout :: int where "default_timeout = 200"

definition column_timeout :: "int option \<Rightarrow> int" where
  "column_timeout t = (case t of None \<Rightarrow> default_timeout | Some s \<Rightarrow> s)"

definition toCircleEntity ::
  "CreateDeploymentRequestDto \<Rightarrow> ComponentEntityV2 list \<Rightarrow> DeploymentWithComponents" where
  "toCircleEntity r newComponents =
     new_DeploymentEntityV2 (rq_deploymentId r) (rq_authorId r) (circle_id (rq_circle r))
       (rq_callbackUrl r) newComponents (circle_default (rq_circle r)) (rq_namespace r)
       (column_timeout (rq_timeoutInSeconds r))"

definition toDefaultEntity ::
  "CreateDeploymentRequestDto \<Rightarrow> ComponentEntityV2 list \<Rightarrow> ComponentEntityV2 list
    \<Rightarrow> DeploymentWithComponents" where
  "toDefaultEntity r activeComponents newComponents =
     new_DeploymentEntityV2 (rq_deploymentId r) (rq_authorId r) (circle_id (rq_circle r))
       (rq_callbackUrl r) (activeComponents @ newComponents) (circle_default (rq_circle r))
       (rq_namespace r) (column_timeout (rq_timeoutInSeconds r))"

subsection \<open>Custom resources\<close>

record CharlesDeploymentComponent =
  cdc_name :: string
  cdc_chart :: string
  cdc_tag :: string

record CharlesDeploymentSpec =
  cds_deploymentId :: string
  cds_circleId :: string
  cds_components :: "CharlesDeploymentComponent list"

record CharlesComponentCircle =
  ccc_name :: string
  ccc_tag :: string

record CharlesCircle =
  cc_id :: string
  cc_default :: bool
  cc_components :: "CharlesComponentCircle list"

datatype custom_spec =
    CharlesDeployment CharlesDeploymentSpec
  | CharlesRoutes "CharlesCircle list"

record custom_resource =
  cr_apiVersion :: string
  cr_kind :: string
  cr_name :: string
  cr_namespace :: string
  cr_labels :: object
  cr_spec :: custom_spec

subsection \<open>Istio resources\<close>

record Labels =
  lb_component :: string
  lb_tag :: string
  lb_circleId :: string
  lb_deploymentId :: string

record Subset =
  ss_labels :: Labels
  ss_name :: string

record Headers =
  h_cookie_regex :: "string option"
  h_x_circle_id :: "string option"

record Destination =
  ds_host :: string
  ds_subset :: "string option"

record RouteHeaders =
  rh_request_source :: string
  rh_response_source :: string

record Route =
  rt_destination :: Destination
  rt_headers :: "RouteHeaders option"

record Http =
  http_match :: "Headers list"
  http_route :: "Route list"

record RouteMetadata =
  rm_name :: string
  rm_namespace :: string
  rm_circles :: string

record VirtualServiceSpec =
  vs_apiVersion :: string
  vs_metadata :: RouteMetadata
  vs_gateways :: "string list"
  vs_hosts :: "string list"
  vs_http :: "Http list"

record DestinationRuleSpec =
  dr_apiVersion :: string
  dr_metadata :: RouteMetadata
  dr_host :: string
  dr_subsets :: "Subset list"

datatype SpecsUnion = DestinationRule DestinationRuleSpec | VirtualService VirtualServiceSpec

fun spec_metadata :: "SpecsUnion \<Rightarrow> RouteMetadata" where
  "spec_metadata (DestinationRule d) = dr_metadata d"
| "spec_metadata (VirtualService v) = vs_metadata v"

fun spec_kind :: "SpecsUnion \<Rightarrow> string" where
  "spec_kind (DestinationRule d) = ''DestinationRule''"
| "spec_kind (VirtualService v) = ''VirtualService''"

subsection \<open>Constants\<close>

definition ISTIO_RESOURCES_API_VERSION :: string where
  "ISTIO_RESOURCES_API_VERSION = ''networking.istio.io/v1alpha3''"
definition CHARLES_CUSTOM_RESOURCE_DEPLOYMENT_KIND :: string where
  "CHARLES_CUSTOM_RESOURCE_DEPLOYMENT_KIND = ''CharlesDeployment''"
definition CHARLES_CUSTOM_RESOURCE_ROUTES_KIND :: string where
  "CHARLES_CUSTOM_RESOURCE_ROUTES_KIND = ''CharlesRoutes''"
definition DEPLOYMENT_ID_LABEL :: string where
  "DEPLOYMENT_ID_LABEL = ''deploymentId''"
definition MOOVE_NOTIFICATION_MAXIMUM_RETRY_ATTEMPTS :: nat where
  "MOOVE_NOTIFICATION_MAXIMUM_RETRY_ATTEMPTS = 3"
definition FETCH_RESOURCE_MAXIMUM_RETRY_ATTEMPTS :: nat where
  "FETCH_RESOURCE_MAXIMUM_RETRY_ATTEMPTS = 3"

end
