(* ===== verification/Json.thy ===== *)
theory Json
  imports Prelude "HOL-Library.Char_ord"
begin

text \<open>
  \<open>JSON.stringify\<close> and \<open>JSON.parse\<close> on arrays of strings, which is how the circle ids of a
  proxy manifest are written into its \<open>circles\<close> annotation and read back from the cluster. A
  text that is not such an array is \<open>None\<close> here: \<open>JSON.parse\<close> throws, or returns a value the
  declared type \<open>string[]\<close> excludes.
\<close>

definition hex_digit :: "nat \<Rightarrow> char" where
  "hex_digit n = ''0123456789abcdef'' ! n"

definition hex_value :: "char \<Rightarrow> nat option" where
  "hex_value c =
     (let n = of_char c in
      if 48 \<le> n \<and> n \<le> 57 then Some (n - 48)
      else if 97 \<le> n \<and> n \<le> 102 then Some (n - 87)
      else if 65 \<le> n \<and> n \<le> 70 then Some (n - 55)
      else None)"

definition short_escapes :: "(char \<times> char) list" where
  "short_escapes =
     [(CHR 0x22, CHR 0x22), (CHR 0x5C, CHR 0x5C), (CHR 0x08, CHR ''b''), (CHR 0x0C, CHR ''f''),
      (CHR 0x0A, CHR ''n''), (CHR 0x0D, CHR ''r''), (CHR 0x09, CHR ''t'')]"

definition escape_char :: "char \<Rightarrow> string" where
  "escape_char c =
     (case map_of short_escapes c of
        Some e \<Rightarrow> [CHR 0x5C, e]
      | None \<Rightarrow>
          if of_char c < (32::nat)
          then [CHR 0x5C, CHR ''u'', CHR ''0'', CHR ''0'',
                hex_digit (of_char c div 16), hex_digit (of_char c mod 16)]
          else [c])"

definition stringify_string :: "string \<Rightarrow> string" where
  "stringify_string s = [CHR 0x22] @ concat (map escape_char s) @ [CHR 0x22]"

definition JSON_stringify :: "string list \<Rightarrow> string" where
  "JSON_stringify xs = ''['' @ join_with '','' (map stringify_string xs) @ '']''"

definition unescape :: "char \<Rightarrow> char option" where
  "unescape e =
     (if e = CHR ''/'' then Some e
      else map_of (map (\<lambda>(c, e). (e, c)) short_escapes) e)"

definition hex_char :: "char \<Rightarrow> char \<Rightarrow> char \<Rightarrow> char \<Rightarrow> char option" where
  "hex_char a b c d =
     (case (hex_value a, hex_value b, hex_value c, hex_value d) of
        (Some 0, Some 0, Some u, Some l) \<Rightarrow> Some (char_of (16 * u + l))
      | _ \<Rightarrow> None)"

text \<open>The characters of a string literal after its opening quote, and what follows it.\<close>

fun parse_chars :: "string \<Rightarrow> (string \<times> string) option" where
  "parse_chars [] = None"
| "parse_chars (c # cs) =
     (if c = CHR 0x22 then Some ([], cs)
      else if c = CHR 0x5C then
        (case cs of
           [] \<Rightarrow> None
         | e # rest \<Rightarrow>
             (if e = CHR ''u'' then
                (case rest of
                   h1 # h2 # h3 # h4 # rest' \<Rightarrow>
                     (case hex_char h1 h2 h3 h4 of
                        None \<Rightarrow> None
                      | Some d \<Rightarrow> map_option (apfst (Cons d)) (parse_chars rest'))
                 | _ \<Rightarrow> None)
              else
                (case unescape e of
                   None \<Rightarrow> None
                 | Some d \<Rightarrow> map_option (apfst (Cons d)) (parse_chars rest))))
      else if of_char c < (32::nat) then None
      else map_option (apfst (Cons c)) (parse_chars cs))"

fun skip_ws :: "string \<Rightarrow> string" where
  "skip_ws [] = []"
| "skip_ws (c # cs) =
     (if c \<in> {CHR '' '', CHR 0x09, CHR 0x0A, CHR 0x0D} then skip_ws cs else c # cs)"

lemma length_skip_ws: "length (skip_ws s) \<le> length s"
  by (induction s) auto

lemma length_parse_chars: "parse_chars s = Some (t, r) \<Longrightarrow> length r < length s"
proof (induction s arbitrary: t rule: parse_chars.induct)
  case 1
  then show ?case by simp
next
  case (2 c cs)
  then show ?case
    by (fastforce split: if_splits list.splits option.splits)
qed

text \<open>The elements from an opening quote on, up to the closing bracket.\<close>

function parse_elements :: "string \<Rightarrow> (string list \<times> string) option" where
  "parse_elements s =
     (case s of
        [] \<Rightarrow> None
      | q # cs \<Rightarrow>
          if q \<noteq> CHR 0x22 then None
          else
            (case parse_chars cs of
               None \<Rightarrow> None
             | Some (x, r) \<Rightarrow>
                 (case skip_ws r of
                    [] \<Rightarrow> None
                  | d # r' \<Rightarrow>
                      if d = CHR '']'' then Some ([x], r')
                      else if d = CHR '','' then
                        map_option (apfst (Cons x)) (parse_elements (skip_ws r'))
                      else None)))"
  by pat_completeness auto
termination
proof (relation "measure length", goal_cases)
  case 1
  show ?case by simp
next
  case (2 s q cs p x r d r')
  from 2 have "length r < length cs" by (auto dest: length_parse_chars)
  moreover have "length (d # r') \<le> length r" using 2 length_skip_ws [of r] by simp
  moreover have "length (skip_ws r') \<le> length r'" by (rule length_skip_ws)
  ultimately show ?case using 2 by simp
qed

declare parse_elements.simps [simp del]

definition JSON_parse :: "string \<Rightarrow> string list option" where
  "JSON_parse s =
     (case skip_ws s of
        [] \<Rightarrow> None
      | b # r \<Rightarrow>
          if b \<noteq> CHR ''['' then None
          else
            (case skip_ws r of
               [] \<Rightarrow> None
             | d # r' \<Rightarrow>
                 if d = CHR '']'' then (if skip_ws r' = [] then Some [] else None)
                 else
                   (case parse_elements (d # r') of
                      None \<Rightarrow> None
                    | Some (xs, t) \<Rightarrow> if skip_ws t = [] then Some xs else None)))"

subsection \<open>Parsing inverts printing\<close>

lemma hex_value_digit: "n < 16 \<Longrightarrow> hex_value (hex_digit n) = Some n"
proof -
  have "\<forall>n \<in> set [0..<16]. hex_value (hex_digit n) = Some n" by code_simp
  then show "n < 16 \<Longrightarrow> hex_value (hex_digit n) = Some n" by auto
qed

lemma unescape_short:
  "map_of short_escapes c = Some e \<Longrightarrow> unescape e = Some c \<and> e \<noteq> CHR ''u''"
  unfolding short_escapes_def unescape_def
  by (auto split: if_splits)

lemma hex_control: "of_char c < (32::nat) \<Longrightarrow>
  hex_char (CHR ''0'') (CHR ''0'') (hex_digit (of_char c div 16)) (hex_digit (of_char c mod 16))
    = Some c"
proof -
  assume c: "of_char c < (32::nat)"
  have z: "hex_value (CHR ''0'') = Some 0" by code_simp
  show ?thesis
    unfolding hex_char_def using c by (simp add: z hex_value_digit)
qed

lemma parse_escaped_char:
  "parse_chars (escape_char c @ r) = map_option (apfst (Cons c)) (parse_chars r)"
proof (cases "map_of short_escapes c")
  case (Some e)
  with unescape_short [OF this] show ?thesis by (simp add: escape_char_def)
next
  case None
  then have neq: "c \<noteq> CHR 0x22" "c \<noteq> CHR 0x5C"
    by (auto simp: short_escapes_def split: if_splits)
  show ?thesis
  proof (cases "of_char c < (32::nat)")
    case True
    with None show ?thesis by (simp add: escape_char_def hex_control)
  next
    case False
    with None neq show ?thesis by (simp add: escape_char_def)
  qed
qed

lemma parse_escaped_string:
  "parse_chars (concat (map escape_char s) @ CHR 0x22 # r) = Some (s, r)"
proof (induction s)
  case Nil
  then show ?case by simp
next
  case (Cons c s)
  then show ?case by (simp add: parse_escaped_char)
qed

lemma parse_elements_printed:
  "parse_elements (join_with '','' (map stringify_string (x # xs)) @ CHR '']'' # r)
     = Some (x # xs, r)"
proof (induction xs arbitrary: x)
  case Nil
  then show ?case
    by (subst parse_elements.simps) (simp add: stringify_string_def parse_escaped_string)
next
  case (Cons y ys)
  have quoted: "skip_ws (join_with '','' (map stringify_string (y # ys)) @ t)
      = join_with '','' (map stringify_string (y # ys)) @ t" for t
    by (cases ys) (simp_all add: stringify_string_def)
  have head: "stringify_string x @ t = CHR 0x22 # concat (map escape_char x) @ CHR 0x22 # t" for t
    by (simp add: stringify_string_def)
  show ?case
    using Cons.IH [of y] quoted [of "CHR '']'' # r"]
    by (subst parse_elements.simps) (simp add: head parse_escaped_string)
qed

lemma JSON_parse_stringify: "JSON_parse (JSON_stringify xs) = Some xs"
proof (cases xs)
  case Nil
  then show ?thesis by (simp add: JSON_parse_def JSON_stringify_def)
next
  case (Cons y ys)
  obtain t where t: "join_with '','' (map stringify_string (y # ys)) @ '']'' = CHR 0x22 # t"
    by (cases ys) (auto simp: stringify_string_def)
  have "parse_elements (CHR 0x22 # t) = Some (y # ys, [])"
    using parse_elements_printed [of y ys "[]"] t by simp
  then show ?thesis
    using t unfolding Cons JSON_parse_def JSON_stringify_def by simp
qed

end
