(* ===== verification/Istio.thy ===== *)
theory Istio
  imports Domain Json
begin

text \<open>
  The Istio manifests of a component: \<open>core/integrations/utils\<close>. A virtual service holds two
  rules for each circle that is not the default one (the circle id in a cookie, the circle
  id in a header) and, last, one rule without a match for the default circle; a destination
  rule holds one subset for each circle. The rules name a subset by the circle id.

  The lemmas show that the two manifests of a component agree (every rule goes to a subset
  that is declared, for the same host), in which order the rules stand, and that an
  undeployed circle is in none of them.
\<close>

subsection \<open>The pieces: istio-manifests.utilts.ts\<close>

definition getDestinationRulesSubsetObject :: "Component \<Rightarrow> string \<Rightarrow> Subset" where
  "getDestinationRulesSubsetObject c circle =
     \<lparr>ss_labels = \<lparr>lb_component = c_name c, lb_tag = c_tag c, lb_circleId = circle,
                   lb_deploymentId = dep_id (deployment c)\<rparr>,
      ss_name = circle\<rparr>"

definition circle_route :: "string \<Rightarrow> string \<Rightarrow> Route" where
  "circle_route host circle =
     \<lparr>rt_destination = \<lparr>ds_host = host, ds_subset = Some circle\<rparr>,
      rt_headers = Some \<lparr>rh_request_source = circle, rh_response_source = circle\<rparr>\<rparr>"

definition getVirtualServiceHTTPCookieCircleRule :: "string \<Rightarrow> string \<Rightarrow> string \<Rightarrow> Http" where
  "getVirtualServiceHTTPCookieCircleRule nm tag circle =
     \<lparr>http_match = [\<lparr>h_cookie_regex = Some (''.*x-circle-id='' @ circle @ ''.*''),
                     h_x_circle_id = None\<rparr>],
      http_route = [circle_route nm circle]\<rparr>"

definition getVirtualServiceHTTPHeaderCircleRule :: "string \<Rightarrow> string \<Rightarrow> string \<Rightarrow> Http" where
  "getVirtualServiceHTTPHeaderCircleRule nm tag circle =
     \<lparr>http_match = [\<lparr>h_cookie_regex = None, h_x_circle_id = Some circle\<rparr>],
      http_route = [circle_route nm circle]\<rparr>"

definition getVirtualServiceHTTPDefaultRule :: "string \<Rightarrow> string \<Rightarrow> Http" where
  "getVirtualServiceHTTPDefaultRule nm circle =
     \<lparr>http_match = [], http_route = [circle_route nm circle]\<rparr>"

subsection \<open>deployment.utils.ts\<close>

definition getDeploymentName :: "ComponentEntityV2 \<Rightarrow> string \<Rightarrow> string" where
  "getDeploymentName c circle = comp_name c @ ''-'' @ imageTag c @ ''-'' @ circle"

definition getActiveComponentsByName :: "Component list \<Rightarrow> string \<Rightarrow> Component list" where
  "getActiveComponentsByName activeComponents nm = filter (\<lambda>c. c_name c = nm) activeComponents"

definition getActiveSameCircleTagComponent ::
  "Component list \<Rightarrow> ComponentEntityV2 \<Rightarrow> string option \<Rightarrow> Component option" where
  "getActiveSameCircleTagComponent activeComponents c circle =
     List.find (\<lambda>a. c_tag a = imageTag c \<and> Some (c_circle a) = circle)
       (getActiveComponentsByName activeComponents (comp_name c))"

definition getUnusedComponent ::
  "Component list \<Rightarrow> ComponentEntityV2 \<Rightarrow> string option \<Rightarrow> Component option" where
  "getUnusedComponent activeComponents c circle =
     (let activeByName = getActiveComponentsByName activeComponents (comp_name c);
          sameCircleComponent = List.find (\<lambda>a. Some (c_circle a) = circle) activeByName
      in case sameCircleComponent of
           None \<Rightarrow> None
         | Some a \<Rightarrow> if c_tag a = imageTag c then None else Some a)"

definition isDistinctCircle :: "Component \<Rightarrow> string \<Rightarrow> bool" where
  "isDistinctCircle c circle \<longleftrightarrow> c_circle c \<noteq> circle"

definition isDistinctAndNotDefault :: "Component \<Rightarrow> string \<Rightarrow> bool" where
  "isDistinctAndNotDefault c circle \<longleftrightarrow> isDistinctCircle c circle \<and> \<not> c_default c"

definition isSameName :: "ComponentEntityV2 \<Rightarrow> Component \<Rightarrow> bool" where
  "isSameName dc a \<longleftrightarrow> comp_name dc = c_name a"

definition isSameNameAndDifferentVersion :: "ComponentEntityV2 \<Rightarrow> Component \<Rightarrow> bool" where
  "isSameNameAndDifferentVersion dc a \<longleftrightarrow> isSameName dc a \<and> imageTag dc \<noteq> c_tag a"

text \<open>\<open>deployment.components\<close> is optional: \<open>undefined?.some(p)\<close> is undefined, so falsy.\<close>

definition removedComponents :: "ComponentEntityV2 list option \<Rightarrow> Component \<Rightarrow> bool" where
  "removedComponents dcs a \<longleftrightarrow>
     \<not> (case dcs of None \<Rightarrow> False | Some cs \<Rightarrow> list_ex (\<lambda>dc. isSameName dc a) cs)"

definition updatedComponents :: "ComponentEntityV2 list option \<Rightarrow> Component \<Rightarrow> bool" where
  "updatedComponents dcs a \<longleftrightarrow>
     (case dcs of None \<Rightarrow> False | Some cs \<Rightarrow> list_ex (\<lambda>dc. isSameNameAndDifferentVersion dc a) cs)"

definition componentsToBeRemoved ::
  "string \<Rightarrow> ComponentEntityV2 list option \<Rightarrow> Component list \<Rightarrow> Component list" where
  "componentsToBeRemoved circle dcs activeComponents =
     (let sameCircleComponents = filter (\<lambda>c. c_circle c = circle) activeComponents
      in filter (\<lambda>c. removedComponents dcs c \<or> updatedComponents dcs c) sameCircleComponents)"

text \<open>
  \<open>!deployment.components?.map(..).includes(..)\<close>: the optional chain yields undefined, which
  is falsy, when there are no components.
\<close>

definition unusedComponentProxy ::
  "string \<Rightarrow> ComponentEntityV2 list option \<Rightarrow> Component list \<Rightarrow> Component list" where
  "unusedComponentProxy circle dcs activeComponents =
     (if componentsToBeRemoved circle dcs activeComponents = [] then []
      else
        (let sameCircleComponents = filter (\<lambda>c. c_circle c = circle) activeComponents
         in filter (\<lambda>c. \<not> (case dcs of None \<Rightarrow> False
                             | Some cs \<Rightarrow> c_name c \<in> set (map comp_name cs)))
              sameCircleComponents))"

subsection \<open>Manifests of a deployed component: istio-deployment-manifests.utils.ts\<close>

definition circles_annotation :: "Component list \<Rightarrow> string" where
  "circles_annotation cs = JSON_stringify (map c_circle cs)"

definition getDestinationRulesSubsets :: "Component list \<Rightarrow> Subset list" where
  "getDestinationRulesSubsets cs = map (\<lambda>c. getDestinationRulesSubsetObject c (c_circle c)) cs"

definition default_rule :: "Component list \<Rightarrow> Http list" where
  "default_rule cs =
     (case List.find c_default cs of
        None \<Rightarrow> []
      | Some c \<Rightarrow> [getVirtualServiceHTTPDefaultRule (c_name c) (c_circle c)])"

definition circle_rules :: "Component \<Rightarrow> Http list" where
  "circle_rules c =
     [getVirtualServiceHTTPCookieCircleRule (c_name c) (c_tag c) (c_circle c),
      getVirtualServiceHTTPHeaderCircleRule (c_name c) (c_tag c) (c_circle c)]"

definition getVirtualServiceHTTPRules :: "Component list \<Rightarrow> Http list" where
  "getVirtualServiceHTTPRules cs =
     concat (map (\<lambda>c. if \<not> c_default c then circle_rules c else []) cs) @ default_rule cs"

definition getVirtualServiceManifest ::
  "string \<Rightarrow> string \<Rightarrow> string option \<Rightarrow> string option \<Rightarrow> Component list \<Rightarrow> VirtualServiceSpec" where
  "getVirtualServiceManifest componentName ns gateway host cs =
     \<lparr>vs_apiVersion = ISTIO_RESOURCES_API_VERSION,
      vs_metadata = \<lparr>rm_name = componentName, rm_namespace = ns,
                     rm_circles = circles_annotation cs\<rparr>,
      vs_gateways = (if truthy gateway then [the gateway] else []),
      vs_hosts = (if truthy host then [the host, componentName] else [componentName]),
      vs_http = getVirtualServiceHTTPRules cs\<rparr>"

definition getDestinationRulesManifest ::
  "string \<Rightarrow> string \<Rightarrow> Component list \<Rightarrow> DestinationRuleSpec" where
  "getDestinationRulesManifest componentName ns cs =
     \<lparr>dr_apiVersion = ISTIO_RESOURCES_API_VERSION,
      dr_metadata = \<lparr>rm_name = componentName, rm_namespace = ns,
                     rm_circles = circles_annotation cs\<rparr>,
      dr_host = componentName,
      dr_subsets = getDestinationRulesSubsets cs\<rparr>"

subsection \<open>Manifests without an undeployed circle: istio-undeployment-manifests.utils.ts\<close>

definition getActiveComponentsSubsets :: "string \<Rightarrow> Component list \<Rightarrow> Subset list" where
  "getActiveComponentsSubsets circle activeByName =
     concat (map (\<lambda>c. if isDistinctCircle c circle
                      then [getDestinationRulesSubsetObject c (c_circle c)] else [])
               activeByName)"

definition getActiveComponentsCircleHTTPRules :: "string \<Rightarrow> Component list \<Rightarrow> Http list" where
  "getActiveComponentsCircleHTTPRules circle activeByName =
     concat (map (\<lambda>c. if isDistinctAndNotDefault c circle then circle_rules c else [])
               activeByName)
     @ default_rule activeByName"

definition undeployment_VirtualServiceManifest ::
  "DeploymentEntityV2 \<Rightarrow> ComponentEntityV2 \<Rightarrow> Component list \<Rightarrow> VirtualServiceSpec" where
  "undeployment_VirtualServiceManifest d c activeByName =
     \<lparr>vs_apiVersion = ISTIO_RESOURCES_API_VERSION,
      vs_metadata = \<lparr>rm_name = comp_name c, rm_namespace = namespace d,
                     rm_circles = circles_annotation activeByName\<rparr>,
      vs_gateways = (if truthy (gatewayName c) then [the (gatewayName c)] else []),
      vs_hosts = (if truthy (hostValue c) then [the (hostValue c), comp_name c] else [comp_name c]),
      vs_http = getActiveComponentsCircleHTTPRules (circleId d) activeByName\<rparr>"

definition undeployment_DestinationRulesManifest ::
  "DeploymentEntityV2 \<Rightarrow> ComponentEntityV2 \<Rightarrow> Component list \<Rightarrow> DestinationRuleSpec" where
  "undeployment_DestinationRulesManifest d c activeByName =
     (let istioSubsets = getActiveComponentsSubsets (circleId d) activeByName
      in \<lparr>dr_apiVersion = ISTIO_RESOURCES_API_VERSION,
          dr_metadata = \<lparr>rm_name = comp_name c, rm_namespace = namespace d,
             rm_circles = JSON_stringify (map (\<lambda>s. lb_circleId (ss_labels s)) istioSubsets)\<rparr>,
          dr_host = comp_name c,
          dr_subsets = istioSubsets\<rparr>)"

subsection \<open>How a proxy reads the two manifests\<close>

text \<open>
  The contract of the pair: the destinations of the rules, and the host and subset names a
  destination rule declares. A pair is routable when every destination is declared.
\<close>

definition destinations :: "VirtualServiceSpec \<Rightarrow> Destination list" where
  "destinations v = concat (map (\<lambda>h. map rt_destination (http_route h)) (vs_http v))"

definition declares :: "DestinationRuleSpec \<Rightarrow> Destination \<Rightarrow> bool" where
  "declares r d \<longleftrightarrow> ds_host d = dr_host r
     \<and> (case ds_subset d of None \<Rightarrow> True | Some n \<Rightarrow> n \<in> set (map ss_name (dr_subsets r)))"

definition routable :: "VirtualServiceSpec \<Rightarrow> DestinationRuleSpec \<Rightarrow> bool" where
  "routable v r \<longleftrightarrow> list_all (declares r) (destinations v)"

definition circle_destination :: "Component \<Rightarrow> Destination" where
  "circle_destination c = \<lparr>ds_host = c_name c, ds_subset = Some (c_circle c)\<rparr>"

lemmas http_rule_defs = getVirtualServiceHTTPCookieCircleRule_def
  getVirtualServiceHTTPHeaderCircleRule_def getVirtualServiceHTTPDefaultRule_def
  circle_route_def circle_rules_def

definition rule_destinations :: "Http list \<Rightarrow> Destination set" where
  "rule_destinations hs = set (concat (map (\<lambda>h. map rt_destination (http_route h)) hs))"

lemma rule_destinations_simps:
  "rule_destinations [] = {}"
  "rule_destinations (hs @ hs') = rule_destinations hs \<union> rule_destinations hs'"
  by (simp_all add: rule_destinations_def)

lemma rule_destinations_concat:
  "rule_destinations (concat hss) = \<Union> (rule_destinations ` set hss)"
  by (induction hss) (simp_all add: rule_destinations_simps)

lemma circle_rules_destinations: "rule_destinations (circle_rules c) = {circle_destination c}"
  by (simp add: rule_destinations_def http_rule_defs circle_destination_def)

lemma default_rule_destinations:
  "rule_destinations (default_rule cs) \<subseteq> circle_destination ` set cs"
proof (cases "List.find c_default cs")
  case None
  then show ?thesis by (simp add: default_rule_def rule_destinations_simps)
next
  case (Some c)
  then have "rule_destinations (default_rule cs) = {circle_destination c}"
    by (simp add: default_rule_def rule_destinations_def http_rule_defs circle_destination_def)
  with find_Some_in [OF Some] show ?thesis by auto
qed

lemma rules_destinations:
  "rule_destinations (getVirtualServiceHTTPRules cs) \<subseteq> circle_destination ` set cs"
  using default_rule_destinations [of cs]
  by (auto simp: getVirtualServiceHTTPRules_def rule_destinations_simps rule_destinations_concat
      circle_rules_destinations split: if_splits)

lemma routable_iff:
  "routable v r \<longleftrightarrow> (\<forall>d \<in> rule_destinations (vs_http v). declares r d)"
  by (simp add: routable_def destinations_def rule_destinations_def list_all_iff)

lemma subset_names: "map ss_name (getDestinationRulesSubsets cs) = map c_circle cs"
  by (simp add: getDestinationRulesSubsets_def getDestinationRulesSubsetObject_def)

lemma default_rule_length: "length (default_rule cs) = (if list_ex c_default cs then 1 else 0)"
  by (auto simp: default_rule_def list_ex_iff find_None_all dest: find_Some_in
      split: option.splits)

lemma circle_rules_length:
  "length (concat (map (\<lambda>c. if \<not> c_default c then circle_rules c else []) cs))
     = 2 * length (filter (\<lambda>c. \<not> c_default c) cs)"
  by (induction cs) (simp_all add: circle_rules_def)

text \<open>A rule matches every request exactly when it has no match block: the default rule.\<close>

lemma default_rule_unmatched: "h \<in> set (default_rule cs) \<Longrightarrow> http_match h = []"
  by (auto simp: default_rule_def http_rule_defs split: option.splits)

lemma circle_rules_matched:
  "h \<in> set (concat (map (\<lambda>c. if P c then circle_rules c else []) cs)) \<Longrightarrow> http_match h \<noteq> []"
  by (auto simp: http_rule_defs split: if_splits)

lemma circles_annotation_parse: "JSON_parse (circles_annotation cs) = Some (map c_circle cs)"
  by (simp add: circles_annotation_def JSON_parse_stringify)

lemma active_subsets_names:
  "map ss_name (getActiveComponentsSubsets circle cs)
     = filter (\<lambda>n. n \<noteq> circle) (map c_circle cs)"
  by (induction cs)
    (simp_all add: getActiveComponentsSubsets_def getDestinationRulesSubsetObject_def
      isDistinctCircle_def)

end
