(* ===== verification/Effects.thy ===== *)
theory Effects
  imports Domain
begin

text \<open>
  How the effects of the code are written. An asynchronous method is an \<^emph>\<open>action\<close>: a
  function from the state to a result (a value, or \<open>Inl\<close> for a rejected promise) and the
  new state. \<open>await m (\<lambda>x. k)\<close> is \<open>const x = await m; k\<close>; the state changes made before an
  exception stay, as they do in the code, except inside \<open>transaction\<close>, which restores the
  tables. \<open>Promise.all\<close> runs its promises in the order of the array.

  The state is a \<open>world\<close>: the tables, the Kubernetes cluster (an abstract state \<open>'k\<close> that
  only the API calls look into) and the notifications that reached the Moove service.
  Code outside the repository is a parameter, a field of \<open>env\<close>: the four object calls of
  the Kubernetes API, the namespace call, one HTTP attempt of a notification, and the
  values the database or the clock generate.
\<close>

type_synonym ('s, 'a) action = "'s \<Rightarrow> (app_error + 'a) \<times> 's"

definition ret :: "'a \<Rightarrow> ('s, 'a) action" where
  "ret a s = (Inr a, s)"

definition throw :: "app_error \<Rightarrow> ('s, 'a) action" where
  "throw e s = (Inl e, s)"

definition await :: "('s, 'a) action \<Rightarrow> ('a \<Rightarrow> ('s, 'b) action) \<Rightarrow> ('s, 'b) action" where
  "await m k s = (case m s of (Inl e, s') \<Rightarrow> (Inl e, s') | (Inr a, s') \<Rightarrow> k a s')"

definition await_then :: "('s, 'a) action \<Rightarrow> ('s, 'b) action \<Rightarrow> ('s, 'b) action" where
  "await_then m k = await m (\<lambda>_. k)"

text \<open>\<open>try { m } catch (e) { h e }\<close> and \<open>try { m } finally { c }\<close>.\<close>

definition try_catch :: "('s, 'a) action \<Rightarrow> (app_error \<Rightarrow> ('s, 'a) action) \<Rightarrow> ('s, 'a) action" where
  "try_catch m h s = (case m s of (Inl e, s') \<Rightarrow> h e s' | (Inr a, s') \<Rightarrow> (Inr a, s'))"

definition try_finally :: "('s, 'a) action \<Rightarrow> ('s, unit) action \<Rightarrow> ('s, 'a) action" where
  "try_finally m c s =
     (case m s of (r, s') \<Rightarrow>
       (case c s' of (Inl e, s'') \<Rightarrow> (Inl e, s'') | (Inr _, s'') \<Rightarrow> (r, s'')))"

text \<open>
  \<open>await Promise.all(xs.map(f))\<close>: every promise is started whatever the others do, and
  the first rejection, if there is one, is the result.
\<close>

fun promise_all :: "('a \<Rightarrow> ('s, 'b) action) \<Rightarrow> 'a list \<Rightarrow> ('s, 'b list) action" where
  "promise_all f [] s = (Inr [], s)"
| "promise_all f (x # xs) s =
     (case f x s of
        (Inl e, s') \<Rightarrow> (Inl e, snd (promise_all f xs s'))
      | (Inr y, s') \<Rightarrow>
          (case promise_all f xs s' of
             (Inl e, s'') \<Rightarrow> (Inl e, s'')
           | (Inr ys, s'') \<Rightarrow> (Inr (y # ys), s'')))"

text \<open>\<open>for (const x of xs) await f(x)\<close>, collecting the results: stops at the first rejection.\<close>

fun for_each :: "('a \<Rightarrow> ('s, 'b) action) \<Rightarrow> 'a list \<Rightarrow> ('s, 'b list) action" where
  "for_each f [] = ret []"
| "for_each f (x # xs) = await (f x) (\<lambda>y. await (for_each f xs) (\<lambda>ys. ret (y # ys)))"

lemmas action_defs = ret_def throw_def await_def await_then_def try_catch_def try_finally_def

subsection \<open>An invariant of the state that an action keeps\<close>

definition keeps :: "('s \<Rightarrow> bool) \<Rightarrow> ('s, 'a) action \<Rightarrow> bool" where
  "keeps I m \<longleftrightarrow> (\<forall>s. I s \<longrightarrow> I (snd (m s)))"

named_theorems keeps_intros \<open>actions that keep an invariant, by their structure\<close>

lemma keepsD: "keeps I m \<Longrightarrow> I s \<Longrightarrow> I (snd (m s))"
  by (simp add: keeps_def)

lemma keepsI: "(\<And>s. I s \<Longrightarrow> I (snd (m s))) \<Longrightarrow> keeps I m"
  by (simp add: keeps_def)

lemma keeps_ret [keeps_intros]: "keeps I (ret a)"
  by (simp add: keeps_def ret_def)

lemma keeps_throw [keeps_intros]: "keeps I (throw e)"
  by (simp add: keeps_def throw_def)

lemma keeps_await [keeps_intros]:
  assumes "keeps I m" and "\<And>a. keeps I (k a)"
  shows "keeps I (await m k)"
proof (rule keepsI)
  fix s assume "I s"
  then have "I (snd (m s))" using assms(1) by (rule keepsD [rotated])
  then show "I (snd (await m k s))"
    using assms(2) by (auto simp: await_def keeps_def split: prod.splits sum.splits)
qed

lemma keeps_await_then [keeps_intros]: "keeps I m \<Longrightarrow> keeps I k \<Longrightarrow> keeps I (await_then m k)"
  unfolding await_then_def by (rule keeps_await)

lemma keeps_try_catch [keeps_intros]:
  assumes "keeps I m" and "\<And>e. keeps I (h e)"
  shows "keeps I (try_catch m h)"
proof (rule keepsI)
  fix s assume "I s"
  then have "I (snd (m s))" using assms(1) by (rule keepsD [rotated])
  then show "I (snd (try_catch m h s))"
    using assms(2) by (auto simp: try_catch_def keeps_def split: prod.splits sum.splits)
qed

lemma keeps_try_finally [keeps_intros]:
  assumes "keeps I m" and "keeps I c"
  shows "keeps I (try_finally m c)"
proof (rule keepsI)
  fix s assume "I s"
  then have "I (snd (c (snd (m s))))"
    using assms by (simp add: keeps_def)
  then show "I (snd (try_finally m c s))"
    by (auto simp: try_finally_def split: prod.splits sum.splits)
qed

lemma keeps_promise_all_set:
  assumes "\<And>x. x \<in> set xs \<Longrightarrow> keeps I (f x)"
  shows "keeps I (promise_all f xs)"
proof (rule keepsI)
  fix s assume "I s"
  then show "I (snd (promise_all f xs s))"
    using assms
  proof (induction xs arbitrary: s)
    case Nil
    then show ?case by simp
  next
    case (Cons x xs)
    from Cons.prems have "I (snd (f x s))" by (auto intro: keepsD)
    with Cons.IH [of "snd (f x s)"] Cons.prems(2) show ?case
      by (auto split: prod.splits sum.splits)
  qed
qed

lemma keeps_promise_all [keeps_intros]:
  "(\<And>x. keeps I (f x)) \<Longrightarrow> keeps I (promise_all f xs)"
  by (rule keeps_promise_all_set)

lemma keeps_for_each [keeps_intros]:
  assumes "\<And>x. keeps I (f x)"
  shows "keeps I (for_each f xs)"
  using assms by (induction xs) (auto intro!: keeps_intros)

lemma keeps_if [keeps_intros]:
  "(b \<Longrightarrow> keeps I m) \<Longrightarrow> (\<not> b \<Longrightarrow> keeps I n) \<Longrightarrow> keeps I (if b then m else n)"
  by simp

lemma keeps_case_option [keeps_intros]:
  "keeps I n \<Longrightarrow> (\<And>x. keeps I (m x)) \<Longrightarrow> keeps I (case ov of None \<Rightarrow> n | Some x \<Rightarrow> m x)"
  by (cases ov) simp_all

subsection \<open>The world and its parameters\<close>

record db =
  v2deployments :: "DeploymentEntityV2 list"
  v2components :: "ComponentEntityV2 list"
  v2executions :: "Execution list"
  v2logs :: "LogEntity list"

record notification =
  nt_url :: string
  nt_status :: DeploymentStatusEnum
  nt_circleId :: "string option"

record 'k world =
  w_db :: db
  w_cluster :: 'k
  w_notified :: "notification list"

record object_ref =
  ref_apiVersion :: string
  ref_kind :: string
  ref_namespace :: "string option"
  ref_name :: string

text \<open>The body of a Kubernetes object as the code reads it back.\<close>

record KubernetesObject =
  ko_kind :: "string option"
  ko_labels :: "object option"
  ko_deploymentId :: "string option"
  ko_circles :: "CharlesCircle list option"

text \<open>\<open>Some c\<close>: an \<open>HttpError\<close> with that status code; \<open>None\<close>: any other failure.\<close>

type_synonym api_failure = "nat option"

datatype post_outcome = PostOk nat | PostFail

record 'k env =
  env_now :: int
  env_exec_id :: string
  env_comp_id :: "nat \<Rightarrow> string"
  butlerNamespace :: string
  api_read :: "object_ref \<Rightarrow> 'k \<Rightarrow> (api_failure + KubernetesObject) \<times> 'k"
  api_patch :: "custom_resource \<Rightarrow> 'k \<Rightarrow> (api_failure + unit) \<times> 'k"
  api_create :: "custom_resource \<Rightarrow> 'k \<Rightarrow> (api_failure + unit) \<times> 'k"
  api_delete :: "custom_resource \<Rightarrow> 'k \<Rightarrow> (api_failure + unit) \<times> 'k"
  api_namespace :: "string \<Rightarrow> 'k \<Rightarrow> nat + string option"
  http_post :: "notification \<Rightarrow> nat \<Rightarrow> post_outcome"

text \<open>A query or an update of the tables alone, and a transaction over them.\<close>

definition on_db :: "(db, 'a) action \<Rightarrow> ('k world, 'a) action" where
  "on_db m w = (case m (w_db w) of (r, s) \<Rightarrow> (r, w\<lparr>w_db := s\<rparr>))"

definition query :: "(db \<Rightarrow> 'a) \<Rightarrow> ('k world, 'a) action" where
  "query q w = (Inr (q (w_db w)), w)"

definition transaction :: "('k world, 'a) action \<Rightarrow> ('k world, 'a) action" where
  "transaction m w =
     (case m w of
        (Inl e, w') \<Rightarrow> (Inl e, w'\<lparr>w_db := w_db w\<rparr>)
      | (Inr a, w') \<Rightarrow> (Inr a, w'))"

text \<open>A call of the cluster: a failure is an exception, the cluster may have moved.\<close>

definition on_cluster :: "('k \<Rightarrow> (api_failure + 'a) \<times> 'k) \<Rightarrow> ('k world, 'a) action" where
  "on_cluster f w =
     (case f (w_cluster w) of
        (Inl c, k) \<Rightarrow> (Inl (ClusterError c), w\<lparr>w_cluster := k\<rparr>)
      | (Inr a, k) \<Rightarrow> (Inr a, w\<lparr>w_cluster := k\<rparr>))"

text \<open>An invariant of the tables alone.\<close>

abbreviation db_inv :: "(db \<Rightarrow> bool) \<Rightarrow> 'k world \<Rightarrow> bool" where
  "db_inv I \<equiv> (\<lambda>w. I (w_db w))"

lemma keeps_on_db: "keeps I m \<Longrightarrow> keeps (db_inv I) (on_db m)"
  by (auto simp: keeps_def on_db_def split: prod.splits)

lemma keeps_query [keeps_intros]: "keeps I (query q)"
  by (simp add: keeps_def query_def)

lemma keeps_on_cluster [keeps_intros]: "keeps (db_inv I) (on_cluster f)"
  by (auto simp: keeps_def on_cluster_def split: prod.splits sum.splits)

lemma keeps_on_cluster_frame:
  "(\<And>w k. I w \<Longrightarrow> I (w\<lparr>w_cluster := k\<rparr>)) \<Longrightarrow> keeps I (on_cluster f)"
  by (auto simp: keeps_def on_cluster_def split: prod.splits sum.splits)

lemma keeps_transaction [keeps_intros]:
  "keeps (db_inv I) m \<Longrightarrow> keeps (db_inv I) (transaction m)"
  by (auto simp: keeps_def transaction_def split: prod.splits sum.splits)

lemma on_cluster_db [simp]: "w_db (snd (on_cluster f w)) = w_db w"
  by (auto simp: on_cluster_def split: prod.splits sum.splits)

lemma query_apply [simp]: "query q w = (Inr (q (w_db w)), w)"
  by (simp add: query_def)

end
