(* ===== verification/Lodash.thy ===== *)
theory Lodash
  imports Domain
begin

text \<open>
  The functions of the lodash package the code calls on arrays of objects. They are
  parameters of the model; their documented behaviour is stated here as laws, and each law
  has an instance that meets it, for the concrete inputs.
  \<^item> \<open>uniqBy(xs, k)\<close> and \<open>uniqWith(xs, eq)\<close> keep the first occurrence of each element, in
    the order of the array;
  \<^item> \<open>groupBy(xs, k)\<close> is an object with one property for every value of \<open>k\<close>, whose value
    is the array of the elements with that key in the order of the array. The order of the
    properties is not promised.
\<close>

definition uniqBy_law :: "(('a \<Rightarrow> string) \<Rightarrow> 'a list \<Rightarrow> 'a list) \<Rightarrow> bool" where
  "uniqBy_law u \<longleftrightarrow>
     (\<forall>k xs. set (u k xs) \<subseteq> set xs \<and> distinct (map k (u k xs))
        \<and> k ` set (u k xs) = k ` set xs)"

definition uniqWith_law :: "(('a \<Rightarrow> 'a \<Rightarrow> bool) \<Rightarrow> 'a list \<Rightarrow> 'a list) \<Rightarrow> bool" where
  "uniqWith_law u \<longleftrightarrow>
     (\<forall>eq xs ys. (\<forall>x. eq x x) \<longrightarrow>
        set (u eq xs) \<subseteq> set xs
        \<and> (\<forall>x \<in> set xs. \<exists>y \<in> set (u eq xs). eq y x)
        \<and> (\<exists>zs. u eq (xs @ ys) = u eq xs @ zs \<and> set zs \<subseteq> set ys)
        \<and> (\<forall>i j. i < j \<longrightarrow> j < length (u eq xs) \<longrightarrow> \<not> eq (u eq xs ! i) (u eq xs ! j)))"

definition groupBy_law :: "(('a \<Rightarrow> string) \<Rightarrow> 'a list \<Rightarrow> (string \<times> 'a list) list) \<Rightarrow> bool" where
  "groupBy_law g \<longleftrightarrow>
     (\<forall>k xs. distinct (map fst (g k xs)) \<and> fst ` set (g k xs) = k ` set xs
        \<and> (\<forall>p \<in> set (g k xs). snd p = filter (\<lambda>x. k x = fst p) xs))"

lemma groupBy_lawD:
  assumes "groupBy_law g"
  shows "distinct (map fst (g k xs))" and "fst ` set (g k xs) = k ` set xs"
    and "p \<in> set (g k xs) \<Longrightarrow> snd p = filter (\<lambda>x. k x = fst p) xs"
  using assms unfolding groupBy_law_def by simp_all

lemma groupBy_nonempty:
  assumes "groupBy_law g" and "p \<in> set (g k xs)"
  shows "snd p \<noteq> []"
proof -
  have "fst p \<in> k ` set xs" using groupBy_lawD(2) [OF assms(1), of k xs] assms(2) by auto
  then obtain x where "x \<in> set xs" "k x = fst p" by auto
  then have "x \<in> set (snd p)" by (simp add: groupBy_lawD(3) [OF assms])
  then show ?thesis by (cases "snd p") simp_all
qed

lemma groupBy_member:
  assumes "groupBy_law g" and "p \<in> set (g k xs)" and "x \<in> set (snd p)"
  shows "k x = fst p" and "x \<in> set xs"
  using groupBy_lawD(3) [OF assms(1,2)] assms(3) by simp_all

lemma groupBy_covers:
  assumes "groupBy_law g" and "x \<in> set xs"
  obtains ms where "(k x, ms) \<in> set (g k xs)" "x \<in> set ms"
proof -
  have "k x \<in> fst ` set (g k xs)" using groupBy_lawD(2) [OF assms(1), of k xs] assms(2) by auto
  then obtain p where p: "p \<in> set (g k xs)" "fst p = k x" by auto
  then have "x \<in> set (snd p)" using groupBy_lawD(3) [OF assms(1) p(1)] assms(2) by simp
  moreover have "(k x, snd p) \<in> set (g k xs)" using p by (metis prod.collapse)
  ultimately show ?thesis using that by blast
qed

subsection \<open>Instances\<close>

definition uniqBy_first :: "('a \<Rightarrow> string) \<Rightarrow> 'a list \<Rightarrow> 'a list" where
  "uniqBy_first k xs = rev (fold (\<lambda>x acc. if k x \<in> set (map k acc) then acc else x # acc) xs [])"

definition uniqWith_first :: "('a \<Rightarrow> 'a \<Rightarrow> bool) \<Rightarrow> 'a list \<Rightarrow> 'a list" where
  "uniqWith_first eq xs =
     fold (\<lambda>x acc. if list_ex (\<lambda>y. eq y x) acc then acc else acc @ [x]) xs []"

definition groupBy_first :: "('a \<Rightarrow> string) \<Rightarrow> 'a list \<Rightarrow> (string \<times> 'a list) list" where
  "groupBy_first k xs = map (\<lambda>key. (key, filter (\<lambda>x. k x = key) xs)) (remdups (map k xs))"

lemma groupBy_first_law: "groupBy_law groupBy_first"
  unfolding groupBy_law_def groupBy_first_def
  by (simp add: comp_def image_image)

lemma uniqBy_first_acc:
  assumes "distinct (map k acc)"
  shows "let r = fold (\<lambda>x acc. if k x \<in> set (map k acc) then acc else x # acc) xs acc
    in set r \<subseteq> set xs \<union> set acc \<and> distinct (map k r) \<and> k ` set r = k ` set xs \<union> k ` set acc"
  using assms
proof (induction xs arbitrary: acc)
  case Nil
  then show ?case by simp
next
  case (Cons x xs)
  show ?case
  proof (cases "k x \<in> set (map k acc)")
    case True
    with Cons.IH [OF Cons.prems] show ?thesis by (auto simp: Let_def)
  next
    case False
    with Cons.prems have "distinct (map k (x # acc))" by simp
    from Cons.IH [OF this] False show ?thesis by (auto simp: Let_def)
  qed
qed

lemma uniqBy_first_law: "uniqBy_law uniqBy_first"
  unfolding uniqBy_law_def uniqBy_first_def
proof (intro allI)
  fix k :: "'a \<Rightarrow> string" and xs :: "'a list"
  show "set (rev (fold (\<lambda>x acc. if k x \<in> set (map k acc) then acc else x # acc) xs [])) \<subseteq> set xs
    \<and> distinct (map k (rev (fold (\<lambda>x acc. if k x \<in> set (map k acc) then acc else x # acc) xs [])))
    \<and> k ` set (rev (fold (\<lambda>x acc. if k x \<in> set (map k acc) then acc else x # acc) xs []))
        = k ` set xs"
    using uniqBy_first_acc [of k "[]" xs] by (simp add: Let_def rev_map [symmetric])
qed

lemma uniqWith_first_snoc:
  "uniqWith_first eq (xs @ [x]) =
     (if list_ex (\<lambda>y. eq y x) (uniqWith_first eq xs) then uniqWith_first eq xs
      else uniqWith_first eq xs @ [x])"
  by (simp add: uniqWith_first_def)

lemma uniqWith_first_sound:
  assumes refl: "\<forall>x. eq x x"
  shows "set (uniqWith_first eq xs) \<subseteq> set xs
    \<and> (\<forall>x \<in> set xs. \<exists>y \<in> set (uniqWith_first eq xs). eq y x)
    \<and> (\<forall>i j. i < j \<longrightarrow> j < length (uniqWith_first eq xs) \<longrightarrow>
          \<not> eq (uniqWith_first eq xs ! i) (uniqWith_first eq xs ! j))"
proof (induction xs rule: rev_induct)
  case Nil
  then show ?case by (simp add: uniqWith_first_def)
next
  case (snoc x xs)
  let ?u = "uniqWith_first eq xs"
  show ?case
  proof (cases "list_ex (\<lambda>y. eq y x) ?u")
    case True
    with snoc show ?thesis by (auto simp: uniqWith_first_snoc list_ex_iff)
  next
    case False
    have "\<not> eq ((?u @ [x]) ! i) ((?u @ [x]) ! j)" if "i < j" "j < length (?u @ [x])" for i j
      using that snoc False
      by (cases "j < length ?u") (auto simp: nth_append list_ex_iff less_Suc_eq)
    with False snoc refl show ?thesis by (auto simp: uniqWith_first_snoc)
  qed
qed

lemma uniqWith_first_append:
  "\<exists>zs. uniqWith_first eq (xs @ ys) = uniqWith_first eq xs @ zs \<and> set zs \<subseteq> set ys"
proof (induction ys rule: rev_induct)
  case Nil
  then show ?case by simp
next
  case (snoc y ys)
  then obtain zs where "uniqWith_first eq (xs @ ys) = uniqWith_first eq xs @ zs"
    "set zs \<subseteq> set ys" by blast
  then show ?case
    using uniqWith_first_snoc [of eq "xs @ ys" y] by auto
qed

lemma uniqWith_first_law: "uniqWith_law uniqWith_first"
  unfolding uniqWith_law_def
proof (intro allI impI)
  fix eq :: "'a \<Rightarrow> 'a \<Rightarrow> bool" and xs ys :: "'a list"
  assume refl: "\<forall>x. eq x x"
  note sound = uniqWith_first_sound [of eq xs, OF refl]
  show "set (uniqWith_first eq xs) \<subseteq> set xs
    \<and> (\<forall>x \<in> set xs. \<exists>y \<in> set (uniqWith_first eq xs). eq y x)
    \<and> (\<exists>zs. uniqWith_first eq (xs @ ys) = uniqWith_first eq xs @ zs \<and> set zs \<subseteq> set ys)
    \<and> (\<forall>i j. i < j \<longrightarrow> j < length (uniqWith_first eq xs) \<longrightarrow>
        \<not> eq (uniqWith_first eq xs ! i) (uniqWith_first eq xs ! j))"
    using sound uniqWith_first_append [of eq xs ys] by (elim conjE) (intro conjI; assumption)
qed

end
