(* ===== verification/Cluster.thy ===== *)
theory Cluster
  imports Effects Lodash
begin

text \<open>
  The custom resources butler writes (\<open>core/integrations/k8s/crd-builder.ts\<close>) and the client
  that applies them (\<open>core/integrations/k8s/client.ts\<close>). A deployment resource is named after
  its circle, so there is one per circle; the routing resource lists, for every deployment
  that has an active component, the circle and its components.

  The API server is a parameter of the model; \<open>object_api_law\<close> states what its documentation
  promises of the four object calls, over a view of the cluster as a map of resources.
\<close>

subsection \<open>crd-builder.ts\<close>

definition getDeploymentCrdComponents :: "ComponentEntityV2 list \<Rightarrow> CharlesDeploymentComponent list" where
  "getDeploymentCrdComponents cs =
     map (\<lambda>c. \<lparr>cdc_name = comp_name c, cdc_chart = helmUrl c, cdc_tag = imageTag c\<rparr>) cs"

text \<open>\<open>deployment.components\<close> is undefined when the row was loaded without its relations.\<close>

definition buildDeploymentCrdManifest ::
  "DeploymentEntityV2 \<Rightarrow> ComponentEntityV2 list option \<Rightarrow> string \<Rightarrow> custom_resource" where
  "buildDeploymentCrdManifest d components ns =
     \<lparr>cr_apiVersion = ''charlescd.io/v1'',
      cr_kind = CHARLES_CUSTOM_RESOURCE_DEPLOYMENT_KIND,
      cr_name = circleId d, cr_namespace = ns, cr_labels = [],
      cr_spec = CharlesDeployment
        \<lparr>cds_deploymentId = dep_id d, cds_circleId = circleId d,
         cds_components = (case components of
            Some cs \<Rightarrow> getDeploymentCrdComponents cs | None \<Rightarrow> [])\<rparr>\<rparr>"

type_synonym uniq_deployments =
  "(DeploymentEntityV2 \<Rightarrow> string) \<Rightarrow> DeploymentEntityV2 list \<Rightarrow> DeploymentEntityV2 list"

definition getRoutingCrdComponents :: "uniq_deployments \<Rightarrow> Component list \<Rightarrow> CharlesCircle list" where
  "getRoutingCrdComponents uniqBy activeComponents =
     (let deployments = uniqBy dep_id (map deployment activeComponents)
      in map (\<lambda>d.
           (let deploymentComponents =
                  filter (\<lambda>c. dep_id d = dep_id (deployment c)) activeComponents
            in \<lparr>cc_id = circleId d, cc_default = defaultCircle d,
                cc_components =
                  map (\<lambda>c. \<lparr>ccc_name = c_name c, ccc_tag = c_tag c\<rparr>) deploymentComponents\<rparr>))
         deployments)"

definition buildRoutingCrdManifest ::
  "uniq_deployments \<Rightarrow> Component list \<Rightarrow> string \<Rightarrow> custom_resource" where
  "buildRoutingCrdManifest uniqBy activeComponents ns =
     \<lparr>cr_apiVersion = ''charlescd.io/v1'',
      cr_kind = CHARLES_CUSTOM_RESOURCE_ROUTES_KIND,
      cr_name = ns @ ''-routes'', cr_namespace = ns, cr_labels = [],
      cr_spec = CharlesRoutes (getRoutingCrdComponents uniqBy activeComponents)\<rparr>"

subsection \<open>client.ts\<close>

definition ref_of :: "custom_resource \<Rightarrow> object_ref" where
  "ref_of m = \<lparr>ref_apiVersion = cr_apiVersion m, ref_kind = cr_kind m,
               ref_namespace = Some (cr_namespace m), ref_name = cr_name m\<rparr>"

definition readResource :: "'k env \<Rightarrow> object_ref \<Rightarrow> ('k world, KubernetesObject) action" where
  "readResource env r = on_cluster (api_read env r)"

definition patchResource :: "'k env \<Rightarrow> custom_resource \<Rightarrow> ('k world, unit) action" where
  "patchResource env m = on_cluster (api_patch env m)"

definition createResource :: "'k env \<Rightarrow> custom_resource \<Rightarrow> ('k world, unit) action" where
  "createResource env m = on_cluster (api_create env m)"

definition deleteResource :: "'k env \<Rightarrow> custom_resource \<Rightarrow> ('k world, unit) action" where
  "deleteResource env m = on_cluster (api_delete env m)"

definition deployment_manifest ::
  "'k env \<Rightarrow> DeploymentEntityV2 \<Rightarrow> ComponentEntityV2 list option \<Rightarrow> custom_resource" where
  "deployment_manifest env d components =
     (buildDeploymentCrdManifest d components (butlerNamespace env))
       \<lparr>cr_labels := [(''deployment_id'', dep_id d)]\<rparr>"

definition applyDeploymentCustomResource ::
  "'k env \<Rightarrow> DeploymentEntityV2 \<Rightarrow> ComponentEntityV2 list option \<Rightarrow> ('k world, unit) action" where
  "applyDeploymentCustomResource env d components =
     (let deploymentManifest = deployment_manifest env d components
      in try_catch
           (await_then (readResource env (ref_of deploymentManifest))
                       (patchResource env deploymentManifest))
           (\<lambda>error. if error \<noteq> ClusterError (Some 404) then throw error
                    else createResource env deploymentManifest))"

definition applyUndeploymentCustomResource ::
  "'k env \<Rightarrow> DeploymentEntityV2 \<Rightarrow> ComponentEntityV2 list option \<Rightarrow> ('k world, unit) action" where
  "applyUndeploymentCustomResource env d components =
     (let deploymentManifest = buildDeploymentCrdManifest d components (butlerNamespace env)
      in try_catch
           (await_then (readResource env (ref_of deploymentManifest))
                       (deleteResource env deploymentManifest))
           throw)"

definition applyRoutingCustomResource ::
  "'k env \<Rightarrow> uniq_deployments \<Rightarrow> Component list \<Rightarrow> ('k world, unit) action" where
  "applyRoutingCustomResource env uniqBy activeComponents =
     (let routingManifest = buildRoutingCrdManifest uniqBy activeComponents (butlerNamespace env)
      in try_catch
           (await_then (readResource env (ref_of routingManifest))
                       (patchResource env routingManifest))
           throw)"

text \<open>The namespace's phase, \<open>None\<close> for the empty body of a 404.\<close>

definition getNamespace :: "'k env \<Rightarrow> string \<Rightarrow> ('k world, string option) action" where
  "getNamespace env ns w =
     (case api_namespace env ns (w_cluster w) of
        Inr phase \<Rightarrow> (Inr phase, w)
      | Inl code \<Rightarrow>
          if code = 404 then (Inr None, w) else (Inl (NamespaceLookupError ns code), w))"

lemmas client_defs = readResource_def patchResource_def createResource_def deleteResource_def
  applyDeploymentCustomResource_def applyUndeploymentCustomResource_def
  applyRoutingCustomResource_def Let_def

lemma keeps_apply [keeps_intros]:
  "keeps (db_inv I) (applyDeploymentCustomResource env d cs)"
  "keeps (db_inv I) (applyUndeploymentCustomResource env d cs)"
  "keeps (db_inv I) (applyRoutingCustomResource env u acs)"
  "keeps (db_inv I) (readResource env r)"
  unfolding client_defs by (intro keeps_intros)+

lemma keeps_getNamespace [keeps_intros]: "keeps I (getNamespace env ns)"
  by (auto simp: keeps_def getNamespace_def split: sum.splits)

text \<open>The client touches the cluster only.\<close>

lemma cluster_calls_frame:
  "w_db (snd (applyDeploymentCustomResource env d cs w)) = w_db w"
  "w_db (snd (applyUndeploymentCustomResource env d cs w)) = w_db w"
  "w_db (snd (applyRoutingCustomResource env u acs w)) = w_db w"
  using keepsD [OF keeps_apply(1) [where I = "\<lambda>s. s = w_db w"], of w env d cs]
    keepsD [OF keeps_apply(2) [where I = "\<lambda>s. s = w_db w"], of w env d cs]
    keepsD [OF keeps_apply(3) [where I = "\<lambda>s. s = w_db w"], of w env u acs]
  by simp_all

lemma cluster_calls_notified:
  "w_notified (snd (applyDeploymentCustomResource env d cs w)) = w_notified w"
  "w_notified (snd (applyUndeploymentCustomResource env d cs w)) = w_notified w"
  "w_notified (snd (applyRoutingCustomResource env u acs w)) = w_notified w"
proof -
  have frame: "keeps (\<lambda>x. w_notified x = w_notified w) (on_cluster f)"
    for f :: "'a \<Rightarrow> (api_failure + 'b) \<times> 'a"
    by (rule keeps_on_cluster_frame) simp
  have "keeps (\<lambda>x. w_notified x = w_notified w) (applyDeploymentCustomResource env d cs)"
    "keeps (\<lambda>x. w_notified x = w_notified w) (applyUndeploymentCustomResource env d cs)"
    "keeps (\<lambda>x. w_notified x = w_notified w) (applyRoutingCustomResource env u acs)"
    unfolding client_defs by (intro keeps_intros frame)+
  then show "w_notified (snd (applyDeploymentCustomResource env d cs w)) = w_notified w"
    "w_notified (snd (applyUndeploymentCustomResource env d cs w)) = w_notified w"
    "w_notified (snd (applyRoutingCustomResource env u acs w)) = w_notified w"
    by (auto dest: keepsD)
qed

subsection \<open>What the API server promises\<close>

type_synonym resource_key = "string \<times> string \<times> string"
type_synonym 'k view = "'k \<Rightarrow> resource_key \<Rightarrow> custom_resource option"

definition key_of :: "custom_resource \<Rightarrow> resource_key" where
  "key_of m = (cr_kind m, cr_namespace m, cr_name m)"

text \<open>
  A read finds a resource or fails with 404 and changes nothing; a create of an absent
  resource stores it; a merge patch of a resource that is there leaves the patched
  specification in it; a delete removes it; every other resource stays.
\<close>

definition object_api_law :: "'k env \<Rightarrow> 'k view \<Rightarrow> bool" where
  "object_api_law env v \<longleftrightarrow>
     (\<forall>m k. (v k (key_of m) = None \<longrightarrow>
               api_read env (ref_of m) k = (Inl (Some 404), k)
               \<and> (\<exists>k'. api_create env m k = (Inr (), k') \<and> v k' = (v k)(key_of m \<mapsto> m)))
            \<and> (\<forall>r. v k (key_of m) = Some r \<longrightarrow>
               (\<exists>b. api_read env (ref_of m) k = (Inr b, k))
               \<and> (\<exists>k' r'. api_patch env m k = (Inr (), k') \<and> v k' = (v k)(key_of m \<mapsto> r')
                          \<and> cr_spec r' = cr_spec m)
               \<and> (\<exists>k'. api_delete env m k = (Inr (), k') \<and> v k' = (v k)(key_of m := None))))"

lemma api_absent:
  assumes "object_api_law env v" "v k (key_of m) = None"
  obtains k' where "api_read env (ref_of m) k = (Inl (Some 404), k)"
    "api_create env m k = (Inr (), k')" "v k' = (v k)(key_of m \<mapsto> m)"
  using assms unfolding object_api_law_def by blast

lemma api_present:
  assumes "object_api_law env v" "v k (key_of m) = Some r"
  obtains b k' r' kd where "api_read env (ref_of m) k = (Inr b, k)"
    "api_patch env m k = (Inr (), k')" "v k' = (v k)(key_of m \<mapsto> r')" "cr_spec r' = cr_spec m"
    "api_delete env m k = (Inr (), kd)" "v kd = (v k)(key_of m := None)"
  using assms unfolding object_api_law_def by blast

text \<open>An instance: the cluster is the map itself.\<close>

definition map_env :: "string \<Rightarrow> int \<Rightarrow> (resource_key \<Rightarrow> custom_resource option) env" where
  "map_env ns t =
     \<lparr>env_now = t, env_exec_id = ''e'', env_comp_id = (\<lambda>i. replicate i (CHR ''c'')),
      butlerNamespace = ns,
      api_read = (\<lambda>r k. case k (ref_kind r, the (ref_namespace r), ref_name r) of
         None \<Rightarrow> (Inl (Some 404), k)
       | Some m \<Rightarrow> (Inr \<lparr>ko_kind = Some (cr_kind m), ko_labels = Some (cr_labels m),
                          ko_deploymentId = None, ko_circles = None\<rparr>, k)),
      api_patch = (\<lambda>m k. case k (key_of m) of
         None \<Rightarrow> (Inl (Some 404), k) | Some _ \<Rightarrow> (Inr (), k(key_of m \<mapsto> m))),
      api_create = (\<lambda>m k. (Inr (), k(key_of m \<mapsto> m))),
      api_delete = (\<lambda>m k. (Inr (), k(key_of m := None))),
      api_namespace = (\<lambda>n k. Inr (Some ''Active'')),
      http_post = (\<lambda>n i. PostOk 200)\<rparr>"

lemma map_env_law: "object_api_law (map_env ns t) (\<lambda>k. k)"
  by (auto simp: object_api_law_def map_env_def key_of_def ref_of_def)

subsection \<open>Applying resources\<close>

lemma apply_absent:
  assumes law: "object_api_law env v"
    and absent: "v (w_cluster w) (key_of (deployment_manifest env d cs)) = None"
  obtains w' where "applyDeploymentCustomResource env d cs w = (Inr (), w')"
    "v (w_cluster w') = (v (w_cluster w))(key_of (deployment_manifest env d cs)
       \<mapsto> deployment_manifest env d cs)"
proof -
  obtain k' where "api_read env (ref_of (deployment_manifest env d cs)) (w_cluster w)
      = (Inl (Some 404), w_cluster w)"
    and "api_create env (deployment_manifest env d cs) (w_cluster w) = (Inr (), k')"
    and k': "v k' = (v (w_cluster w))(key_of (deployment_manifest env d cs)
      \<mapsto> deployment_manifest env d cs)"
    using api_absent [OF law absent] by blast
  then have "applyDeploymentCustomResource env d cs w = (Inr (), w\<lparr>w_cluster := k'\<rparr>)"
    by (simp add: client_defs action_defs on_cluster_def)
  moreover have "v (w_cluster (w\<lparr>w_cluster := k'\<rparr>))
      = (v (w_cluster w))(key_of (deployment_manifest env d cs) \<mapsto> deployment_manifest env d cs)"
    using k' by simp
  ultimately show ?thesis by (rule that)
qed

lemma apply_present:
  assumes law: "object_api_law env v"
    and present: "v (w_cluster w) (key_of (deployment_manifest env d cs)) = Some r"
  obtains w' r' where "applyDeploymentCustomResource env d cs w = (Inr (), w')"
    "v (w_cluster w') = (v (w_cluster w))(key_of (deployment_manifest env d cs) \<mapsto> r')"
    "cr_spec r' = cr_spec (deployment_manifest env d cs)"
proof -
  obtain b k' r' where "api_read env (ref_of (deployment_manifest env d cs)) (w_cluster w)
      = (Inr b, w_cluster w)"
    and "api_patch env (deployment_manifest env d cs) (w_cluster w) = (Inr (), k')"
    and k': "v k' = (v (w_cluster w))(key_of (deployment_manifest env d cs) \<mapsto> r')"
      "cr_spec r' = cr_spec (deployment_manifest env d cs)"
    using api_present [OF law present] by blast
  then have "applyDeploymentCustomResource env d cs w = (Inr (), w\<lparr>w_cluster := k'\<rparr>)"
    by (simp add: client_defs action_defs on_cluster_def)
  moreover have "v (w_cluster (w\<lparr>w_cluster := k'\<rparr>))
      = (v (w_cluster w))(key_of (deployment_manifest env d cs) \<mapsto> r')"
    using k' by simp
  ultimately show ?thesis using k'(2) by (rule that)
qed

text \<open>Whatever was there, the resource holds the specification of the deployment afterwards.\<close>

lemma apply_upsert:
  assumes law: "object_api_law env v"
  obtains w' r' where "applyDeploymentCustomResource env d cs w = (Inr (), w')"
    "v (w_cluster w') = (v (w_cluster w))(key_of (deployment_manifest env d cs) \<mapsto> r')"
    "cr_spec r' = cr_spec (deployment_manifest env d cs)"
proof (cases "v (w_cluster w) (key_of (deployment_manifest env d cs))")
  case None
  from law None show ?thesis by (rule apply_absent) (rule that, assumption+, simp)
next
  case (Some r)
  from law Some show ?thesis by (rule apply_present) (rule that)
qed

end
