(* ===== verification/Store.thy ===== *)
theory Store
  imports Effects "HOL-Library.Char_ord" "HOL-Library.List_Lexorder"
begin

text \<open>
  The four tables and the repositories of \<open>api/deployments/repository\<close>. A table is the list
  of its rows in the order the database holds them; a query is the filter, join and sort
  its builder writes down. Every theorem is about all tables, so about every order in which
  the database may return rows that a query leaves unordered.
\<close>

subsection \<open>Lookups and rewrites of rows\<close>

definition find_deployment :: "string \<Rightarrow> db \<Rightarrow> DeploymentEntityV2 option" where
  "find_deployment did s = List.find (\<lambda>d. dep_id d = did) (v2deployments s)"

definition update_deployments ::
  "(DeploymentEntityV2 \<Rightarrow> bool) \<Rightarrow> (DeploymentEntityV2 \<Rightarrow> DeploymentEntityV2) \<Rightarrow> db \<Rightarrow> db" where
  "update_deployments P f s =
     s\<lparr>v2deployments := map (\<lambda>d. if P d then f d else d) (v2deployments s)\<rparr>"

definition update_executions ::
  "(Execution \<Rightarrow> bool) \<Rightarrow> (Execution \<Rightarrow> Execution) \<Rightarrow> db \<Rightarrow> db" where
  "update_executions P f s =
     s\<lparr>v2executions := map (\<lambda>e. if P e then f e else e) (v2executions s)\<rparr>"

definition findOneOrFail :: "string \<Rightarrow> (db, DeploymentEntityV2) action" where
  "findOneOrFail did s =
     (case find_deployment did s of
        None \<Rightarrow> (Inl EntityNotFound, s)
      | Some d \<Rightarrow> (Inr d, s))"

text \<open>
  \<open>UPDATE ... RETURNING id\<close> followed by \<open>findOneOrFail(updated.raw[0].id)\<close>: with no row
  updated, \<open>raw[0]\<close> is undefined and reading its \<open>id\<close> throws.
\<close>

definition update_returning ::
  "(DeploymentEntityV2 \<Rightarrow> bool) \<Rightarrow> (DeploymentEntityV2 \<Rightarrow> DeploymentEntityV2)
    \<Rightarrow> (db, DeploymentEntityV2) action" where
  "update_returning P f s =
     (case filter P (v2deployments s) of
        [] \<Rightarrow> (Inl TypeError, s)
      | d # _ \<Rightarrow> findOneOrFail (dep_id d) (update_deployments P f s))"

subsection \<open>The deployment repository\<close>

definition updateHealthStatus :: "string \<Rightarrow> bool \<Rightarrow> (db, DeploymentEntityV2) action" where
  "updateHealthStatus did st =
     update_returning (\<lambda>d. dep_id d = did) (\<lambda>d. d\<lparr>healthy := st\<rparr>)"

definition updateRouteStatus :: "string \<Rightarrow> bool \<Rightarrow> (db, DeploymentEntityV2) action" where
  "updateRouteStatus cid st =
     update_returning (\<lambda>d. circleId d = cid \<and> current d) (\<lambda>d. d\<lparr>routed := st\<rparr>)"

definition components_of :: "string \<Rightarrow> db \<Rightarrow> ComponentEntityV2 list" where
  "components_of did s = filter (\<lambda>c. deployment_id c = did) (v2components s)"

definition findWithComponentsAndConfig :: "string \<Rightarrow> (db, DeploymentWithComponents) action" where
  "findWithComponentsAndConfig did s =
     (case find_deployment did s of
        None \<Rightarrow> (Inl EntityNotFound, s)
      | Some d \<Rightarrow> (Inr \<lparr>dwc_deployment = d, dwc_components = components_of did s\<rparr>, s))"

definition updateCurrent :: "string \<Rightarrow> bool \<Rightarrow> db \<Rightarrow> db" where
  "updateCurrent did cur = update_deployments (\<lambda>d. dep_id d = did) (\<lambda>d. d\<lparr>current := cur\<rparr>)"

definition findByCircleId :: "string \<Rightarrow> (db, DeploymentEntityV2) action" where
  "findByCircleId cid s =
     (case filter (\<lambda>d. circleId d = cid \<and> current d) (v2deployments s) of
        [] \<Rightarrow> (Inl EntityNotFound, s)
      | d # _ \<Rightarrow> (Inr d, s))"

definition findCurrentsByCirclesIds :: "string list \<Rightarrow> db \<Rightarrow> DeploymentEntityV2 list" where
  "findCurrentsByCirclesIds cids s =
     filter (\<lambda>d. circleId d \<in> set cids \<and> current d) (v2deployments s)"

subsection \<open>The component repository\<close>

text \<open>
  \<open>leftJoinAndSelect('v2components.deployment')\<close>: every query below asks for a property of
  the joined deployment, which a component without one does not have.
\<close>

definition joined_components :: "db \<Rightarrow> Component list" where
  "joined_components s =
     List.map_filter (\<lambda>c. map_option (\<lambda>d. \<lparr>component = c, deployment = d\<rparr>)
                            (find_deployment (deployment_id c) s))
       (v2components s)"

definition by_created_at_desc :: "Component list \<Rightarrow> Component list" where
  "by_created_at_desc = order_desc (\<lambda>c. createdAt (deployment c))"

definition findActiveComponents :: "db \<Rightarrow> Component list" where
  "findActiveComponents s =
     by_created_at_desc
       (filter (\<lambda>c. current (deployment c)
                  \<and> list_ex (\<lambda>e. exec_deploymentId e = dep_id (deployment c)
                                \<and> exec_status e \<noteq> TIMED_OUT) (v2executions s))
         (joined_components s))"

definition findDefaultActiveComponents :: "string \<Rightarrow> db \<Rightarrow> Component list" where
  "findDefaultActiveComponents defaultCircleId s =
     by_created_at_desc
       (filter (\<lambda>c. current (deployment c) \<and> defaultCircle (deployment c)
                  \<and> circleId (deployment c) = defaultCircleId)
         (joined_components s))"

definition findCircleCreatedExecution :: "string \<Rightarrow> db \<Rightarrow> Component list" where
  "findCircleCreatedExecution cid s =
     by_created_at_desc
       (filter (\<lambda>c. circleId (deployment c) = cid
                  \<and> list_ex (\<lambda>e. exec_deploymentId e = dep_id (deployment c)
                                \<and> exec_status e = CREATED) (v2executions s))
         (joined_components s))"

definition findCurrentHealthyComponentsByCircleId :: "string \<Rightarrow> db \<Rightarrow> Component list" where
  "findCurrentHealthyComponentsByCircleId cid s =
     by_created_at_desc
       (filter (\<lambda>c. current (deployment c) \<and> healthy (deployment c)
                  \<and> circleId (deployment c) = cid)
         (joined_components s))"

definition findPreviousComponentsFromCurrentUnhealthyByCircleId ::
  "string \<Rightarrow> db \<Rightarrow> Component list" where
  "findPreviousComponentsFromCurrentUnhealthyByCircleId cid s =
     (let subQuery = List.map_filter previousDeploymentId
            (filter (\<lambda>d. current d \<and> \<not> healthy d \<and> previousDeploymentId d \<noteq> None
                       \<and> circleId d = cid) (v2deployments s))
      in by_created_at_desc
           (filter (\<lambda>c. dep_id (deployment c) \<in> set subQuery) (joined_components s)))"

subsection \<open>The execution repository\<close>

definition updateNotificationStatus :: "string \<Rightarrow> nat \<Rightarrow> db \<Rightarrow> db" where
  "updateNotificationStatus eid st =
     update_executions (\<lambda>e. exec_id e = eid)
       (\<lambda>e. e\<lparr>notificationStatus := (if 200 \<le> st \<and> st < 300 then SENT else ERROR)\<rparr>)"

definition findByDeploymentId :: "string \<Rightarrow> (db, Execution) action" where
  "findByDeploymentId did s =
     (case filter (\<lambda>e. exec_deploymentId e = did) (v2executions s) of
        [] \<Rightarrow> (Inl EntityNotFound, s)
      | e # _ \<Rightarrow> (Inr e, s))"

definition timed_out :: "int \<Rightarrow> Execution \<Rightarrow> DeploymentEntityV2 \<Rightarrow> bool" where
  "timed_out now e d \<longleftrightarrow>
     exec_createdAt e < now - 1000 * timeoutInSeconds d \<and> notificationStatus e = NOT_SENT
     \<and> exec_status e \<noteq> TIMED_OUT \<and> current d \<and> (\<not> healthy d \<or> \<not> routed d)"

definition select_timed_out :: "int \<Rightarrow> db \<Rightarrow> (Execution \<times> DeploymentEntityV2) list" where
  "select_timed_out now s =
     filter (\<lambda>(e, d). timed_out now e d)
       (List.map_filter (\<lambda>e. map_option (Pair e) (find_deployment (exec_deploymentId e) s))
         (v2executions s))"

definition updateTimedOutExecutions ::
  "int \<Rightarrow> db \<Rightarrow> (Execution \<times> DeploymentEntityV2) list \<times> db" where
  "updateTimedOutExecutions now s =
     (let timedOutExecutions = select_timed_out now s
      in (timedOutExecutions,
          update_executions (\<lambda>e. exec_id e \<in> set (map (exec_id \<circ> fst) timedOutExecutions))
            (\<lambda>e. e\<lparr>exec_status := TIMED_OUT\<rparr>) s))"

text \<open>
  The update by age alone, in one statement: the unnotified executions older than the given
  minutes are timed out and the components of their deployments no longer running. The answer
  has, for every such component, the id of an execution that was timed out.
\<close>

definition updateTimedOutStatus :: "int \<Rightarrow> int \<Rightarrow> db \<Rightarrow> string list \<times> db" where
  "updateTimedOutStatus now timeInMinutes s =
     (let timed_out_executions = filter (\<lambda>e. exec_createdAt e < now - 60000 * timeInMinutes
                                   \<and> notificationStatus e = NOT_SENT) (v2executions s);
          deployment_ids = map exec_deploymentId timed_out_executions
      in (List.map_filter (\<lambda>c. map_option exec_id
              (List.find (\<lambda>e. exec_deploymentId e = deployment_id c) timed_out_executions)) (v2components s),
          s\<lparr>v2executions := map (\<lambda>e. if e \<in> set timed_out_executions
                                then e\<lparr>exec_status := TIMED_OUT\<rparr> else e) (v2executions s),
            v2components := map (\<lambda>c. if deployment_id c \<in> set deployment_ids
                                then c\<lparr>running := False\<rparr> else c) (v2components s)\<rparr>))"

record ListedExecution =
  le_execution :: Execution
  le_deployment :: DeploymentEntityV2
  le_components :: "ComponentEntityV2 option list"

text \<open>
  The page query: executions joined with their deployment and its components, grouped by
  execution (a deployment without components is one row of nulls), newest first, ties by
  id, then \<open>LIMIT\<close> and \<open>OFFSET\<close>. The total is the window count of the groups before the
  limit; an empty page returns the total 0. The parameter \<open>current\<close> comes from the address
  of the request, so it is text or missing at run time, and the database compares the column
  with the boolean the text denotes.
\<close>

definition to_lower :: "char \<Rightarrow> char" where
  "to_lower c = (let n = of_char c :: nat in if 65 \<le> n \<and> n \<le> 90 then char_of (n + 32) else c)"

definition pg_boolean :: "string \<Rightarrow> bool" where
  "pg_boolean s \<longleftrightarrow> map to_lower s = ''true''"

definition execution_rows :: "string option \<Rightarrow> db \<Rightarrow> ListedExecution list" where
  "execution_rows cur s =
     order_desc (\<lambda>r. exec_createdAt (le_execution r))
       (rev (sort_key (\<lambda>r. exec_id (le_execution r))
         (filter (\<lambda>r. truthy cur \<longrightarrow> current (le_deployment r) = pg_boolean (the cur))
           (List.map_filter
              (\<lambda>e. map_option
                 (\<lambda>d. \<lparr>le_execution = e, le_deployment = d,
                       le_components =
                         (case components_of (dep_id d) s of
                            [] \<Rightarrow> [None] | cs \<Rightarrow> map Some cs)\<rparr>)
                 (find_deployment (exec_deploymentId e) s))
              (v2executions s)))))"

definition listExecutionsAndRelations ::
  "nat \<Rightarrow> nat \<Rightarrow> string option \<Rightarrow> db \<Rightarrow> ListedExecution list \<times> nat" where
  "listExecutionsAndRelations pageSize page cur s =
     (let rows = execution_rows cur s;
          dbResult = take pageSize (drop (pageSize * page) rows)
      in if dbResult \<noteq> [] then (dbResult, length rows) else ([], 0))"

subsection \<open>The log repository\<close>

text \<open>
  \<open>new Date(t)\<close> of a log's timestamp is a parameter (\<open>parse\<close>): the strings are those
  \<open>moment().format()\<close> writes.
\<close>

definition byTimestamp :: "(string \<Rightarrow> int) \<Rightarrow> Log \<Rightarrow> Log \<Rightarrow> int" where
  "byTimestamp parse a b =
     (let d1 = parse (log_timestamp a); d2 = parse (log_timestamp b)
      in if d1 > d2 then 1 else if d1 < d2 then -1 else 0)"

text \<open>\<open>Array.prototype.sort\<close> with a comparator: a stable sort, here by insertion.\<close>

fun insert_by :: "('a \<Rightarrow> 'a \<Rightarrow> int) \<Rightarrow> 'a \<Rightarrow> 'a list \<Rightarrow> 'a list" where
  "insert_by cmp x [] = [x]"
| "insert_by cmp x (y # ys) = (if cmp x y \<le> 0 then x # y # ys else y # insert_by cmp x ys)"

fun sort_by :: "('a \<Rightarrow> 'a \<Rightarrow> int) \<Rightarrow> 'a list \<Rightarrow> 'a list" where
  "sort_by cmp [] = []"
| "sort_by cmp (x # xs) = insert_by cmp x (sort_by cmp xs)"

lemma length_sort_by [simp]: "length (sort_by cmp xs) = length xs"
proof -
  have "length (insert_by cmp x ys) = Suc (length ys)" for x :: 'a and ys by (induction ys) auto
  then show ?thesis by (induction xs) simp_all
qed

lemma set_sort_by [simp]: "set (sort_by cmp xs) = set xs"
proof -
  have "set (insert_by cmp x ys) = insert x (set ys)" for x :: 'a and ys by (induction ys) auto
  then show ?thesis by (induction xs) simp_all
qed

definition extractLogs :: "(string \<Rightarrow> int) \<Rightarrow> LogEntity list \<Rightarrow> Log list" where
  "extractLogs parse logEntries = sort_by (byTimestamp parse) (concat (map logs logEntries))"

definition findDeploymentLogs :: "(string \<Rightarrow> int) \<Rightarrow> string \<Rightarrow> db \<Rightarrow> LogEntity" where
  "findDeploymentLogs parse did s =
     \<lparr>log_id = [], log_deploymentId = did,
      logs = extractLogs parse (filter (\<lambda>l. log_deploymentId l = did) (v2logs s))\<rparr>"

definition save_log :: "LogEntity \<Rightarrow> db \<Rightarrow> db" where
  "save_log l s = s\<lparr>v2logs := v2logs s @ [l]\<rparr>"

text \<open>The ids of the saved entities are generated (\<open>fresh i\<close> for the \<open>i\<close>-th).\<close>

definition saveDeploymentsLogs :: "(nat \<Rightarrow> string) \<Rightarrow> string list \<Rightarrow> Log \<Rightarrow> db \<Rightarrow> db" where
  "saveDeploymentsLogs fresh currentDeploymentsIds l s =
     fold (\<lambda>(i, did). save_log \<lparr>log_id = fresh i, log_deploymentId = did, logs = [l]\<rparr>)
       (enumerate 0 currentDeploymentsIds) s"

end
