(* ===== verification/Fleet.thy ===== *)
theory Fleet
  imports Store
begin

text \<open>
  The invariant of the tables and the contract of the updates of the deployment rows.
  \<open>one_current\<close> is the promise the deployment engine makes to its users (a circle has at most
  one current deployment); it is kept only together with \<open>previous_linked\<close>, which says where a
  rollback may go back to. The locale \<open>deployment_rewrite\<close> is the contract every \<open>UPDATE\<close> of
  \<open>v2deployments\<close> meets, \<open>lowering_rewrite\<close> that of the updates that make no deployment
  current.
\<close>

definition ids_unique :: "db \<Rightarrow> bool" where
  "ids_unique s \<longleftrightarrow> distinct (map dep_id (v2deployments s))"

definition one_current :: "db \<Rightarrow> bool" where
  "one_current s \<longleftrightarrow>
     (\<forall>d \<in> set (v2deployments s). \<forall>d' \<in> set (v2deployments s).
        current d \<longrightarrow> current d' \<longrightarrow> circleId d = circleId d' \<longrightarrow> dep_id d = dep_id d')"

definition previous_linked :: "db \<Rightarrow> bool" where
  "previous_linked s \<longleftrightarrow>
     (\<forall>d \<in> set (v2deployments s). \<forall>p. previousDeploymentId d = Some p \<longrightarrow>
        (\<exists>d' \<in> set (v2deployments s). dep_id d' = p \<and> circleId d' = circleId d))"

definition children_linked :: "db \<Rightarrow> bool" where
  "children_linked s \<longleftrightarrow>
     (\<forall>e \<in> set (v2executions s). exec_deploymentId e \<in> dep_id ` set (v2deployments s))
     \<and> (\<forall>c \<in> set (v2components s). deployment_id c \<in> dep_id ` set (v2deployments s))"

definition db_wf :: "db \<Rightarrow> bool" where
  "db_wf s \<longleftrightarrow> ids_unique s \<and> one_current s \<and> previous_linked s \<and> children_linked s"

lemmas db_wf_defs = db_wf_def ids_unique_def one_current_def previous_linked_def
  children_linked_def

subsection \<open>Lookups\<close>

lemma find_deployment_Some:
  assumes "find_deployment did s = Some d"
  shows "d \<in> set (v2deployments s) \<and> dep_id d = did"
  using find_Some_in [OF assms [unfolded find_deployment_def]] by simp

lemma find_deployment_None_iff:
  "find_deployment did s = None \<longleftrightarrow> did \<notin> dep_id ` set (v2deployments s)"
  by (auto simp: find_deployment_def find_None_iff)

lemma unique_row:
  assumes "ids_unique s" "d \<in> set (v2deployments s)" "d' \<in> set (v2deployments s)"
    and "dep_id d = dep_id d'"
  shows "d = d'"
  using assms by (auto simp: ids_unique_def distinct_map inj_on_def)

lemma find_deployment_row:
  assumes "ids_unique s" "d \<in> set (v2deployments s)"
  shows "find_deployment (dep_id d) s = Some d"
proof (cases "find_deployment (dep_id d) s")
  case None
  with assms(2) show ?thesis by (auto simp: find_deployment_None_iff)
next
  case (Some d')
  with find_deployment_Some [OF this] assms show ?thesis by (auto dest: unique_row)
qed

lemma update_deployments_rows [row_simps]:
  "v2deployments (update_deployments P f s) = map (\<lambda>d. if P d then f d else d) (v2deployments s)"
  "v2components (update_deployments P f s) = v2components s"
  "v2executions (update_deployments P f s) = v2executions s"
  "v2logs (update_deployments P f s) = v2logs s"
  by (simp_all add: update_deployments_def)

lemma update_executions_rows [row_simps]:
  "v2deployments (update_executions P g s) = v2deployments s"
  "v2components (update_executions P g s) = v2components s"
  "v2logs (update_executions P g s) = v2logs s"
  by (simp_all add: update_executions_def)

lemma findOneOrFail_state [simp]: "snd (findOneOrFail did s) = s"
  by (simp add: findOneOrFail_def split: option.splits)

lemma findWithComponents_state [simp]: "snd (findWithComponentsAndConfig did s) = s"
  by (simp add: findWithComponentsAndConfig_def split: option.splits)

lemma findByCircleId_state [simp]: "snd (findByCircleId cid s) = s"
  by (simp add: findByCircleId_def split: list.splits)

lemma findByDeploymentId_state [simp]: "snd (findByDeploymentId did s) = s"
  by (simp add: findByDeploymentId_def split: list.splits)

lemma filter_Nil_update:
  "filter P (v2deployments s) = [] \<Longrightarrow> update_deployments P f s = s"
proof -
  assume "filter P (v2deployments s) = []"
  then have "map (\<lambda>d. if P d then f d else d) (v2deployments s) = v2deployments s"
    by (intro map_filter_id_cong) (auto simp: filter_empty_conv)
  then show ?thesis by (simp add: update_deployments_def)
qed

lemma update_returning_state:
  "snd (update_returning P f s) = update_deployments P f s"
  by (auto simp: update_returning_def filter_Nil_update split: list.splits)

subsection \<open>The contract of an update\<close>

locale deployment_rewrite =
  fixes op :: "db \<Rightarrow> db"
    and rw :: "DeploymentEntityV2 \<Rightarrow> DeploymentEntityV2"
  assumes rows: "v2deployments (op s) = map rw (v2deployments s)"
    and other_tables: "v2components (op s) = v2components s" "v2executions (op s) = v2executions s"
      "v2logs (op s) = v2logs s"
    and same_id: "dep_id (rw d) = dep_id d"
    and same_circle: "circleId (rw d) = circleId d"
    and same_previous: "previousDeploymentId (rw d) = previousDeploymentId d"
begin

lemma ids: "map dep_id (v2deployments (op s)) = map dep_id (v2deployments s)"
  by (simp add: rows same_id comp_def)

lemma id_set: "dep_id ` set (v2deployments (op s)) = dep_id ` set (v2deployments s)"
  using arg_cong [OF ids [of s], of set] by simp

lemma keeps_ids_unique: "ids_unique s \<Longrightarrow> ids_unique (op s)"
  by (simp add: ids_unique_def ids)

lemma keeps_children: "children_linked s \<Longrightarrow> children_linked (op s)"
  by (simp add: children_linked_def id_set other_tables)

lemma keeps_previous: "previous_linked s \<Longrightarrow> previous_linked (op s)"
  by (auto simp: previous_linked_def rows same_id same_circle same_previous)

lemma find_after:
  "find_deployment did (op s) = map_option rw (find_deployment did s)"
  by (simp add: find_deployment_def rows find_map_eq comp_def same_id)

end

locale lowering_rewrite = deployment_rewrite +
  assumes lowers: "current (rw d) \<Longrightarrow> current d"
begin

lemma keeps_one_current: "one_current s \<Longrightarrow> one_current (op s)"
proof -
  assume one: "one_current s"
  show "one_current (op s)"
    unfolding one_current_def rows
  proof (clarsimp simp: same_id same_circle)
    fix d d' assume "d \<in> set (v2deployments s)" "d' \<in> set (v2deployments s)"
      "current (rw d)" "current (rw d')" "circleId d = circleId d'"
    then show "dep_id d = dep_id d'"
      using one lowers [of d] lowers [of d'] unfolding one_current_def by blast
  qed
qed

lemma keeps_wf: "db_wf s \<Longrightarrow> db_wf (op s)"
  by (simp add: db_wf_def keeps_one_current keeps_ids_unique keeps_previous keeps_children)

end

interpretation health: lowering_rewrite
  "update_deployments (\<lambda>d. dep_id d = did) (\<lambda>d. d\<lparr>healthy := st\<rparr>)"
  "\<lambda>d. if dep_id d = did then d\<lparr>healthy := st\<rparr> else d" for did st
  by unfold_locales (auto simp: row_simps split: if_splits)

interpretation route: lowering_rewrite
  "update_deployments (\<lambda>d. circleId d = cid \<and> current d) (\<lambda>d. d\<lparr>routed := st\<rparr>)"
  "\<lambda>d. if circleId d = cid \<and> current d then d\<lparr>routed := st\<rparr> else d" for cid st
  by unfold_locales (auto simp: row_simps split: if_splits)

interpretation raise: deployment_rewrite
  "updateCurrent did cur" "\<lambda>d. if dep_id d = did then d\<lparr>current := cur\<rparr> else d" for did cur
  by unfold_locales (auto simp: row_simps updateCurrent_def split: if_splits)

interpretation retire: lowering_rewrite
  "updateCurrent did False" "\<lambda>d. if dep_id d = did then d\<lparr>current := False\<rparr> else d" for did
  by unfold_locales (auto simp: row_simps updateCurrent_def split: if_splits)

subsection \<open>The repository actions keep the invariant\<close>

lemma keeps_updateHealthStatus [keeps_intros]: "keeps db_wf (updateHealthStatus did st)"
  by (rule keepsI) (simp only: updateHealthStatus_def update_returning_state, rule health.keeps_wf)

lemma keeps_updateRouteStatus [keeps_intros]: "keeps db_wf (updateRouteStatus cid st)"
  by (rule keepsI) (simp only: updateRouteStatus_def update_returning_state, rule route.keeps_wf)

lemma keeps_finders [keeps_intros]:
  "keeps I (findOneOrFail did)" "keeps I (findWithComponentsAndConfig did)"
  "keeps I (findByCircleId did)" "keeps I (findByDeploymentId did)"
  by (simp_all add: keeps_def)

lemma wf_update_executions:
  assumes "db_wf s" "\<And>e. exec_deploymentId (g e) = exec_deploymentId e"
  shows "db_wf (update_executions P g s)"
proof -
  have "children_linked (update_executions P g s)"
    using assms unfolding db_wf_def children_linked_def update_executions_def by auto
  then show ?thesis
    using assms(1) unfolding db_wf_def ids_unique_def one_current_def previous_linked_def
    by (simp only: row_simps, blast)
qed

lemma wf_updateNotificationStatus: "db_wf s \<Longrightarrow> db_wf (updateNotificationStatus eid st s)"
  unfolding updateNotificationStatus_def by (rule wf_update_executions) auto

lemma wf_updateTimedOutExecutions: "db_wf s \<Longrightarrow> db_wf (snd (updateTimedOutExecutions now s))"
  unfolding updateTimedOutExecutions_def Let_def snd_conv by (rule wf_update_executions) auto

text \<open>
  Making a deployment current keeps the invariant when every current deployment of its
  circle is that deployment itself.
\<close>

lemma raise_one_current:
  assumes "one_current s"
    and only: "\<And>x y. \<lbrakk>x \<in> set (v2deployments s); current x; y \<in> set (v2deployments s);
        dep_id y = did; circleId x = circleId y\<rbrakk> \<Longrightarrow> dep_id x = did"
  shows "one_current (updateCurrent did True s)"
proof -
  have step: "dep_id x = dep_id y"
    if "x \<in> set (v2deployments s)" "y \<in> set (v2deployments s)" "circleId x = circleId y"
      "dep_id x = did \<or> current x" "dep_id y = did \<or> current y" for x y
    using that only [of x y] only [of y x] assms(1) unfolding one_current_def by metis
  show ?thesis
    unfolding one_current_def raise.rows
  proof (intro ballI impI)
    fix a b
    let ?up = "\<lambda>d. if dep_id d = did then d\<lparr>current := True\<rparr> else d"
    assume "a \<in> set (map ?up (v2deployments s))" "b \<in> set (map ?up (v2deployments s))"
    then obtain x y where xy: "x \<in> set (v2deployments s)" "y \<in> set (v2deployments s)"
      and a: "a = ?up x" and b: "b = ?up y" by auto
    assume "current a" "current b" "circleId a = circleId b"
    then have "circleId x = circleId y" "dep_id x = did \<or> current x" "dep_id y = did \<or> current y"
      unfolding a b by (auto split: if_splits)
    then have "dep_id x = dep_id y" by (rule step [OF xy])
    then show "dep_id a = dep_id b" unfolding a b by simp
  qed
qed

end
