(* ===== verification/Moove.thy ===== *)
theory Moove
  imports Store Fleet
begin

text \<open>
  Retrying of HTTP calls (the \<open>retryWhen\<close> pipelines of \<open>moove.service.ts\<close> and of the two git
  repositories) and the notification of the Moove service. \<open>outcome n\<close> is what the call
  gives on its attempt number \<open>n\<close>, from 0: the call is made again after a failure until the
  failure's index reaches the maximum, so at most one call more than the maximum is made.
\<close>

function retryWhen :: "nat \<Rightarrow> (nat \<Rightarrow> 'e + 'a) \<Rightarrow> nat \<Rightarrow> ('e + 'a) \<times> nat" where
  "retryWhen maximum outcome attempts =
     (case outcome attempts of
        Inr a \<Rightarrow> (Inr a, Suc attempts)
      | Inl e \<Rightarrow>
          if attempts \<ge> maximum then (Inl e, Suc attempts)
          else retryWhen maximum outcome (Suc attempts))"
  by pat_completeness auto
termination
  by (relation "measure (\<lambda>(m, f, n). m - n)") auto

declare retryWhen.simps [simp del]

lemma retryWhen_success:
  assumes "outcome n = Inr a" and "k \<le> n" and "n \<le> maximum"
    and "\<And>i. k \<le> i \<Longrightarrow> i < n \<Longrightarrow> \<exists>e. outcome i = Inl e"
  shows "retryWhen maximum outcome k = (Inr a, Suc n)"
  using assms(2-4)
proof (induction "n - k" arbitrary: k)
  case 0
  with assms(1) show ?case by (simp add: retryWhen.simps [of _ _ k])
next
  case (Suc m)
  then have kn: "k < n" by simp
  with Suc.prems obtain e where "outcome k = Inl e" by blast
  moreover have "retryWhen maximum outcome (Suc k) = (Inr a, Suc n)"
    using Suc kn by (intro Suc.hyps(1)) simp_all
  ultimately show ?case using kn Suc.prems by (simp add: retryWhen.simps [of _ _ k])
qed

lemma retryWhen_failure:
  assumes "k \<le> maximum" and "\<And>i. k \<le> i \<Longrightarrow> i \<le> maximum \<Longrightarrow> \<exists>e. outcome i = Inl e"
  shows "\<exists>e. outcome maximum = Inl e \<and> retryWhen maximum outcome k = (Inl e, Suc maximum)"
  using assms
proof (induction "maximum - k" arbitrary: k)
  case 0
  then show ?case by (force simp: retryWhen.simps [of _ _ k])
next
  case (Suc m)
  then have "k < maximum" by simp
  moreover obtain e where "outcome k = Inl e" using Suc.prems by blast
  moreover have "\<exists>e. outcome maximum = Inl e
      \<and> retryWhen maximum outcome (Suc k) = (Inl e, Suc maximum)"
    using Suc \<open>k < maximum\<close> by (intro Suc.hyps(1)) simp_all
  ultimately show ?case by (simp add: retryWhen.simps [of _ _ k])
qed

subsection \<open>moove.service.ts\<close>

definition notification_request ::
  "DeploymentStatusEnum \<Rightarrow> string \<Rightarrow> string \<Rightarrow> notification" where
  "notification_request st callback circle =
     \<lparr>nt_url = callback, nt_status = st,
      nt_circleId = (if circle \<noteq> [] then Some circle else None)\<rparr>"

definition post_result :: "post_outcome \<Rightarrow> unit + nat" where
  "post_result r = (case r of PostOk s \<Rightarrow> Inr s | PostFail \<Rightarrow> Inl ())"

definition post_with_retries :: "'k env \<Rightarrow> notification \<Rightarrow> (unit + nat) \<times> nat" where
  "post_with_retries env n =
     retryWhen MOOVE_NOTIFICATION_MAXIMUM_RETRY_ATTEMPTS (\<lambda>i. post_result (http_post env n i)) 0"

definition delivered :: "notification \<Rightarrow> 'k world \<Rightarrow> 'k world" where
  "delivered n w = w\<lparr>w_notified := w_notified w @ [n]\<rparr>"

definition notifyDeploymentStatus ::
  "'k env \<Rightarrow> DeploymentStatusEnum \<Rightarrow> string \<Rightarrow> string \<Rightarrow> ('k world, unit) action" where
  "notifyDeploymentStatus env st callback circle w =
     (let n = notification_request st callback circle
      in case fst (post_with_retries env n) of
           Inr _ \<Rightarrow> (Inr (), delivered n w)
         | Inl _ \<Rightarrow> (Inl (PlainError ''Reached maximum attemps.''), w))"

text \<open>The status of the response, 500 when the call failed or gave none.\<close>

definition notifyDeploymentStatusV2 ::
  "'k env \<Rightarrow> DeploymentStatusEnum \<Rightarrow> string \<Rightarrow> string \<Rightarrow> ('k world, nat) action" where
  "notifyDeploymentStatusV2 env st callback circle w =
     (let n = notification_request st callback circle
      in case fst (post_with_retries env n) of
           Inr s \<Rightarrow> (Inr (if s \<noteq> 0 then s else 500), delivered n w)
         | Inl _ \<Rightarrow> (Inr 500, w))"

lemma keeps_notifyV2 [keeps_intros]: "keeps (db_inv I) (notifyDeploymentStatusV2 env st cb circle)"
  by (auto simp: keeps_def notifyDeploymentStatusV2_def delivered_def Let_def split: sum.splits)

lemma notifyV2_total:
  "\<exists>s w'. notifyDeploymentStatusV2 env st cb circle w = (Inr s, w') \<and> w_db w' = w_db w
     \<and> w_cluster w' = w_cluster w"
  by (auto simp: notifyDeploymentStatusV2_def delivered_def Let_def split: sum.splits)

text \<open>A service that answers at the first attempt gets the notification once.\<close>

lemma notifyV2_answered:
  assumes "http_post env (notification_request st cb circle) 0 = PostOk s"
  shows "\<exists>s'. notifyDeploymentStatusV2 env st cb circle w
    = (Inr s', delivered (notification_request st cb circle) w)"
  using assms
  by (simp add: notifyDeploymentStatusV2_def post_with_retries_def post_result_def
      retryWhen.simps [of _ _ 0])

text \<open>A statement that always succeeds and changes the tables only.\<close>

definition run_update :: "(db \<Rightarrow> db) \<Rightarrow> ('k world, unit) action" where
  "run_update u w = (Inr (), w\<lparr>w_db := u (w_db w)\<rparr>)"

lemma keeps_run_update: "(\<And>s. I s \<Longrightarrow> I (u s)) \<Longrightarrow> keeps (db_inv I) (run_update u)"
  by (simp add: keeps_def run_update_def)

end
