(* ===== verification/Reconcile.thy ===== *)
theory Reconcile
  imports Istio Cluster Moove
begin

text \<open>
  The two reconcile hooks of \<open>operator/use-cases\<close>. The deployment hook answers with the
  manifests a \<open>CharlesDeployment\<close> resource should have as children; until the new version is
  ready it keeps the previous one's manifests beside it. The routes hook answers with the
  proxy manifests and services of the observed circles, records which circles are routed
  and reports the success of a deployment.
\<close>

subsection \<open>The deployment hook: reconcile-deployment.usecase.ts\<close>

record Condition =
  cn_type :: string
  cn_reason :: string
  cn_status :: string

record ObservedDeployment =
  od_deploymentId :: "string option"
  od_conditions :: "Condition list"

record HookParams =
  hp_deploymentId :: string
  hp_deployments :: "(string \<times> ObservedDeployment) list"

record HookResponse =
  hr_children :: "KubernetesManifest list"
  hr_resyncAfterSeconds :: "nat option"

definition charles_labels :: "DeploymentEntityV2 \<Rightarrow> object option \<Rightarrow> object" where
  "charles_labels d labels =
     AList.update ''circleId'' (circleId d)
       (AList.update ''deploymentId'' (dep_id d) (case labels of None \<Rightarrow> [] | Some l \<Rightarrow> l))"

definition or_empty :: "V1ObjectMeta option \<Rightarrow> V1ObjectMeta" where
  "or_empty m = (case m of None \<Rightarrow> no_metadata | Some md \<Rightarrow> md)"

definition addCharlesMetadata ::
  "KubernetesManifest \<Rightarrow> ComponentEntityV2 \<Rightarrow> DeploymentEntityV2 \<Rightarrow> KubernetesManifest" where
  "addCharlesMetadata m c d =
     (let md = or_empty (m_metadata m);
          labelled = md\<lparr>md_namespace := Some (namespace d),
                        md_labels := Some (charles_labels d (md_labels md))\<rparr>;
          named = (if m_kind m = Some ''Deployment''
                   then labelled\<lparr>md_name := Some (in_template (md_name labelled) @ ''-''
                                   @ imageTag c @ ''-'' @ dep_id d)\<rparr>
                   else labelled);
          labelled_template = (\<lambda>t.
            (let tmd = or_empty (tp_metadata t)
             in t\<lparr>tp_metadata := Some (tmd\<lparr>md_labels := Some (charles_labels d (md_labels tmd))\<rparr>)\<rparr>))
      in m\<lparr>m_metadata := Some named,
           m_spec := map_option (\<lambda>sp. sp\<lparr>sp_template := map_option labelled_template
                                                           (sp_template sp)\<rparr>) (m_spec m)\<rparr>)"

definition getDesiredManifests :: "DeploymentWithComponents \<Rightarrow> KubernetesManifest list" where
  "getDesiredManifests d =
     concat (map (\<lambda>c. map (\<lambda>m. addCharlesMetadata m c (dwc_deployment d))
                        (filter (\<lambda>e. m_kind e \<noteq> Some ''Service'') (manifests c)))
               (dwc_components d))"

definition checkIfResourcesWereCreated :: "HookParams \<Rightarrow> bool" where
  "checkIfResourcesWereCreated p \<longleftrightarrow> hp_deployments p \<noteq> []"

definition checkDeploymentConditions :: "ObservedDeployment list \<Rightarrow> bool" where
  "checkDeploymentConditions specs =
     (if specs = [] then False
      else list_all (\<lambda>s.
        (if od_conditions s = [] then True
         else
           (let minimumReplicaCondition = filter (\<lambda>c. cn_type c = ''Available''
                    \<and> cn_reason c = ''MinimumReplicasAvailable'') (od_conditions s);
                replicaSetAvailableCondition = filter (\<lambda>c. cn_type c = ''Progressing''
                    \<and> cn_reason c = ''NewReplicaSetAvailable'') (od_conditions s)
            in if minimumReplicaCondition = [] then False
               else if replicaSetAvailableCondition = [] then False
               else list_all (\<lambda>c. cn_status c = ''True'') minimumReplicaCondition
                    \<and> list_all (\<lambda>c. cn_status c = ''True'') replicaSetAvailableCondition)))
        specs)"

definition checkIfDeploymentIsReady :: "HookParams \<Rightarrow> string \<Rightarrow> bool" where
  "checkIfDeploymentIsReady p did =
     checkDeploymentConditions
       (filter (\<lambda>o'. od_deploymentId o' = Some did) (map snd (hp_deployments p)))"

text \<open>\<open>operator/utils/reconcile.utils.ts\<close>: the name is that of the metadata, if there is one.\<close>

definition manifest_name :: "KubernetesManifest \<Rightarrow> string option" where
  "manifest_name m = (case m_metadata m of None \<Rightarrow> None | Some md \<Rightarrow> md_name md)"

definition isNameAndKindEqual :: "KubernetesManifest \<Rightarrow> KubernetesManifest \<Rightarrow> bool" where
  "isNameAndKindEqual a b \<longleftrightarrow> manifest_name a = manifest_name b \<and> m_kind a = m_kind b"

type_synonym uniq_manifests =
  "(KubernetesManifest \<Rightarrow> KubernetesManifest \<Rightarrow> bool) \<Rightarrow> KubernetesManifest list
    \<Rightarrow> KubernetesManifest list"

definition reconcile_deployment ::
  "'k env \<Rightarrow> uniq_deployments \<Rightarrow> uniq_manifests \<Rightarrow> HookParams \<Rightarrow> ('k world, HookResponse) action" where
  "reconcile_deployment env uniqBy uniqWith params =
     await (on_db (findWithComponentsAndConfig (hp_deploymentId params))) (\<lambda>d.
       (let desiredManifests = getDesiredManifests d;
            did = dep_id (dwc_deployment d);
            waiting = \<lparr>hr_children = desiredManifests, hr_resyncAfterSeconds = Some 5\<rparr>
        in if \<not> checkIfResourcesWereCreated params then ret waiting
           else if \<not> checkIfDeploymentIsReady params did then
             (case previousDeploymentId (dwc_deployment d) of
                None \<Rightarrow> await_then (on_db (updateHealthStatus did False)) (ret waiting)
              | Some previous \<Rightarrow>
                  await (on_db (findWithComponentsAndConfig previous)) (\<lambda>p.
                    ret \<lparr>hr_children = uniqWith isNameAndKindEqual
                           (getDesiredManifests p @ desiredManifests),
                         hr_resyncAfterSeconds = Some 5\<rparr>))
           else
             await (query findActiveComponents) (\<lambda>activeComponents.
               await (try_catch
                        (await_then (applyRoutingCustomResource env uniqBy activeComponents)
                                    (ret True))
                        (\<lambda>error. ret False)) (\<lambda>routing_applied.
                 if \<not> routing_applied
                 then await_then (on_db (updateHealthStatus did False)) (ret waiting)
                 else await_then (on_db (updateHealthStatus did True))
                        (ret \<lparr>hr_children = desiredManifests, hr_resyncAfterSeconds = None\<rparr>)))))"

subsection \<open>The routes hook: reconcile-routes.usecase.ts\<close>

record RouteChildren =
  ch_virtualServices :: "(string \<times> RouteMetadata) list"
  ch_destinationRules :: "(string \<times> RouteMetadata) list"

record RouteHookParams =
  rp_circles :: "CharlesCircle list"
  rp_children :: RouteChildren

datatype RouteChild = ProxyManifest SpecsUnion | ServiceManifest KubernetesManifest

record RouteResponse =
  rr_children :: "RouteChild list"
  rr_resyncAfterSeconds :: nat

record ComponentStatus =
  st_circle :: string
  st_component :: string
  st_status :: bool
  st_kind :: string

text \<open>The lodash functions of this use case, at the types it calls them.\<close>

record routes_lodash =
  group_components :: "(Component \<Rightarrow> string) \<Rightarrow> Component list \<Rightarrow> (string \<times> Component list) list"
  group_status :: "(ComponentStatus \<Rightarrow> string) \<Rightarrow> ComponentStatus list
    \<Rightarrow> (string \<times> ComponentStatus list) list"

definition getDesiredComponentSnapshots :: "RouteHookParams \<Rightarrow> db \<Rightarrow> Component list" where
  "getDesiredComponentSnapshots hookParams s =
     concat (map (\<lambda>circle.
         findCurrentHealthyComponentsByCircleId (cc_id circle) s
         @ findPreviousComponentsFromCurrentUnhealthyByCircleId (cc_id circle) s)
       (rp_circles hookParams))"

definition getCreatedAtTimeDiff :: "Component \<Rightarrow> Component \<Rightarrow> int" where
  "getCreatedAtTimeDiff a b = createdAt (deployment a) - createdAt (deployment b)"

definition getLastComponentSnapshot :: "Component list \<Rightarrow> Component option" where
  "getLastComponentSnapshot components =
     (case rev (sort_by getCreatedAtTimeDiff components) of [] \<Rightarrow> None | c # _ \<Rightarrow> Some c)"

definition createIstioManifests ::
  "string \<Rightarrow> string \<Rightarrow> Component list \<Rightarrow> app_error + SpecsUnion list" where
  "createIstioManifests componentName ns componentsByName =
     (case getLastComponentSnapshot componentsByName of
        None \<Rightarrow> Inl TypeError
      | Some lastComponentSnapshot \<Rightarrow>
          Inr [DestinationRule (getDestinationRulesManifest componentName ns componentsByName),
               VirtualService (getVirtualServiceManifest componentName ns
                 (gatewayName (component lastComponentSnapshot))
                 (hostValue (component lastComponentSnapshot)) componentsByName)])"

definition createProxyManifests ::
  "routes_lodash \<Rightarrow> string \<Rightarrow> Component list \<Rightarrow> app_error + SpecsUnion list" where
  "createProxyManifests lodash ns components =
     and_then
       (traverse (\<lambda>(componentName, cs). createIstioManifests componentName ns cs)
         (group_components lodash (\<lambda>c. c_name c) components))
       (\<lambda>specs. Inr (concat specs))"

definition addServiceMetadata :: "KubernetesManifest \<Rightarrow> DeploymentEntityV2 \<Rightarrow> KubernetesManifest" where
  "addServiceMetadata m d =
     (let md = or_empty (m_metadata m)
      in m\<lparr>m_metadata := Some (md\<lparr>md_namespace := Some (namespace d),
             md_labels := Some (charles_labels d (md_labels md))\<rparr>)\<rparr>)"

definition getComponentServiceManifests :: "ComponentEntityV2 \<Rightarrow> KubernetesManifest list" where
  "getComponentServiceManifests c = filter (\<lambda>m. m_kind m = Some ''Service'') (manifests c)"

definition getServicesWithMetadata :: "Component list \<Rightarrow> KubernetesManifest list" where
  "getServicesWithMetadata components =
     concat (map (\<lambda>c. map (\<lambda>m. addServiceMetadata m (deployment c))
                        (getComponentServiceManifests (component c))) components)"

definition checkObservedRoutesEmptiness :: "RouteChildren \<Rightarrow> bool" where
  "checkObservedRoutesEmptiness observed \<longleftrightarrow>
     ch_destinationRules observed = [] \<or> ch_virtualServices observed = []"

definition checkIfComponentRoutesExistOnObserved ::
  "RouteChildren \<Rightarrow> SpecsUnion \<Rightarrow> string \<Rightarrow> app_error + bool" where
  "checkIfComponentRoutesExistOnObserved observed spec circle =
     (let observedResourceName =
            rm_namespace (spec_metadata spec) @ ''/'' @ rm_name (spec_metadata spec)
      in case (map_of (ch_destinationRules observed) observedResourceName,
               map_of (ch_virtualServices observed) observedResourceName) of
           (Some dr, Some vs) \<Rightarrow>
             (case (JSON_parse (rm_circles dr), JSON_parse (rm_circles vs)) of
                (Some destinationRulesCircles, Some virtualServiceCircles) \<Rightarrow>
                  Inr (circle \<in> set destinationRulesCircles \<and> circle \<in> set virtualServiceCircles)
              | _ \<Rightarrow> Inl TypeError)
         | _ \<Rightarrow> Inr False)"

definition handleSpecStatus ::
  "RouteChildren \<Rightarrow> SpecsUnion \<Rightarrow> string \<Rightarrow> app_error + ComponentStatus" where
  "handleSpecStatus observed spec circle =
     (let base = (\<lambda>st. \<lparr>st_circle = circle, st_component = rm_name (spec_metadata spec),
                        st_status = st, st_kind = spec_kind spec\<rparr>)
      in if checkObservedRoutesEmptiness observed then Inr (base False)
         else and_then (checkIfComponentRoutesExistOnObserved observed spec circle)
                (\<lambda>st. Inr (base st)))"

definition getRoutesStatus ::
  "RouteChildren \<Rightarrow> SpecsUnion list \<Rightarrow> app_error + ComponentStatus list" where
  "getRoutesStatus observed desired =
     and_then
       (traverse (\<lambda>spec.
          (case JSON_parse (rm_circles (spec_metadata spec)) of
             None \<Rightarrow> Inl TypeError
           | Some circles \<Rightarrow> traverse (handleSpecStatus observed spec) circles)) desired)
       (\<lambda>sts. Inr (concat sts))"

definition routes_notifyCallback ::
  "'k env \<Rightarrow> DeploymentEntityV2 \<Rightarrow> DeploymentStatusEnum \<Rightarrow> ('k world, unit) action" where
  "routes_notifyCallback env d st =
     await (on_db (findByDeploymentId (dep_id d))) (\<lambda>execution.
       if notificationStatus execution = NOT_SENT then
         await (notifyDeploymentStatusV2 env st (callbackUrl d) (circleId d)) (\<lambda>responseStatus.
           run_update (updateNotificationStatus (exec_id execution) responseStatus))
       else ret ())"

definition updateRouteStatus_circle ::
  "'k env \<Rightarrow> string \<times> ComponentStatus list \<Rightarrow> ('k world, DeploymentEntityV2) action" where
  "updateRouteStatus_circle env c =
     (let allTrue = list_all (\<lambda>s. st_status s) (snd c);
          finish = on_db (updateRouteStatus (fst c) allTrue)
      in if allTrue then
           await (on_db (findByCircleId (fst c))) (\<lambda>d.
             await_then (routes_notifyCallback env d SUCCEEDED) finish)
         else finish)"

definition updateRouteStatuses ::
  "'k env \<Rightarrow> routes_lodash \<Rightarrow> ComponentStatus list \<Rightarrow> ('k world, DeploymentEntityV2 list) action" where
  "updateRouteStatuses env lodash componentStatus =
     promise_all (updateRouteStatus_circle env) (group_status lodash st_circle componentStatus)"

definition routes_of_namespaces ::
  "routes_lodash \<Rightarrow> (string \<times> Component list) list
    \<Rightarrow> app_error + (SpecsUnion list \<times> KubernetesManifest list)" where
  "routes_of_namespaces lodash namespaced =
     and_then (traverse (\<lambda>(ns, cs). createProxyManifests lodash ns cs) namespaced)
       (\<lambda>specs. Inr (concat specs, concat (map (\<lambda>p. getServicesWithMetadata (snd p)) namespaced)))"

definition or_throw :: "app_error + 'a \<Rightarrow> ('s, 'a) action" where
  "or_throw r = (case r of Inl e \<Rightarrow> throw e | Inr a \<Rightarrow> ret a)"

definition reconcile_routes ::
  "'k env \<Rightarrow> routes_lodash \<Rightarrow> RouteHookParams \<Rightarrow> ('k world, RouteResponse) action" where
  "reconcile_routes env lodash hookParams =
     await (query (getDesiredComponentSnapshots hookParams)) (\<lambda>componentSnapshots.
       (let namespaced = group_components lodash (\<lambda>c. namespace (deployment c)) componentSnapshots
        in await (or_throw (routes_of_namespaces lodash namespaced)) (\<lambda>(specs, services).
             await (or_throw (getRoutesStatus (rp_children hookParams) specs)) (\<lambda>healthStatus.
               await_then (updateRouteStatuses env lodash healthStatus)
                 (ret \<lparr>rr_children = map ProxyManifest specs @ map ServiceManifest services,
                       rr_resyncAfterSeconds = 5\<rparr>)))))"

subsection \<open>Both hooks keep the tables well formed\<close>

lemma keeps_or_throw [keeps_intros]: "keeps I (or_throw r)"
  by (cases r) (simp_all add: or_throw_def keeps_ret keeps_throw)

lemma keeps_case_prod [keeps_intros]:
  "(\<And>a b. keeps I (f a b)) \<Longrightarrow> keeps I (case p of (a, b) \<Rightarrow> f a b)"
  by (cases p) simp

lemma keeps_reconcile_deployment: "keeps (db_inv db_wf) (reconcile_deployment env u uw params)"
  unfolding reconcile_deployment_def Let_def
  by (intro keeps_intros keeps_on_db)

lemma keeps_routes_notify: "keeps (db_inv db_wf) (routes_notifyCallback env d st)"
  unfolding routes_notifyCallback_def
  by (intro keeps_intros keeps_on_db keeps_run_update wf_updateNotificationStatus)

lemma keeps_route_circle: "keeps (db_inv db_wf) (updateRouteStatus_circle env c)"
  unfolding updateRouteStatus_circle_def Let_def
  by (intro keeps_intros keeps_on_db keeps_routes_notify)

lemma keeps_reconcile_routes: "keeps (db_inv db_wf) (reconcile_routes env lodash params)"
  unfolding reconcile_routes_def updateRouteStatuses_def Let_def
  by (intro keeps_intros keeps_route_circle)

end
