(* ===== verification/Deployments.thy ===== *)
theory Deployments
  imports Cluster Moove
begin

text \<open>
  The use cases behind \<open>POST /v2/deployments\<close> and \<open>POST /v2/deployments/:id/undeploy\<close>
  (\<open>api/deployments/use-cases\<close>), the pipes that guard them (\<open>api/deployments/pipes\<close>) and the
  scheduler that rolls back a deployment that is not healthy and routed in time
  (\<open>operator/cron/timeout.scheduler.ts\<close>).
\<close>

subsection \<open>create-deployment.usecase.ts\<close>

record RepoConfig =
  repo_provider :: GitProvidersEnum
  repo_url :: string
  repo_token :: string

record ManifestConfig =
  mc_repo :: RepoConfig
  mc_componentName :: string
  mc_imageUrl :: string
  mc_tag :: string
  mc_namespace :: string
  mc_circleId :: string

text \<open>\<open>Manifest.generate\<close>, the interface the use case calls.\<close>

type_synonym manifest_generator = "ManifestConfig \<Rightarrow> app_error + KubernetesManifest list"

definition getManifestsFor ::
  "manifest_generator \<Rightarrow> string \<Rightarrow> string \<Rightarrow> string \<Rightarrow> CreateComponentRequestDto \<Rightarrow> string
    \<Rightarrow> GitProvidersEnum \<Rightarrow> app_error + KubernetesManifest list" where
  "getManifestsFor generate ns circle repoUrl c gitToken gitProvider =
     generate \<lparr>mc_repo = \<lparr>repo_provider = gitProvider, repo_url = repoUrl, repo_token = gitToken\<rparr>,
               mc_componentName = cr_componentName c, mc_imageUrl = cr_buildImageUrl c,
               mc_tag = cr_buildImageTag c, mc_namespace = ns, mc_circleId = circle\<rparr>"

definition getDeploymentComponents ::
  "manifest_generator \<Rightarrow> string \<Rightarrow> string \<Rightarrow> CreateComponentRequestDto list \<Rightarrow> string
    \<Rightarrow> GitProvidersEnum \<Rightarrow> app_error + ComponentEntityV2 list" where
  "getDeploymentComponents generate ns circle componentsRequest gitToken gitProvider =
     traverse (\<lambda>c. and_then
         (getManifestsFor generate ns circle (cr_helmRepository c) c gitToken gitProvider)
         (\<lambda>ms. Inr (toEntity c (cr_helmRepository c) ms)))
       componentsRequest"

definition request_components ::
  "manifest_generator \<Rightarrow> CreateDeploymentRequestDto \<Rightarrow> app_error + ComponentEntityV2 list" where
  "request_components generate r =
     getDeploymentComponents generate (rq_namespace r) (circle_id (rq_circle r)) (rq_components r)
       (git_token (rq_git r)) (git_provider (rq_git r))"

definition set_current :: "DeploymentWithComponents \<Rightarrow> DeploymentWithComponents" where
  "set_current d = d\<lparr>dwc_deployment := (dwc_deployment d)\<lparr>current := True\<rparr>\<rparr>"

definition createCircleDeployment ::
  "manifest_generator \<Rightarrow> CreateDeploymentRequestDto \<Rightarrow> app_error + DeploymentWithComponents" where
  "createCircleDeployment generate r =
     and_then (request_components generate r) (\<lambda>components.
       Inr (set_current (toCircleEntity r components)))"

definition getDeploymentRequestComponentIds :: "CreateDeploymentRequestDto \<Rightarrow> string list" where
  "getDeploymentRequestComponentIds r = map cr_componentId (rq_components r)"

definition unchangedComponents ::
  "CreateDeploymentRequestDto \<Rightarrow> db \<Rightarrow> ComponentEntityV2 list" where
  "unchangedComponents r s =
     (let activeComponents = findDefaultActiveComponents (circle_id (rq_circle r)) s;
          requestedComponentIds = getDeploymentRequestComponentIds r
      in map (\<lambda>c. clone (component c))
           (filter (\<lambda>c. componentId (component c) \<notin> set requestedComponentIds) activeComponents))"

definition createDefaultDeployment ::
  "manifest_generator \<Rightarrow> CreateDeploymentRequestDto \<Rightarrow> db \<Rightarrow> app_error + DeploymentWithComponents" where
  "createDefaultDeployment generate r s =
     and_then (request_components generate r) (\<lambda>components.
       Inr (set_current (toDefaultEntity r (unchangedComponents r s) components)))"

definition newDeployment ::
  "manifest_generator \<Rightarrow> CreateDeploymentRequestDto \<Rightarrow> db \<Rightarrow> app_error + DeploymentWithComponents" where
  "newDeployment generate r s =
     (if circle_default (rq_circle r) then createDefaultDeployment generate r s
      else createCircleDeployment generate r)"

definition deactivateCurrentCircle :: "string \<Rightarrow> db \<Rightarrow> string option \<times> db" where
  "deactivateCurrentCircle circle s =
     ((case filter (\<lambda>d. circleId d = circle \<and> current d) (v2deployments s) of
         [] \<Rightarrow> None
       | d # _ \<Rightarrow> Some (dep_id d)),
      update_deployments (\<lambda>d. circleId d = circle \<and> current d) (\<lambda>d. d\<lparr>current := False\<rparr>) s)"

text \<open>
  Saving the entity with its components: a new row, or the row of that id overwritten; the
  database generates the ids of the components and the creation date.
\<close>

definition save_deployment ::
  "'k env \<Rightarrow> DeploymentWithComponents \<Rightarrow> db \<Rightarrow> DeploymentWithComponents \<times> db" where
  "save_deployment env d s =
     (let row = (dwc_deployment d)\<lparr>createdAt := env_now env\<rparr>;
          comps = map (\<lambda>(i, c). c\<lparr>comp_id := env_comp_id env i, deployment_id := dep_id row\<rparr>)
                    (enumerate 0 (dwc_components d));
          rows = (if find_deployment (dep_id row) s = None then v2deployments s @ [row]
                  else map (\<lambda>x. if dep_id x = dep_id row then row else x) (v2deployments s))
      in (\<lparr>dwc_deployment = row, dwc_components = comps\<rparr>,
          s\<lparr>v2deployments := rows, v2components := v2components s @ comps\<rparr>))"

definition save_execution :: "'k env \<Rightarrow> Execution \<Rightarrow> db \<Rightarrow> Execution \<times> db" where
  "save_execution env e s =
     (let row = e\<lparr>exec_id := env_exec_id env, exec_createdAt := env_now env\<rparr>
      in (row, s\<lparr>v2executions := v2executions s @ [row]\<rparr>))"

definition createExecution ::
  "'k env \<Rightarrow> DeploymentEntityV2 \<Rightarrow> string option \<Rightarrow> db \<Rightarrow> Execution \<times> db" where
  "createExecution env d incoming =
     save_execution env (new_Execution d DEPLOYMENT incoming CREATED)"

definition create_transaction ::
  "'k env \<Rightarrow> manifest_generator \<Rightarrow> CreateDeploymentRequestDto \<Rightarrow> string option
    \<Rightarrow> (db, DeploymentWithComponents \<times> Execution) action" where
  "create_transaction env generate r incoming s =
     (case newDeployment generate r s of
        Inl e \<Rightarrow> (Inl e, s)
      | Inr deploymentEntity \<Rightarrow>
          (let (previousDeployment, s1) = deactivateCurrentCircle (circle_id (rq_circle r)) s;
               entity = deploymentEntity\<lparr>dwc_deployment :=
                 (dwc_deployment deploymentEntity)\<lparr>previousDeploymentId := previousDeployment\<rparr>\<rparr>;
               (saved, s2) = save_deployment env entity s1;
               (execution, s3) = createExecution env (dwc_deployment saved) incoming s2
           in (Inr (saved, execution), s3)))"

definition create_deployment ::
  "'k env \<Rightarrow> manifest_generator \<Rightarrow> CreateDeploymentRequestDto \<Rightarrow> string option
    \<Rightarrow> ('k world, string) action" where
  "create_deployment env generate r incoming =
     await (transaction (on_db (create_transaction env generate r incoming))) (\<lambda>(saved, execution).
       await_then
         (try_catch (applyDeploymentCustomResource env (dwc_deployment saved)
                       (Some (dwc_components saved)))
            (\<lambda>error. ret ()))
         (await (on_db (findOneOrFail (dep_id (dwc_deployment saved)))) (\<lambda>reloaded.
            ret (dep_id reloaded))))"

subsection \<open>create-undeployment.usecase.ts\<close>

definition createUndeploymentExecution ::
  "'k env \<Rightarrow> DeploymentEntityV2 \<Rightarrow> string option \<Rightarrow> db \<Rightarrow> Execution \<times> db" where
  "createUndeploymentExecution env d incoming s =
     (let (execution, s1) = save_execution env (new_Execution d UNDEPLOYMENT incoming CREATED) s
      in (execution,
          update_deployments (\<lambda>x. dep_id x = dep_id d)
            (\<lambda>x. x\<lparr>current := False, healthy := False, routed := False\<rparr>) s1))"

definition deleteDeploymentCRD ::
  "'k env \<Rightarrow> uniq_deployments \<Rightarrow> DeploymentEntityV2 \<Rightarrow> ('k world, unit) action" where
  "deleteDeploymentCRD env uniqBy d =
     await (query findActiveComponents) (\<lambda>activeComponents.
       (let notify = (\<lambda>st. await_then (notifyDeploymentStatusV2 env st (callbackUrl d) (circleId d))
                             (ret ()))
        in await (try_catch
             (await_then (applyRoutingCustomResource env uniqBy activeComponents)
               (await_then (applyUndeploymentCustomResource env d None) (ret None)))
             (\<lambda>error. ret (Some error))) (\<lambda>failed.
             (case failed of
                None \<Rightarrow> notify UNDEPLOYED
              | Some error \<Rightarrow> try_finally (throw error) (notify UNDEPLOY_FAILED)))))"

definition create_undeployment ::
  "'k env \<Rightarrow> uniq_deployments \<Rightarrow> string \<Rightarrow> string option \<Rightarrow> ('k world, string) action" where
  "create_undeployment env uniqBy did incoming =
     await (on_db (findOneOrFail did)) (\<lambda>d.
       await_then (run_update (\<lambda>s. snd (createUndeploymentExecution env d incoming s)))
         (await_then (deleteDeploymentCRD env uniqBy d) (ret did)))"

subsection \<open>timeout.scheduler.ts\<close>

definition timeout_notifyCallback ::
  "'k env \<Rightarrow> Execution \<times> DeploymentEntityV2 \<Rightarrow> ('k world, unit) action" where
  "timeout_notifyCallback env ed =
     await (notifyDeploymentStatusV2 env TIMED_OUT (callbackUrl (snd ed)) (circleId (snd ed)))
       (\<lambda>responseStatus. run_update (updateNotificationStatus (exec_id (fst ed)) responseStatus))"

definition rollbackDeployment :: "'k env \<Rightarrow> string \<Rightarrow> ('k world, unit) action" where
  "rollbackDeployment env did =
     await_then (run_update (updateCurrent did False))
       (await (on_db (findOneOrFail did)) (\<lambda>d.
         (if truthy (previousDeploymentId d) then
            (let previous = the (previousDeploymentId d)
             in await_then (run_update (updateCurrent previous True))
                  (await (on_db (findOneOrFail previous)) (\<lambda>previousDeployment.
                     applyDeploymentCustomResource env previousDeployment None)))
          else applyUndeploymentCustomResource env d None)))"

definition handleExecutionTimeOut ::
  "'k env \<Rightarrow> Execution \<times> DeploymentEntityV2 \<Rightarrow> ('k world, unit) action" where
  "handleExecutionTimeOut env ed =
     await_then (timeout_notifyCallback env ed)
       (transaction (rollbackDeployment env (exec_deploymentId (fst ed))))"

definition updateCharlesRoutes :: "'k env \<Rightarrow> uniq_deployments \<Rightarrow> ('k world, unit) action" where
  "updateCharlesRoutes env uniqBy =
     await (query findActiveComponents) (applyRoutingCustomResource env uniqBy)"

definition select_and_mark ::
  "'k env \<Rightarrow> ('k world, (Execution \<times> DeploymentEntityV2) list) action" where
  "select_and_mark env w =
     (let (timedOutExecutions, s) = updateTimedOutExecutions (env_now env) (w_db w)
      in (Inr timedOutExecutions, w\<lparr>w_db := s\<rparr>))"

definition handleCron :: "'k env \<Rightarrow> uniq_deployments \<Rightarrow> ('k world, unit) action" where
  "handleCron env uniqBy =
     await (select_and_mark env) (\<lambda>timedOutExecutions.
       await_then (promise_all (handleExecutionTimeOut env) timedOutExecutions)
         (if timedOutExecutions \<noteq> [] then updateCharlesRoutes env uniqBy else ret ()))"

subsection \<open>Pipes\<close>

text \<open>
  \<open>@UsePipes\<close> decorators are evaluated from the last to the first, so a request meets the
  validation of its shape first, then the namespace, the default circle, the uniqueness of
  its id and the decryption of its token. Decryption is a parameter (\<open>decrypt\<close>: OpenPGP
  with the shared key, \<open>None\<close> when it throws).
\<close>

definition NamespaceValidationPipe ::
  "'k env \<Rightarrow> CreateDeploymentRequestDto \<Rightarrow> ('k world, CreateDeploymentRequestDto) action" where
  "NamespaceValidationPipe env r =
     await (getNamespace env (rq_namespace r)) (\<lambda>phase.
       if phase \<noteq> Some ''Active'' then
         throw (HttpError (build (withDetail ''namespace does not exist or is not active''
           (ExceptionBuilder (''invalid namespace '' @ [CHR 0x27] @ rq_namespace r @ [CHR 0x27, CHR '' ''])
              BAD_REQUEST))))
       else ret r)"

definition DefaultCircleUniquenessPipe ::
  "CreateDeploymentRequestDto \<Rightarrow> (db, CreateDeploymentRequestDto) action" where
  "DefaultCircleUniquenessPipe r s =
     (if \<not> circle_default (rq_circle r) then (Inr r, s)
      else
        (case List.find (\<lambda>d. defaultCircle d \<and> current d \<and> namespace d = rq_namespace r)
                (v2deployments s) of
           Some d \<Rightarrow>
             if circleId d \<noteq> circle_id (rq_circle r) then
               (Inl (HttpError (build (withSource ''circle/id''
                  (withDetail ''Namespace already has an active default deployment.''
                    (ExceptionBuilder ''Invalid circle id.'' CONFLICT))))), s)
             else (Inr r, s)
         | None \<Rightarrow> (Inr r, s)))"

definition DeploymentUniquenessPipe ::
  "CreateDeploymentRequestDto \<Rightarrow> (db, CreateDeploymentRequestDto) action" where
  "DeploymentUniquenessPipe r s =
     (if find_deployment (rq_deploymentId r) s \<noteq> None then
        (Inl (HttpError (build (withSource ''deploymentId''
           (ExceptionBuilder ''deployment already exists'' CONFLICT)))), s)
      else (Inr r, s))"

definition GitTokenDecryptionPipe ::
  "(string \<Rightarrow> string option) \<Rightarrow> CreateDeploymentRequestDto \<Rightarrow> app_error + CreateDeploymentRequestDto" where
  "GitTokenDecryptionPipe decrypt r =
     (let decryptedToken = decrypt (git_token (rq_git r))
      in if truthy decryptedToken
         then Inr (r\<lparr>rq_git := (rq_git r)\<lparr>git_token := the decryptedToken\<rparr>\<rparr>)
         else Inl (HttpError (build (withSource ''git.token''
                (ExceptionBuilder ''Unable to decrypt \"token\"'' BAD_REQUEST)))))"

definition UndeploymentValidation :: "string \<Rightarrow> (db, string) action" where
  "UndeploymentValidation did =
     await (findOneOrFail did) (\<lambda>d.
       if \<not> current d then
         throw (HttpError (build
           (ExceptionBuilder ''Cannot undeploy not current deployment'' BAD_REQUEST)))
       else ret did)"

subsection \<open>deployments.controller.ts\<close>

definition processIncomingCircleIdHeader ::
  "(string \<Rightarrow> bool) \<Rightarrow> string option \<Rightarrow> app_error + string option" where
  "processIncomingCircleIdHeader uuidValidate h =
     (case h of
        None \<Rightarrow> Inr None
      | Some c \<Rightarrow>
          if \<not> uuidValidate c then
            Inl (HttpError (build
              (ExceptionBuilder ''x-circle-id must be UUID'' UNPROCESSABLE_ENTITY)))
          else Inr (Some c))"

definition or_reject :: "app_error + 'a \<Rightarrow> ('s, 'a) action" where
  "or_reject r = (case r of Inl e \<Rightarrow> throw e | Inr a \<Rightarrow> ret a)"

text \<open>The request as the validation of its shape returned it, and the header.\<close>

definition post_deployment ::
  "'k env \<Rightarrow> manifest_generator \<Rightarrow> (string \<Rightarrow> string option) \<Rightarrow> (string \<Rightarrow> bool)
    \<Rightarrow> CreateDeploymentRequestDto \<Rightarrow> string option \<Rightarrow> ('k world, string) action" where
  "post_deployment env generate decrypt uuidValidate r0 h =
     await (NamespaceValidationPipe env r0) (\<lambda>r1.
       await (on_db (DefaultCircleUniquenessPipe r1)) (\<lambda>r2.
         await (on_db (DeploymentUniquenessPipe r2)) (\<lambda>r3.
           await (or_reject (GitTokenDecryptionPipe decrypt r3)) (\<lambda>r.
             await (or_reject (processIncomingCircleIdHeader uuidValidate h)) (\<lambda>incoming.
               create_deployment env generate r incoming)))))"

definition post_undeployment ::
  "'k env \<Rightarrow> uniq_deployments \<Rightarrow> (string \<Rightarrow> bool) \<Rightarrow> string \<Rightarrow> string option
    \<Rightarrow> ('k world, string) action" where
  "post_undeployment env uniqBy uuidValidate did h =
     await (on_db (UndeploymentValidation did)) (\<lambda>i.
       await (or_reject (processIncomingCircleIdHeader uuidValidate h)) (\<lambda>incoming.
         create_undeployment env uniqBy i incoming))"

end
