(* ===== verification/System.thy ===== *)
theory System
  imports Reconcile Deployments
begin

text \<open>
  Butler as a whole: the requests, the two hooks and the scheduler as steps on the world, in
  any order and with any answers of the outside, and the invariant they keep. Each step is
  one request or tick run to its end; what an interleaving inside a scheduler tick can do is
  shown at the end.
\<close>

subsection \<open>Updates of this component that meet the contract\<close>

interpretation deactivate: lowering_rewrite
  "update_deployments (\<lambda>d. circleId d = circle \<and> current d) (\<lambda>d. d\<lparr>current := False\<rparr>)"
  "\<lambda>d. if circleId d = circle \<and> current d then d\<lparr>current := False\<rparr> else d" for circle
  by unfold_locales (auto simp: row_simps split: if_splits)

interpretation undeploy: lowering_rewrite
  "update_deployments (\<lambda>x. dep_id x = did)
     (\<lambda>x. x\<lparr>current := False, healthy := False, routed := False\<rparr>)"
  "\<lambda>x. if dep_id x = did then x\<lparr>current := False, healthy := False, routed := False\<rparr> else x"
  for did
  by unfold_locales (auto simp: row_simps split: if_splits)

subsection \<open>Creating a deployment\<close>

lemma newDeployment_fields:
  assumes "newDeployment generate r s = Inr d"
  shows "dep_id (dwc_deployment d) = rq_deploymentId r
    \<and> circleId (dwc_deployment d) = circle_id (rq_circle r)
    \<and> current (dwc_deployment d)
    \<and> namespace (dwc_deployment d) = rq_namespace r"
  using assms
  by (auto simp: newDeployment_def createDefaultDeployment_def createCircleDeployment_def
      set_current_def toCircleEntity_def toDefaultEntity_def new_DeploymentEntityV2_def
      and_then_Inr_iff split: if_splits)

text \<open>The tables after a successful transaction, in one equation.\<close>

lemma create_transaction_tables:
  fixes env :: "'k env"
  assumes new: "newDeployment generate r s = Inr d"
    and fresh: "find_deployment (rq_deploymentId r) s = None"
  defines "circle \<equiv> circle_id (rq_circle r)"
  defines "row \<equiv> (dwc_deployment d)\<lparr>previousDeploymentId := fst (deactivateCurrentCircle circle s),
                                   createdAt := env_now env\<rparr>"
  defines "s1 \<equiv> snd (deactivateCurrentCircle circle s)"
  obtains comps e where
    "create_transaction env generate r incoming s =
       (Inr (\<lparr>dwc_deployment = row, dwc_components = comps\<rparr>, e),
        \<lparr>v2deployments = v2deployments s1 @ [row], v2components = v2components s1 @ comps,
         v2executions = v2executions s1 @ [e], v2logs = v2logs s1\<rparr>)"
    "\<forall>c \<in> set comps. deployment_id c = rq_deploymentId r"
    "exec_deploymentId e = rq_deploymentId r" "exec_status e = CREATED"
    "notificationStatus e = NOT_SENT" "exec_createdAt e = env_now env"
proof -
  have id: "dep_id (dwc_deployment d) = rq_deploymentId r"
    using newDeployment_fields [OF new] by simp
  have fresh1: "find_deployment (rq_deploymentId r) s1 = None"
    using fresh by (simp add: s1_def deactivateCurrentCircle_def deactivate.find_after)
  show ?thesis
    by (rule that)
      (use id fresh1 new in \<open>auto simp: create_transaction_def row_def s1_def circle_def
         save_deployment_def createExecution_def save_execution_def new_Execution_def Let_def
         case_prod_beta\<close>)
qed

text \<open>The components of the saved deployment are those of the new entity.\<close>

lemma create_transaction_components:
  fixes env :: "'k env"
  assumes new: "newDeployment generate r s = Inr d"
    and fresh: "find_deployment (rq_deploymentId r) s = None"
  shows "\<exists>comps e t. create_transaction env generate r incoming s
      = (Inr (\<lparr>dwc_deployment = (dwc_deployment d)\<lparr>previousDeploymentId :=
           fst (deactivateCurrentCircle (circle_id (rq_circle r)) s), createdAt := env_now env\<rparr>,
         dwc_components = comps\<rparr>, e), t)
    \<and> map (\<lambda>c. (comp_name c, imageTag c)) comps
      = map (\<lambda>c. (comp_name c, imageTag c)) (dwc_components d)"
proof -
  have numbered: "map (\<lambda>c. (comp_name c, imageTag c))
      (map (\<lambda>(i, c). c\<lparr>comp_id := f i, deployment_id := g\<rparr>) (enumerate n cs))
    = map (\<lambda>c. (comp_name c, imageTag c)) cs" for f g n and cs :: "ComponentEntityV2 list"
    by (induction cs arbitrary: n) simp_all
  show ?thesis
    using new numbered
    by (simp add: create_transaction_def save_deployment_def createExecution_def save_execution_def
        Let_def case_prod_beta)
qed

lemma deactivated:
  "v2deployments (snd (deactivateCurrentCircle circle s))
     = map (\<lambda>d. if circleId d = circle \<and> current d then d\<lparr>current := False\<rparr> else d)
         (v2deployments s)"
  by (simp add: deactivateCurrentCircle_def deactivate.rows)

lemma deactivate_wf: "db_wf s \<Longrightarrow> db_wf (snd (deactivateCurrentCircle circle s))"
  by (simp add: deactivateCurrentCircle_def deactivate.keeps_wf)

lemma deactivated_previous:
  assumes "fst (deactivateCurrentCircle circle s) = Some p"
  shows "\<exists>d \<in> set (v2deployments s). dep_id d = p \<and> circleId d = circle \<and> current d"
proof -
  obtain d ds where "filter (\<lambda>d. circleId d = circle \<and> current d) (v2deployments s) = d # ds"
    and "dep_id d = p"
    using assms by (auto simp: deactivateCurrentCircle_def split: list.splits)
  then have "d \<in> set (filter (\<lambda>d. circleId d = circle \<and> current d) (v2deployments s))" by simp
  with \<open>dep_id d = p\<close> show ?thesis by auto
qed

lemma add_deployment_wf:
  assumes wf: "db_wf s"
    and fresh: "dep_id row \<notin> dep_id ` set (v2deployments s)"
    and alone: "\<forall>d \<in> set (v2deployments s). current d \<longrightarrow> circleId d \<noteq> circleId row"
    and prev: "\<forall>p. previousDeploymentId row = Some p \<longrightarrow>
      (\<exists>d \<in> set (v2deployments s). dep_id d = p \<and> circleId d = circleId row)"
    and comps: "\<forall>c \<in> set comps. deployment_id c = dep_id row"
    and e: "exec_deploymentId e = dep_id row"
  shows "db_wf \<lparr>v2deployments = v2deployments s @ [row], v2components = v2components s @ comps,
     v2executions = v2executions s @ [e], v2logs = ls\<rparr>"
proof -
  let ?t = "\<lparr>v2deployments = v2deployments s @ [row], v2components = v2components s @ comps,
     v2executions = v2executions s @ [e], v2logs = ls\<rparr>"
  have "ids_unique ?t" using wf fresh by (simp add: db_wf_def ids_unique_def)
  moreover have "one_current ?t"
    unfolding one_current_def
  proof (intro ballI impI)
    fix x y assume "x \<in> set (v2deployments ?t)" "y \<in> set (v2deployments ?t)"
    then have "x = row \<or> x \<in> set (v2deployments s)" "y = row \<or> y \<in> set (v2deployments s)" by auto
    moreover assume "current x" "current y" "circleId x = circleId y"
    ultimately show "dep_id x = dep_id y"
      using wf alone unfolding db_wf_def one_current_def by metis
  qed
  moreover have "previous_linked ?t"
    using wf prev unfolding db_wf_def previous_linked_def by (simp add: bex_Un)
  moreover have "children_linked ?t"
    using wf comps e unfolding db_wf_def children_linked_def by auto
  ultimately show ?thesis by (simp add: db_wf_def)
qed

lemma create_transaction_wf:
  assumes wf: "db_wf s" and fresh: "find_deployment (rq_deploymentId r) s = None"
  shows "db_wf (snd (create_transaction env generate r incoming s))"
proof (cases "newDeployment generate r s")
  case (Inl e)
  with wf show ?thesis by (simp add: create_transaction_def)
next
  case (Inr d)
  let ?circle = "circle_id (rq_circle r)"
  let ?s1 = "snd (deactivateCurrentCircle ?circle s)"
  let ?row = "(dwc_deployment d)\<lparr>previousDeploymentId := fst (deactivateCurrentCircle ?circle s),
                                 createdAt := env_now env\<rparr>"
  note fields = newDeployment_fields [OF Inr]
  obtain comps e where t: "snd (create_transaction env generate r incoming s) =
      \<lparr>v2deployments = v2deployments ?s1 @ [?row], v2components = v2components ?s1 @ comps,
       v2executions = v2executions ?s1 @ [e], v2logs = v2logs ?s1\<rparr>"
    and comps: "\<forall>c \<in> set comps. deployment_id c = rq_deploymentId r"
    and e: "exec_deploymentId e = rq_deploymentId r"
    using create_transaction_tables [OF Inr fresh, of env incoming] by (metis snd_conv)
  have ids: "dep_id ` set (v2deployments ?s1) = dep_id ` set (v2deployments s)"
    by (simp add: deactivateCurrentCircle_def deactivate.id_set)
  have prev: "\<exists>x \<in> set (v2deployments ?s1). dep_id x = p \<and> circleId x = circleId ?row"
    if "previousDeploymentId ?row = Some p" for p
  proof -
    have "fst (deactivateCurrentCircle ?circle s) = Some p" using that by simp
    from deactivated_previous [OF this]
    obtain x where x: "x \<in> set (v2deployments s)" "dep_id x = p" "circleId x = ?circle" by blast
    let ?y = "if circleId x = ?circle \<and> current x then x\<lparr>current := False\<rparr> else x"
    have "?y \<in> set (v2deployments ?s1)" using x(1) by (auto simp: deactivated)
    moreover have "dep_id ?y = p \<and> circleId ?y = circleId ?row" using x fields by simp
    ultimately show ?thesis by blast
  qed
  show ?thesis
    unfolding t
  proof (rule add_deployment_wf)
    show "db_wf ?s1" by (rule deactivate_wf [OF wf])
    show "dep_id ?row \<notin> dep_id ` set (v2deployments ?s1)"
      using fresh fields by (simp add: ids find_deployment_None_iff)
    show "\<forall>x \<in> set (v2deployments ?s1). current x \<longrightarrow> circleId x \<noteq> circleId ?row"
      using fields by (auto simp: deactivated)
    show "\<forall>p. previousDeploymentId ?row = Some p \<longrightarrow>
        (\<exists>x \<in> set (v2deployments ?s1). dep_id x = p \<and> circleId x = circleId ?row)"
      using prev by blast
    show "\<forall>c \<in> set comps. deployment_id c = dep_id ?row" using comps fields by simp
    show "exec_deploymentId e = dep_id ?row" using e fields by simp
  qed
qed

lemma create_transaction_Inl:
  "fst (create_transaction env generate r incoming s) = Inl e
    \<Longrightarrow> snd (create_transaction env generate r incoming s) = s"
  by (auto simp: create_transaction_def Let_def case_prod_beta split: sum.splits)

lemma create_deployment_db:
  "w_db (snd (create_deployment env generate r incoming w))
     = snd (create_transaction env generate r incoming (w_db w))"
proof -
  obtain res t where ct: "create_transaction env generate r incoming (w_db w) = (res, t)"
    by fastforce
  show ?thesis
  proof (cases res)
    case (Inl e)
    with ct create_transaction_Inl [of env generate r incoming "w_db w" e] show ?thesis
      by (simp add: create_deployment_def await_def transaction_def on_db_def)
  next
    case (Inr se)
    let ?after = "await_then
         (try_catch (applyDeploymentCustomResource env (dwc_deployment (fst se))
                       (Some (dwc_components (fst se)))) (\<lambda>error. ret ()))
         (await (on_db (findOneOrFail (dep_id (dwc_deployment (fst se))))) (\<lambda>reloaded.
            ret (dep_id reloaded)))"
    have "keeps (db_inv (\<lambda>x. x = t)) ?after"
      by (intro keeps_intros keeps_on_db)
    then have "w_db (snd (?after (w\<lparr>w_db := t\<rparr>))) = t"
      by (rule keepsD [of _ _ "w\<lparr>w_db := t\<rparr>"]) simp
    with ct Inr show ?thesis
      by (simp add: create_deployment_def await_def [of "transaction _"] transaction_def on_db_def
          case_prod_beta)
  qed
qed

lemma GitToken_id:
  "GitTokenDecryptionPipe decrypt r = Inr r' \<Longrightarrow> rq_deploymentId r' = rq_deploymentId r"
  by (auto simp: GitTokenDecryptionPipe_def Let_def split: if_splits)

lemma namespace_pipe_result:
  "NamespaceValidationPipe env r w = (res, w') \<Longrightarrow> w' = w \<and> (\<forall>x. res = Inr x \<longrightarrow> x = r)"
  by (auto simp: NamespaceValidationPipe_def getNamespace_def action_defs
      split: sum.splits if_splits)

lemma default_pipe_result:
  "DefaultCircleUniquenessPipe r s = (res, s') \<Longrightarrow> s' = s \<and> (\<forall>x. res = Inr x \<longrightarrow> x = r)"
  by (auto simp: DefaultCircleUniquenessPipe_def split: option.splits if_splits)

lemma uniqueness_pipe_result:
  "DeploymentUniquenessPipe r s = (res, s') \<Longrightarrow> s' = s
    \<and> (\<forall>x. res = Inr x \<longrightarrow> x = r \<and> find_deployment (rq_deploymentId r) s = None)"
  by (auto simp: DeploymentUniquenessPipe_def split: if_splits)

text \<open>A request either stops at a pipe and changes nothing or runs the use case for a fresh id.\<close>

lemma post_deployment_run:
  "(\<exists>e. post_deployment env generate decrypt val r h w = (Inl e, w))
   \<or> (\<exists>r' incoming. GitTokenDecryptionPipe decrypt r = Inr r'
        \<and> find_deployment (rq_deploymentId r') (w_db w) = None
        \<and> post_deployment env generate decrypt val r h w
            = create_deployment env generate r' incoming w)"
proof -
  obtain n1 w1 where 1: "NamespaceValidationPipe env r w = (n1, w1)" by fastforce
  note pipe1 = namespace_pipe_result [OF 1]
  obtain n2 s2 where 2: "DefaultCircleUniquenessPipe r (w_db w) = (n2, s2)" by fastforce
  note pipe2 = default_pipe_result [OF 2]
  obtain n3 s3 where 3: "DeploymentUniquenessPipe r (w_db w) = (n3, s3)" by fastforce
  note pipe3 = uniqueness_pipe_result [OF 3]
  show ?thesis
  proof (cases "n1 = Inr r \<and> n2 = Inr r \<and> n3 = Inr r")
    case False
    with 1 2 3 pipe1 pipe2 pipe3 show ?thesis
      by (cases n1; cases n2; cases n3)
        (simp_all add: post_deployment_def await_def on_db_def)
  next
    case True
    with pipe3 have fresh: "find_deployment (rq_deploymentId r) (w_db w) = None" by simp
    have run: "post_deployment env generate decrypt val r h w =
        await (or_reject (GitTokenDecryptionPipe decrypt r)) (\<lambda>r.
           await (or_reject (processIncomingCircleIdHeader val h)) (\<lambda>incoming.
             create_deployment env generate r incoming)) w"
    proof -
      have "NamespaceValidationPipe env r w = (Inr r, w)"
        "DefaultCircleUniquenessPipe r (w_db w) = (Inr r, w_db w)"
        "DeploymentUniquenessPipe r (w_db w) = (Inr r, w_db w)"
        using True 1 2 3 pipe1 pipe2 pipe3 by blast+
      then show ?thesis
        by (simp add: post_deployment_def await_def [of "NamespaceValidationPipe env r"]
            await_def [of "on_db _"] on_db_def)
    qed
    show ?thesis
    proof (cases "GitTokenDecryptionPipe decrypt r")
      case (Inl e)
      then show ?thesis by (simp add: run await_def or_reject_def throw_def)
    next
      case (Inr r')
      with GitToken_id [OF Inr] fresh show ?thesis
        by (cases "processIncomingCircleIdHeader val h")
          (auto simp add: run await_def or_reject_def throw_def ret_def)
    qed
  qed
qed

lemma post_deployment_db:
  "w_db (snd (post_deployment env generate decrypt val r h w)) = w_db w
   \<or> (\<exists>r' incoming. rq_deploymentId r' = rq_deploymentId r
        \<and> find_deployment (rq_deploymentId r') (w_db w) = None
        \<and> w_db (snd (post_deployment env generate decrypt val r h w))
            = snd (create_transaction env generate r' incoming (w_db w)))"
  using post_deployment_run [of env generate decrypt val r h w] GitToken_id
    create_deployment_db by (metis snd_conv)

text \<open>The use case ends with an error exactly when its transaction did.\<close>

lemma create_deployment_result:
  assumes fresh: "find_deployment (rq_deploymentId r) (w_db w) = None"
  shows "fst (create_deployment env generate r incoming w)
     = (case newDeployment generate r (w_db w) of
          Inl e \<Rightarrow> Inl e | Inr d \<Rightarrow> Inr (rq_deploymentId r))"
proof (cases "newDeployment generate r (w_db w)")
  case (Inl e)
  then show ?thesis
    by (simp add: create_deployment_def await_def transaction_def on_db_def create_transaction_def)
next
  case (Inr d)
  note id = newDeployment_fields [OF Inr]
  obtain row comps e t where ct: "create_transaction env generate r incoming (w_db w)
      = (Inr (\<lparr>dwc_deployment = row, dwc_components = comps\<rparr>, e), t)"
    and row: "dep_id row = rq_deploymentId r"
    and t: "\<exists>rows. v2deployments t = rows @ [row]"
    by (rule create_transaction_tables [OF Inr fresh, of env incoming]) (use id in force)
  obtain found where found: "find_deployment (dep_id row) t = Some found"
    using t by (cases "find_deployment (dep_id row) t") (auto simp: find_deployment_None_iff)
  note same = find_deployment_Some [OF found]
  obtain ar k where app: "applyDeploymentCustomResource env row (Some comps) (w\<lparr>w_db := t\<rparr>) = (ar, k)"
    by fastforce
  then have "w_db k = t"
    using cluster_calls_frame(1) [of env row "Some comps" "w\<lparr>w_db := t\<rparr>"] by simp
  then have "await (on_db (findOneOrFail (dep_id row))) (\<lambda>reloaded. ret (dep_id reloaded)) k
      = (Inr (rq_deploymentId r), k)"
    using found same row by (simp add: await_def on_db_def findOneOrFail_def ret_def)
  then have "await_then (try_catch (applyDeploymentCustomResource env row (Some comps)) (\<lambda>error. ret ()))
      (await (on_db (findOneOrFail (dep_id row))) (\<lambda>reloaded. ret (dep_id reloaded))) (w\<lparr>w_db := t\<rparr>)
      = (Inr (rq_deploymentId r), k)"
    using app by (cases ar) (simp_all add: await_then_def await_def [of "try_catch _ _"] try_catch_def ret_def)
  then show ?thesis
    by (simp add: create_deployment_def await_def [of "transaction _"] transaction_def on_db_def ct Inr)
qed

lemma keeps_post_deployment: "keeps (db_inv db_wf) (post_deployment env generate decrypt val r h)"
proof (rule keepsI)
  fix w :: "'a world"
  assume "db_wf (w_db w)"
  then show "db_wf (w_db (snd (post_deployment env generate decrypt val r h w)))"
    using post_deployment_db [of env generate decrypt val r h w] create_transaction_wf by metis
qed

subsection \<open>Undeploying\<close>

lemma save_execution_wf:
  assumes "db_wf s" and "exec_deploymentId e \<in> dep_id ` set (v2deployments s)"
  shows "db_wf (snd (save_execution env e s))"
proof -
  have rows: "v2deployments (snd (save_execution env e s)) = v2deployments s"
    by (simp add: save_execution_def Let_def)
  have "children_linked (snd (save_execution env e s))"
    using assms by (auto simp: db_wf_def children_linked_def save_execution_def Let_def)
  with assms(1) show ?thesis
    unfolding db_wf_def ids_unique_def one_current_def previous_linked_def rows by blast
qed

lemma undeployment_execution_wf:
  assumes "db_wf s" and "dep_id d \<in> dep_id ` set (v2deployments s)"
  shows "db_wf (snd (createUndeploymentExecution env d incoming s))"
proof -
  have "db_wf (snd (save_execution env (new_Execution d UNDEPLOYMENT incoming CREATED) s))"
    by (rule save_execution_wf) (use assms in \<open>simp_all add: new_Execution_def\<close>)
  then have "db_wf (update_deployments (\<lambda>x. dep_id x = dep_id d)
      (\<lambda>x. x\<lparr>current := False, healthy := False, routed := False\<rparr>)
      (snd (save_execution env (new_Execution d UNDEPLOYMENT incoming CREATED) s)))"
    by (rule undeploy.keeps_wf)
  then show ?thesis by (simp add: createUndeploymentExecution_def case_prod_beta)
qed

lemma keeps_deleteDeploymentCRD: "keeps (db_inv I) (deleteDeploymentCRD env u d)"
  unfolding deleteDeploymentCRD_def Let_def by (intro keeps_intros)

lemma keeps_create_undeployment: "keeps (db_inv db_wf) (create_undeployment env u did incoming)"
proof (rule keepsI)
  fix w :: "'a world"
  assume wf: "db_wf (w_db w)"
  show "db_wf (w_db (snd (create_undeployment env u did incoming w)))"
  proof (cases "find_deployment did (w_db w)")
    case None
    with wf show ?thesis
      by (simp add: create_undeployment_def await_def on_db_def findOneOrFail_def)
  next
    case (Some d)
    let ?w = "w\<lparr>w_db := snd (createUndeploymentExecution env d incoming (w_db w))\<rparr>"
    have "db_wf (w_db ?w)"
      using undeployment_execution_wf [OF wf] find_deployment_Some [OF Some] by auto
    moreover have "keeps (db_inv db_wf) (await_then (deleteDeploymentCRD env u d) (ret did))"
      by (intro keeps_intros keeps_deleteDeploymentCRD)
    ultimately have "db_wf (w_db (snd (await_then (deleteDeploymentCRD env u d) (ret did) ?w)))"
      by (rule keepsD [rotated])
    then show ?thesis
      using Some
      by (simp add: create_undeployment_def await_def [of "on_db _"] await_then_def
          await_def [of "run_update _"] on_db_def findOneOrFail_def run_update_def)
  qed
qed

lemma keeps_post_undeployment: "keeps (db_inv db_wf) (post_undeployment env u val did h)"
  unfolding post_undeployment_def UndeploymentValidation_def or_reject_def
  by (intro keeps_intros keeps_on_db keeps_create_undeployment)
    (auto split: sum.splits intro!: keeps_intros)

subsection \<open>Rolling back\<close>

text \<open>The effect of a committed rollback on the tables.\<close>

definition rollback_tables :: "string \<Rightarrow> db \<Rightarrow> db" where
  "rollback_tables did s =
     (let s1 = updateCurrent did False s
      in case find_deployment did s1 of
           None \<Rightarrow> s1
         | Some d \<Rightarrow> if truthy (previousDeploymentId d)
                     then updateCurrent (the (previousDeploymentId d)) True s1 else s1)"

lemma rollbackDeployment_db:
  "w_db (snd (transaction (rollbackDeployment env did) w)) \<in> {w_db w, rollback_tables did (w_db w)}"
proof -
  let ?s1 = "updateCurrent did False (w_db w)"
  let ?w1 = "w\<lparr>w_db := ?s1\<rparr>"
  have "w_db (snd (rollbackDeployment env did w)) = rollback_tables did (w_db w)"
  proof (cases "find_deployment did ?s1")
    case None
    then show ?thesis
      by (simp add: rollbackDeployment_def await_then_def await_def [of "run_update _"]
          await_def [of "on_db _"] run_update_def on_db_def findOneOrFail_def rollback_tables_def)
  next
    case (Some d)
    let ?p = "the (previousDeploymentId d)"
    let ?w2 = "w\<lparr>w_db := updateCurrent ?p True ?s1\<rparr>"
    have "keeps (db_inv (\<lambda>x. x = t)) (await (on_db (findOneOrFail ?p)) (\<lambda>previousDeployment.
        applyDeploymentCustomResource env previousDeployment None))" for t
      by (intro keeps_intros keeps_on_db)
    then have "w_db (snd (await (on_db (findOneOrFail ?p)) (\<lambda>previousDeployment.
        applyDeploymentCustomResource env previousDeployment None) ?w2)) = w_db ?w2"
      by (rule keepsD) simp
    moreover have "w_db (snd (applyUndeploymentCustomResource env d None ?w1)) = w_db ?w1"
      by (rule cluster_calls_frame)
    ultimately show ?thesis
      using Some
      by (simp add: rollbackDeployment_def await_then_def await_def [of "run_update _"] Let_def
          await_def [of "on_db (findOneOrFail did)"] run_update_def on_db_def [of "findOneOrFail did"]
          findOneOrFail_def [of did] rollback_tables_def)
  qed
  then show ?thesis by (auto simp: transaction_def split: prod.splits sum.splits)
qed

text \<open>
  When a rollback is safe: the current deployment of the circle is the one that timed out,
  or already the one it goes back to. A list of timed-out deployments holds at most one per
  circle.
\<close>

definition rollback_safe :: "db \<Rightarrow> string \<Rightarrow> bool" where
  "rollback_safe s did \<longleftrightarrow>
     (\<forall>d \<in> set (v2deployments s). dep_id d = did \<longrightarrow>
        (\<forall>x \<in> set (v2deployments s). current x \<longrightarrow> circleId x = circleId d \<longrightarrow>
           dep_id x = did \<or> previousDeploymentId d = Some (dep_id x)))"

definition one_per_circle :: "string set \<Rightarrow> db \<Rightarrow> bool" where
  "one_per_circle dids s \<longleftrightarrow>
     (\<forall>d \<in> set (v2deployments s). \<forall>d' \<in> set (v2deployments s). dep_id d \<in> dids \<longrightarrow> dep_id d' \<in> dids
        \<longrightarrow> circleId d = circleId d' \<longrightarrow> dep_id d = dep_id d')"

definition timeouts_inv :: "string set \<Rightarrow> db \<Rightarrow> bool" where
  "timeouts_inv dids s \<longleftrightarrow>
     db_wf s \<and> (\<forall>did \<in> dids. rollback_safe s did) \<and> one_per_circle dids s"

text \<open>A row after a rollback, read off the row before it.\<close>

lemma rollback_row:
  assumes wf: "db_wf s" and d: "find_deployment did s = Some d"
    and x: "x \<in> set (v2deployments (rollback_tables did s))"
  obtains y where "y \<in> set (v2deployments s)" "dep_id y = dep_id x" "circleId y = circleId x"
    "previousDeploymentId y = previousDeploymentId x"
    "current x \<longrightarrow> (current y \<and> dep_id y \<noteq> did) \<or> Some (dep_id y) = previousDeploymentId d"
proof -
  have d1: "find_deployment did (updateCurrent did False s)
      = Some (if dep_id d = did then d\<lparr>current := False\<rparr> else d)"
    using d by (simp add: raise.find_after)
  have row: "\<exists>y \<in> set (v2deployments s). dep_id y = dep_id x \<and> circleId y = circleId x
      \<and> previousDeploymentId y = previousDeploymentId x
      \<and> (current x \<longrightarrow> (current y \<and> dep_id y \<noteq> did) \<or> Some (dep_id y) = previousDeploymentId d)"
  proof (cases "truthy (previousDeploymentId d)")
    case False
    then have "x \<in> set (v2deployments (updateCurrent did False s))"
      using x d1 by (simp add: rollback_tables_def split: if_splits)
    then obtain y where "y \<in> set (v2deployments s)"
      "x = (if dep_id y = did then y\<lparr>current := False\<rparr> else y)"
      unfolding raise.rows by auto
    then show ?thesis by (intro bexI [of _ y]) simp_all
  next
    case True
    then obtain p where p: "previousDeploymentId d = Some p" by (cases "previousDeploymentId d") auto
    with True d1 have "rollback_tables did s = updateCurrent p True (updateCurrent did False s)"
      by (simp add: rollback_tables_def)
    with x obtain y where "y \<in> set (v2deployments s)"
      "x = (let z = if dep_id y = did then y\<lparr>current := False\<rparr> else y
            in if dep_id z = p then z\<lparr>current := True\<rparr> else z)"
      unfolding raise.rows by (auto simp: Let_def raise.rows)
    then show ?thesis using p by (intro bexI [of _ y]) (simp_all add: Let_def)
  qed
  then show ?thesis using that by blast
qed

lemma rollback_linked:
  assumes wf: "db_wf s" and d: "find_deployment did s = Some d"
    and p: "previousDeploymentId d = Some (dep_id y)" and y: "y \<in> set (v2deployments s)"
  shows "circleId y = circleId d"
proof -
  from find_deployment_Some [OF d] have "d \<in> set (v2deployments s)" by simp
  with wf p obtain y' where "y' \<in> set (v2deployments s)" "dep_id y' = dep_id y"
    "circleId y' = circleId d"
    unfolding db_wf_def previous_linked_def by blast
  moreover from wf have "ids_unique s" by (simp add: db_wf_def)
  ultimately show ?thesis using y unique_row by blast
qed

lemma rollback_keeps_rest:
  assumes "db_wf s"
  shows "ids_unique (rollback_tables did s) \<and> previous_linked (rollback_tables did s)
    \<and> children_linked (rollback_tables did s)"
  using assms
  by (auto simp: rollback_tables_def db_wf_def Let_def split: option.splits
      intro!: raise.keeps_ids_unique raise.keeps_previous raise.keeps_children)

lemma rollback_one_current:
  assumes wf: "db_wf s" and safe: "rollback_safe s did" and d: "find_deployment did s = Some d"
  shows "one_current (rollback_tables did s)"
  unfolding one_current_def
proof (intro ballI impI)
  fix a b assume ab: "a \<in> set (v2deployments (rollback_tables did s))"
    "b \<in> set (v2deployments (rollback_tables did s))"
    and cur: "current a" "current b" and circle: "circleId a = circleId b"
  obtain x where x: "x \<in> set (v2deployments s)" "dep_id x = dep_id a" "circleId x = circleId a"
    "(current x \<and> dep_id x \<noteq> did) \<or> Some (dep_id x) = previousDeploymentId d"
    using rollback_row [OF wf d ab(1)] cur(1) by metis
  obtain y where y: "y \<in> set (v2deployments s)" "dep_id y = dep_id b" "circleId y = circleId b"
    "(current y \<and> dep_id y \<noteq> did) \<or> Some (dep_id y) = previousDeploymentId d"
    using rollback_row [OF wf d ab(2)] cur(2) by metis
  have target: "Some (dep_id z) = previousDeploymentId d"
    if "z \<in> set (v2deployments s)" "current z" "dep_id z \<noteq> did" "circleId z = circleId d" for z
    using that safe find_deployment_Some [OF d] unfolding rollback_safe_def by metis
  have one: "one_current s" using wf by (simp add: db_wf_def)
  show "dep_id a = dep_id b"
  proof (cases "Some (dep_id x) = previousDeploymentId d \<or> Some (dep_id y) = previousDeploymentId d")
    case True
    then have "circleId x = circleId d \<or> circleId y = circleId d"
      using rollback_linked [OF wf d] x(1) y(1) by metis
    then have "Some (dep_id x) = previousDeploymentId d" "Some (dep_id y) = previousDeploymentId d"
      using x y circle target by metis+
    then show ?thesis using x(2) y(2) by (metis option.inject)
  next
    case False
    then show ?thesis using one x y circle unfolding one_current_def by metis
  qed
qed

lemma rollback_keeps_safe:
  assumes inv: "timeouts_inv dids s" and did: "did \<in> dids" "did' \<in> dids"
    and d: "find_deployment did s = Some d"
  shows "rollback_safe (rollback_tables did s) did'"
  unfolding rollback_safe_def
proof (intro ballI impI)
  from inv have wf: "db_wf s" and safe: "rollback_safe s did'" "rollback_safe s did"
    and sep: "one_per_circle dids s" using did by (auto simp: timeouts_inv_def)
  fix a x assume a: "a \<in> set (v2deployments (rollback_tables did s))" "dep_id a = did'"
    and x: "x \<in> set (v2deployments (rollback_tables did s))" "current x" "circleId x = circleId a"
  obtain b where b: "b \<in> set (v2deployments s)" "dep_id b = dep_id a" "circleId b = circleId a"
    "previousDeploymentId b = previousDeploymentId a"
    using rollback_row [OF wf d a(1)] by metis
  obtain y where y: "y \<in> set (v2deployments s)" "dep_id y = dep_id x" "circleId y = circleId x"
    "(current y \<and> dep_id y \<noteq> did) \<or> Some (dep_id y) = previousDeploymentId d"
    using rollback_row [OF wf d x(1)] x(2) by metis
  show "dep_id x = did' \<or> previousDeploymentId a = Some (dep_id x)"
  proof (cases "current y \<and> dep_id y \<noteq> did")
    case True
    then show ?thesis using safe(1) a x b y unfolding rollback_safe_def by metis
  next
    case False
    then have p: "Some (dep_id y) = previousDeploymentId d" using y by blast
    then have "circleId b = circleId d" using rollback_linked [OF wf d] y b x by metis
    then have "dep_id b = dep_id d"
      using sep b a did find_deployment_Some [OF d] unfolding one_per_circle_def by metis
    then have "b = d"
      using unique_row [of s b d] wf b find_deployment_Some [OF d] by (simp add: db_wf_def)
    then show ?thesis using p y b by simp
  qed
qed

lemma rollback_keeps_timeouts:
  assumes inv: "timeouts_inv dids s" and did: "did \<in> dids"
    and d: "find_deployment did s = Some d"
  shows "timeouts_inv dids (rollback_tables did s)"
proof -
  from inv did have wf: "db_wf s" and safe: "rollback_safe s did" by (auto simp: timeouts_inv_def)
  have "db_wf (rollback_tables did s)"
    using rollback_keeps_rest [OF wf] rollback_one_current [OF wf safe d] by (simp add: db_wf_def)
  moreover have "one_per_circle dids (rollback_tables did s)"
    using inv rollback_row [OF wf d] unfolding timeouts_inv_def one_per_circle_def by metis
  ultimately show ?thesis
    using rollback_keeps_safe [OF inv did _ d] by (simp add: timeouts_inv_def)
qed

lemma rollback_absent: "find_deployment did s = None \<Longrightarrow> rollback_tables did s = s"
proof -
  assume none: "find_deployment did s = None"
  then have "filter (\<lambda>d. dep_id d = did) (v2deployments s) = []"
    by (auto simp: find_deployment_None_iff filter_empty_conv)
  then have "updateCurrent did False s = s"
    unfolding updateCurrent_def by (rule filter_Nil_update)
  with none show ?thesis by (simp add: rollback_tables_def)
qed

lemma keeps_handleTimeOut:
  assumes "exec_deploymentId (fst ed) \<in> dids"
  shows "keeps (db_inv (timeouts_inv dids)) (handleExecutionTimeOut env ed)"
  unfolding handleExecutionTimeOut_def
proof (rule keeps_await_then)
  have same: "timeouts_inv dids (updateNotificationStatus i st s)" if "timeouts_inv dids s" for i st s
    using that wf_updateNotificationStatus [of s i st]
    by (simp add: timeouts_inv_def rollback_safe_def one_per_circle_def updateNotificationStatus_def
        row_simps)
  show "keeps (db_inv (timeouts_inv dids)) (timeout_notifyCallback env ed)"
    unfolding timeout_notifyCallback_def
    by (intro keeps_intros keeps_run_update same)
  show "keeps (db_inv (timeouts_inv dids))
      (transaction (rollbackDeployment env (exec_deploymentId (fst ed))))"
  proof (rule keepsI)
    fix w :: "'a world"
    let ?did = "exec_deploymentId (fst ed)"
    assume inv: "timeouts_inv dids (w_db w)"
    then have "timeouts_inv dids (rollback_tables ?did (w_db w))"
      using rollback_keeps_timeouts [OF inv assms]
      by (cases "find_deployment ?did (w_db w)") (simp_all add: rollback_absent)
    then show "timeouts_inv dids (w_db (snd (transaction (rollbackDeployment env ?did) w)))"
      using inv rollbackDeployment_db [of env ?did w] by auto
  qed
qed

lemma selected_current:
  assumes "(e, d) \<in> set (select_timed_out now s)"
  shows "find_deployment (exec_deploymentId e) s = Some d \<and> timed_out now e d \<and> current d"
  using assms
  by (auto simp: select_timed_out_def timed_out_def map_filter_def split: option.splits)

lemma selected_inv:
  assumes wf: "db_wf s"
  shows "timeouts_inv ((\<lambda>ed. exec_deploymentId (fst ed)) ` set (fst (updateTimedOutExecutions now s)))
     (snd (updateTimedOutExecutions now s))"
proof -
  let ?dids = "(\<lambda>ed. exec_deploymentId (fst ed)) ` set (select_timed_out now s)"
  have cur: "current d" if "dep_id d \<in> ?dids" "d \<in> set (v2deployments s)" for d
  proof -
    from that obtain e d' where "(e, d') \<in> set (select_timed_out now s)"
      "dep_id d = exec_deploymentId e" by auto
    with selected_current find_deployment_Some that wf unique_row show ?thesis
      unfolding db_wf_def by metis
  qed
  have one: "one_current s" using wf by (simp add: db_wf_def)
  have "rollback_safe s did" if "did \<in> ?dids" for did
    using cur that one unfolding rollback_safe_def one_current_def by metis
  moreover have "one_per_circle ?dids s"
    using cur one unfolding one_per_circle_def one_current_def by blast
  ultimately show ?thesis
    using wf_updateTimedOutExecutions [OF wf, of now]
    by (simp add: timeouts_inv_def rollback_safe_def one_per_circle_def updateTimedOutExecutions_def
        Let_def row_simps)
qed

lemma keeps_handleCron: "keeps (db_inv db_wf) (handleCron env u)"
proof (rule keepsI)
  fix w :: "'a world"
  assume wf: "db_wf (w_db w)"
  obtain xs s where xs: "updateTimedOutExecutions (env_now env) (w_db w) = (xs, s)" by fastforce
  let ?dids = "(\<lambda>ed. exec_deploymentId (fst ed)) ` set xs"
  let ?m = "await_then (promise_all (handleExecutionTimeOut env) xs)
     (if xs \<noteq> [] then updateCharlesRoutes env u else ret ())"
  have start: "timeouts_inv ?dids (w_db (w\<lparr>w_db := s\<rparr>))"
    using selected_inv [OF wf, of "env_now env"] xs by simp
  have "keeps (db_inv (timeouts_inv ?dids)) ?m"
    unfolding updateCharlesRoutes_def
    by (intro keeps_intros keeps_promise_all_set keeps_handleTimeOut) simp
  from keepsD [OF this start] have "timeouts_inv ?dids (w_db (snd (?m (w\<lparr>w_db := s\<rparr>))))" .
  moreover have "handleCron env u w = ?m (w\<lparr>w_db := s\<rparr>)"
    using xs by (simp add: handleCron_def await_def [of "select_and_mark _"] select_and_mark_def)
  ultimately show "db_wf (w_db (snd (handleCron env u w)))" by (simp add: timeouts_inv_def)
qed

subsection \<open>One timed-out deployment\<close>

lemma notify_timeout_run:
  obtains st w1 where "timeout_notifyCallback env ed w = (Inr (), w1)"
    "w_db w1 = updateNotificationStatus (exec_id (fst ed)) st (w_db w)"
    "w_cluster w1 = w_cluster w"
proof -
  obtain st w' where "notifyDeploymentStatusV2 env TIMED_OUT (callbackUrl (snd ed))
      (circleId (snd ed)) w = (Inr st, w')" "w_db w' = w_db w" "w_cluster w' = w_cluster w"
    using notifyV2_total by blast
  then show ?thesis
    by (intro that [of "w'\<lparr>w_db := updateNotificationStatus (exec_id (fst ed)) st (w_db w)\<rparr>" st])
      (simp_all add: timeout_notifyCallback_def await_def run_update_def)
qed

lemma notification_keeps_deployments [simp]:
  "v2deployments (updateNotificationStatus i st s) = v2deployments s"
  by (simp add: updateNotificationStatus_def row_simps)

lemma find_deployment_cong:
  "v2deployments s = v2deployments t \<Longrightarrow> find_deployment did s = find_deployment did t"
  by (simp add: find_deployment_def)

text \<open>With a healthy API server the rollback to a previous deployment commits.\<close>

lemma rollback_commits:
  assumes law: "object_api_law env v" and ids: "ids_unique (w_db w)"
    and d: "find_deployment did (w_db w) = Some d"
    and p: "previousDeploymentId d = Some p" "p \<noteq> []"
    and prev: "find_deployment p (w_db w) = Some pd"
  obtains w' r where "transaction (rollbackDeployment env did) w = (Inr (), w')"
    "w_db w' = updateCurrent p True (updateCurrent did False (w_db w))"
    "v (w_cluster w') (CHARLES_CUSTOM_RESOURCE_DEPLOYMENT_KIND, butlerNamespace env, circleId pd)
       = Some r"
    "\<exists>s. cr_spec r = CharlesDeployment s \<and> cds_deploymentId s = p"
proof -
  let ?s1 = "updateCurrent did False (w_db w)"
  let ?w2 = "w\<lparr>w_db := updateCurrent p True ?s1\<rparr>"
  obtain d1 where d1: "find_deployment did ?s1 = Some d1" "previousDeploymentId d1 = Some p"
    using d p by (auto simp: raise.find_after)
  obtain p2 where p2: "find_deployment p (w_db ?w2) = Some p2" "dep_id p2 = p"
    "circleId p2 = circleId pd"
    using prev find_deployment_Some [OF prev] by (auto simp: raise.find_after)
  obtain w' r where app: "applyDeploymentCustomResource env p2 None ?w2 = (Inr (), w')"
    and view: "v (w_cluster w')
      = (v (w_cluster ?w2))(key_of (deployment_manifest env p2 None) \<mapsto> r)"
    and spec: "cr_spec r = cr_spec (deployment_manifest env p2 None)"
    using law by (rule apply_upsert)
  have "rollbackDeployment env did w = (Inr (), w')"
    using d1 p p2 app
    by (simp add: rollbackDeployment_def await_then_def await_def run_update_def on_db_def
        findOneOrFail_def)
  then have run: "transaction (rollbackDeployment env did) w = (Inr (), w')"
    by (simp add: transaction_def)
  show ?thesis
  proof (rule that [OF run])
    show "w_db w' = updateCurrent p True ?s1"
      using cluster_calls_frame(1) [of env p2 None ?w2] app by simp
    show "v (w_cluster w') (CHARLES_CUSTOM_RESOURCE_DEPLOYMENT_KIND, butlerNamespace env, circleId pd)
       = Some r"
      using view p2 by (simp add: key_of_def deployment_manifest_def buildDeploymentCrdManifest_def)
    show "\<exists>s. cr_spec r = CharlesDeployment s \<and> cds_deploymentId s = p"
      using spec p2 by (simp add: deployment_manifest_def buildDeploymentCrdManifest_def)
  qed
qed

lemma transaction_error: "transaction m w = (Inl e, w') \<Longrightarrow> w_db w' = w_db w"
  by (auto simp: transaction_def split: prod.splits sum.splits)

lemma selected_execution:
  assumes "(e, d) \<in> set (select_timed_out now s)"
  shows "e \<in> set (v2executions s) \<and> notificationStatus e = NOT_SENT"
  using assms
  by (auto simp: select_timed_out_def timed_out_def map_filter_def split: option.splits)

lemma notified_not_selected:
  assumes "(e, d) \<in> set (select_timed_out now (updateNotificationStatus i st s))"
  shows "exec_id e \<noteq> i"
proof -
  let ?mark = "\<lambda>x. if exec_id x = i then x\<lparr>notificationStatus :=
       (if 200 \<le> st \<and> st < 300 then SENT else ERROR)\<rparr> else x"
  from selected_execution [OF assms] have "e \<in> ?mark ` set (v2executions s)"
    by (simp add: updateNotificationStatus_def update_executions_def)
  then obtain e' where "e = ?mark e'" by blast
  moreover have "notificationStatus e = NOT_SENT" using selected_execution [OF assms] by simp
  ultimately show ?thesis by (cases "exec_id e' = i") (simp_all split: if_splits)
qed

subsection \<open>Steps and reachable worlds\<close>

definition init_db :: db where
  "init_db = \<lparr>v2deployments = [], v2components = [], v2executions = [], v2logs = []\<rparr>"

inductive butler_step :: "'k world \<Rightarrow> 'k world \<Rightarrow> bool" where
  post: "butler_step w (snd (post_deployment env generate decrypt val r h w))"
| undeploy: "butler_step w (snd (post_undeployment env u val did h w))"
| deployment_hook: "butler_step w (snd (reconcile_deployment env u uw params w))"
| routes_hook: "butler_step w (snd (reconcile_routes env lodash rparams w))"
| cron: "butler_step w (snd (handleCron env u w))"

inductive reachable :: "'k world \<Rightarrow> bool" where
  start: "w_db w = init_db \<Longrightarrow> reachable w"
| step: "reachable w \<Longrightarrow> butler_step w w' \<Longrightarrow> reachable w'"

lemma butler_step_wf:
  assumes "butler_step w w'" and "db_wf (w_db w)"
  shows "db_wf (w_db w')"
  using assms
proof (cases rule: butler_step.cases)
  case (post env generate decrypt val r h)
  with assms(2) keepsD [OF keeps_post_deployment] show ?thesis by blast
next
  case (undeploy env u val did h)
  with assms(2) keepsD [OF keeps_post_undeployment] show ?thesis by blast
next
  case (deployment_hook env u uw params)
  with assms(2) keepsD [OF keeps_reconcile_deployment] show ?thesis by blast
next
  case (routes_hook env lodash rparams)
  with assms(2) keepsD [OF keeps_reconcile_routes] show ?thesis by blast
next
  case (cron env u)
  with assms(2) keepsD [OF keeps_handleCron] show ?thesis by blast
qed

lemma init_wf: "db_wf init_db"
  by (simp add: db_wf_defs init_db_def)

lemma reachable_wf: "reachable w \<Longrightarrow> db_wf (w_db w)"
  by (induction rule: reachable.induct) (auto simp: init_wf intro: butler_step_wf)

end
