(* ===== verification/Examples.thy ===== *)
theory Examples
  imports System
begin

text \<open>
  A concrete run, for the instances of the theorems: the cluster is a map of resources, the
  Moove service answers 200, a chart renders to one Deployment and one Service. Deployment
  \<open>d1\<close> of the circle \<open>blue\<close> is followed by \<open>d2\<close> of the same circle.
\<close>

type_synonym map_world = "(resource_key \<Rightarrow> custom_resource option) world"

definition ex_env :: "int \<Rightarrow> string \<Rightarrow> (resource_key \<Rightarrow> custom_resource option) env" where
  "ex_env t e = (map_env ''butler'' t)\<lparr>env_exec_id := e\<rparr>"

definition ex_component :: "string \<Rightarrow> CreateComponentRequestDto" where
  "ex_component tag =
     \<lparr>cr_componentId = ''k1'', cr_buildImageUrl = ''img:'' @ tag, cr_buildImageTag = tag,
      cr_componentName = ''app'', cr_hostValue = None, cr_gatewayName = None,
      cr_helmRepository = ''repo''\<rparr>"

definition ex_request :: "string \<Rightarrow> string \<Rightarrow> CreateDeploymentRequestDto" where
  "ex_request did tag =
     \<lparr>rq_deploymentId = did, rq_authorId = ''a'', rq_callbackUrl = ''cb'',
      rq_circle = \<lparr>circle_id = ''blue'', circle_default = False\<rparr>,
      rq_git = \<lparr>git_token = ''t'', git_provider = GITHUB\<rparr>, rq_namespace = ''ns'',
      rq_timeoutInSeconds = Some 10, rq_status = CREATED, rq_components = [ex_component tag]\<rparr>"

definition ex_manifest :: "string \<Rightarrow> KubernetesManifest" where
  "ex_manifest kind =
     \<lparr>m_apiVersion = Some ''v1'', m_kind = Some kind,
      m_metadata = Some (no_metadata\<lparr>md_name := Some ''app''\<rparr>), m_spec = None\<rparr>"

definition ex_generate :: manifest_generator where
  "ex_generate c = Inr [ex_manifest ''Deployment'', ex_manifest ''Service'']"

definition ex_start :: map_world where
  "ex_start = \<lparr>w_db = init_db, w_cluster = (\<lambda>_. None), w_notified = []\<rparr>"

definition ex_post :: "int \<Rightarrow> string \<Rightarrow> string \<Rightarrow> string \<Rightarrow> map_world \<Rightarrow> string option \<times> map_world" where
  "ex_post t e did tag w =
     (case post_deployment (ex_env t e) ex_generate Some (\<lambda>_. True) (ex_request did tag) None w of
        (Inl _, w') \<Rightarrow> (None, w')
      | (Inr i, w') \<Rightarrow> (Some i, w'))"

definition ex_world1 :: map_world where "ex_world1 = snd (ex_post 1000 ''e1'' ''d1'' ''v1'' ex_start)"
definition ex_world2 :: map_world where "ex_world2 = snd (ex_post 2000 ''e2'' ''d2'' ''v2'' ex_world1)"

definition ex_row :: "string \<Rightarrow> int \<Rightarrow> string option \<Rightarrow> bool \<Rightarrow> DeploymentEntityV2" where
  "ex_row did t prev cur =
     \<lparr>dep_id = did, authorId = ''a'', callbackUrl = ''cb'', createdAt = t, priority = 0,
      circleId = ''blue'', previousDeploymentId = prev, current = cur, namespace = ''ns'',
      healthy = False, routed = False, timeoutInSeconds = 10, defaultCircle = False\<rparr>"

lemma ex_rows1: "v2deployments (w_db ex_world1) = [ex_row ''d1'' 1000 None True]"
  by code_simp

lemma ex_rows2:
  "v2deployments (w_db ex_world2)
     = [ex_row ''d1'' 1000 None False, ex_row ''d2'' 2000 (Some ''d1'') True]"
  by code_simp

lemma ex_post_snd:
  "snd (ex_post t e did tag w)
     = snd (post_deployment (ex_env t e) ex_generate Some (\<lambda>_. True) (ex_request did tag) None w)"
  by (simp add: ex_post_def split: prod.splits sum.splits)

lemma ex_reachable: "reachable ex_start" "reachable ex_world1" "reachable ex_world2"
proof -
  show 0: "reachable ex_start" by (rule reachable.start) (simp add: ex_start_def)
  show 1: "reachable ex_world1"
    unfolding ex_world1_def ex_post_snd by (rule reachable.step [OF 0 butler_step.post])
  show "reachable ex_world2"
    unfolding ex_world2_def ex_post_snd by (rule reachable.step [OF 1 butler_step.post])
qed

end
