(* ===== verification/Guarantees.thy ===== *)
theory Guarantees
  imports Examples
begin

text \<open>
  What the deployment engine promises, over every order of requests, hooks and scheduler
  ticks: one current deployment per circle, rollbacks that go back to the previous one,
  requests that are all or nothing; and the two situations in which the code does not keep
  its promise.
\<close>

subsection \<open>Reachable states\<close>



text \<open>
  C2: in every reachable state the links of the tables are sound: ids are unique, a previous
  deployment exists and belongs to the same circle, and every component and every execution
  belongs to a deployment.
\<close>

theorem reachable_links:
  assumes "reachable w"
  shows "distinct (map dep_id (v2deployments (w_db w)))
    \<and> (\<forall>d \<in> set (v2deployments (w_db w)). \<forall>p. previousDeploymentId d = Some p \<longrightarrow>
         (\<exists>d'. find_deployment p (w_db w) = Some d' \<and> circleId d' = circleId d))
    \<and> (\<forall>e \<in> set (v2executions (w_db w)). find_deployment (exec_deploymentId e) (w_db w) \<noteq> None)
    \<and> (\<forall>c \<in> set (v2components (w_db w)). find_deployment (deployment_id c) (w_db w) \<noteq> None)"
proof -
  have wf: "db_wf (w_db w)" by (rule reachable_wf [OF assms])
  then have ids: "ids_unique (w_db w)" by (simp add: db_wf_def)
  have "\<exists>d'. find_deployment p (w_db w) = Some d' \<and> circleId d' = circleId d"
    if "d \<in> set (v2deployments (w_db w))" "previousDeploymentId d = Some p" for d p
    using wf that find_deployment_row [OF ids] unfolding db_wf_def previous_linked_def by metis
  with wf ids show ?thesis
    by (simp add: db_wf_def ids_unique_def children_linked_def find_deployment_None_iff)
qed

lemma reachable_links_witness:
  "\<exists>d. find_deployment ''d1'' (w_db ex_world2) = Some d \<and> circleId d = ''blue''"
proof -
  have "ex_row ''d2'' 2000 (Some ''d1'') True \<in> set (v2deployments (w_db ex_world2))"
    by (simp add: ex_rows2)
  with reachable_links [OF ex_reachable(3)] show ?thesis by (force simp: ex_row_def)
qed

subsection \<open>Creating a deployment\<close>

text \<open>
  C3: when the charts render, a request with a fresh id makes exactly one deployment of its
  circle current, the new one; its previous deployment is the one that was current; the
  other circles keep their rows.
\<close>

theorem create_replaces_current:
  assumes wf: "db_wf s" and new: "newDeployment generate r s = Inr d"
    and fresh: "find_deployment (rq_deploymentId r) s = None"
  shows "\<exists>saved e t. create_transaction env generate r incoming s = (Inr (saved, e), t)
    \<and> dep_id (dwc_deployment saved) = rq_deploymentId r
    \<and> filter (\<lambda>x. current x \<and> circleId x = circle_id (rq_circle r)) (v2deployments t)
        = [dwc_deployment saved]
    \<and> (\<forall>p. previousDeploymentId (dwc_deployment saved) = Some p \<longleftrightarrow>
         (\<exists>x \<in> set (v2deployments s). dep_id x = p \<and> current x
            \<and> circleId x = circle_id (rq_circle r)))
    \<and> filter (\<lambda>x. circleId x \<noteq> circle_id (rq_circle r)) (v2deployments t)
        = filter (\<lambda>x. circleId x \<noteq> circle_id (rq_circle r)) (v2deployments s)"
proof -
  let ?circle = "circle_id (rq_circle r)"
  let ?prev = "fst (deactivateCurrentCircle ?circle s)"
  let ?row = "(dwc_deployment d)\<lparr>previousDeploymentId := ?prev, createdAt := env_now env\<rparr>"
  obtain comps e t where run: "create_transaction env generate r incoming s
      = (Inr (\<lparr>dwc_deployment = ?row, dwc_components = comps\<rparr>, e), t)"
    and t: "v2deployments t = v2deployments (snd (deactivateCurrentCircle ?circle s)) @ [?row]"
    using create_transaction_tables [OF new fresh, of env incoming]
    by (metis db.select_convs(1))
  note fields = newDeployment_fields [OF new]
  have prev: "?prev = Some p \<longleftrightarrow>
      (\<exists>x \<in> set (v2deployments s). dep_id x = p \<and> current x \<and> circleId x = ?circle)" for p
  proof
    show "\<exists>x \<in> set (v2deployments s). dep_id x = p \<and> current x \<and> circleId x = ?circle"
      if "?prev = Some p" using deactivated_previous [OF that] by auto
    assume "\<exists>x \<in> set (v2deployments s). dep_id x = p \<and> current x \<and> circleId x = ?circle"
    then obtain x where x: "x \<in> set (v2deployments s)" "dep_id x = p" "current x"
      "circleId x = ?circle" by blast
    then have "x \<in> set (filter (\<lambda>d. circleId d = ?circle \<and> current d) (v2deployments s))" by simp
    then obtain q where q: "?prev = Some q"
      by (cases "filter (\<lambda>d. circleId d = ?circle \<and> current d) (v2deployments s)")
        (simp_all add: deactivateCurrentCircle_def)
    from deactivated_previous [OF this] x wf have "q = p"
      unfolding db_wf_def one_current_def by metis
    with q show "?prev = Some p" by simp
  qed
  have "filter (\<lambda>x. current x \<and> circleId x = ?circle) (v2deployments t) = [?row]"
    using fields by (auto simp: t deactivated filter_empty_conv)
  moreover have "filter (\<lambda>x. circleId x \<noteq> ?circle) (v2deployments t)
      = filter (\<lambda>x. circleId x \<noteq> ?circle) (v2deployments s)"
    using fields unfolding t deactivated by (simp, intro filter_map_same) auto
  ultimately show ?thesis using run fields prev by auto
qed

lemma create_replaces_current_witness:
  "\<exists>saved e t. create_transaction (ex_env 2000 ''e2'') ex_generate (ex_request ''d2'' ''v2'') None
       (w_db ex_world1) = (Inr (saved, e), t)
     \<and> previousDeploymentId (dwc_deployment saved) = Some ''d1''"
proof -
  have wf: "db_wf (w_db ex_world1)" by (rule reachable_wf [OF ex_reachable(2)])
  have fresh: "find_deployment (rq_deploymentId (ex_request ''d2'' ''v2'')) (w_db ex_world1) = None"
    by (simp add: find_deployment_def ex_rows1 ex_row_def ex_request_def)
  obtain d where d: "newDeployment ex_generate (ex_request ''d2'' ''v2'') (w_db ex_world1) = Inr d"
    by (auto simp: newDeployment_def createCircleDeployment_def request_components_def
        getDeploymentComponents_def getManifestsFor_def ex_generate_def traverse_total ex_request_def)
  have "\<exists>x \<in> set (v2deployments (w_db ex_world1)). dep_id x = ''d1'' \<and> current x
      \<and> circleId x = circle_id (rq_circle (ex_request ''d2'' ''v2''))"
    by (simp add: ex_rows1 ex_row_def ex_request_def)
  with create_replaces_current [OF wf d fresh, of "ex_env 2000 ''e2''" None] show ?thesis by metis
qed



subsection \<open>Rolling back\<close>

text \<open>
  C5: when the API server works, the timeout of a current deployment that had a predecessor
  makes the predecessor the only current deployment of the circle, leaves the other circles
  alone, and leaves the predecessor's id in the custom resource of the circle.
\<close>

theorem timeout_restores_previous:
  assumes law: "object_api_law env v" and wf: "db_wf (w_db w)"
    and ed: "(e, d) \<in> set (select_timed_out now (w_db w))"
    and p: "previousDeploymentId d = Some p" "p \<noteq> []"
  shows "\<exists>w' r. handleExecutionTimeOut env (e, d) w = (Inr (), w')
    \<and> (\<forall>x \<in> set (v2deployments (w_db w')). circleId x = circleId d \<longrightarrow> (current x \<longleftrightarrow> dep_id x = p))
    \<and> filter (\<lambda>x. circleId x \<noteq> circleId d) (v2deployments (w_db w'))
        = filter (\<lambda>x. circleId x \<noteq> circleId d) (v2deployments (w_db w))
    \<and> v (w_cluster w') (CHARLES_CUSTOM_RESOURCE_DEPLOYMENT_KIND, butlerNamespace env, circleId d)
        = Some r
    \<and> (\<exists>s. cr_spec r = CharlesDeployment s \<and> cds_deploymentId s = p)"
proof -
  let ?did = "exec_deploymentId e"
  obtain st w1 where n: "timeout_notifyCallback env (e, d) w = (Inr (), w1)"
    "w_db w1 = updateNotificationStatus (exec_id e) st (w_db w)"
    by (rule notify_timeout_run [of env "(e, d)" w]) simp
  have same: "find_deployment i (w_db w1) = find_deployment i (w_db w)" for i
    by (rule find_deployment_cong) (simp add: n(2))
  have d: "find_deployment ?did (w_db w) = Some d" "current d" using selected_current [OF ed] by auto
  note dset = find_deployment_Some [OF d(1)]
  have ids: "ids_unique (w_db w)" and one: "one_current (w_db w)" using wf by (simp_all add: db_wf_def)
  obtain pd where pd: "pd \<in> set (v2deployments (w_db w))" "dep_id pd = p" "circleId pd = circleId d"
    using wf dset p unfolding db_wf_def previous_linked_def by blast
  have "find_deployment p (w_db w1) = Some pd"
    using find_deployment_row [OF ids pd(1)] pd(2) by (simp add: same)
  moreover have "ids_unique (w_db w1)" using ids by (simp add: ids_unique_def n(2))
  ultimately obtain w' r where run: "transaction (rollbackDeployment env ?did) w1 = (Inr (), w')"
    and t: "w_db w' = updateCurrent p True (updateCurrent ?did False (w_db w1))"
    and r: "v (w_cluster w') (CHARLES_CUSTOM_RESOURCE_DEPLOYMENT_KIND, butlerNamespace env,
        circleId pd) = Some r" "\<exists>s. cr_spec r = CharlesDeployment s \<and> cds_deploymentId s = p"
    using rollback_commits [OF law, of w1 ?did d p pd] d p same by metis
  define restored :: "DeploymentEntityV2 \<Rightarrow> DeploymentEntityV2" where "restored y = (let y1 = if dep_id y = ?did then y\<lparr>current := False\<rparr> else y
    in if dep_id y1 = p then y1\<lparr>current := True\<rparr> else y1)" for y
  have rows: "v2deployments (w_db w') = map restored (v2deployments (w_db w))"
    by (simp add: t raise.rows n(2) comp_def restored_def Let_def)
  have "handleExecutionTimeOut env (e, d) w = (Inr (), w')"
    using n(1) run by (simp add: handleExecutionTimeOut_def await_then_def await_def)
  moreover have "current x \<longleftrightarrow> dep_id x = p"
    if x: "x \<in> set (v2deployments (w_db w'))" "circleId x = circleId d" for x
  proof -
    obtain y where y: "y \<in> set (v2deployments (w_db w))" "x = restored y" using x(1) rows by auto
    then have "circleId y = circleId d" using x(2) by (simp add: restored_def Let_def split: if_splits)
    then have "current y \<Longrightarrow> dep_id y = ?did"
      using one y(1) dset d(2) unfolding one_current_def by metis
    then show ?thesis using y(2) by (auto simp: restored_def Let_def split: if_splits)
  qed
  moreover have "filter (\<lambda>x. circleId x \<noteq> circleId d) (v2deployments (w_db w'))
      = filter (\<lambda>x. circleId x \<noteq> circleId d) (v2deployments (w_db w))"
  proof -
    have circ: "circleId (restored y) = circleId y" for y by (simp add: restored_def Let_def)
    have "restored y = y" if "y \<in> set (v2deployments (w_db w))" "circleId y \<noteq> circleId d" for y
      using that unique_row [OF ids that(1) pd(1)] unique_row [of "w_db w" y d] ids dset pd
      by (auto simp: restored_def Let_def)
    then show ?thesis unfolding rows by (intro filter_map_same) (simp_all add: circ)
  qed
  ultimately show ?thesis using r pd(3) by auto
qed

text \<open>\<open>d2\<close> of the example has timed out 10 seconds after it was created.\<close>

lemma ex_timed_out:
  "select_timed_out 20000 (w_db ex_world2)
     = [(hd (tl (v2executions (w_db ex_world2))), ex_row ''d2'' 2000 (Some ''d1'') True)]"
  by code_simp

lemma timeout_restores_previous_witness:
  "\<exists>w'. handleExecutionTimeOut (ex_env 20000 ''e3'')
       (hd (tl (v2executions (w_db ex_world2))), ex_row ''d2'' 2000 (Some ''d1'') True) ex_world2
     = (Inr (), w')"
proof -
  have "object_api_law (ex_env 20000 ''e3'') (\<lambda>k. k)"
    using map_env_law [of "''butler''" 20000] by (simp add: object_api_law_def ex_env_def)
  from timeout_restores_previous [OF this reachable_wf [OF ex_reachable(3)], of _ _ 20000 "''d1''"]
  show ?thesis unfolding ex_timed_out by (auto simp: ex_row_def)
qed


definition ex_broken_env :: "(resource_key \<Rightarrow> custom_resource option) env" where
  "ex_broken_env = (ex_env 20000 ''e3'')\<lparr>api_read := (\<lambda>r k. (Inl (Some 500), k))\<rparr>"


text \<open>
  C7: the scheduler reads the timed-out executions in one transaction and rolls each back in
  another. If a new deployment of the circle is created in between, the rollback of the
  superseded one makes its predecessor current beside the new deployment: the circle has two
  current deployments.
\<close>

theorem late_rollback_breaks_circle:
  assumes law: "object_api_law env v" and wf: "db_wf (w_db w)"
    and d: "find_deployment (exec_deploymentId e) (w_db w) = Some d"
    and p: "previousDeploymentId d = Some p" "p \<noteq> []"
    and new: "x \<in> set (v2deployments (w_db w))" "current x" "circleId x = circleId d"
    and superseded: "dep_id x \<noteq> dep_id d" "dep_id x \<noteq> p"
  shows "\<not> one_current (w_db (snd (handleExecutionTimeOut env (e, d0) w)))"
proof -
  let ?did = "exec_deploymentId e"
  obtain st w1 where n: "timeout_notifyCallback env (e, d0) w = (Inr (), w1)"
    "w_db w1 = updateNotificationStatus (exec_id e) st (w_db w)"
    by (rule notify_timeout_run [of env "(e, d0)" w]) simp
  have same: "find_deployment i (w_db w1) = find_deployment i (w_db w)" for i
    by (rule find_deployment_cong) (simp add: n(2))
  note dset = find_deployment_Some [OF d]
  have ids: "ids_unique (w_db w)" using wf by (simp add: db_wf_def)
  obtain pd where pd: "pd \<in> set (v2deployments (w_db w))" "dep_id pd = p" "circleId pd = circleId d"
    using wf dset p unfolding db_wf_def previous_linked_def by blast
  have "find_deployment p (w_db w1) = Some pd"
    using find_deployment_row [OF ids pd(1)] pd(2) by (simp add: same)
  moreover have "ids_unique (w_db w1)" using ids by (simp add: ids_unique_def n(2))
  ultimately obtain w' r where run: "transaction (rollbackDeployment env ?did) w1 = (Inr (), w')"
    and t: "w_db w' = updateCurrent p True (updateCurrent ?did False (w_db w1))"
    using rollback_commits [OF law, of w1 ?did d p pd] d p same by metis
  let ?up = "\<lambda>y. if dep_id y = p then y\<lparr>current := True\<rparr> else y"
  let ?down = "\<lambda>y. if dep_id y = ?did then y\<lparr>current := False\<rparr> else y"
  have rows: "v2deployments (w_db w') = map (?up \<circ> ?down) (v2deployments (w_db w))"
    by (simp add: t raise.rows n(2))
  have x: "x \<in> set (v2deployments (w_db w'))"
    unfolding rows set_map by (rule image_eqI [OF _ new(1)]) (use superseded dset in simp)
  obtain z where z: "z \<in> set (v2deployments (w_db w'))" "current z" "circleId z = circleId x"
    "dep_id z \<noteq> dep_id x"
  proof (rule that [of "?up (?down pd)"])
    show "?up (?down pd) \<in> set (v2deployments (w_db w'))"
      unfolding rows set_map by (rule image_eqI [OF _ pd(1)]) simp
  qed (use pd new superseded in simp_all)
  then have "\<not> one_current (w_db w')" using new(2) x unfolding one_current_def by blast
  then show ?thesis
    using n(1) run by (simp add: handleExecutionTimeOut_def await_then_def await_def)
qed

definition ex_world3 :: map_world where "ex_world3 = snd (ex_post 20000 ''e3'' ''d3'' ''v3'' ex_world2)"

lemma ex_rows3:
  "v2deployments (w_db ex_world3)
     = [ex_row ''d1'' 1000 None False, ex_row ''d2'' 2000 (Some ''d1'') False,
        ex_row ''d3'' 20000 (Some ''d2'') True]"
  by code_simp

lemma late_rollback_breaks_circle_witness:
  "\<not> one_current (w_db (snd (handleExecutionTimeOut (ex_env 20000 ''e4'')
       (hd (select_timed_out 20000 (w_db ex_world2))) ex_world3)))"
proof -
  have law: "object_api_law (ex_env 20000 ''e4'') (\<lambda>k. k)"
    using map_env_law [of "''butler''" 20000] by (simp add: object_api_law_def ex_env_def)
  have "reachable ex_world3"
    unfolding ex_world3_def ex_post_snd by (rule reachable.step [OF ex_reachable(3) butler_step.post])
  then have wf: "db_wf (w_db ex_world3)" by (rule reachable_wf)
  have did: "exec_deploymentId (hd (tl (v2executions (w_db ex_world2)))) = ''d2''" by code_simp
  show ?thesis
    unfolding ex_timed_out list.sel(1)
    by (rule late_rollback_breaks_circle [OF law wf, where d = "ex_row ''d2'' 2000 (Some ''d1'') False"
          and x = "ex_row ''d3'' 20000 (Some ''d2'') True" and p = "''d1''"])
      (simp_all add: did find_deployment_def ex_rows3 ex_row_def)
qed

subsection \<open>Undeploying\<close>

lemma deleteDeploymentCRD_notifies:
  assumes answers: "\<And>n. \<exists>s. http_post env n 0 = PostOk s"
  shows "\<exists>st. w_notified (snd (deleteDeploymentCRD env u d w))
      = w_notified w @ [notification_request st (callbackUrl d) (circleId d)]
    \<and> st = (case fst (deleteDeploymentCRD env u d w) of
              Inr _ \<Rightarrow> UNDEPLOYED | Inl _ \<Rightarrow> UNDEPLOY_FAILED)
    \<and> w_db (snd (deleteDeploymentCRD env u d w)) = w_db w"
proof -
  let ?cs = "findActiveComponents (w_db w)"
  let ?m = "try_catch (await_then (applyRoutingCustomResource env u ?cs)
     (await_then (applyUndeploymentCustomResource env d None) (ret None)))
     (\<lambda>error. ret (Some error))"
  obtain r k where r: "applyRoutingCustomResource env u ?cs w = (r, k)" by fastforce
  obtain r' k' where r': "applyUndeploymentCustomResource env d None k = (r', k')" by fastforce
  have k: "w_notified k = w_notified w" "w_notified k' = w_notified w"
    "w_db k = w_db w" "w_db k' = w_db w"
    using cluster_calls_notified(3) [of env u ?cs w] cluster_calls_notified(2) [of env d None k]
      cluster_calls_frame(3) [of env u ?cs w] cluster_calls_frame(2) [of env d None k] r r' by auto
  obtain f wf where m: "?m w = (Inr f, wf)" "w_notified wf = w_notified w" "w_db wf = w_db w"
    using r r' k by (cases r; cases r')
      (auto simp: try_catch_def await_then_def await_def ret_def)
  have run: "deleteDeploymentCRD env u d w
     = (case f of None \<Rightarrow> await_then (notifyDeploymentStatusV2 env UNDEPLOYED (callbackUrl d)
           (circleId d)) (ret ())
        | Some error \<Rightarrow> try_finally (throw error) (await_then (notifyDeploymentStatusV2 env
           UNDEPLOY_FAILED (callbackUrl d) (circleId d)) (ret ()))) wf"
    using m(1) by (simp add: deleteDeploymentCRD_def await_def [of "query _"]
        await_def [of "try_catch _ _"])
  have ans: "\<exists>s. http_post env (notification_request st (callbackUrl d) (circleId d)) 0 = PostOk s"
    for st using answers by blast
  show ?thesis
  proof (cases f)
    case None
    obtain s' where "notifyDeploymentStatusV2 env UNDEPLOYED (callbackUrl d) (circleId d) wf
        = (Inr s', delivered (notification_request UNDEPLOYED (callbackUrl d) (circleId d)) wf)"
      using ans notifyV2_answered by metis
    with None run m show ?thesis
      by (simp add: await_then_def await_def ret_def delivered_def)
  next
    case (Some error)
    obtain s' where "notifyDeploymentStatusV2 env UNDEPLOY_FAILED (callbackUrl d) (circleId d) wf
        = (Inr s', delivered (notification_request UNDEPLOY_FAILED (callbackUrl d) (circleId d)) wf)"
      using ans notifyV2_answered by metis
    with Some run m show ?thesis
      by (simp add: await_then_def await_def ret_def delivered_def try_finally_def throw_def)
  qed
qed

text \<open>
  C8: undeploying an existing deployment retires its row, whatever the cluster does, and,
  with a Moove service that answers, sends exactly one notification: \<open>UNDEPLOYED\<close> when the
  request succeeds, \<open>UNDEPLOY_FAILED\<close> when it fails.
\<close>

theorem undeployment_notifies_once:
  assumes answers: "\<And>n. \<exists>s. http_post env n 0 = PostOk s"
    and d: "find_deployment did (w_db w) = Some d"
    and run: "create_undeployment env u did incoming w = (res, w')"
  shows "(\<forall>x \<in> set (v2deployments (w_db w')). dep_id x = did \<longrightarrow>
            \<not> current x \<and> \<not> healthy x \<and> \<not> routed x)
    \<and> w_notified w' = w_notified w @ [notification_request
         (case res of Inr _ \<Rightarrow> UNDEPLOYED | Inl _ \<Rightarrow> UNDEPLOY_FAILED) (callbackUrl d) (circleId d)]"
proof -
  let ?w = "w\<lparr>w_db := snd (createUndeploymentExecution env d incoming (w_db w))\<rparr>"
  obtain r k where del: "deleteDeploymentCRD env u d ?w = (r, k)" by fastforce
  have split: "create_undeployment env u did incoming w
      = (case r of Inl e \<Rightarrow> (Inl e, k) | Inr _ \<Rightarrow> (Inr did, k))"
    using d del by (simp add: create_undeployment_def await_then_def await_def on_db_def
        findOneOrFail_def run_update_def ret_def split: sum.splits)
  have sent: "w_notified k = w_notified ?w @ [notification_request
      (case r of Inr _ \<Rightarrow> UNDEPLOYED | Inl _ \<Rightarrow> UNDEPLOY_FAILED) (callbackUrl d) (circleId d)]"
    and db: "w_db k = w_db ?w"
    using deleteDeploymentCRD_notifies [OF answers, of u d ?w] del by auto
  have w': "w' = k" and res: "(\<exists>x. res = Inr x) \<longleftrightarrow> (\<exists>x. r = Inr x)"
    using split run by (auto split: sum.splits)
  have "\<forall>x \<in> set (v2deployments (w_db k)). dep_id x = did \<longrightarrow> \<not> current x \<and> \<not> healthy x \<and> \<not> routed x"
    using find_deployment_Some [OF d]
    by (auto simp: db createUndeploymentExecution_def case_prod_beta row_simps)
  then show ?thesis using sent res w' by (cases res; cases r) auto
qed

lemma undeployment_notifies_once_witness:
  "w_notified (snd (create_undeployment (ex_env 3000 ''e3'') uniqBy_first ''d2'' None ex_world2))
     = [notification_request UNDEPLOY_FAILED ''cb'' ''blue'']"
proof -
  have answers: "\<exists>s. http_post (ex_env 3000 ''e3'') n 0 = PostOk s" for n
    by (simp add: ex_env_def map_env_def)
  have d: "find_deployment ''d2'' (w_db ex_world2) = Some (ex_row ''d2'' 2000 (Some ''d1'') True)"
    by (simp add: find_deployment_def ex_rows2 ex_row_def)
  obtain res w' where run: "create_undeployment (ex_env 3000 ''e3'') uniqBy_first ''d2'' None
      ex_world2 = (res, w')" by fastforce
  have "fst (create_undeployment (ex_env 3000 ''e3'') uniqBy_first ''d2'' None ex_world2)
      = Inl (ClusterError (Some 404))" by code_simp
  then have res: "res = Inl (ClusterError (Some 404))" using run by simp
  have "w_notified ex_world2 = []" by code_simp
  then show ?thesis
    using undeployment_notifies_once [OF answers d run] run by (simp add: res ex_row_def)
qed

subsection \<open>Reporting success\<close>

text \<open>
  C9: the routes hook reports a routed deployment to the Moove service at most once: after
  one successful report, reporting again, with any status and any answer of the service,
  changes nothing and sends nothing.
\<close>

theorem success_reported_once:
  assumes run: "routes_notifyCallback env d st w = (Inr (), w')"
  shows "routes_notifyCallback env' d st' w' = (Inr (), w')"
proof -
  obtain e es where es: "filter (\<lambda>e. exec_deploymentId e = dep_id d) (v2executions (w_db w)) = e # es"
    using run by (cases "filter (\<lambda>e. exec_deploymentId e = dep_id d) (v2executions (w_db w))")
      (simp_all add: routes_notifyCallback_def await_def on_db_def findByDeploymentId_def)
  show ?thesis
  proof (cases "notificationStatus e = NOT_SENT")
    case False
    with run es show ?thesis
      by (simp add: routes_notifyCallback_def await_def on_db_def findByDeploymentId_def ret_def)
  next
    case True
    obtain s v where n: "notifyDeploymentStatusV2 env st (callbackUrl d) (circleId d) w = (Inr s, v)"
      "w_db v = w_db w"
      using notifyV2_total by blast
    have w': "w' = v\<lparr>w_db := updateNotificationStatus (exec_id e) s (w_db w)\<rparr>"
      using run es True n
      by (simp add: routes_notifyCallback_def await_def on_db_def findByDeploymentId_def run_update_def)
    have "filter (\<lambda>e. exec_deploymentId e = dep_id d) (v2executions (w_db w'))
      = map (\<lambda>x. if exec_id x = exec_id e
                 then x\<lparr>notificationStatus := (if 200 \<le> s \<and> s < 300 then SENT else ERROR)\<rparr> else x)
          (filter (\<lambda>e. exec_deploymentId e = dep_id d) (v2executions (w_db w)))"
      unfolding w' by (simp add: updateNotificationStatus_def update_executions_def filter_map comp_def
          if_distrib [of exec_deploymentId])
    then show ?thesis
      using es by (simp add: routes_notifyCallback_def await_def on_db_def findByDeploymentId_def ret_def)
  qed
qed

lemma success_reported_once_witness:
  "\<exists>w'. routes_notifyCallback (ex_env 3000 ''e3'') (ex_row ''d2'' 2000 (Some ''d1'') True)
       SUCCEEDED ex_world2 = (Inr (), w')
     \<and> routes_notifyCallback (ex_env 4000 ''e4'') (ex_row ''d2'' 2000 (Some ''d1'') True)
       SUCCEEDED w' = (Inr (), w') \<and> length (w_notified w') = 1"
proof -
  have one: "fst (routes_notifyCallback (ex_env 3000 ''e3'') (ex_row ''d2'' 2000 (Some ''d1'') True)
      SUCCEEDED ex_world2) = Inr ()"
    "length (w_notified (snd (routes_notifyCallback (ex_env 3000 ''e3'')
      (ex_row ''d2'' 2000 (Some ''d1'') True) SUCCEEDED ex_world2))) = 1" by code_simp+
  then obtain w' where "routes_notifyCallback (ex_env 3000 ''e3'')
      (ex_row ''d2'' 2000 (Some ''d1'') True) SUCCEEDED ex_world2 = (Inr (), w')"
    by (metis prod.collapse)
  with success_reported_once [OF this] one(2) show ?thesis by auto
qed

end
