(* ===== verification/Interleaving.thy ===== *)
theory Interleaving
  imports Guarantees
begin

text \<open>
  Several creations at once. The transaction of \<open>create-deployment.usecase.ts\<close> waits for the
  charts, for its update and for its commit, and meanwhile the server answers other requests.
  A transaction of the database is at the default level, read committed: a statement sees what
  was committed when it started; an update waits for rows another transaction has changed,
  and then looks at these rows again, not at rows that are new. What a transaction saves is
  seen by the others when it commits; the rows it saves have new ids, so that it makes no
  difference when it writes them before that.
\<close>

record 'k creation =
  cn_env :: "'k env"
  cn_request :: CreateDeploymentRequestDto
  cn_incoming :: "string option"

abbreviation cn_id :: "'k creation \<Rightarrow> string" where
  "cn_id c \<equiv> rq_deploymentId (cn_request c)"
abbreviation cn_circle :: "'k creation \<Rightarrow> string" where
  "cn_circle c \<equiv> circle_id (rq_circle (cn_request c))"

text \<open>How far a creation has come: the entity it built, the rows its update found when it
  started, the rows it changed and locked.\<close>

datatype stage = Requested
  | Prepared DeploymentWithComponents
  | Selected DeploymentWithComponents "string list"
  | Deactivated DeploymentWithComponents "string list"
  | Committed
  | RolledBack app_error

datatype occurrence = Prepare nat | Select nat | Deactivate nat | Commit nat

definition current_ids :: "string \<Rightarrow> db \<Rightarrow> string list" where
  "current_ids circle s =
     map dep_id (filter (\<lambda>d. circleId d = circle \<and> current d) (v2deployments s))"

definition retire :: "string list \<Rightarrow> db \<Rightarrow> db" where
  "retire ids = update_deployments (\<lambda>d. dep_id d \<in> set ids) (\<lambda>d. d\<lparr>current := False\<rparr>)"

fun locked :: "stage \<Rightarrow> string list" where
  "locked (Deactivated d ids) = ids"
| "locked _ = []"

definition locked_by_others :: "nat \<Rightarrow> stage list \<Rightarrow> string list" where
  "locked_by_others i st = concat (map (\<lambda>j. if j = i then [] else locked (st ! j)) [0..<length st])"

definition commit_creation ::
  "'k creation \<Rightarrow> DeploymentWithComponents \<Rightarrow> string list \<Rightarrow> db \<Rightarrow> db" where
  "commit_creation c deploymentEntity ids s =
     (let previousDeployment = (case ids of [] \<Rightarrow> None | x # _ \<Rightarrow> Some x);
          entity = deploymentEntity\<lparr>dwc_deployment :=
            (dwc_deployment deploymentEntity)\<lparr>previousDeploymentId := previousDeployment\<rparr>\<rparr>;
          (saved, s1) = save_deployment (cn_env c) entity (retire ids s)
      in snd (createExecution (cn_env c) (dwc_deployment saved) (cn_incoming c) s1))"

text \<open>One step of one creation; \<open>None\<close> when it has to wait or the step is not its next one.\<close>

fun creation_step ::
  "manifest_generator \<Rightarrow> 'k creation list \<Rightarrow> occurrence \<Rightarrow> db \<times> stage list \<Rightarrow> (db \<times> stage list) option" where
  "creation_step generate cs (Prepare i) (s, st) =
     (if i < length cs \<and> st ! i = Requested then
        (case newDeployment generate (cn_request (cs ! i)) s of
           Inl e \<Rightarrow> Some (s, st[i := RolledBack e])
         | Inr d \<Rightarrow> Some (s, st[i := Prepared d]))
      else None)"
| "creation_step generate cs (Select i) (s, st) =
     (if i < length cs then
        (case st ! i of
           Prepared d \<Rightarrow> Some (s, st[i := Selected d (current_ids (cn_circle (cs ! i)) s)])
         | _ \<Rightarrow> None)
      else None)"
| "creation_step generate cs (Deactivate i) (s, st) =
     (if i < length cs then
        (case st ! i of
           Selected d ids \<Rightarrow>
             if set ids \<inter> set (locked_by_others i st) = {}
             then Some (s, st[i := Deactivated d
                    (filter (\<lambda>x. x \<in> set (current_ids (cn_circle (cs ! i)) s)) ids)])
             else None
         | _ \<Rightarrow> None)
      else None)"
| "creation_step generate cs (Commit i) (s, st) =
     (if i < length cs then
        (case st ! i of
           Deactivated d ids \<Rightarrow> Some (commit_creation (cs ! i) d ids s, st[i := Committed])
         | _ \<Rightarrow> None)
      else None)"

definition run_creations ::
  "manifest_generator \<Rightarrow> 'k creation list \<Rightarrow> db \<Rightarrow> occurrence list \<Rightarrow> (db \<times> stage list) option" where
  "run_creations generate cs s evs =
     foldl (\<lambda>x e. case x of None \<Rightarrow> None | Some y \<Rightarrow> creation_step generate cs e y)
       (Some (s, replicate (length cs) Requested)) evs"

fun ended :: "stage \<Rightarrow> bool" where
  "ended Committed = True"
| "ended (RolledBack e) = True"
| "ended _ = False"

subsection \<open>What a step does\<close>

lemma run_creations_Nil [simp]:
  "run_creations generate cs s [] = Some (s, replicate (length cs) Requested)"
  by (simp add: run_creations_def)

lemma run_creations_snoc [simp]:
  "run_creations generate cs s (evs @ [e]) = (case run_creations generate cs s evs of
     None \<Rightarrow> None | Some y \<Rightarrow> creation_step generate cs e y)"
  by (simp add: run_creations_def)

lemma set_current_ids:
  "x \<in> set (current_ids c s) \<longleftrightarrow> (\<exists>d \<in> set (v2deployments s). dep_id d = x \<and> circleId d = c \<and> current d)"
  by (auto simp: current_ids_def)

lemma commit_rows:
  assumes "dep_id (dwc_deployment d) \<notin> dep_id ` set (v2deployments s)"
  shows "v2deployments (commit_creation c d ids s)
    = map (\<lambda>x. if dep_id x \<in> set ids then x\<lparr>current := False\<rparr> else x) (v2deployments s)
      @ [(dwc_deployment d)\<lparr>previousDeploymentId := (case ids of [] \<Rightarrow> None | x # _ \<Rightarrow> Some x),
           createdAt := env_now (cn_env c)\<rparr>]"
proof -
  have "dep_id (dwc_deployment d) \<notin> dep_id ` set (v2deployments (retire ids s))"
    using assms by (force simp: retire_def update_deployments_def)
  then have "find_deployment (dep_id (dwc_deployment d)) (retire ids s) = None"
    unfolding find_deployment_def find_None_iff by (metis imageI)
  then show ?thesis
    by (simp add: commit_creation_def save_deployment_def createExecution_def save_execution_def
        Let_def case_prod_beta retire_def update_deployments_def)
qed

text \<open>A creation that runs alone is the transaction of the use case.\<close>

lemma creation_alone:
  assumes "ids_unique s"
  shows "map_option fst (run_creations generate [c] s [Prepare 0, Select 0, Deactivate 0, Commit 0])
     = (case newDeployment generate (cn_request c) s of
          Inl e \<Rightarrow> None
        | Inr d \<Rightarrow> Some (snd (create_transaction (cn_env c) generate (cn_request c) (cn_incoming c) s)))"
proof -
  let ?ids = "current_ids (cn_circle c) s"
  have "dep_id x \<in> set ?ids \<longleftrightarrow> circleId x = cn_circle c \<and> current x"
    if "x \<in> set (v2deployments s)" for x
    using assms that unfolding set_current_ids ids_unique_def by (metis inj_onD distinct_map)
  then have "retire ?ids s = snd (deactivateCurrentCircle (cn_circle c) s)"
    by (auto simp: retire_def deactivateCurrentCircle_def update_deployments_def)
  moreover have "(case ?ids of [] \<Rightarrow> None | x # _ \<Rightarrow> Some x) = fst (deactivateCurrentCircle (cn_circle c) s)"
    by (simp add: current_ids_def deactivateCurrentCircle_def split: list.split)
  moreover have "filter (\<lambda>x. x \<in> set ?ids) ?ids = ?ids" by simp
  ultimately show ?thesis
    by (simp add: run_creations_def locked_by_others_def commit_creation_def create_transaction_def
        case_prod_beta Let_def split: sum.split)
qed

subsection \<open>Which deployments end up current\<close>

fun snapshot :: "stage \<Rightarrow> string set" where
  "snapshot (Selected d ids) = set ids"
| "snapshot (Deactivated d ids) = set ids"
| "snapshot _ = {}"

fun entity_of :: "stage \<Rightarrow> DeploymentWithComponents option" where
  "entity_of (Prepared d) = Some d"
| "entity_of (Selected d ids) = Some d"
| "entity_of (Deactivated d ids) = Some d"
| "entity_of _ = None"

fun selects :: "'k creation list \<Rightarrow> string \<Rightarrow> occurrence \<Rightarrow> bool" where
  "selects cs circle (Select i) \<longleftrightarrow> cn_circle (cs ! i) = circle"
| "selects cs circle _ \<longleftrightarrow> False"

text \<open>The deployments of a circle that no update of the circle has seen: those that were there,
  if there was none, and those committed after the last one started.\<close>

definition unseen :: "'k creation list \<Rightarrow> db \<Rightarrow> string \<Rightarrow> occurrence list \<Rightarrow> string set" where
  "unseen cs s0 circle evs =
     {x. x \<in> set (current_ids circle s0) \<and> \<not> list_ex (selects cs circle) evs}
     \<union> {cn_id (cs ! i) | i as bs. evs = as @ Commit i # bs \<and> i < length cs
          \<and> cn_circle (cs ! i) = circle \<and> \<not> list_ex (selects cs circle) bs}"

lemma unseen_snoc:
  "unseen cs s0 circle (evs @ [e]) =
     (if selects cs circle e then {} else unseen cs s0 circle evs)
     \<union> {cn_id (cs ! i) | i. e = Commit i \<and> i < length cs \<and> cn_circle (cs ! i) = circle}"
  (is "?l = ?r")
proof (intro equalityI subsetI)
  fix x assume "x \<in> ?l"
  then consider "x \<in> set (current_ids circle s0)" "\<not> list_ex (selects cs circle) (evs @ [e])"
    | i as bs where "x = cn_id (cs ! i)" "evs @ [e] = as @ Commit i # bs" "i < length cs"
        "cn_circle (cs ! i) = circle" "\<not> list_ex (selects cs circle) bs"
    by (auto simp: unseen_def)
  then show "x \<in> ?r"
  proof cases
    case 1
    then show ?thesis by (simp add: unseen_def)
  next
    case (2 i as bs)
    then show ?thesis
      by (cases bs rule: rev_cases) (auto simp: unseen_def)
  qed
next
  fix x assume "x \<in> ?r"
  then consider "\<not> selects cs circle e" "x \<in> unseen cs s0 circle evs"
    | i where "x = cn_id (cs ! i)" "e = Commit i" "i < length cs" "cn_circle (cs ! i) = circle"
    by (auto split: if_splits)
  then show "x \<in> ?l"
  proof cases
    case 1
    then consider "x \<in> set (current_ids circle s0)" "\<not> list_ex (selects cs circle) evs"
      | i as bs where "x = cn_id (cs ! i)" "evs = as @ Commit i # bs" "i < length cs"
          "cn_circle (cs ! i) = circle" "\<not> list_ex (selects cs circle) bs"
      by (auto simp: unseen_def)
    then show ?thesis
    proof cases
      case (2 i as bs)
      with 1(1) show ?thesis
        unfolding unseen_def by (intro UnI2 CollectI exI [of _ i] exI [of _ as] exI [of _ "bs @ [e]"]) simp
    qed (use 1(1) in \<open>simp add: unseen_def\<close>)
  next
    case (2 i)
    then show ?thesis
      unfolding unseen_def by (intro UnI2 CollectI exI [of _ i] exI [of _ evs] exI [of _ "[]"]) simp
  qed
qed

lemma unseen_steps:
  "unseen cs s0 circle (evs @ [Deactivate i]) = unseen cs s0 circle evs"
  "cn_circle (cs ! i) = circle \<Longrightarrow> unseen cs s0 circle (evs @ [Select i]) = {}"
  "\<lbrakk>i < length cs; cn_circle (cs ! i) = circle\<rbrakk> \<Longrightarrow>
     unseen cs s0 circle (evs @ [Commit i]) = insert (cn_id (cs ! i)) (unseen cs s0 circle evs)"
  by (auto simp: unseen_snoc)

definition ids_of_circle :: "string \<Rightarrow> db \<Rightarrow> string set" where
  "ids_of_circle c s = dep_id ` {d \<in> set (v2deployments s). circleId d = c}"

lemma current_ids_of_circle: "set (current_ids c s) \<subseteq> ids_of_circle c s"
  by (auto simp: set_current_ids ids_of_circle_def)

lemma current_in_circle:
  assumes "ids_unique s" "x \<in> set (current_ids c s)" "x \<in> ids_of_circle c' s"
  shows "c' = c"
  using assms unfolding set_current_ids ids_of_circle_def ids_unique_def distinct_map inj_on_def by blast

text \<open>The invariant of a run of creations with ids of their own.\<close>

definition creations_inv ::
  "'k creation list \<Rightarrow> db \<Rightarrow> occurrence list \<Rightarrow> db \<times> stage list \<Rightarrow> bool" where
  "creations_inv cs s0 evs = (\<lambda>(s, st).
     length st = length cs \<and> ids_unique s
     \<and> (\<forall>i < length cs. st ! i \<noteq> Committed \<longrightarrow> cn_id (cs ! i) \<notin> dep_id ` set (v2deployments s))
     \<and> (\<forall>i < length cs. \<forall>d. entity_of (st ! i) = Some d \<longrightarrow>
          dep_id (dwc_deployment d) = cn_id (cs ! i)
          \<and> circleId (dwc_deployment d) = cn_circle (cs ! i) \<and> current (dwc_deployment d))
     \<and> (\<forall>i < length cs. snapshot (st ! i) \<subseteq> ids_of_circle (cn_circle (cs ! i)) s)
     \<and> (\<forall>c. \<forall>x \<in> set st. snapshot x \<inter> unseen cs s0 c evs = {})
     \<and> (\<forall>c. unseen cs s0 c evs \<subseteq> set (current_ids c s)
          \<and> set (current_ids c s) \<subseteq> unseen cs s0 c evs \<union> \<Union> (snapshot ` set st)))"

lemma creations_inv_facts:
  assumes "creations_inv cs s0 evs (s, st)"
  shows "length st = length cs" "ids_unique s"
    "\<lbrakk>i < length cs; st ! i \<noteq> Committed\<rbrakk> \<Longrightarrow> cn_id (cs ! i) \<notin> dep_id ` set (v2deployments s)"
    "\<lbrakk>i < length cs; entity_of (st ! i) = Some d\<rbrakk> \<Longrightarrow> dep_id (dwc_deployment d) = cn_id (cs ! i)
      \<and> circleId (dwc_deployment d) = cn_circle (cs ! i) \<and> current (dwc_deployment d)"
    "i < length cs \<Longrightarrow> snapshot (st ! i) \<subseteq> ids_of_circle (cn_circle (cs ! i)) s"
    "x \<in> set st \<Longrightarrow> snapshot x \<inter> unseen cs s0 c evs = {}"
    "unseen cs s0 c evs \<subseteq> set (current_ids c s)"
    "set (current_ids c s) \<subseteq> unseen cs s0 c evs \<union> \<Union> (snapshot ` set st)"
  using assms by (simp_all add: creations_inv_def)

lemma in_set_update:
  assumes "i < length xs" "x \<in> set xs"
  shows "x = xs ! i \<or> x \<in> set (xs[i := y])"
  using assms by (metis in_set_conv_nth length_list_update nth_list_update_neq)

lemma stage_change:
  assumes inv: "creations_inv cs s0 evs (s, st)" and i: "i < length cs" "st ! i \<noteq> Committed" "y \<noteq> Committed"
    and entity: "\<And>d. entity_of y = Some d \<Longrightarrow> dep_id (dwc_deployment d) = cn_id (cs ! i)
      \<and> circleId (dwc_deployment d) = cn_circle (cs ! i) \<and> current (dwc_deployment d)"
    and snap: "snapshot y \<subseteq> ids_of_circle (cn_circle (cs ! i)) s"
    and disjoint: "\<And>c. snapshot y \<inter> unseen cs s0 c (evs @ [e]) = {}"
    and less: "\<And>c. unseen cs s0 c (evs @ [e]) \<subseteq> unseen cs s0 c evs"
    and covered: "\<And>c x. \<lbrakk>x \<in> set (current_ids c s); x \<in> unseen cs s0 c evs \<or> x \<in> snapshot (st ! i)\<rbrakk>
      \<Longrightarrow> x \<in> unseen cs s0 c (evs @ [e]) \<or> x \<in> snapshot y"
  shows "creations_inv cs s0 (evs @ [e]) (s, st[i := y])"
proof -
  note facts = creations_inv_facts [OF inv]
  have il: "i < length st" using i(1) facts(1) by simp
  have "snapshot x \<inter> unseen cs s0 c (evs @ [e]) = {}" if "x \<in> set (st[i := y])" for x c
    using that set_update_subset_insert [of st i y] facts(6) [of x c] less [of c] disjoint [of c] by blast
  moreover have "x \<in> unseen cs s0 c (evs @ [e]) \<union> \<Union> (snapshot ` set (st[i := y]))"
    if cur: "x \<in> set (current_ids c s)" for x c
  proof (cases "x \<in> unseen cs s0 c evs \<or> x \<in> snapshot (st ! i)")
    case True
    then show ?thesis using covered [OF cur] set_update_memI [OF il, of y] by blast
  next
    case False
    then obtain z where z: "z \<in> set st" "x \<in> snapshot z" using subsetD [OF facts(8) cur] by auto
    with False have "z \<noteq> st ! i" by auto
    then show ?thesis using in_set_update [OF il z(1), of y] z(2) by blast
  qed
  ultimately show ?thesis
    using facts(1-5,7) i entity snap less il
    unfolding creations_inv_def split_conv by (simp add: nth_list_update subset_iff)
qed

lemma prepare_inv:
  assumes "creations_inv cs s0 evs (s, st)" "creation_step generate cs (Prepare i) (s, st) = Some p"
  shows "creations_inv cs s0 (evs @ [Prepare i]) p"
proof -
  from assms(2) have i: "i < length cs" "st ! i = Requested" by (auto split: if_splits)
  have *: "creations_inv cs s0 (evs @ [Prepare i]) (s, st[i := y])"
    if "y \<noteq> Committed" "snapshot y = {}" "\<And>d. entity_of y = Some d \<Longrightarrow>
      dep_id (dwc_deployment d) = cn_id (cs ! i) \<and> circleId (dwc_deployment d) = cn_circle (cs ! i)
      \<and> current (dwc_deployment d)" for y
    by (rule stage_change [OF assms(1) i(1)]) (use i that in \<open>auto simp: unseen_snoc\<close>)
  show ?thesis
  proof (cases "newDeployment generate (cn_request (cs ! i)) s")
    case (Inl e)
    then show ?thesis using assms(2) i * [of "RolledBack e"] by simp
  next
    case (Inr d)
    then show ?thesis
      using assms(2) i * [of "Prepared d"] newDeployment_fields [OF Inr] by simp
  qed
qed

lemma select_inv:
  assumes "creations_inv cs s0 evs (s, st)" "creation_step generate cs (Select i) (s, st) = Some p"
  shows "creations_inv cs s0 (evs @ [Select i]) p"
proof -
  note facts = creations_inv_facts [OF assms(1)]
  from assms(2) obtain d where i: "i < length cs" "st ! i = Prepared d"
    and p: "p = (s, st[i := Selected d (current_ids (cn_circle (cs ! i)) s)])"
    by (auto split: if_splits stage.splits)
  show ?thesis
    unfolding p
  proof (rule stage_change [OF assms(1) i(1)])
    fix c
    show "snapshot (Selected d (current_ids (cn_circle (cs ! i)) s)) \<inter> unseen cs s0 c (evs @ [Select i]) = {}"
      using facts(7) [of c] current_in_circle [OF facts(2), of _ c "cn_circle (cs ! i)"]
        current_ids_of_circle [of "cn_circle (cs ! i)" s]
      by (auto simp: unseen_snoc)
  qed (use i facts(4) [OF i(1)] current_ids_of_circle in \<open>auto simp: unseen_snoc\<close>)
qed

lemma deactivate_inv:
  assumes "creations_inv cs s0 evs (s, st)" "creation_step generate cs (Deactivate i) (s, st) = Some p"
  shows "creations_inv cs s0 (evs @ [Deactivate i]) p"
proof -
  note facts = creations_inv_facts [OF assms(1)]
  let ?now = "\<lambda>ids. filter (\<lambda>x. x \<in> set (current_ids (cn_circle (cs ! i)) s)) ids"
  from assms(2) obtain d ids where i: "i < length cs" "st ! i = Selected d ids"
    and p: "p = (s, st[i := Deactivated d (?now ids)])"
    by (auto split: if_splits stage.splits)
  have mem: "st ! i \<in> set st" using i(1) facts(1) by (simp only: nth_mem)
  show ?thesis
    unfolding p
  proof (rule stage_change [OF assms(1) i(1)])
    show "snapshot (Deactivated d (?now ids)) \<inter> unseen cs s0 c (evs @ [Deactivate i]) = {}" for c
      using facts(6) [OF mem, of c] i(2) by (auto simp: unseen_snoc)
    show "x \<in> unseen cs s0 c (evs @ [Deactivate i]) \<or> x \<in> snapshot (Deactivated d (?now ids))"
      if "x \<in> set (current_ids c s)" "x \<in> unseen cs s0 c evs \<or> x \<in> snapshot (st ! i)" for c x
      using that current_in_circle [OF facts(2) that(1), of "cn_circle (cs ! i)"] facts(5) [OF i(1)] i(2)
      by (auto simp: unseen_snoc)
  qed (use i facts(4,5) [OF i(1)] in \<open>auto simp: unseen_snoc\<close>)
qed

lemma commit_ids:
  assumes new: "dep_id (dwc_deployment d) \<notin> dep_id ` set (v2deployments s)" and cur: "current (dwc_deployment d)"
  shows "dep_id ` set (v2deployments (commit_creation c d ids s))
      = insert (dep_id (dwc_deployment d)) (dep_id ` set (v2deployments s))"
    "ids_unique s \<Longrightarrow> ids_unique (commit_creation c d ids s)"
    "set (current_ids circle (commit_creation c d ids s)) = (set (current_ids circle s) - set ids)
      \<union> (if circleId (dwc_deployment d) = circle then {dep_id (dwc_deployment d)} else {})"
    "ids_of_circle circle s \<subseteq> ids_of_circle circle (commit_creation c d ids s)"
proof -
  note rows = commit_rows [OF new, of c ids]
  have "map dep_id (map (\<lambda>x. if dep_id x \<in> set ids then x\<lparr>current := False\<rparr> else x) xs) = map dep_id xs" for xs
    by simp
  then have ids: "map dep_id (v2deployments (commit_creation c d ids s))
      = map dep_id (v2deployments s) @ [dep_id (dwc_deployment d)]"
    unfolding rows map_append by simp
  have "map dep_id (filter (\<lambda>d. circleId d = circle \<and> current d)
      (map (\<lambda>x. if dep_id x \<in> set ids then x\<lparr>current := False\<rparr> else x) xs))
    = filter (\<lambda>x. x \<notin> set ids) (map dep_id (filter (\<lambda>d. circleId d = circle \<and> current d) xs))" for xs
    by (induction xs) simp_all
  then have left: "current_ids circle (commit_creation c d ids s) = filter (\<lambda>x. x \<notin> set ids) (current_ids circle s)
      @ (if circleId (dwc_deployment d) = circle then [dep_id (dwc_deployment d)] else [])"
    using cur unfolding current_ids_def rows filter_append map_append by simp
  show "dep_id ` set (v2deployments (commit_creation c d ids s))
      = insert (dep_id (dwc_deployment d)) (dep_id ` set (v2deployments s))"
    using arg_cong [OF ids, of set] by simp
  show "ids_unique s \<Longrightarrow> ids_unique (commit_creation c d ids s)"
    using new by (simp add: ids_unique_def ids)
  show "set (current_ids circle (commit_creation c d ids s)) = (set (current_ids circle s) - set ids)
      \<union> (if circleId (dwc_deployment d) = circle then {dep_id (dwc_deployment d)} else {})"
    unfolding arg_cong [OF left, of set] using cur by auto
  show "ids_of_circle circle s \<subseteq> ids_of_circle circle (commit_creation c d ids s)"
  proof
    fix x assume "x \<in> ids_of_circle circle s"
    then obtain y where y: "y \<in> set (v2deployments s)" "circleId y = circle" "x = dep_id y"
      by (auto simp: ids_of_circle_def)
    let ?y = "if dep_id y \<in> set ids then y\<lparr>current := False\<rparr> else y"
    have "?y \<in> set (v2deployments (commit_creation c d ids s))" using y(1) unfolding rows by simp
    moreover have "circleId ?y = circle" "dep_id ?y = x" using y(2,3) by simp_all
    ultimately show "x \<in> ids_of_circle circle (commit_creation c d ids s)"
      unfolding ids_of_circle_def by blast
  qed
qed

lemma commit_inv:
  assumes inv: "creations_inv cs s0 evs (s, st)" and step: "creation_step generate cs (Commit i) (s, st) = Some p"
    and own: "distinct (map cn_id cs)"
  shows "creations_inv cs s0 (evs @ [Commit i]) p"
proof -
  note facts = creations_inv_facts [OF inv]
  from step obtain d ids where i: "i < length cs" "st ! i = Deactivated d ids"
    and p: "p = (commit_creation (cs ! i) d ids s, st[i := Committed])"
    by (auto split: if_splits stage.splits)
  have il: "i < length st" and mem: "st ! i \<in> set st" using i(1) facts(1) by (simp_all only: nth_mem)
  have d: "dep_id (dwc_deployment d) = cn_id (cs ! i)" "circleId (dwc_deployment d) = cn_circle (cs ! i)"
    "current (dwc_deployment d)" using facts(4) [OF i(1)] i(2) by simp_all
  have new: "dep_id (dwc_deployment d) \<notin> dep_id ` set (v2deployments s)"
    using facts(3) [OF i(1)] i(2) d(1) by simp
  note after = commit_ids [OF new d(3), where c = "cs ! i" and ids = ids]
  have seen: "unseen cs s0 c (evs @ [Commit i])
      = unseen cs s0 c evs \<union> (if cn_circle (cs ! i) = c then {cn_id (cs ! i)} else {})" for c
    using i(1) by (auto simp: unseen_snoc)
  have stages: "x \<in> set (st[i := Committed]) \<Longrightarrow> x = Committed \<or> x \<in> set st" for x
    using set_update_subset_insert [of st i Committed] by blast
  have old: "snapshot x \<subseteq> dep_id ` set (v2deployments s)" if "x \<in> set st" for x
    using that facts(1,5) unfolding in_set_conv_nth ids_of_circle_def by fastforce
  show ?thesis
    unfolding p creations_inv_def split_conv
  proof (intro conjI allI impI ballI)
    show "cn_id (cs ! j) \<notin> dep_id ` set (v2deployments (commit_creation (cs ! i) d ids s))"
      if "j < length cs" "st[i := Committed] ! j \<noteq> Committed" for j
      using that il facts(3) [of j] d(1) nth_eq_iff_index_eq [OF own, of i j] i(1)
      by (cases "j = i") (simp_all add: after(1))
    show "snapshot x \<inter> unseen cs s0 c (evs @ [Commit i]) = {}" if "x \<in> set (st[i := Committed])" for c x
      using stages [OF that] facts(6) [of x c] old [of x] new d(1) by (auto simp: seen)
    show "unseen cs s0 c (evs @ [Commit i]) \<subseteq> set (current_ids c (commit_creation (cs ! i) d ids s))" for c
      using facts(7) [of c] facts(6) [OF mem, of c] i(2) d by (auto simp: seen after(3))
    show "set (current_ids c (commit_creation (cs ! i) d ids s))
        \<subseteq> unseen cs s0 c (evs @ [Commit i]) \<union> \<Union> (snapshot ` set (st[i := Committed]))" for c
    proof
      fix x assume "x \<in> set (current_ids c (commit_creation (cs ! i) d ids s))"
      then consider "x \<in> set (current_ids c s)" "x \<notin> set ids" | "cn_circle (cs ! i) = c" "x = cn_id (cs ! i)"
        using d by (auto simp: after(3) split: if_splits)
      then show "x \<in> unseen cs s0 c (evs @ [Commit i]) \<union> \<Union> (snapshot ` set (st[i := Committed]))"
      proof cases
        case 1
        then consider "x \<in> unseen cs s0 c evs" | z where "z \<in> set st" "x \<in> snapshot z"
          using subsetD [OF facts(8) [of c], of x] by auto
        then show ?thesis
        proof cases
          case (2 z)
          then show ?thesis using in_set_update [OF il 2(1), of Committed] 1(2) i(2) by auto
        qed (simp add: seen)
      qed (simp add: seen)
    qed
    show "snapshot (st[i := Committed] ! j) \<subseteq> ids_of_circle (cn_circle (cs ! j)) (commit_creation (cs ! i) d ids s)"
      if "j < length cs" for j
      using facts(5) [OF that] after(4) that il by (cases "j = i") (auto simp: nth_list_update)
  qed (use facts(1,2,4) after(2) il in \<open>auto simp: nth_list_update split: if_splits\<close>)
qed

lemma run_creations_inv:
  assumes "run_creations generate cs s0 evs = Some p" "ids_unique s0" "distinct (map cn_id cs)"
    "\<forall>c \<in> set cs. cn_id c \<notin> dep_id ` set (v2deployments s0)"
  shows "creations_inv cs s0 evs p"
  using assms(1)
proof (induction evs arbitrary: p rule: rev_induct)
  case Nil
  then show ?case
    using assms(2,4) by (auto simp: creations_inv_def unseen_def)
next
  case (snoc e evs)
  then obtain s st where q: "run_creations generate cs s0 evs = Some (s, st)"
    and step: "creation_step generate cs e (s, st) = Some p" by (auto split: option.splits)
  note inv = snoc.IH [OF q]
  show ?case
  proof (cases e)
    case (Prepare i)
    with step show ?thesis using prepare_inv [OF inv] by blast
  next
    case (Select i)
    with step show ?thesis using select_inv [OF inv] by blast
  next
    case (Deactivate i)
    with step show ?thesis using deactivate_inv [OF inv] by blast
  next
    case (Commit i)
    with step show ?thesis using commit_inv [OF inv _ assms(3)] by blast
  qed
qed

lemma current_after_creations:
  assumes "run_creations generate cs s evs = Some (t, st)" "list_all ended st" "ids_unique s"
    "distinct (map cn_id cs)" "list_all (\<lambda>c. cn_id c \<notin> dep_id ` set (v2deployments s)) cs"
  shows "set (current_ids circle t) = unseen cs s circle evs"
proof -
  have inv: "creations_inv cs s evs (t, st)"
    using run_creations_inv [OF assms(1,3,4)] assms(5) by (simp add: list_all_iff)
  have "snapshot x = {}" if "x \<in> set st" for x
    using assms(2) that by (cases x) (auto simp: list_all_iff)
  then show ?thesis
    using creations_inv_facts(7,8) [OF inv, of circle] by auto
qed

text \<open>
  C26: creations that run at the same time, in any interleaving of their transactions: when all
  have ended, the current deployments of a circle are exactly those committed after the last
  update of the circle started, and the old one if none did. So one creation after the other
  leaves one, and n creations whose updates all start before the first commit leave n.
\<close>

theorem concurrent_creations:
  assumes "run_creations generate cs s evs = Some (t, st)" "list_all ended st" "ids_unique s"
    "distinct (map cn_id cs)" "list_all (\<lambda>c. cn_id c \<notin> dep_id ` set (v2deployments s)) cs"
  shows "set (current_ids circle t) =
      {x. x \<in> set (current_ids circle s) \<and> \<not> list_ex (selects cs circle) evs}
      \<union> {cn_id (cs ! i) | i as bs. evs = as @ Commit i # bs \<and> i < length cs
           \<and> cn_circle (cs ! i) = circle \<and> \<not> list_ex (selects cs circle) bs}"
  using current_after_creations [OF assms] by (simp add: unseen_def)

text \<open>Two creations of \<open>blue\<close>, which has the current deployment \<open>d1\<close>: the second one waits for the
  first, and does not see what it saved.\<close>

definition ex_creation :: "int \<Rightarrow> string \<Rightarrow> string \<Rightarrow> string \<Rightarrow> (resource_key \<Rightarrow> custom_resource option) creation" where
  "ex_creation t e did tag =
     \<lparr>cn_env = ex_env t e, cn_request = ex_request did tag, cn_incoming = None\<rparr>"

definition ex_overlap :: "occurrence list" where
  "ex_overlap = [Prepare 0, Prepare 1, Select 0, Select 1, Deactivate 0, Commit 0, Deactivate 1, Commit 1]"

definition ex_creations :: "(resource_key \<Rightarrow> custom_resource option) creation list" where
  "ex_creations = [ex_creation 2000 ''e2'' ''d2'' ''v2'', ex_creation 3000 ''e3'' ''d3'' ''v3'']"

lemma committed_last:
  assumes "evs = as @ Commit i # bs" "i < length cs" "cn_circle (cs ! i) = circle" "\<not> list_ex (selects cs circle) bs"
  shows "cn_id (cs ! i) \<in> {cn_id (cs ! i) | i as bs. evs = as @ Commit i # bs \<and> i < length cs
           \<and> cn_circle (cs ! i) = circle \<and> \<not> list_ex (selects cs circle) bs}"
  using assms by blast

lemma ex_creations_simps [simp]:
  "length ex_creations = 2" "cn_id (ex_creations ! 0) = ''d2''" "cn_id (ex_creations ! Suc 0) = ''d3''"
  "cn_circle (ex_creations ! 0) = ''blue''" "cn_circle (ex_creations ! Suc 0) = ''blue''"
  "map cn_id ex_creations = [''d2'', ''d3'']"
  by (simp_all add: ex_creations_def ex_creation_def ex_request_def)

lemma concurrent_creations_witness:
  "\<exists>t st. run_creations ex_generate ex_creations (w_db ex_world1) ex_overlap = Some (t, st)
     \<and> {''d2'', ''d3''} \<subseteq> set (current_ids ''blue'' t)"
proof -
  have "map_option snd (run_creations ex_generate ex_creations (w_db ex_world1) ex_overlap)
      = Some [Committed, Committed]" by code_simp
  then obtain t where run: "run_creations ex_generate ex_creations (w_db ex_world1) ex_overlap
      = Some (t, [Committed, Committed])" by auto
  have wf: "ids_unique (w_db ex_world1)" by (simp add: ids_unique_def ex_rows1)
  have fresh: "list_all (\<lambda>c. cn_id c \<notin> dep_id ` set (v2deployments (w_db ex_world1))) ex_creations"
    by (simp add: ex_rows1 ex_creations_def ex_creation_def ex_request_def ex_row_def)
  have own: "distinct (map cn_id ex_creations)" by simp
  have ended: "list_all ended [Committed, Committed]" by simp
  note last = committed_last [of ex_overlap _ _ _ ex_creations "''blue''"]
  have "cn_id (ex_creations ! 0) \<in> set (current_ids ''blue'' t)"
    unfolding concurrent_creations [OF run ended wf own fresh, of "''blue''"]
    by (rule UnI2, rule last [of "[Prepare 0, Prepare 1, Select 0, Select 1, Deactivate 0]" _
          "[Deactivate 1, Commit 1]"]) (simp_all add: ex_overlap_def)
  moreover have "cn_id (ex_creations ! 1) \<in> set (current_ids ''blue'' t)"
    unfolding concurrent_creations [OF run ended wf own fresh, of "''blue''"]
    by (rule UnI2, rule last [of "[Prepare 0, Prepare 1, Select 0, Select 1, Deactivate 0, Commit 0, Deactivate 1]"
          _ "[]"]) (simp_all add: ex_overlap_def)
  ultimately show ?thesis using run by simp
qed

text \<open>
  So two creations of one circle that overlap both end current, and the second one, which found
  no deployment to replace, has no predecessor to go back to. The schedule is one the database
  allows whatever the circle had before.
\<close>

theorem overlapping_creations_both_current:
  fixes c c' :: "'k creation"
  assumes "newDeployment generate (cn_request c) s = Inr d" "newDeployment generate (cn_request c') s = Inr d'"
    and "cn_circle c = cn_circle c'" "cn_id c \<noteq> cn_id c'" "ids_unique s"
    and "cn_id c \<notin> dep_id ` set (v2deployments s)" "cn_id c' \<notin> dep_id ` set (v2deployments s)"
  shows "\<exists>t. run_creations generate [c, c'] s ex_overlap = Some (t, [Committed, Committed])
    \<and> set (current_ids (cn_circle c) t) = {cn_id c, cn_id c'} \<and> \<not> one_current t"
proof -
  have "locked_by_others 1 [Committed, x] = []" "locked_by_others 0 [Selected x' i, y] = locked y"
    for x x' i y by (simp_all add: locked_by_others_def)
  then obtain t where run: "run_creations generate [c, c'] s ex_overlap = Some (t, [Committed, Committed])"
    using assms(1,2) by (simp add: run_creations_def ex_overlap_def)
  let ?cs = "[c, c']"
  have "set (current_ids (cn_circle c) t) = unseen ?cs s (cn_circle c) ex_overlap"
    by (rule current_after_creations [OF run]) (use assms(4-7) in simp_all)
  also have "\<dots> = {cn_id c, cn_id c'}"
  proof -
    let ?u = "unseen ?cs s (cn_circle c)"
    have "?u ([Prepare 0, Prepare 1, Select 0] @ [Select 1]) = {}"
      using assms(3) by (intro unseen_steps) simp
    then have "?u ((([Prepare 0, Prepare 1, Select 0] @ [Select 1]) @ [Deactivate 0]) @ [Commit 0]) = {cn_id c}"
      by (subst unseen_steps(3)) (simp_all only: unseen_steps(1), simp_all)
    then have "?u (((((([Prepare 0, Prepare 1, Select 0] @ [Select 1]) @ [Deactivate 0]) @ [Commit 0])
        @ [Deactivate 1]) @ [Commit 1])) = {cn_id c', cn_id c}"
      using assms(3) by (subst unseen_steps(3)) (simp_all only: unseen_steps(1), simp_all)
    then show ?thesis by (simp add: ex_overlap_def insert_commute)
  qed
  finally have two: "set (current_ids (cn_circle c) t) = {cn_id c, cn_id c'}" .
  then have "cn_id c \<in> set (current_ids (cn_circle c) t)" "cn_id c' \<in> set (current_ids (cn_circle c) t)" by simp_all
  then have "\<not> one_current t"
    using assms(4) unfolding set_current_ids one_current_def by metis
  with run two show ?thesis by blast
qed

end
