(* ===== verification/Routing.thy ===== *)
theory Routing
  imports Examples
begin

text \<open>
  What the two reconcile hooks and the manifests they answer with promise: traffic is never
  sent to a subset that is not declared, the previous version stays up until the new one is
  ready, a deployment is only healthy when it is ready and routed, every circle of the routing
  resource stands for one deployment.
\<close>

subsection \<open>Proxy manifests\<close>

lemma default_subset:
  "c \<in> set cs \<Longrightarrow> c_circle c \<in> set (map ss_name (getDestinationRulesSubsets cs))"
  by (simp add: subset_names)

lemma deployed_pair_routable:
  assumes "\<And>c. c \<in> set cs \<Longrightarrow> c_name c = nm"
  shows "routable (getVirtualServiceManifest nm ns gw host cs) (getDestinationRulesManifest nm ns cs)"
  unfolding routable_iff
proof
  fix d assume "d \<in> rule_destinations (vs_http (getVirtualServiceManifest nm ns gw host cs))"
  then have "d \<in> circle_destination ` set cs"
    using rules_destinations [of cs] by (auto simp: getVirtualServiceManifest_def)
  then obtain c where "c \<in> set cs" "d = circle_destination c" by blast
  then show "declares (getDestinationRulesManifest nm ns cs) d"
    using assms [of c] default_subset [of c cs]
    by (simp add: declares_def getDestinationRulesManifest_def circle_destination_def)
qed

lemma proxy_manifests_of_groups:
  assumes law: "groupBy_law (group_components lodash)"
  shows "\<exists>gwh. createProxyManifests lodash ns cs = Inr (concat (map (\<lambda>(nm, ms).
      [DestinationRule (getDestinationRulesManifest nm ns ms),
       VirtualService (getVirtualServiceManifest nm ns (fst (gwh ms)) (snd (gwh ms)) ms)])
      (group_components lodash (\<lambda>c. c_name c) cs)))"
proof -
  let ?groups = "group_components lodash (\<lambda>c. c_name c) cs"
  let ?gwh = "\<lambda>ms. (gatewayName (component (the (getLastComponentSnapshot ms))),
                   hostValue (component (the (getLastComponentSnapshot ms))))"
  have last: "getLastComponentSnapshot ms \<noteq> None" if "ms \<noteq> []" for ms
  proof -
    have "rev (sort_by getCreatedAtTimeDiff ms) \<noteq> []"
      using that by (metis length_0_conv length_sort_by rev_is_Nil_conv)
    then show ?thesis by (simp add: getLastComponentSnapshot_def split: list.splits)
  qed
  have "traverse (\<lambda>(nm, ms). createIstioManifests nm ns ms) gs
      = Inr (map (\<lambda>(nm, ms). [DestinationRule (getDestinationRulesManifest nm ns ms),
         VirtualService (getVirtualServiceManifest nm ns (fst (?gwh ms)) (snd (?gwh ms)) ms)]) gs)"
    if "\<forall>p \<in> set gs. snd p \<noteq> []" for gs
    using that last
    by (induction gs) (auto simp: createIstioManifests_def split: option.splits)
  then show ?thesis
    using groupBy_nonempty [OF law] by (intro exI [of _ ?gwh]) (simp add: createProxyManifests_def)
qed

text \<open>
  C10: the proxy manifests the routes hook computes for a namespace always exist, and each
  virtual service comes with the destination rule of the same name and namespace, whose
  subsets cover every destination of its rules: no request is routed to an undeclared subset.
\<close>

theorem proxy_manifests_routable:
  assumes law: "groupBy_law (group_components lodash)"
  shows "\<exists>specs. createProxyManifests lodash ns cs = Inr specs
    \<and> (\<forall>v. VirtualService v \<in> set specs \<longrightarrow>
         (\<exists>r. DestinationRule r \<in> set specs \<and> dr_metadata r = vs_metadata v
            \<and> dr_host r = rm_name (vs_metadata v) \<and> routable v r))
    \<and> (\<forall>c \<in> set cs. \<exists>v. VirtualService v \<in> set specs \<and> rm_name (vs_metadata v) = c_name c)"
proof -
  let ?groups = "group_components lodash (\<lambda>c. c_name c) cs"
  obtain gwh where eq: "createProxyManifests lodash ns cs = Inr (concat (map (\<lambda>(nm, ms).
      [DestinationRule (getDestinationRulesManifest nm ns ms),
       VirtualService (getVirtualServiceManifest nm ns (fst (gwh ms)) (snd (gwh ms)) ms)]) ?groups))"
    using proxy_manifests_of_groups [OF law] by blast
  have names: "c_name c = nm" if "(nm, ms) \<in> set ?groups" "c \<in> set ms" for nm ms c
    using groupBy_member(1) [OF law that(1)] that(2) by simp
  let ?specs = "concat (map (\<lambda>(nm, ms).
      [DestinationRule (getDestinationRulesManifest nm ns ms),
       VirtualService (getVirtualServiceManifest nm ns (fst (gwh ms)) (snd (gwh ms)) ms)]) ?groups)"
  have rule: "\<exists>r. DestinationRule r \<in> set ?specs \<and> dr_metadata r = vs_metadata v
      \<and> dr_host r = rm_name (vs_metadata v) \<and> routable v r" if "VirtualService v \<in> set ?specs" for v
  proof -
    from that obtain nm ms where g: "(nm, ms) \<in> set ?groups"
      and v: "v = getVirtualServiceManifest nm ns (fst (gwh ms)) (snd (gwh ms)) ms" by auto
    have "DestinationRule (getDestinationRulesManifest nm ns ms) \<in> set ?specs" using g by auto
    moreover have "routable v (getDestinationRulesManifest nm ns ms)"
      unfolding v by (rule deployed_pair_routable) (rule names [OF g])
    ultimately show ?thesis
      unfolding v by (intro exI [of _ "getDestinationRulesManifest nm ns ms"])
        (simp add: getDestinationRulesManifest_def getVirtualServiceManifest_def)
  qed
  have service: "\<exists>v. VirtualService v \<in> set ?specs \<and> rm_name (vs_metadata v) = c_name c"
    if c: "c \<in> set cs" for c
  proof -
    obtain ms where "(c_name c, ms) \<in> set ?groups"
      by (rule groupBy_covers [OF law c, where k = "\<lambda>c. c_name c"])
    then have "VirtualService (getVirtualServiceManifest (c_name c) ns (fst (gwh ms)) (snd (gwh ms)) ms)
        \<in> set ?specs" by force
    moreover have "rm_name (vs_metadata (getVirtualServiceManifest (c_name c) ns (fst (gwh ms))
        (snd (gwh ms)) ms)) = c_name c" by (simp add: getVirtualServiceManifest_def)
    ultimately show ?thesis by blast
  qed
  show ?thesis by (intro exI [of _ ?specs]) (use eq rule service in blast)
qed

definition ex_lodash :: routes_lodash where
  "ex_lodash = \<lparr>group_components = groupBy_first, group_status = groupBy_first\<rparr>"

lemma proxy_manifests_routable_witness:
  "\<exists>specs v. createProxyManifests ex_lodash ''ns'' (findActiveComponents (w_db ex_world2)) = Inr specs
     \<and> VirtualService v \<in> set specs \<and> rm_name (vs_metadata v) = ''app''"
proof -
  have "map (\<lambda>c. c_name c) (findActiveComponents (w_db ex_world2)) = [''app'']" by code_simp
  then obtain c where c: "c \<in> set (findActiveComponents (w_db ex_world2))" "c_name c = ''app''" by auto
  have "groupBy_law (group_components ex_lodash)" by (simp add: ex_lodash_def groupBy_first_law)
  from proxy_manifests_routable [OF this, of "''ns''" "findActiveComponents (w_db ex_world2)"] c
  show ?thesis by metis
qed



subsection \<open>An undeployed circle\<close>

lemma undeployed_rules:
  assumes "\<And>c. c \<in> set cs \<Longrightarrow> c_default c \<Longrightarrow> c_circle c \<noteq> circle"
    and d: "d \<in> rule_destinations (getActiveComponentsCircleHTTPRules circle cs)"
  shows "\<exists>c \<in> set cs. d = circle_destination c \<and> c_circle c \<noteq> circle"
proof -
  from d consider (circle) "d \<in> rule_destinations (concat (map (\<lambda>c.
        if isDistinctAndNotDefault c circle then circle_rules c else []) cs))"
    | (default) "d \<in> rule_destinations (default_rule cs)"
    by (auto simp: getActiveComponentsCircleHTTPRules_def rule_destinations_simps)
  then show ?thesis
  proof cases
    case circle
    then show ?thesis
      by (auto simp: rule_destinations_concat rule_destinations_simps circle_rules_destinations
          isDistinctAndNotDefault_def isDistinctCircle_def split: if_splits)
  next
    case default
    then obtain c where c: "List.find c_default cs = Some c" and d: "d = circle_destination c"
      by (cases "List.find c_default cs") (simp_all add: default_rule_def rule_destinations_def
          http_rule_defs circle_destination_def)
    with find_Some_in [OF c] assms(1) [of c] show ?thesis by blast
  qed
qed

text \<open>
  the manifests of a component without an undeployed circle that is not the default one
  route nothing to that circle, still declare every destination they route to, and mention
  the circle neither in a subset nor in the destination rule's annotation.
\<close>

theorem undeployed_circle_is_gone:
  assumes name: "\<And>c. c \<in> set cs \<Longrightarrow> c_name c = comp_name k"
    and default: "\<And>c. c \<in> set cs \<Longrightarrow> c_default c \<Longrightarrow> c_circle c \<noteq> circleId d"
  shows "routable (undeployment_VirtualServiceManifest d k cs)
           (undeployment_DestinationRulesManifest d k cs)
    \<and> (\<forall>x \<in> set (destinations (undeployment_VirtualServiceManifest d k cs)).
         ds_subset x \<noteq> Some (circleId d))
    \<and> circleId d \<notin> set (map ss_name (dr_subsets (undeployment_DestinationRulesManifest d k cs)))
    \<and> JSON_parse (rm_circles (dr_metadata (undeployment_DestinationRulesManifest d k cs)))
        = Some (filter (\<lambda>c. c \<noteq> circleId d) (map c_circle cs))"
proof -
  have http: "vs_http (undeployment_VirtualServiceManifest d k cs)
      = getActiveComponentsCircleHTTPRules (circleId d) cs"
    by (simp add: undeployment_VirtualServiceManifest_def)
  have subsets: "map ss_name (dr_subsets (undeployment_DestinationRulesManifest d k cs))
      = filter (\<lambda>n. n \<noteq> circleId d) (map c_circle cs)"
    by (simp add: undeployment_DestinationRulesManifest_def Let_def active_subsets_names)
  have host: "dr_host (undeployment_DestinationRulesManifest d k cs) = comp_name k"
    by (simp add: undeployment_DestinationRulesManifest_def Let_def)
  have "declares (undeployment_DestinationRulesManifest d k cs) x"
    if x: "x \<in> rule_destinations (getActiveComponentsCircleHTTPRules (circleId d) cs)" for x
  proof -
    obtain c where "c \<in> set cs" "x = circle_destination c" "c_circle c \<noteq> circleId d"
      using undeployed_rules [OF default x] by blast
    then show ?thesis
      using name [of c] by (simp add: declares_def circle_destination_def subsets host)
  qed
  then have routes: "routable (undeployment_VirtualServiceManifest d k cs)
      (undeployment_DestinationRulesManifest d k cs)" by (simp add: routable_iff http)
  have gone: "ds_subset x \<noteq> Some (circleId d)"
    if "x \<in> set (destinations (undeployment_VirtualServiceManifest d k cs))" for x
  proof -
    have "x \<in> rule_destinations (getActiveComponentsCircleHTTPRules (circleId d) cs)"
      using that by (simp add: destinations_def rule_destinations_def http)
    then obtain c where "x = circle_destination c" "c_circle c \<noteq> circleId d"
      using undeployed_rules [OF default] by blast
    then show ?thesis by (simp add: circle_destination_def)
  qed
  have "map (\<lambda>s. lb_circleId (ss_labels s)) (getActiveComponentsSubsets (circleId d) cs)
      = filter (\<lambda>c. c \<noteq> circleId d) (map c_circle cs)"
    by (induction cs) (simp_all add: getActiveComponentsSubsets_def
        getDestinationRulesSubsetObject_def isDistinctCircle_def)
  then have "JSON_parse (rm_circles (dr_metadata (undeployment_DestinationRulesManifest d k cs)))
      = Some (filter (\<lambda>c. c \<noteq> circleId d) (map c_circle cs))"
    by (simp add: undeployment_DestinationRulesManifest_def Let_def JSON_parse_stringify)
  moreover have "circleId d
      \<notin> set (map ss_name (dr_subsets (undeployment_DestinationRulesManifest d k cs)))"
    unfolding subsets by simp
  ultimately show ?thesis using routes gone by blast
qed

text \<open>A component of the open circle and one of the circle \<open>blue\<close>, both active.\<close>

definition ex_active :: "bool \<Rightarrow> string \<Rightarrow> Component" where
  "ex_active isDefault circle =
     \<lparr>component = new_ComponentEntityV2 ''repo'' ''v1'' ''img:v1'' ''app'' ''k1'' None None [] False,
      deployment = (ex_row ''d1'' 1000 None True)\<lparr>circleId := circle, defaultCircle := isDefault\<rparr>\<rparr>"

lemma undeployed_circle_is_gone_witness:
  "routable
     (undeployment_VirtualServiceManifest (deployment (ex_active False ''blue''))
        (component (ex_active False ''blue'')) [ex_active True ''open'', ex_active False ''blue''])
     (undeployment_DestinationRulesManifest (deployment (ex_active False ''blue''))
        (component (ex_active False ''blue'')) [ex_active True ''open'', ex_active False ''blue''])"
  by (rule undeployed_circle_is_gone [THEN conjunct1])
    (auto simp: ex_active_def new_ComponentEntityV2_def ex_row_def)

text \<open>
  C12: undeploying the default circle itself leaves its unguarded rule in the virtual service
  while its subset leaves the destination rule: the pair of manifests is not routable.
\<close>

theorem undeployed_default_is_dangling:
  assumes c: "List.find c_default cs = Some c" and same: "c_circle c = circleId d"
  shows "\<not> routable (undeployment_VirtualServiceManifest d k cs)
           (undeployment_DestinationRulesManifest d k cs)"
proof -
  have "circle_destination c \<in> rule_destinations (vs_http (undeployment_VirtualServiceManifest d k cs))"
    using c by (simp add: undeployment_VirtualServiceManifest_def
        getActiveComponentsCircleHTTPRules_def rule_destinations_simps default_rule_def)
      (simp add: rule_destinations_def http_rule_defs circle_destination_def)
  moreover have "\<not> declares (undeployment_DestinationRulesManifest d k cs) (circle_destination c)"
    using same by (simp add: declares_def circle_destination_def
        undeployment_DestinationRulesManifest_def Let_def active_subsets_names)
  ultimately show ?thesis unfolding routable_iff by blast
qed

lemma undeployed_default_is_dangling_witness:
  "\<not> routable
     (undeployment_VirtualServiceManifest (deployment (ex_active True ''open''))
        (component (ex_active True ''open'')) [ex_active True ''open''])
     (undeployment_DestinationRulesManifest (deployment (ex_active True ''open''))
        (component (ex_active True ''open'')) [ex_active True ''open''])"
  by (rule undeployed_default_is_dangling [where c = "ex_active True ''open''"])
    (simp_all add: ex_active_def)

end
