(* ===== verification/Hooks.thy ===== *)
theory Hooks
  imports Routing
begin

text \<open>
  The answers of the deployment hook (which manifests, when is a deployment healthy) and the
  effect of the routes hook on the \<open>routed\<close> column; the routing resource both rely on.
\<close>

subsection \<open>The desired manifests\<close>

definition labels_of :: "KubernetesManifest \<Rightarrow> object" where
  "labels_of m = (case md_labels (or_empty (m_metadata m)) of None \<Rightarrow> [] | Some l \<Rightarrow> l)"

lemma charles_labels_lookup:
  "map_of (charles_labels d ls) k =
     (if k = ''circleId'' then Some (circleId d)
      else if k = ''deploymentId'' then Some (dep_id d)
      else map_of (case ls of None \<Rightarrow> [] | Some l \<Rightarrow> l) k)"
  by (simp add: charles_labels_def update_conv)

lemma charles_metadata:
  fixes m c d
  defines "m' \<equiv> addCharlesMetadata m c d"
  shows "m_kind m' = m_kind m" "m_apiVersion m' = m_apiVersion m"
    "labels_of m' = charles_labels d (md_labels (or_empty (m_metadata m)))"
    "md_namespace (or_empty (m_metadata m')) = Some (namespace d)"
    "md_rest (or_empty (m_metadata m')) = md_rest (or_empty (m_metadata m))"
    "md_name (or_empty (m_metadata m')) = (if m_kind m = Some ''Deployment''
       then Some (in_template (md_name (or_empty (m_metadata m))) @ ''-'' @ imageTag c @ ''-'' @ dep_id d)
       else md_name (or_empty (m_metadata m)))"
  by (simp_all add: m'_def addCharlesMetadata_def labels_of_def Let_def or_empty_def [of "Some _"])

text \<open>
  C13: every manifest the deployment hook wants is a stored manifest of one of the
  deployment's components, never a Service, put into the deployment's namespace and labelled
  with the deployment and the circle; its other labels are the chart's; a Kubernetes
  Deployment is renamed after the component's tag and the deployment id, so that two versions
  of a component do not share one.
\<close>

theorem desired_manifests_labelled:
  assumes "m' \<in> set (getDesiredManifests dc)"
  shows "\<exists>c \<in> set (dwc_components dc). \<exists>m \<in> set (manifests c).
      m_kind m' = m_kind m \<and> m_kind m' \<noteq> Some ''Service''
    \<and> md_namespace (or_empty (m_metadata m')) = Some (namespace (dwc_deployment dc))
    \<and> map_of (labels_of m') ''deploymentId'' = Some (dep_id (dwc_deployment dc))
    \<and> map_of (labels_of m') ''circleId'' = Some (circleId (dwc_deployment dc))
    \<and> (\<forall>k. k \<notin> {''deploymentId'', ''circleId''} \<longrightarrow> map_of (labels_of m') k = map_of (labels_of m) k)
    \<and> (m_kind m = Some ''Deployment'' \<longrightarrow> (\<exists>n. md_name (or_empty (m_metadata m'))
         = Some (n @ ''-'' @ imageTag c @ ''-'' @ dep_id (dwc_deployment dc))))"
proof -
  from assms obtain c m where c: "c \<in> set (dwc_components dc)" and m: "m \<in> set (manifests c)"
    and kind: "m_kind m \<noteq> Some ''Service''" and m': "m' = addCharlesMetadata m c (dwc_deployment dc)"
    by (auto simp: getDesiredManifests_def)
  note meta = charles_metadata [of m c "dwc_deployment dc", folded m']
  show ?thesis
    by (intro bexI [OF _ c] bexI [OF _ m])
      (simp add: meta charles_labels_lookup kind labels_of_def [of m])
qed

lemma desired_manifests_labelled_witness:
  "\<exists>m'. getDesiredManifests \<lparr>dwc_deployment = ex_row ''d1'' 1000 None True,
        dwc_components = [(component (ex_active False ''blue''))\<lparr>manifests := [ex_manifest ''Deployment'']\<rparr>]\<rparr>
      = [m'] \<and> map_of (labels_of m') ''deploymentId'' = Some ''d1''"
proof -
  let ?dc = "\<lparr>dwc_deployment = ex_row ''d1'' 1000 None True,
    dwc_components = [(component (ex_active False ''blue''))\<lparr>manifests := [ex_manifest ''Deployment'']\<rparr>]\<rparr>"
  obtain m' where m': "getDesiredManifests ?dc = [m']"
    by (simp add: getDesiredManifests_def ex_manifest_def)
  then have "m' \<in> set (getDesiredManifests ?dc)" by simp
  from desired_manifests_labelled [OF this] m' show ?thesis by (auto simp: ex_row_def)
qed

subsection \<open>The deployment hook\<close>

text \<open>
  C14: while a new version is not ready and there is a previous one, the hook answers with
  manifests of both: everything the previous version wants stays, as the previous version
  wants it, everything else the new version wants is added, and no two have the same name and
  kind.
\<close>

theorem previous_version_stays:
  assumes law: "uniqWith_law uniqWith"
    and d: "find_deployment (hp_deploymentId params) (w_db w) = Some d"
    and prev: "previousDeploymentId d = Some p" "find_deployment p (w_db w) = Some pd"
    and created: "checkIfResourcesWereCreated params"
    and not_ready: "\<not> checkIfDeploymentIsReady params (dep_id d)"
  defines "wanted x \<equiv> getDesiredManifests
    \<lparr>dwc_deployment = x, dwc_components = components_of (dep_id x) (w_db w)\<rparr>"
  shows "\<exists>children. reconcile_deployment env uniqBy uniqWith params w
      = (Inr \<lparr>hr_children = children, hr_resyncAfterSeconds = Some 5\<rparr>, w)
    \<and> (\<forall>m \<in> set (wanted pd). \<exists>m' \<in> set children. isNameAndKindEqual m' m \<and> m' \<in> set (wanted pd))
    \<and> (\<forall>m \<in> set (wanted d). \<exists>m' \<in> set children. isNameAndKindEqual m' m)
    \<and> set children \<subseteq> set (wanted pd) \<union> set (wanted d)
    \<and> (\<forall>i j. i < j \<longrightarrow> j < length children \<longrightarrow> \<not> isNameAndKindEqual (children ! i) (children ! j))"
proof -
  let ?all = "uniqWith isNameAndKindEqual (wanted pd @ wanted d)"
  let ?old = "uniqWith isNameAndKindEqual (wanted pd)"
  have refl: "\<forall>m. isNameAndKindEqual m m" by (simp add: isNameAndKindEqual_def)
  have dwith: "findWithComponentsAndConfig (hp_deploymentId params) (w_db w)
      = (Inr \<lparr>dwc_deployment = d, dwc_components = components_of (dep_id d) (w_db w)\<rparr>, w_db w)"
    using d find_deployment_Some [OF d] by (simp add: findWithComponentsAndConfig_def)
  have pwith: "findWithComponentsAndConfig p (w_db w)
      = (Inr \<lparr>dwc_deployment = pd, dwc_components = components_of (dep_id pd) (w_db w)\<rparr>, w_db w)"
    using prev(2) find_deployment_Some [OF prev(2)] by (simp add: findWithComponentsAndConfig_def)
  have run: "reconcile_deployment env uniqBy uniqWith params w
      = (Inr \<lparr>hr_children = ?all, hr_resyncAfterSeconds = Some 5\<rparr>, w)"
    using created not_ready prev(1)
    by (simp add: reconcile_deployment_def await_def on_db_def dwith pwith ret_def wanted_def Let_def)
  have all: "set ?all \<subseteq> set (wanted pd @ wanted d)"
    "\<forall>m \<in> set (wanted pd @ wanted d). \<exists>m' \<in> set ?all. isNameAndKindEqual m' m"
    "\<forall>i j. i < j \<longrightarrow> j < length ?all \<longrightarrow> \<not> isNameAndKindEqual (?all ! i) (?all ! j)"
    using law refl unfolding uniqWith_law_def by blast+
  have old: "set ?old \<subseteq> set (wanted pd)"
    "\<forall>m \<in> set (wanted pd). \<exists>m' \<in> set ?old. isNameAndKindEqual m' m"
    using law refl unfolding uniqWith_law_def by blast+
  have "\<exists>zs. ?all = ?old @ zs" using law refl unfolding uniqWith_law_def by blast
  then have "set ?old \<subseteq> set ?all" by auto
  with old have "\<forall>m \<in> set (wanted pd). \<exists>m' \<in> set ?all. isNameAndKindEqual m' m \<and> m' \<in> set (wanted pd)"
    by blast
  moreover have "\<forall>m \<in> set (wanted d). \<exists>m' \<in> set ?all. isNameAndKindEqual m' m" using all(2) by simp
  moreover have "set ?all \<subseteq> set (wanted pd) \<union> set (wanted d)" using all(1) by simp
  ultimately show ?thesis using run all(3) by blast
qed

definition ex_params :: "bool \<Rightarrow> HookParams" where
  "ex_params ready =
     \<lparr>hp_deploymentId = ''d2'',
      hp_deployments = [(''app'', \<lparr>od_deploymentId = Some ''d2'', od_conditions =
        [\<lparr>cn_type = ''Available'', cn_reason = ''MinimumReplicasAvailable'',
           cn_status = (if ready then ''True'' else ''False'')\<rparr>,
         \<lparr>cn_type = ''Progressing'', cn_reason = ''NewReplicaSetAvailable'', cn_status = ''True''\<rparr>]\<rparr>)]\<rparr>"

lemma previous_version_stays_witness:
  "\<exists>children. reconcile_deployment (ex_env 3000 ''e3'') uniqBy_first uniqWith_first (ex_params False)
      ex_world2 = (Inr \<lparr>hr_children = children, hr_resyncAfterSeconds = Some 5\<rparr>, ex_world2)"
proof -
  have d: "find_deployment (hp_deploymentId (ex_params False)) (w_db ex_world2)
      = Some (ex_row ''d2'' 2000 (Some ''d1'') True)"
    and p: "find_deployment ''d1'' (w_db ex_world2) = Some (ex_row ''d1'' 1000 None False)"
    by (simp_all add: find_deployment_def ex_rows2 ex_row_def ex_params_def)
  have "previousDeploymentId (ex_row ''d2'' 2000 (Some ''d1'') True) = Some ''d1''"
    "checkIfResourcesWereCreated (ex_params False)"
    "\<not> checkIfDeploymentIsReady (ex_params False) (dep_id (ex_row ''d2'' 2000 (Some ''d1'') True))"
    by code_simp+
  with previous_version_stays [OF uniqWith_first_law d _ p, of "ex_env 3000 ''e3''" uniqBy_first]
  show ?thesis by blast
qed

lemma update_health_run:
  assumes "find_deployment did (w_db w) = Some d"
  shows "\<exists>x. on_db (updateHealthStatus did st) w
    = (Inr x, w\<lparr>w_db := update_deployments (\<lambda>d. dep_id d = did) (\<lambda>d. d\<lparr>healthy := st\<rparr>) (w_db w)\<rparr>)"
proof -
  let ?s = "update_deployments (\<lambda>d. dep_id d = did) (\<lambda>d. d\<lparr>healthy := st\<rparr>) (w_db w)"
  note row = find_deployment_Some [OF assms]
  then have "d \<in> set (filter (\<lambda>d. dep_id d = did) (v2deployments (w_db w)))" by simp
  then obtain x xs where xs: "filter (\<lambda>d. dep_id d = did) (v2deployments (w_db w)) = x # xs"
    by (cases "filter (\<lambda>d. dep_id d = did) (v2deployments (w_db w))") simp_all
  then have "x \<in> set (filter (\<lambda>d. dep_id d = did) (v2deployments (w_db w)))" by simp
  then have "dep_id x = did" by simp
  moreover have "find_deployment did ?s \<noteq> None"
    using assms by (simp add: health.find_after)
  ultimately show ?thesis
    by (auto simp: on_db_def updateHealthStatus_def update_returning_def xs findOneOrFail_def)
qed

definition mark_healthy :: "string \<Rightarrow> bool \<Rightarrow> db \<Rightarrow> db" where
  "mark_healthy did st = update_deployments (\<lambda>x. dep_id x = did) (\<lambda>x. x\<lparr>healthy := st\<rparr>)"

text \<open>The three ways a run of the hook ends.\<close>

lemma reconcile_deployment_outcomes:
  fixes env :: "'k env" and w :: "'k world"
  assumes d: "find_deployment (hp_deploymentId params) (w_db w) = Some d"
    and run: "reconcile_deployment env uniqBy uniqWith params w = (Inr resp, w')"
  defines "ready \<equiv> checkIfResourcesWereCreated params \<and> checkIfDeploymentIsReady params (dep_id d)"
    and "route \<equiv> applyRoutingCustomResource env uniqBy (findActiveComponents (w_db w)) w"
  obtains (wait) "\<not> ready" "hr_resyncAfterSeconds resp = Some 5" "w' = w"
    | (lower) "\<not> (ready \<and> fst route = Inr ())" "hr_resyncAfterSeconds resp = Some 5"
        "w_db w' = mark_healthy (dep_id d) False (w_db w)"
    | (raise) "ready" "fst route = Inr ()" "hr_resyncAfterSeconds resp = None"
        "w_db w' = mark_healthy (dep_id d) True (w_db w)"
proof -
  let ?dc = "\<lparr>dwc_deployment = d, dwc_components = components_of (dep_id d) (w_db w)\<rparr>"
  let ?waiting = "\<lparr>hr_children = getDesiredManifests ?dc, hr_resyncAfterSeconds = Some 5\<rparr>"
  have id: "dep_id d = hp_deploymentId params" using find_deployment_Some [OF d] by simp
  have dwith: "findWithComponentsAndConfig (hp_deploymentId params) (w_db w) = (Inr ?dc, w_db w)"
    using d id by (simp add: findWithComponentsAndConfig_def)
  have marked: "\<exists>x. on_db (updateHealthStatus (dep_id d) st) k
      = (Inr x, k\<lparr>w_db := mark_healthy (dep_id d) st (w_db w)\<rparr>)"
    if "w_db k = w_db w" for st and k :: "'k world"
    using update_health_run [of "dep_id d" k d st] d id that by (simp add: mark_healthy_def)
  note unfold = reconcile_deployment_def Let_def await_def [of "on_db (findWithComponentsAndConfig _)"]
    on_db_def [of "findWithComponentsAndConfig _"] dwith
  have pure: "s' = s" if "findWithComponentsAndConfig i s = (r, s')" for i s r s'
    using that findWithComponents_state [of i s] by simp
  show ?thesis
  proof (cases ready)
    case False
    show ?thesis
    proof (cases "checkIfResourcesWereCreated params \<and> previousDeploymentId d = None")
      case True
      obtain x where "on_db (updateHealthStatus (dep_id d) False) w
          = (Inr x, w\<lparr>w_db := mark_healthy (dep_id d) False (w_db w)\<rparr>)" using marked by blast
      then have "hr_resyncAfterSeconds resp = Some 5
          \<and> w_db w' = mark_healthy (dep_id d) False (w_db w)"
        using run True False unfolding ready_def
        by (auto simp: unfold await_then_def await_def ret_def)
      with False show ?thesis by (intro lower) simp_all
    next
      case old: False
      have "hr_resyncAfterSeconds resp = Some 5 \<and> w' = w"
        using run False old unfolding ready_def
        by (cases "previousDeploymentId d")
          (auto simp: unfold ret_def dest!: pure split: prod.splits sum.splits if_splits)
      with False show ?thesis by (intro wait) simp_all
    qed
  next
    case True
    obtain r k where r: "route = (r, k)" by fastforce
    then have k: "w_db k = w_db w"
      using cluster_calls_frame(3) [of env uniqBy _ w] unfolding route_def by (metis snd_conv)
    obtain x y where "on_db (updateHealthStatus (dep_id d) True) k
        = (Inr x, k\<lparr>w_db := mark_healthy (dep_id d) True (w_db w)\<rparr>)"
      "on_db (updateHealthStatus (dep_id d) False) k
        = (Inr y, k\<lparr>w_db := mark_healthy (dep_id d) False (w_db w)\<rparr>)" using marked [OF k] by metis
    then have "hr_resyncAfterSeconds resp = (if r = Inr () then None else Some 5)
        \<and> w_db w' = mark_healthy (dep_id d) (r = Inr ()) (w_db w)"
      using run True r unfolding ready_def route_def
      by (cases r) (auto simp: unfold await_then_def await_def try_catch_def ret_def)
    with True r lower raise show ?thesis by (cases "r = Inr ()") simp_all
  qed
qed

text \<open>
  C15: one run of the deployment hook on an existing deployment: it asks not to be called
  again exactly when the resources exist, the deployment is ready and the routing resource
  was applied, and then the deployment is marked healthy; in every other case no deployment
  becomes healthy that was not.
\<close>

theorem healthy_when_ready_and_routed:
  assumes d: "find_deployment (hp_deploymentId params) (w_db w) = Some d"
    and run: "reconcile_deployment env uniqBy uniqWith params w = (Inr resp, w')"
  shows "(hr_resyncAfterSeconds resp = None \<longleftrightarrow>
           checkIfResourcesWereCreated params \<and> checkIfDeploymentIsReady params (dep_id d)
           \<and> fst (applyRoutingCustomResource env uniqBy (findActiveComponents (w_db w)) w) = Inr ())
    \<and> (hr_resyncAfterSeconds resp = None \<longrightarrow>
         (\<forall>x \<in> set (v2deployments (w_db w')). dep_id x = dep_id d \<longrightarrow> healthy x))
    \<and> (hr_resyncAfterSeconds resp \<noteq> None \<longrightarrow>
         (\<forall>x \<in> set (v2deployments (w_db w')). healthy x \<longrightarrow>
            (\<exists>y \<in> set (v2deployments (w_db w)). dep_id y = dep_id x \<and> healthy y)))"
proof -
  have lowered: "\<exists>y \<in> set (v2deployments (w_db w)). dep_id y = dep_id x \<and> healthy y"
    if "x \<in> set (v2deployments (mark_healthy (dep_id d) False (w_db w)))" "healthy x" for x
    using that by (auto simp: mark_healthy_def row_simps split: if_splits)
  have raised: "healthy x"
    if "x \<in> set (v2deployments (mark_healthy (dep_id d) True (w_db w)))" "dep_id x = dep_id d" for x
    using that by (auto simp: mark_healthy_def row_simps split: if_splits)
  from d run show ?thesis
  proof (cases rule: reconcile_deployment_outcomes)
    case wait
    then show ?thesis by auto
  next
    case lower
    then show ?thesis using lowered by auto
  next
    case raise
    then show ?thesis using raised by auto
  qed
qed

definition ex_world2_routed :: map_world where
  "ex_world2_routed = ex_world2\<lparr>w_cluster := (w_cluster ex_world2)
     (key_of (buildRoutingCrdManifest uniqBy_first [] ''butler'') \<mapsto>
        buildRoutingCrdManifest uniqBy_first [] ''butler'')\<rparr>"

lemma healthy_when_ready_and_routed_witness:
  "\<exists>x \<in> set (v2deployments (w_db (snd (reconcile_deployment (ex_env 3000 ''e3'') uniqBy_first
      uniqWith_first (ex_params True) ex_world2_routed)))). dep_id x = ''d2'' \<and> healthy x"
proof -
  let ?run = "reconcile_deployment (ex_env 3000 ''e3'') uniqBy_first uniqWith_first
    (ex_params True) ex_world2_routed"
  have d: "find_deployment (hp_deploymentId (ex_params True)) (w_db ex_world2_routed)
      = Some (ex_row ''d2'' 2000 (Some ''d1'') True)"
    by (simp add: find_deployment_def ex_world2_routed_def ex_rows2 ex_row_def ex_params_def)
  have ends: "(case fst ?run of Inr r \<Rightarrow> hr_resyncAfterSeconds r = None | Inl _ \<Rightarrow> False)"
    "''d2'' \<in> dep_id ` set (v2deployments (w_db (snd ?run)))" by code_simp+
  from ends(1) obtain resp w' where run: "?run = (Inr resp, w')" and resp: "hr_resyncAfterSeconds resp = None"
    by (cases ?run) (auto split: sum.splits)
  from healthy_when_ready_and_routed [OF d run] resp ends(2) run show ?thesis
    by (auto simp: ex_row_def)
qed

subsection \<open>The routing resource\<close>

lemma active_component:
  assumes "c \<in> set (findActiveComponents s)"
  shows "current (deployment c) \<and> deployment c \<in> set (v2deployments s)
    \<and> component c \<in> set (v2components s) \<and> deployment_id (component c) = dep_id (deployment c)"
proof -
  have "current (deployment c)" and joined: "c \<in> set (joined_components s)"
    using assms by (simp_all add: findActiveComponents_def by_created_at_desc_def)
  from joined obtain k d where "k \<in> set (v2components s)" "find_deployment (deployment_id k) s = Some d"
    "c = \<lparr>component = k, deployment = d\<rparr>"
    by (auto simp: joined_components_def map_filter_def split: option.splits)
  with find_deployment_Some [of "deployment_id k" s d] \<open>current (deployment c)\<close> show ?thesis by simp
qed

lemma uniq_rows:
  assumes law: "uniqBy_law uniqBy"
  shows "set (uniqBy k xs) \<subseteq> set xs" "distinct (map k (uniqBy k xs))"
    "k ` set (uniqBy k xs) = k ` set xs"
  using law unfolding uniqBy_law_def by blast+

lemma active_deployment:
  assumes w: "reachable w" and c: "c \<in> set (findActiveComponents (w_db w))"
  shows "current (deployment c)" "deployment c \<in> set (v2deployments (w_db w))"
  using active_component [OF c] by simp_all

lemma active_same_circle:
  assumes w: "reachable w" and c: "c \<in> set (findActiveComponents (w_db w))"
    and c': "c' \<in> set (findActiveComponents (w_db w))"
  shows "dep_id (deployment c) = dep_id (deployment c') \<longleftrightarrow> c_circle c = c_circle c'"
    and "c_circle c = c_circle c' \<longleftrightarrow> deployment c = deployment c'"
proof -
  have "db_wf (w_db w)" by (rule reachable_wf [OF w])
  then have ids: "ids_unique (w_db w)" and one: "one_current (w_db w)" by (simp_all add: db_wf_def)
  note act = active_deployment [OF w c] active_deployment [OF w c']
  have "deployment c = deployment c'" if "c_circle c = c_circle c'"
    using act that one unique_row [OF ids] unfolding one_current_def by blast
  moreover have "deployment c = deployment c'" if "dep_id (deployment c) = dep_id (deployment c')"
    using unique_row [OF ids act(2) act(4) that] .
  ultimately show "dep_id (deployment c) = dep_id (deployment c') \<longleftrightarrow> c_circle c = c_circle c'"
    and "c_circle c = c_circle c' \<longleftrightarrow> deployment c = deployment c'" by auto
qed

text \<open>The deployments of the active components, each once: one for each circle.\<close>

lemma routed_deployments:
  assumes law: "uniqBy_law uniqBy" and w: "reachable w"
  defines "active \<equiv> findActiveComponents (w_db w)"
  defines "ds \<equiv> uniqBy dep_id (map deployment active)"
  shows "set ds = deployment ` set active" "distinct (map circleId ds)"
proof -
  have sub: "set ds \<subseteq> deployment ` set active"
    using uniq_rows(1) [OF law, of dep_id "map deployment active"] by (simp add: ds_def)
  moreover have "deployment c \<in> set ds" if c: "c \<in> set active" for c
  proof -
    have "dep_id (deployment c) \<in> dep_id ` set ds"
      using uniq_rows(3) [OF law, of dep_id "map deployment active"] c by (auto simp: ds_def)
    then obtain c' where "c' \<in> set active" "dep_id (deployment c) = dep_id (deployment c')"
        "deployment c' \<in> set ds"
      using sub by auto
    then show ?thesis
      using active_same_circle [OF w, of c c'] c by (simp add: active_def)
  qed
  ultimately show "set ds = deployment ` set active" by auto
  have "inj_on circleId (set ds)"
  proof (rule inj_onI)
    fix x y
    assume "x \<in> set ds" "y \<in> set ds" and eq: "circleId x = circleId y"
    then have "x \<in> deployment ` set active" "y \<in> deployment ` set active"
      using sub by blast+
    then obtain c c' where "c \<in> set active" "c' \<in> set active" "x = deployment c" "y = deployment c'"
      by blast
    then show "x = y"
      using active_same_circle(2) [OF w, of c c'] eq by (simp add: active_def)
  qed
  moreover have "distinct ds"
    using uniq_rows(2) [OF law, of dep_id "map deployment active"] by (simp add: ds_def distinct_map)
  ultimately show "distinct (map circleId ds)" by (simp add: distinct_map)
qed



subsection \<open>From the request to the custom resource\<close>

text \<open>
  C17: with a working API server, a request whose id is new and whose charts render answers
  with its id, and the custom resource of the circle, created or patched, names the new
  deployment and its components.
\<close>

theorem creation_reaches_cluster:
  assumes law: "object_api_law env v" and fresh: "find_deployment (rq_deploymentId r) (w_db w) = None"
    and new: "newDeployment generate r (w_db w) = Inr d"
  shows "\<exists>w' x s. create_deployment env generate r incoming w = (Inr (rq_deploymentId r), w')
    \<and> v (w_cluster w') (CHARLES_CUSTOM_RESOURCE_DEPLOYMENT_KIND, butlerNamespace env,
          circle_id (rq_circle r)) = Some x
    \<and> cr_spec x = CharlesDeployment s \<and> cds_deploymentId s = rq_deploymentId r
    \<and> map (\<lambda>c. (cdc_name c, cdc_tag c)) (cds_components s)
        = map (\<lambda>c. (comp_name c, imageTag c)) (dwc_components d)"
proof -
  note fields = newDeployment_fields [OF new]
  let ?circle = "circle_id (rq_circle r)"
  obtain comps e t where ct: "create_transaction env generate r incoming (w_db w)
      = (Inr (\<lparr>dwc_deployment = (dwc_deployment d)\<lparr>previousDeploymentId :=
           fst (deactivateCurrentCircle ?circle (w_db w)), createdAt := env_now env\<rparr>,
         dwc_components = comps\<rparr>, e), t)"
    and comps: "map (\<lambda>c. (comp_name c, imageTag c)) comps
      = map (\<lambda>c. (comp_name c, imageTag c)) (dwc_components d)"
    using create_transaction_components [OF new fresh, where env = env and incoming = incoming] by blast
  let ?row = "(dwc_deployment d)\<lparr>previousDeploymentId :=
    fst (deactivateCurrentCircle ?circle (w_db w)), createdAt := env_now env\<rparr>"
  obtain k x where app: "applyDeploymentCustomResource env ?row (Some comps) (w\<lparr>w_db := t\<rparr>) = (Inr (), k)"
    and view: "v (w_cluster k) = (v (w_cluster (w\<lparr>w_db := t\<rparr>)))
      (key_of (deployment_manifest env ?row (Some comps)) \<mapsto> x)"
    and spec: "cr_spec x = cr_spec (deployment_manifest env ?row (Some comps))"
    using law by (rule apply_upsert)
  have cluster: "w_cluster (snd (create_deployment env generate r incoming w)) = w_cluster k"
    using app by (simp add: create_deployment_def await_def transaction_def on_db_def ct await_then_def
        try_catch_def findOneOrFail_def ret_def split: option.splits)
  have "fst (create_deployment env generate r incoming w) = Inr (rq_deploymentId r)"
    using create_deployment_result [OF fresh, of env generate incoming] new by simp
  then have run: "create_deployment env generate r incoming w
      = (Inr (rq_deploymentId r), snd (create_deployment env generate r incoming w))"
    by (metis prod.collapse)
  have key: "key_of (deployment_manifest env ?row (Some comps))
      = (CHARLES_CUSTOM_RESOURCE_DEPLOYMENT_KIND, butlerNamespace env, ?circle)"
    using fields by (simp add: key_of_def deployment_manifest_def buildDeploymentCrdManifest_def)
  obtain sp where sp: "cr_spec x = CharlesDeployment sp" "cds_deploymentId sp = rq_deploymentId r"
    "map (\<lambda>c. (cdc_name c, cdc_tag c)) (cds_components sp) = map (\<lambda>c. (comp_name c, imageTag c)) comps"
    using spec fields by (simp add: deployment_manifest_def buildDeploymentCrdManifest_def
        getDeploymentCrdComponents_def comp_def)
  have "v (w_cluster (snd (create_deployment env generate r incoming w)))
      (CHARLES_CUSTOM_RESOURCE_DEPLOYMENT_KIND, butlerNamespace env, ?circle) = Some x"
    unfolding view key cluster by simp
  moreover have "map (\<lambda>c. (cdc_name c, cdc_tag c)) (cds_components sp)
      = map (\<lambda>c. (comp_name c, imageTag c)) (dwc_components d)" using sp(3) comps by simp
  ultimately show ?thesis using run sp(1,2) by blast
qed

lemma creation_reaches_cluster_witness:
  "\<exists>w'. create_deployment (ex_env 3000 ''e3'') ex_generate (ex_request ''d3'' ''v3'') None ex_world2
     = (Inr ''d3'', w')"
proof -
  have law: "object_api_law (ex_env 3000 ''e3'') (\<lambda>k. k)"
    using map_env_law [of "''butler''" 3000] by (simp add: object_api_law_def ex_env_def)
  have fresh: "find_deployment (rq_deploymentId (ex_request ''d3'' ''v3'')) (w_db ex_world2) = None"
    by (simp add: find_deployment_def ex_rows2 ex_row_def ex_request_def)
  obtain d where "newDeployment ex_generate (ex_request ''d3'' ''v3'') (w_db ex_world2) = Inr d"
    by (auto simp: newDeployment_def createCircleDeployment_def request_components_def
        getDeploymentComponents_def getManifestsFor_def ex_generate_def traverse_total ex_request_def)
  from creation_reaches_cluster [OF law fresh this, of None] show ?thesis
    by (auto simp: ex_request_def)
qed

end
