(* ===== verification/Handover.thy ===== *)
theory Handover
  imports Hooks Interleaving
begin

text \<open>
  From the tables to the cluster. \<open>execute\<close> of \<open>create-deployment.usecase.ts\<close> commits its
  transaction and only then applies the custom resource of the circle, so that two creations
  may apply in another order than they committed. The phases are steps here: a creation saves
  its deployment (or fails, and its transaction is rolled back), and later applies what it
  saved. The transactions themselves are whole, what happens inside them is in \<open>Interleaving\<close>.
\<close>

datatype phase = Waiting | Saved DeploymentWithComponents | Applied | Failed app_error

datatype handover_event = Saves nat | Fails nat | Applies nat

definition save_phase ::
  "manifest_generator \<Rightarrow> 'k creation \<Rightarrow> ('k world, DeploymentWithComponents \<times> Execution) action" where
  "save_phase generate c =
     transaction (on_db (create_transaction (cn_env c) generate (cn_request c) (cn_incoming c)))"

definition apply_phase :: "'k env \<Rightarrow> DeploymentWithComponents \<Rightarrow> ('k world, unit) action" where
  "apply_phase env saved =
     try_catch (applyDeploymentCustomResource env (dwc_deployment saved) (Some (dwc_components saved)))
       (\<lambda>error. ret ())"

text \<open>One step of one creation; \<open>None\<close> when it is not its next one.\<close>

fun handover_step ::
  "manifest_generator \<Rightarrow> 'k creation list \<Rightarrow> handover_event \<Rightarrow> 'k world \<times> phase list
    \<Rightarrow> ('k world \<times> phase list) option" where
  "handover_step generate cs (Saves i) (w, st) =
     (if i < length cs \<and> st ! i = Waiting then
        (case save_phase generate (cs ! i) w of
           (Inl e, w') \<Rightarrow> None
         | (Inr (saved, execution), w') \<Rightarrow> Some (w', st[i := Saved saved]))
      else None)"
| "handover_step generate cs (Fails i) (w, st) =
     (if i < length cs \<and> st ! i = Waiting then
        (case save_phase generate (cs ! i) w of
           (Inl e, w') \<Rightarrow> Some (w', st[i := Failed e])
         | (Inr _, w') \<Rightarrow> None)
      else None)"
| "handover_step generate cs (Applies i) (w, st) =
     (if i < length cs then
        (case st ! i of
           Saved saved \<Rightarrow> Some (snd (apply_phase (cn_env (cs ! i)) saved w), st[i := Applied])
         | _ \<Rightarrow> None)
      else None)"

primrec handover_from ::
  "manifest_generator \<Rightarrow> 'k creation list \<Rightarrow> 'k world \<times> phase list \<Rightarrow> handover_event list
    \<Rightarrow> ('k world \<times> phase list) option" where
  "handover_from generate cs p [] = Some p"
| "handover_from generate cs p (e # evs) =
     Option.bind (handover_step generate cs e p) (\<lambda>q. handover_from generate cs q evs)"

definition run_handover ::
  "manifest_generator \<Rightarrow> 'k creation list \<Rightarrow> 'k world \<Rightarrow> handover_event list
    \<Rightarrow> ('k world \<times> phase list) option" where
  "run_handover generate cs w = handover_from generate cs (w, replicate (length cs) Waiting)"

lemma handover_append:
  "handover_from generate cs p (as @ bs) =
     Option.bind (handover_from generate cs p as) (\<lambda>q. handover_from generate cs q bs)"
  by (induction as arbitrary: p) (simp_all add: Option.bind_assoc)

lemma apply_phase_result: "fst (apply_phase env saved w) = Inr ()"
  by (simp add: apply_phase_def try_catch_def ret_def split: prod.splits sum.splits)

text \<open>A creation that runs alone leaves the world that the use case leaves.\<close>

lemma handover_alone:
  assumes "newDeployment generate (cn_request c) (w_db w) = Inr d"
  shows "map_option fst (run_handover generate [c] w [Saves 0, Applies 0])
    = Some (snd (create_deployment (cn_env c) generate (cn_request c) (cn_incoming c) w))"
proof -
  obtain saved e w' where save: "save_phase generate c w = (Inr (saved, e), w')"
    using assms by (simp add: save_phase_def transaction_def on_db_def create_transaction_def
        Let_def case_prod_beta)
  obtain w'' where app: "apply_phase (cn_env c) saved w' = (Inr (), w'')"
    using apply_phase_result by (metis prod.collapse)
  have "snd (create_deployment (cn_env c) generate (cn_request c) (cn_incoming c) w) = w''"
    using save app
    by (simp add: create_deployment_def save_phase_def apply_phase_def await_def await_then_def
        on_db_def findOneOrFail_def ret_def split: option.splits)
  with save app show ?thesis by (simp add: run_handover_def)
qed

subsection \<open>What a step does\<close>

lemma save_phase_rows:
  assumes run: "save_phase generate c w = (Inr (saved, e), w')"
    and fresh: "cn_id c \<notin> dep_id ` set (v2deployments (w_db w))"
  shows "dep_id (dwc_deployment saved) = cn_id c" "circleId (dwc_deployment saved) = cn_circle c"
    "current_ids circle (w_db w') =
       (if circle = cn_circle c then [cn_id c] else current_ids circle (w_db w))"
    "dep_id ` set (v2deployments (w_db w')) = insert (cn_id c) (dep_id ` set (v2deployments (w_db w)))"
    "w_cluster w' = w_cluster w"
proof -
  let ?s = "w_db w"
  have none: "find_deployment (cn_id c) ?s = None"
    using fresh by (simp add: find_deployment_None_iff)
  obtain d where new: "newDeployment generate (cn_request c) ?s = Inr d"
    using run by (cases "newDeployment generate (cn_request c) ?s")
      (simp_all add: save_phase_def transaction_def on_db_def create_transaction_def)
  note fields = newDeployment_fields [OF new]
  let ?row = "(dwc_deployment d)\<lparr>previousDeploymentId := fst (deactivateCurrentCircle (cn_circle c) ?s),
    createdAt := env_now (cn_env c)\<rparr>"
  obtain comps e' t where ct: "create_transaction (cn_env c) generate (cn_request c) (cn_incoming c) ?s
      = (Inr (\<lparr>dwc_deployment = ?row, dwc_components = comps\<rparr>, e'), t)"
    and rows: "v2deployments t = v2deployments (snd (deactivateCurrentCircle (cn_circle c) ?s)) @ [?row]"
    using create_transaction_tables [OF new none, of "cn_env c" "cn_incoming c"] by (metis db.select_convs(1))
  have saved: "saved = \<lparr>dwc_deployment = ?row, dwc_components = comps\<rparr>" and w': "w' = w\<lparr>w_db := t\<rparr>"
    using run by (simp_all add: save_phase_def transaction_def on_db_def ct)
  show "dep_id (dwc_deployment saved) = cn_id c" "circleId (dwc_deployment saved) = cn_circle c"
    using fields by (simp_all add: saved)
  show "w_cluster w' = w_cluster w" by (simp add: w')
  have kept: "current_ids circle (snd (deactivateCurrentCircle (cn_circle c) ?s))
      = (if circle = cn_circle c then [] else current_ids circle ?s)"
  proof -
    have "map dep_id (filter (\<lambda>d. circleId d = circle \<and> current d)
        (map (\<lambda>d. if circleId d = other \<and> current d then d\<lparr>current := False\<rparr> else d) xs))
      = (if circle = other then [] else map dep_id (filter (\<lambda>d. circleId d = circle \<and> current d) xs))"
      for other xs by (induction xs) auto
    then show ?thesis by (simp only: current_ids_def deactivated)
  qed
  have "current_ids circle t = current_ids circle (snd (deactivateCurrentCircle (cn_circle c) ?s))
      @ (if cn_circle c = circle then [cn_id c] else [])"
    using fields by (simp add: current_ids_def rows)
  then show "current_ids circle (w_db w') =
       (if circle = cn_circle c then [cn_id c] else current_ids circle (w_db w))"
    by (simp add: kept w')
  have "dep_id ` set (v2deployments (snd (deactivateCurrentCircle (cn_circle c) ?s)))
      = dep_id ` set (v2deployments ?s)" by (simp add: deactivateCurrentCircle_def deactivate.id_set)
  then show "dep_id ` set (v2deployments (w_db w')) = insert (cn_id c) (dep_id ` set (v2deployments (w_db w)))"
    using fields by (simp add: w' rows)
qed

lemma save_phase_error: "save_phase generate c w = (Inl e, w') \<Longrightarrow> w' = w"
  by (simp add: save_phase_def transaction_def on_db_def case_prod_beta split: sum.splits prod.splits)

lemma apply_phase_tables: "w_db (snd (apply_phase env saved w)) = w_db w"
  using cluster_calls_frame(1) [of env "dwc_deployment saved" "Some (dwc_components saved)" w]
  by (auto simp: apply_phase_def try_catch_def ret_def split: prod.splits sum.splits)

text \<open>The resource of a circle names a deployment.\<close>

definition resource_names :: "(resource_key \<Rightarrow> custom_resource option) \<Rightarrow> string \<Rightarrow> string \<Rightarrow> string \<Rightarrow> bool" where
  "resource_names resources ns circle did \<longleftrightarrow>
     (case resources (CHARLES_CUSTOM_RESOURCE_DEPLOYMENT_KIND, ns, circle) of
        None \<Rightarrow> False
      | Some x \<Rightarrow> (case cr_spec x of CharlesDeployment s \<Rightarrow> cds_deploymentId s = did | _ \<Rightarrow> False))"

lemma apply_phase_resource:
  assumes law: "object_api_law env v"
  obtains x where "v (w_cluster (snd (apply_phase env saved w))) = (v (w_cluster w))
      ((CHARLES_CUSTOM_RESOURCE_DEPLOYMENT_KIND, butlerNamespace env, circleId (dwc_deployment saved)) \<mapsto> x)"
    "\<exists>s. cr_spec x = CharlesDeployment s \<and> cds_deploymentId s = dep_id (dwc_deployment saved)"
proof -
  let ?m = "deployment_manifest env (dwc_deployment saved) (Some (dwc_components saved))"
  obtain k x where "applyDeploymentCustomResource env (dwc_deployment saved) (Some (dwc_components saved)) w
      = (Inr (), k)" and view: "v (w_cluster k) = (v (w_cluster w))(key_of ?m \<mapsto> x)"
    and spec: "cr_spec x = cr_spec ?m"
    using law by (rule apply_upsert)
  then have "snd (apply_phase env saved w) = k" by (simp add: apply_phase_def try_catch_def)
  moreover have "key_of ?m = (CHARLES_CUSTOM_RESOURCE_DEPLOYMENT_KIND, butlerNamespace env,
      circleId (dwc_deployment saved))"
    by (simp add: key_of_def deployment_manifest_def buildDeploymentCrdManifest_def)
  moreover have "\<exists>s. cr_spec x = CharlesDeployment s \<and> cds_deploymentId s = dep_id (dwc_deployment saved)"
    using spec by (simp add: deployment_manifest_def buildDeploymentCrdManifest_def)
  ultimately show ?thesis using view that by metis
qed

lemma resource_names_unique:
  "resource_names f ns circle a \<Longrightarrow> resource_names f ns circle b \<Longrightarrow> a = b"
  by (auto simp: resource_names_def split: option.splits custom_spec.splits)

subsection \<open>What a schedule leaves\<close>

fun saves_to :: "'k creation list \<Rightarrow> string \<Rightarrow> handover_event \<Rightarrow> bool" where
  "saves_to cs circle (Saves i) \<longleftrightarrow> cn_circle (cs ! i) = circle"
| "saves_to cs circle _ \<longleftrightarrow> False"

fun applies_to :: "'k creation list \<Rightarrow> string \<Rightarrow> handover_event \<Rightarrow> bool" where
  "applies_to cs circle (Applies i) \<longleftrightarrow> cn_circle (cs ! i) = circle"
| "applies_to cs circle _ \<longleftrightarrow> False"

fun about :: "handover_event \<Rightarrow> nat" where
  "about (Saves i) = i"
| "about (Fails i) = i"
| "about (Applies i) = i"

definition handover_inv :: "'k creation list \<Rightarrow> 'k world \<times> phase list \<Rightarrow> bool" where
  "handover_inv cs p \<longleftrightarrow> length (snd p) = length cs
     \<and> (\<forall>i < length cs. snd p ! i = Waiting
          \<longrightarrow> cn_id (cs ! i) \<notin> dep_id ` set (v2deployments (w_db (fst p))))
     \<and> (\<forall>i < length cs. \<forall>d. snd p ! i = Saved d
          \<longrightarrow> dep_id (dwc_deployment d) = cn_id (cs ! i) \<and> circleId (dwc_deployment d) = cn_circle (cs ! i))"

lemma handover_saves:
  assumes inv: "handover_inv cs (w, st)" and step: "handover_step generate cs (Saves i) (w, st) = Some q"
    and own: "distinct (map cn_id cs)"
  shows "handover_inv cs q" "i < length cs"
    "current_ids circle (w_db (fst q)) =
       (if cn_circle (cs ! i) = circle then [cn_id (cs ! i)] else current_ids circle (w_db w))"
    "w_cluster (fst q) = w_cluster w"
proof -
  from step obtain saved e w' where i: "i < length cs" "st ! i = Waiting"
    and run: "save_phase generate (cs ! i) w = (Inr (saved, e), w')" and q: "q = (w', st[i := Saved saved])"
    by (auto split: if_splits prod.splits sum.splits)
  have "cn_id (cs ! i) \<notin> dep_id ` set (v2deployments (w_db w))"
    using inv i by (simp add: handover_inv_def)
  note after = save_phase_rows [OF run this]
  have other: "cn_id (cs ! j) \<noteq> cn_id (cs ! i)" if "j < length cs" "j \<noteq> i" for j
    using nth_eq_iff_index_eq [OF own, of j i] that i(1) by simp
  show "handover_inv cs q"
    using inv i(1) after(1,2) other unfolding handover_inv_def q fst_conv snd_conv after(4)
    by (auto simp: nth_list_update)
  show "i < length cs" by (rule i(1))
  show "current_ids circle (w_db (fst q)) =
      (if cn_circle (cs ! i) = circle then [cn_id (cs ! i)] else current_ids circle (w_db w))"
    using after(3) by (simp add: q)
  show "w_cluster (fst q) = w_cluster w" using after(5) by (simp add: q)
qed

lemma handover_fails:
  assumes inv: "handover_inv cs (w, st)" and step: "handover_step generate cs (Fails i) (w, st) = Some q"
  shows "handover_inv cs q" "fst q = w"
proof -
  from step obtain e w' where i: "i < length cs" "st ! i = Waiting"
    and run: "save_phase generate (cs ! i) w = (Inl e, w')" and q: "q = (w', st[i := Failed e])"
    by (auto split: if_splits prod.splits sum.splits)
  from run have "w' = w" by (rule save_phase_error)
  with inv i(1) show "handover_inv cs q" "fst q = w"
    by (auto simp: handover_inv_def q nth_list_update)
qed

lemma handover_applies:
  assumes inv: "handover_inv cs (w, st)" and step: "handover_step generate cs (Applies i) (w, st) = Some q"
    and laws: "list_all (\<lambda>c. object_api_law (cn_env c) v \<and> butlerNamespace (cn_env c) = ns) cs"
  shows "handover_inv cs q" "i < length cs" "w_db (fst q) = w_db w"
    "resource_names (v (w_cluster (fst q))) ns circle did \<longleftrightarrow>
       (if cn_circle (cs ! i) = circle then did = cn_id (cs ! i)
        else resource_names (v (w_cluster w)) ns circle did)"
proof -
  from step obtain saved where i: "i < length cs" "st ! i = Saved saved"
    and q: "q = (snd (apply_phase (cn_env (cs ! i)) saved w), st[i := Applied])"
    by (auto split: if_splits phase.splits)
  have saved: "dep_id (dwc_deployment saved) = cn_id (cs ! i)" "circleId (dwc_deployment saved) = cn_circle (cs ! i)"
    using inv i by (simp_all add: handover_inv_def)
  have law: "object_api_law (cn_env (cs ! i)) v" "butlerNamespace (cn_env (cs ! i)) = ns"
    using laws i(1) by (simp_all add: list_all_length)
  show "i < length cs" by (rule i(1))
  show "w_db (fst q) = w_db w" by (simp add: q apply_phase_tables)
  then show "handover_inv cs q"
    using inv i(1) by (auto simp: handover_inv_def q nth_list_update)
  obtain x where view: "v (w_cluster (fst q)) = (v (w_cluster w))
      ((CHARLES_CUSTOM_RESOURCE_DEPLOYMENT_KIND, ns, cn_circle (cs ! i)) \<mapsto> x)"
    and x: "\<exists>s. cr_spec x = CharlesDeployment s \<and> cds_deploymentId s = cn_id (cs ! i)"
    using apply_phase_resource [OF law(1), of saved w] unfolding q fst_conv law(2) saved by blast
  show "resource_names (v (w_cluster (fst q))) ns circle did \<longleftrightarrow>
      (if cn_circle (cs ! i) = circle then did = cn_id (cs ! i)
       else resource_names (v (w_cluster w)) ns circle did)"
    using x unfolding resource_names_def view by auto
qed

lemma handover_step_inv:
  assumes "handover_inv cs p" "handover_step generate cs e p = Some q" "distinct (map cn_id cs)"
    and "list_all (\<lambda>c. object_api_law (cn_env c) v \<and> butlerNamespace (cn_env c) = ns) cs"
  shows "handover_inv cs q"
proof -
  obtain w st where p: "p = (w, st)" by (cases p)
  show ?thesis
  proof (cases e)
    case (Saves i)
    from handover_saves(1) [OF assms(1) [unfolded p] assms(2) [unfolded p Saves] assms(3)] show ?thesis .
  next
    case (Fails i)
    from handover_fails(1) [OF assms(1) [unfolded p] assms(2) [unfolded p Fails]] show ?thesis .
  next
    case (Applies i)
    from handover_applies(1) [OF assms(1) [unfolded p] assms(2) [unfolded p Applies] assms(4)] show ?thesis .
  qed
qed

lemma handover_step_effect:
  assumes "handover_inv cs p" "handover_step generate cs e p = Some q" "distinct (map cn_id cs)"
    and "list_all (\<lambda>c. object_api_law (cn_env c) v \<and> butlerNamespace (cn_env c) = ns) cs"
  shows "current_ids circle (w_db (fst q)) =
      (if saves_to cs circle e then [cn_id (cs ! about e)] else current_ids circle (w_db (fst p)))"
    and "resource_names (v (w_cluster (fst q))) ns circle did \<longleftrightarrow>
      (if applies_to cs circle e then did = cn_id (cs ! about e)
       else resource_names (v (w_cluster (fst p))) ns circle did)"
proof -
  obtain w st where p: "p = (w, st)" by (cases p)
  have "current_ids circle (w_db (fst q)) =
      (if saves_to cs circle e then [cn_id (cs ! about e)] else current_ids circle (w_db w))
    \<and> (resource_names (v (w_cluster (fst q))) ns circle did \<longleftrightarrow>
      (if applies_to cs circle e then did = cn_id (cs ! about e)
       else resource_names (v (w_cluster w)) ns circle did))"
  proof (cases e)
    case (Saves i)
    from handover_saves [OF assms(1) [unfolded p] assms(2) [unfolded p Saves] assms(3)]
    show ?thesis by (simp add: Saves)
  next
    case (Fails i)
    from handover_fails [OF assms(1) [unfolded p] assms(2) [unfolded p Fails]]
    show ?thesis by (simp add: Fails)
  next
    case (Applies i)
    from handover_applies [OF assms(1) [unfolded p] assms(2) [unfolded p Applies] assms(4)]
    show ?thesis by (simp add: Applies)
  qed
  then show "current_ids circle (w_db (fst q)) =
      (if saves_to cs circle e then [cn_id (cs ! about e)] else current_ids circle (w_db (fst p)))"
    "resource_names (v (w_cluster (fst q))) ns circle did \<longleftrightarrow>
      (if applies_to cs circle e then did = cn_id (cs ! about e)
       else resource_names (v (w_cluster (fst p))) ns circle did)"
    by (simp_all only: p fst_conv)
qed

lemma handover_run_inv:
  assumes "handover_from generate cs p evs = Some q" "handover_inv cs p" "distinct (map cn_id cs)"
    and "list_all (\<lambda>c. object_api_law (cn_env c) v \<and> butlerNamespace (cn_env c) = ns) cs"
  shows "handover_inv cs q"
  using assms(1,2)
proof (induction evs arbitrary: p)
  case (Cons e evs)
  then obtain p' where "handover_step generate cs e p = Some p'" "handover_from generate cs p' evs = Some q"
    by (auto simp: Option.bind_eq_Some_conv)
  then show ?case using Cons.IH handover_step_inv [OF Cons.prems(2) _ assms(3,4)] by blast
qed simp

text \<open>What is left of a circle is what its last event made of it.\<close>

lemma handover_run_keeps:
  assumes "handover_from generate cs p evs = Some q" "handover_inv cs p" "distinct (map cn_id cs)"
    and "list_all (\<lambda>c. object_api_law (cn_env c) v \<and> butlerNamespace (cn_env c) = ns) cs"
  shows "(\<not> list_ex (saves_to cs circle) evs \<longrightarrow>
      current_ids circle (w_db (fst q)) = current_ids circle (w_db (fst p)))
    \<and> (\<not> list_ex (applies_to cs circle) evs \<longrightarrow>
      resource_names (v (w_cluster (fst q))) ns circle did = resource_names (v (w_cluster (fst p))) ns circle did)"
  using assms(1,2)
proof (induction evs arbitrary: p)
  case (Cons e evs)
  then obtain p' where step: "handover_step generate cs e p = Some p'"
    and rest: "handover_from generate cs p' evs = Some q"
    by (auto simp: Option.bind_eq_Some_conv)
  note effect = handover_step_effect [OF Cons.prems(2) step assms(3,4), where circle = circle]
  show ?case
    using Cons.IH [OF rest handover_step_inv [OF Cons.prems(2) step assms(3,4)]] effect(1) effect(2) [of did]
    by simp
qed simp

lemma handover_last:
  assumes run: "run_handover generate cs w evs = Some (w', st)"
    and own: "distinct (map cn_id cs)" "list_all (\<lambda>c. cn_id c \<notin> dep_id ` set (v2deployments (w_db w))) cs"
    and laws: "list_all (\<lambda>c. object_api_law (cn_env c) v \<and> butlerNamespace (cn_env c) = ns) cs"
    and evs: "evs = as @ e # bs"
  shows "\<lbrakk>saves_to cs circle e; \<not> list_ex (saves_to cs circle) bs\<rbrakk>
      \<Longrightarrow> current_ids circle (w_db w') = [cn_id (cs ! about e)]"
    and "\<lbrakk>applies_to cs circle e; \<not> list_ex (applies_to cs circle) bs\<rbrakk>
      \<Longrightarrow> resource_names (v (w_cluster w')) ns circle did \<longleftrightarrow> did = cn_id (cs ! about e)"
    and "saves_to cs circle e \<Longrightarrow> about e < length cs"
    and "applies_to cs circle e \<Longrightarrow> about e < length cs"
proof -
  have start: "handover_inv cs (w, replicate (length cs) Waiting)"
    using own(2) by (simp add: handover_inv_def list_all_length)
  from run obtain p p' where as: "handover_from generate cs (w, replicate (length cs) Waiting) as = Some p"
    and step: "handover_step generate cs e p = Some p'" and bs: "handover_from generate cs p' bs = Some (w', st)"
    by (auto simp: run_handover_def evs handover_append Option.bind_eq_Some_conv)
  note inv = handover_run_inv [OF as start own(1) laws]
  note inv' = handover_step_inv [OF inv step own(1) laws]
  note effect = handover_step_effect [OF inv step own(1) laws, where circle = circle]
  note keeps = handover_run_keeps [OF bs inv' own(1) laws, where circle = circle, unfolded fst_conv]
  show "\<lbrakk>saves_to cs circle e; \<not> list_ex (saves_to cs circle) bs\<rbrakk>
      \<Longrightarrow> current_ids circle (w_db w') = [cn_id (cs ! about e)]"
    using keeps effect(1) by simp
  show "\<lbrakk>applies_to cs circle e; \<not> list_ex (applies_to cs circle) bs\<rbrakk>
      \<Longrightarrow> resource_names (v (w_cluster w')) ns circle did \<longleftrightarrow> did = cn_id (cs ! about e)"
    using keeps effect(2) [of did] by simp
  obtain w1 st1 where p: "p = (w1, st1)" by (cases p)
  show "saves_to cs circle e \<Longrightarrow> about e < length cs"
    using handover_saves(2) [OF inv [unfolded p] _ own(1)] step by (cases e) (auto simp: p simp del: handover_step.simps)
  show "applies_to cs circle e \<Longrightarrow> about e < length cs"
    using handover_applies(2) [OF inv [unfolded p] _ laws] step by (cases e) (auto simp: p simp del: handover_step.simps)
qed

text \<open>
  C37: creations that are handed to the cluster after they have committed, in any order: the
  current deployment of a circle is the one saved last, its custom resource names the one
  applied last. So the cluster runs what the tables call current exactly when the creation that
  saved last has also applied last.
\<close>

theorem last_applied_wins:
  assumes "run_handover generate cs w evs = Some (w', st)"
    and "distinct (map cn_id cs)" "list_all (\<lambda>c. cn_id c \<notin> dep_id ` set (v2deployments (w_db w))) cs"
    and "list_all (\<lambda>c. object_api_law (cn_env c) v \<and> butlerNamespace (cn_env c) = ns) cs"
    and "evs = as @ Saves i # bs" "cn_circle (cs ! i) = circle" "\<not> list_ex (saves_to cs circle) bs"
    and "evs = as' @ Applies j # bs'" "cn_circle (cs ! j) = circle" "\<not> list_ex (applies_to cs circle) bs'"
  shows "current_ids circle (w_db w') = [cn_id (cs ! i)]
    \<and> resource_names (v (w_cluster w')) ns circle (cn_id (cs ! j))
    \<and> (list_ex (resource_names (v (w_cluster w')) ns circle) (current_ids circle (w_db w')) \<longleftrightarrow> i = j)"
proof -
  note saved = handover_last [OF assms(1-4) assms(5), where circle = circle]
  note applied = handover_last [OF assms(1-4) assms(8), where circle = circle]
  have now: "current_ids circle (w_db w') = [cn_id (cs ! i)]"
    using saved(1) assms(6,7) by simp
  have names: "resource_names (v (w_cluster w')) ns circle did \<longleftrightarrow> did = cn_id (cs ! j)" for did
    using applied(2) assms(9,10) by simp
  have "i < length cs" "j < length cs" using saved(3) applied(4) assms(6,9) by simp_all
  then have "cn_id (cs ! i) = cn_id (cs ! j) \<longleftrightarrow> i = j"
    using nth_eq_iff_index_eq [OF assms(2), of i j] by simp
  then show ?thesis by (simp add: now names)
qed

text \<open>The two creations of \<open>blue\<close>: \<open>d3\<close> is saved after \<open>d2\<close> and applied before it.\<close>

definition ex_late :: "handover_event list" where
  "ex_late = [Saves 0, Saves 1, Applies 1, Applies 0]"

lemma last_applied_wins_witness:
  "\<exists>w' st. run_handover ex_generate ex_creations ex_world1 ex_late = Some (w', st)
     \<and> current_ids ''blue'' (w_db w') = [''d3'']
     \<and> resource_names (w_cluster w') ''butler'' ''blue'' ''d2''"
proof -
  have "map_option snd (run_handover ex_generate ex_creations ex_world1 ex_late) = Some [Applied, Applied]"
    by code_simp
  then obtain w' where run: "run_handover ex_generate ex_creations ex_world1 ex_late
      = Some (w', [Applied, Applied])" by auto
  have laws: "list_all (\<lambda>c. object_api_law (cn_env c) (\<lambda>k. k) \<and> butlerNamespace (cn_env c) = ''butler'') ex_creations"
  proof -
    have "object_api_law (ex_env t e) (\<lambda>k. k) \<and> butlerNamespace (ex_env t e) = ''butler''" for t e
      using map_env_law [of "''butler''" t] by (simp add: object_api_law_def ex_env_def map_env_def)
    then show ?thesis by (simp add: ex_creations_def ex_creation_def)
  qed
  have fresh: "list_all (\<lambda>c. cn_id c \<notin> dep_id ` set (v2deployments (w_db ex_world1))) ex_creations"
    by (simp add: ex_rows1 ex_creations_def ex_creation_def ex_request_def ex_row_def)
  have "current_ids ''blue'' (w_db w') = [cn_id (ex_creations ! 1)]
      \<and> resource_names (w_cluster w') ''butler'' ''blue'' (cn_id (ex_creations ! 0))"
    using last_applied_wins [OF run _ fresh laws, of "[Saves 0]" 1 "[Applies 1, Applies 0]" "''blue''"
        "[Saves 0, Saves 1, Applies 1]" 0 "[]"] by (simp add: ex_late_def)
  with run show ?thesis by simp
qed

end
