(* ===== verification/Convergence.thy ===== *)
theory Convergence
  imports Hooks
begin

text \<open>
  The routes hook at a fixed point: when the cluster holds what the hook wants, every status
  it computes is good, and a circle all of whose statuses are good is recorded as routed.
\<close>

subsection \<open>What the routes hook wants\<close>

definition in_namespace :: "string \<Rightarrow> string \<Rightarrow> Component list \<Rightarrow> Component list" where
  "in_namespace ns nm cs =
     filter (\<lambda>c. c_name c = nm) (filter (\<lambda>c. namespace (deployment c) = ns) cs)"

definition route_metadata :: "string \<Rightarrow> string \<Rightarrow> Component list \<Rightarrow> RouteMetadata" where
  "route_metadata ns nm cs =
     \<lparr>rm_name = nm, rm_namespace = ns, rm_circles = circles_annotation (in_namespace ns nm cs)\<rparr>"

definition resource_name :: "RouteMetadata \<Rightarrow> string" where
  "resource_name m = rm_namespace m @ ''/'' @ rm_name m"

text \<open>The observed children when the cluster holds a list of proxy manifests.\<close>

definition observed_routes :: "SpecsUnion list \<Rightarrow> RouteChildren" where
  "observed_routes specs =
     \<lparr>ch_virtualServices = concat (map (\<lambda>s. case s of
          VirtualService v \<Rightarrow> [(resource_name (vs_metadata v), vs_metadata v)] | _ \<Rightarrow> []) specs),
      ch_destinationRules = concat (map (\<lambda>s. case s of
          DestinationRule r \<Rightarrow> [(resource_name (dr_metadata r), dr_metadata r)] | _ \<Rightarrow> []) specs)\<rparr>"

lemma resource_name_inject:
  assumes "ns @ ''/'' @ nm = ns' @ ''/'' @ nm'" and "CHR ''/'' \<notin> set ns" and "CHR ''/'' \<notin> set ns'"
  shows "ns = ns' \<and> nm = nm'"
  using assms
proof (induction ns arbitrary: ns')
  case Nil
  then show ?case by (cases ns') auto
next
  case (Cons x ns)
  then show ?case by (cases ns') auto
qed

lemma traverse_members:
  assumes "traverse f xs = Inr ys"
  shows "\<And>y. y \<in> set ys \<Longrightarrow> \<exists>x \<in> set xs. f x = Inr y"
    and "\<And>x. x \<in> set xs \<Longrightarrow> \<exists>y \<in> set ys. f x = Inr y"
  using assms unfolding traverse_Inr_iff
  by (induction rule: list_all2_induct) auto

text \<open>The proxy manifests of one namespace, by name.\<close>

lemma proxy_manifest_shapes:
  assumes law: "groupBy_law (group_components lodash)"
    and run: "createProxyManifests lodash ns (filter (\<lambda>c. namespace (deployment c) = ns) cs) = Inr specs"
  shows "\<And>s. s \<in> set specs \<Longrightarrow> \<exists>nm. spec_metadata s = route_metadata ns nm cs
      \<and> (\<exists>r v. DestinationRule r \<in> set specs \<and> VirtualService v \<in> set specs
           \<and> dr_metadata r = route_metadata ns nm cs \<and> vs_metadata v = route_metadata ns nm cs)"
    and "\<And>c. c \<in> set cs \<Longrightarrow> namespace (deployment c) = ns \<Longrightarrow>
      \<exists>s \<in> set specs. spec_metadata s = route_metadata ns (c_name c) cs"
proof -
  let ?cs = "filter (\<lambda>c. namespace (deployment c) = ns) cs"
  let ?groups = "group_components lodash (\<lambda>c. c_name c) ?cs"
  obtain gwh where specs: "specs = concat (map (\<lambda>(nm, ms).
      [DestinationRule (getDestinationRulesManifest nm ns ms),
       VirtualService (getVirtualServiceManifest nm ns (fst (gwh ms)) (snd (gwh ms)) ms)]) ?groups)"
    using proxy_manifests_of_groups [OF law, of ns ?cs] run by auto
  have ms: "ms = in_namespace ns nm cs" if "(nm, ms) \<in> set ?groups" for nm ms
    using groupBy_lawD(3) [OF law that] by (simp add: in_namespace_def)
  have meta: "dr_metadata (getDestinationRulesManifest nm ns ms) = route_metadata ns nm cs
      \<and> vs_metadata (getVirtualServiceManifest nm ns g h ms) = route_metadata ns nm cs"
    if "(nm, ms) \<in> set ?groups" for nm ms g h
    using ms [OF that] by (simp add: getDestinationRulesManifest_def getVirtualServiceManifest_def
        route_metadata_def)
  show "\<exists>nm. spec_metadata s = route_metadata ns nm cs
      \<and> (\<exists>r v. DestinationRule r \<in> set specs \<and> VirtualService v \<in> set specs
           \<and> dr_metadata r = route_metadata ns nm cs \<and> vs_metadata v = route_metadata ns nm cs)"
    if s: "s \<in> set specs" for s
  proof -
    obtain nm ms where g: "(nm, ms) \<in> set ?groups"
      and s': "s \<in> {DestinationRule (getDestinationRulesManifest nm ns ms),
        VirtualService (getVirtualServiceManifest nm ns (fst (gwh ms)) (snd (gwh ms)) ms)}"
      using s unfolding specs by auto
    have "DestinationRule (getDestinationRulesManifest nm ns ms) \<in> set specs"
      "VirtualService (getVirtualServiceManifest nm ns (fst (gwh ms)) (snd (gwh ms)) ms) \<in> set specs"
      using g unfolding specs by force+
    moreover have "spec_metadata s = route_metadata ns nm cs" using s' meta [OF g] by auto
    ultimately show ?thesis using meta [OF g] by blast
  qed
  show "\<exists>s \<in> set specs. spec_metadata s = route_metadata ns (c_name c) cs"
    if c: "c \<in> set cs" "namespace (deployment c) = ns" for c
  proof -
    have "c \<in> set ?cs" using c by simp
    then obtain ms where g: "(c_name c, ms) \<in> set ?groups"
      by (rule groupBy_covers [OF law, where k = "\<lambda>c. c_name c"])
    then have "DestinationRule (getDestinationRulesManifest (c_name c) ns ms) \<in> set specs"
      unfolding specs by force
    then show ?thesis using meta [OF g] by force
  qed
qed

text \<open>The proxy manifests of all namespaces, as the hook computes them.\<close>

definition hook_specs :: "routes_lodash \<Rightarrow> Component list \<Rightarrow> app_error + (SpecsUnion list \<times> KubernetesManifest list)" where
  "hook_specs lodash cs =
     routes_of_namespaces lodash (group_components lodash (\<lambda>c. namespace (deployment c)) cs)"

lemma hook_specs_shapes:
  assumes law: "groupBy_law (group_components lodash)"
    and run: "hook_specs lodash cs = Inr (specs, services)"
  shows "\<And>s. s \<in> set specs \<Longrightarrow> \<exists>ns nm. ns \<in> (\<lambda>c. namespace (deployment c)) ` set cs
      \<and> spec_metadata s = route_metadata ns nm cs
      \<and> (\<exists>r v. DestinationRule r \<in> set specs \<and> VirtualService v \<in> set specs
           \<and> dr_metadata r = route_metadata ns nm cs \<and> vs_metadata v = route_metadata ns nm cs)"
    and "\<And>c. c \<in> set cs \<Longrightarrow>
      \<exists>s \<in> set specs. spec_metadata s = route_metadata (namespace (deployment c)) (c_name c) cs"
proof -
  let ?key = "\<lambda>c. namespace (deployment c)"
  let ?groups = "group_components lodash ?key cs"
  obtain parts where parts: "traverse (\<lambda>(ns, ms). createProxyManifests lodash ns ms) ?groups = Inr parts"
    and specs: "specs = concat parts"
    using run by (auto simp: hook_specs_def routes_of_namespaces_def and_then_Inr_iff)
  have group: "createProxyManifests lodash ns ms
      = createProxyManifests lodash ns (filter (\<lambda>c. ?key c = ns) cs) \<and> ns \<in> ?key ` set cs"
    if "(ns, ms) \<in> set ?groups" for ns ms
    using groupBy_lawD(3) [OF law that] groupBy_lawD(2) [OF law, of ?key cs] that by force
  show "\<exists>ns nm. ns \<in> ?key ` set cs \<and> spec_metadata s = route_metadata ns nm cs
      \<and> (\<exists>r v. DestinationRule r \<in> set specs \<and> VirtualService v \<in> set specs
           \<and> dr_metadata r = route_metadata ns nm cs \<and> vs_metadata v = route_metadata ns nm cs)"
    if s: "s \<in> set specs" for s
  proof -
    obtain part where part: "part \<in> set parts" "s \<in> set part" using s unfolding specs by auto
    then obtain ns ms where g: "(ns, ms) \<in> set ?groups" "createProxyManifests lodash ns ms = Inr part"
      using traverse_members(1) [OF parts part(1)] by auto
    then have "createProxyManifests lodash ns (filter (\<lambda>c. ?key c = ns) cs) = Inr part"
      using group [OF g(1)] by simp
    from proxy_manifest_shapes(1) [OF law this part(2)] part(1) group [OF g(1)] show ?thesis
      unfolding specs by (metis UN_I set_concat)
  qed
  show "\<exists>s \<in> set specs. spec_metadata s = route_metadata (?key c) (c_name c) cs" if c: "c \<in> set cs" for c
  proof -
    obtain ms where g: "(?key c, ms) \<in> set ?groups" by (rule groupBy_covers [OF law c, where k = ?key])
    then obtain part where part: "part \<in> set parts" "createProxyManifests lodash (?key c) ms = Inr part"
      using traverse_members(2) [OF parts g] by auto
    then have "createProxyManifests lodash (?key c) (filter (\<lambda>x. ?key x = ?key c) cs) = Inr part"
      using group [OF g] by simp
    from proxy_manifest_shapes(2) [OF law this c refl] part(1) show ?thesis
      unfolding specs by auto
  qed
qed

text \<open>A circle of an annotation the cluster holds back is good.\<close>

lemma observed_lookup:
  assumes "x \<in> set xs" and "f x = [(key, m)]"
    and only: "\<And>y k m'. y \<in> set xs \<Longrightarrow> (k, m') \<in> set (f y) \<Longrightarrow> k = key \<Longrightarrow> m' = m"
  shows "map_of (concat (map f xs)) key = Some m"
proof -
  have "(key, m) \<in> set (concat (map f xs))" using assms(1,2) by force
  from weak_map_of_SomeI [OF this] obtain m' where m': "map_of (concat (map f xs)) key = Some m'"
    by blast
  then have "(key, m') \<in> set (concat (map f xs))" by (rule map_of_SomeD)
  then have "m' = m" using only by auto
  with m' show ?thesis by simp
qed

lemma converged_metadata:
  assumes law: "groupBy_law (group_components lodash)"
    and run: "hook_specs lodash cs = Inr (specs, services)"
    and plain: "\<And>c. c \<in> set cs \<Longrightarrow> CHR ''/'' \<notin> set (namespace (deployment c))"
    and s: "s \<in> set specs"
  shows "map_of (ch_destinationRules (observed_routes specs)) (resource_name (spec_metadata s))
      = Some (spec_metadata s)"
    and "map_of (ch_virtualServices (observed_routes specs)) (resource_name (spec_metadata s))
      = Some (spec_metadata s)"
proof -
  obtain ns nm r v where ns: "ns \<in> (\<lambda>c. namespace (deployment c)) ` set cs"
    and meta: "spec_metadata s = route_metadata ns nm cs"
    and rv: "DestinationRule r \<in> set specs" "VirtualService v \<in> set specs"
      "dr_metadata r = route_metadata ns nm cs" "vs_metadata v = route_metadata ns nm cs"
    using hook_specs_shapes(1) [OF law run s] by blast
  have only: "spec_metadata y = spec_metadata s"
    if y: "y \<in> set specs" "resource_name (spec_metadata y) = resource_name (spec_metadata s)" for y
  proof -
    obtain ns' nm' where y': "ns' \<in> (\<lambda>c. namespace (deployment c)) ` set cs"
      "spec_metadata y = route_metadata ns' nm' cs"
      using hook_specs_shapes(1) [OF law run y(1)] by blast
    have "ns' = ns \<and> nm' = nm"
      using y(2) y' ns meta plain
      by (intro resource_name_inject) (auto simp: resource_name_def route_metadata_def)
    then show ?thesis by (simp add: y'(2) meta)
  qed
  show "map_of (ch_destinationRules (observed_routes specs)) (resource_name (spec_metadata s))
      = Some (spec_metadata s)"
    unfolding observed_routes_def RouteChildren.select_convs
    by (rule observed_lookup [OF rv(1)]) (use rv meta only in \<open>auto split: SpecsUnion.splits\<close>)
  show "map_of (ch_virtualServices (observed_routes specs)) (resource_name (spec_metadata s))
      = Some (spec_metadata s)"
    unfolding observed_routes_def RouteChildren.select_convs
    by (rule observed_lookup [OF rv(2)]) (use rv meta only in \<open>auto split: SpecsUnion.splits\<close>)
qed

lemma traverse_all:
  "(\<And>x. x \<in> set xs \<Longrightarrow> f x = Inr (g x)) \<Longrightarrow> traverse f xs = Inr (map g xs)"
  by (induction xs) auto

text \<open>
  C18: once the cluster holds every proxy manifest the hook wants, with the annotations the
  hook wrote, the hook reads every one of its circles as routed: the status array it computes
  has an entry for each wanted component of each circle, and all are good.
\<close>

theorem converged_routes_are_good:
  assumes law: "groupBy_law (group_components lodash)"
    and run: "routes_of_namespaces lodash
      (group_components lodash (\<lambda>c. namespace (deployment c)) cs) = Inr (specs, services)"
    and plain: "\<And>c. c \<in> set cs \<Longrightarrow> CHR ''/'' \<notin> set (namespace (deployment c))"
  shows "\<exists>sts. getRoutesStatus (observed_routes specs) specs = Inr sts
    \<and> (\<forall>st \<in> set sts. st_status st)
    \<and> (\<forall>c \<in> set cs. \<exists>st \<in> set sts. st_circle st = c_circle c \<and> st_component st = c_name c)"
proof -
  let ?obs = "observed_routes specs"
  have run': "hook_specs lodash cs = Inr (specs, services)" using run by (simp add: hook_specs_def)
  define circles where "circles s = the (JSON_parse (rm_circles (spec_metadata s)))" for s
  define good where "good s c = \<lparr>st_circle = c, st_component = rm_name (spec_metadata s),
    st_status = True, st_kind = spec_kind s\<rparr>" for s c
  have parsed: "JSON_parse (rm_circles (spec_metadata s)) = Some (circles s)" if "s \<in> set specs" for s
    using hook_specs_shapes(1) [OF law run' that]
    by (auto simp: circles_def route_metadata_def circles_annotation_parse)
  have "handleSpecStatus ?obs s c = Inr (good s c)" if s: "s \<in> set specs" and c: "c \<in> set (circles s)" for s c
  proof -
    note found = converged_metadata [OF law run' plain s, unfolded resource_name_def]
    have "\<not> checkObservedRoutesEmptiness ?obs"
      using found by (auto simp: checkObservedRoutesEmptiness_def)
    moreover have "checkIfComponentRoutesExistOnObserved ?obs s c = Inr True"
      using found parsed [OF s] c by (simp add: checkIfComponentRoutesExistOnObserved_def)
    ultimately show ?thesis by (simp add: handleSpecStatus_def good_def)
  qed
  then have "traverse (\<lambda>s. case JSON_parse (rm_circles (spec_metadata s)) of None \<Rightarrow> Inl TypeError
      | Some cs \<Rightarrow> traverse (handleSpecStatus ?obs s) cs) specs
      = Inr (map (\<lambda>s. map (good s) (circles s)) specs)"
    by (intro traverse_all) (simp add: parsed traverse_all)
  then have status: "getRoutesStatus ?obs specs = Inr (concat (map (\<lambda>s. map (good s) (circles s)) specs))"
    by (simp add: getRoutesStatus_def)
  have "\<exists>st \<in> set (concat (map (\<lambda>s. map (good s) (circles s)) specs)).
      st_circle st = c_circle c \<and> st_component st = c_name c" if c: "c \<in> set cs" for c
  proof -
    obtain s where s: "s \<in> set specs"
      "spec_metadata s = route_metadata (namespace (deployment c)) (c_name c) cs"
      using hook_specs_shapes(2) [OF law run' c] by blast
    then have "circles s = map c_circle (in_namespace (namespace (deployment c)) (c_name c) cs)"
      by (simp add: circles_def route_metadata_def circles_annotation_parse)
    then have "c_circle c \<in> set (circles s)" using c by (auto simp: in_namespace_def)
    then have "good s (c_circle c) \<in> set (concat (map (\<lambda>s. map (good s) (circles s)) specs))"
      using s(1) by auto
    moreover have "st_circle (good s (c_circle c)) = c_circle c \<and> st_component (good s (c_circle c)) = c_name c"
      by (simp add: good_def s(2) route_metadata_def)
    ultimately show ?thesis by blast
  qed
  moreover have "st_status st" if "st \<in> set (concat (map (\<lambda>s. map (good s) (circles s)) specs))" for st
    using that by (auto simp: good_def)
  ultimately show ?thesis using status by blast
qed

lemma converged_routes_are_good_witness:
  "\<exists>specs services sts. routes_of_namespaces ex_lodash (group_components ex_lodash
       (\<lambda>c. namespace (deployment c)) [ex_active True ''open'', ex_active False ''blue''])
       = Inr (specs, services)
     \<and> getRoutesStatus (observed_routes specs) specs = Inr sts
     \<and> (\<exists>st \<in> set sts. st_circle st = ''blue'' \<and> st_status st)"
proof -
  let ?cs = "[ex_active True ''open'', ex_active False ''blue'']"
  have law: "groupBy_law (group_components ex_lodash)" by (simp add: ex_lodash_def groupBy_first_law)
  have "(case routes_of_namespaces ex_lodash (group_components ex_lodash
       (\<lambda>c. namespace (deployment c)) ?cs) of Inr _ \<Rightarrow> True | Inl _ \<Rightarrow> False)" by code_simp
  then obtain specs services where run: "routes_of_namespaces ex_lodash (group_components ex_lodash
       (\<lambda>c. namespace (deployment c)) ?cs) = Inr (specs, services)"
    by (auto split: sum.splits)
  have plain: "CHR ''/'' \<notin> set (namespace (deployment c))" if "c \<in> set ?cs" for c
    using that by (auto simp: ex_active_def ex_row_def)
  obtain sts where sts: "getRoutesStatus (observed_routes specs) specs = Inr sts"
    "\<forall>st \<in> set sts. st_status st"
    "\<forall>c \<in> set ?cs. \<exists>st \<in> set sts. st_circle st = c_circle c \<and> st_component st = c_name c"
    using converged_routes_are_good [OF law run plain] by blast
  have "c_circle (ex_active False ''blue'') = ''blue''" by (simp add: ex_active_def)
  moreover have "ex_active False ''blue'' \<in> set ?cs" by simp
  ultimately obtain st where "st \<in> set sts" "st_circle st = ''blue''" using sts(3) by metis
  with run sts(1,2) show ?thesis by blast
qed

subsection \<open>Recording what was observed\<close>

lemma notify_frame:
  "v2deployments (w_db (snd (routes_notifyCallback env d st w))) = v2deployments (w_db w)"
proof -
  have "keeps (\<lambda>x. v2deployments (w_db x) = v2deployments (w_db w)) (routes_notifyCallback env d st)"
    unfolding routes_notifyCallback_def
    by (intro keeps_intros keeps_on_db keeps_run_update) simp_all
  from keepsD [OF this] show ?thesis by simp
qed

text \<open>
  C19: recording the statuses of one circle: its current deployments are routed exactly when
  every status of the circle is good, the rows of the other circles are untouched, and the
  Moove service hears nothing of a circle that has a bad status.
\<close>

theorem circle_routed_iff_all_good:
  assumes run: "updateRouteStatus_circle env (circle, sts) w = (Inr d, w')"
  shows "(\<forall>x \<in> set (v2deployments (w_db w')). circleId x = circle \<and> current x \<longrightarrow>
            (routed x \<longleftrightarrow> (\<forall>s \<in> set sts. st_status s)))
    \<and> filter (\<lambda>x. circleId x \<noteq> circle) (v2deployments (w_db w'))
        = filter (\<lambda>x. circleId x \<noteq> circle) (v2deployments (w_db w))
    \<and> ((\<exists>s \<in> set sts. \<not> st_status s) \<longrightarrow> w_notified w' = w_notified w)"
proof -
  let ?all = "list_all st_status sts"
  let ?rows = "map (\<lambda>d. if circleId d = circle \<and> current d then d\<lparr>routed := ?all\<rparr> else d)
    (v2deployments (w_db w))"
  have finish: "v2deployments (w_db (snd (on_db (updateRouteStatus circle ?all) k))) = ?rows
      \<and> w_notified (snd (on_db (updateRouteStatus circle ?all) k)) = w_notified k"
    if "v2deployments (w_db k) = v2deployments (w_db w)" for k :: "'a world"
    using update_returning_state [of "\<lambda>d. circleId d = circle \<and> current d" "\<lambda>d. d\<lparr>routed := ?all\<rparr>" "w_db k"]
    by (simp add: on_db_def updateRouteStatus_def case_prod_beta that row_simps)
  have "v2deployments (w_db w') = ?rows \<and> (\<not> ?all \<longrightarrow> w_notified w' = w_notified w)"
  proof (cases ?all)
    case False
    then show ?thesis using run finish [of w] by (simp add: updateRouteStatus_circle_def)
  next
    case True
    obtain x where x: "findByCircleId circle (w_db w) = (Inr x, w_db w)"
      using run True findByCircleId_state [of circle "w_db w"]
      by (cases "findByCircleId circle (w_db w)"; cases "fst (findByCircleId circle (w_db w))")
        (simp_all add: updateRouteStatus_circle_def await_def on_db_def)
    obtain r k where k: "routes_notifyCallback env x SUCCEEDED w = (r, k)" by fastforce
    then have "v2deployments (w_db k) = v2deployments (w_db w)" using notify_frame by (metis snd_conv)
    moreover have "on_db (updateRouteStatus circle True) k = (Inr d, w')"
      using run True x k by (cases r)
        (simp_all add: updateRouteStatus_circle_def await_then_def await_def on_db_def [of "findByCircleId _"])
    ultimately show ?thesis using finish [of k] True by simp
  qed
  then have rows: "v2deployments (w_db w') = ?rows"
    and silent: "\<not> ?all \<Longrightarrow> w_notified w' = w_notified w" by blast+
  have "routed x \<longleftrightarrow> ?all" if x: "x \<in> set ?rows" "circleId x = circle" "current x" for x
  proof -
    from x(1) obtain y where "x = (if circleId y = circle \<and> current y then y\<lparr>routed := ?all\<rparr> else y)"
      unfolding set_map by (rule imageE)
    with x(2,3) show ?thesis by (cases "circleId y = circle \<and> current y") simp_all
  qed
  moreover have "filter (\<lambda>x. circleId x \<noteq> circle) ?rows
      = filter (\<lambda>x. circleId x \<noteq> circle) (v2deployments (w_db w))"
    by (rule filter_map_same) simp_all
  moreover have "?all \<longleftrightarrow> (\<forall>s \<in> set sts. st_status s)" by (simp add: list_all_iff)
  ultimately show ?thesis using silent unfolding rows by blast
qed

lemma circle_routed_iff_all_good_witness:
  "list_all routed (filter (\<lambda>x. circleId x = ''blue'' \<and> current x)
      (v2deployments (w_db (snd (updateRouteStatus_circle (ex_env 3000 ''e3'')
        (''blue'', [\<lparr>st_circle = ''blue'', st_component = ''app'', st_status = True, st_kind = ''VirtualService''\<rparr>])
        ex_world2)))))"
proof -
  let ?sts = "[\<lparr>st_circle = ''blue'', st_component = ''app'', st_status = True, st_kind = ''VirtualService''\<rparr>]"
  have "(case fst (updateRouteStatus_circle (ex_env 3000 ''e3'') (''blue'', ?sts) ex_world2) of
      Inr _ \<Rightarrow> True | Inl _ \<Rightarrow> False)" by code_simp
  then obtain d w' where run: "updateRouteStatus_circle (ex_env 3000 ''e3'') (''blue'', ?sts) ex_world2
      = (Inr d, w')"
    by (cases "updateRouteStatus_circle (ex_env 3000 ''e3'') (''blue'', ?sts) ex_world2")
      (auto split: sum.splits)
  from circle_routed_iff_all_good [OF run] run show ?thesis by (simp add: list_all_iff)
qed

end
