(* ===== verification/Charts.thy ===== *)
theory Charts
  imports Deployments
begin

text \<open>
  Reading a chart from a git provider: \<open>core/integrations/github\<close>, \<open>core/integrations/gitlab\<close>
  and the factory that chooses between them. Both walk the remote directory and return it as
  a \<open>Resource\<close>.

  The HTTP client and the WHATWG \<open>URL\<close> functions are parameters: one attempt of a \<open>GET\<close>
  (\<open>http_get url n\<close>, the answer to attempt \<open>n\<close>), what the URL parser makes of a path it is
  given (\<open>url_path\<close>), how query parameters are printed (\<open>show_query\<close>) and
  \<open>encodeURIComponent\<close>. A walk of a remote directory may not end (the server decides), so it
  has fuel, the depth it may reach; running out of it is \<open>None\<close>.
\<close>

subsection \<open>Resources and requests\<close>

datatype Resource =
    FileResource (res_name: string) (res_content: "string option")
  | DirResource (res_name: string) (res_children: "Resource list")

record RequestConfig =
  rc_url :: string
  rc_token :: string
  rc_resourceName :: string

record url =
  u_origin :: string
  u_pathname :: string
  u_params :: "(string \<times> string) list"

record fetch_failure =
  ff_response :: "(nat \<times> string) option"
  ff_error :: string

datatype github_entry = GhEntry (gh_name: string) (gh_is_dir: bool) (gh_link: string)
datatype github_data = GhFile string string | GhDir "github_entry list"

datatype gitlab_entry = GlEntry (gl_name: string) (gl_is_tree: bool) (gl_path: string)
datatype gitlab_data = GlTree "gitlab_entry list" | GlFile string string

text \<open>
  \<open>None\<close> in a response: no response, or a listing or content with no data. A failed attempt
  carries the status and status text of the response, where there was one, and how the error
  prints.
\<close>

record 'd http =
  http_get :: "string \<Rightarrow> nat \<Rightarrow> fetch_failure + 'd option"
  url_path :: "string \<Rightarrow> string"
  show_query :: "(string \<times> string) list \<Rightarrow> string"
  encodeURIComponent :: "string \<Rightarrow> string"

definition fetch_exception :: "string \<Rightarrow> string \<Rightarrow> fetch_failure \<Rightarrow> app_error" where
  "fetch_exception provider u f =
     (let status = (case ff_response f of Some (st, t) \<Rightarrow> st | None \<Rightarrow> INTERNAL_SERVER_ERROR);
          statusMessage = (case ff_response f of Some (st, t) \<Rightarrow> t | None \<Rightarrow> ''INTERNAL_SERVER_ERROR'')
      in HttpError (build (withSource ''components.helmRepository''
           (withDetail (''Status '' @ [CHR 0x27] @ statusMessage @ [CHR 0x27] @ '' with error: '' @ ff_error f)
             (ExceptionBuilder (''Unable to fetch resource from '' @ provider @ '' url: '' @ u) status)))))"

definition plain_exception :: "string \<Rightarrow> app_error" where
  "plain_exception t = HttpError (build (ExceptionBuilder t INTERNAL_SERVER_ERROR))"

subsection \<open>github-repository.ts\<close>

definition gh_url :: "github_data http \<Rightarrow> url \<Rightarrow> string" where
  "gh_url h u = u_origin u @ u_pathname u @ show_query h (u_params u)"

definition gh_fetch :: "github_data http \<Rightarrow> string \<Rightarrow> app_error + github_data option" where
  "gh_fetch h u =
     (case fst (retryWhen FETCH_RESOURCE_MAXIMUM_RETRY_ATTEMPTS (http_get h u) 0) of
        Inl f \<Rightarrow> Inl (fetch_exception ''github'' u f)
      | Inr r \<Rightarrow> Inr r)"

text \<open>\<open>url.pathname = `${url.pathname}/${name}`\<close>: the object is changed in place.\<close>

definition gh_descend :: "github_data http \<Rightarrow> string \<Rightarrow> url \<Rightarrow> url" where
  "gh_descend h nm u = u\<lparr>u_pathname := url_path h (u_pathname u @ ''/'' @ nm)\<rparr>"

text \<open>
  The content of an entry that is not a directory. A directory listing in its place has no
  \<open>content\<close> property.
\<close>

definition gh_file :: "github_data http \<Rightarrow> github_entry \<Rightarrow> app_error + Resource" where
  "gh_file h item =
     (case gh_fetch h (gh_link item) of
        Inl e \<Rightarrow> Inl e
      | Inr None \<Rightarrow> Inl (plain_exception ''Error reading file content'')
      | Inr (Some (GhFile n c)) \<Rightarrow> Inr (FileResource (gh_name item) (Some c))
      | Inr (Some (GhDir es)) \<Rightarrow> Inr (FileResource (gh_name item) None))"

text \<open>
  The loop over a listing. All directories of the walk share one \<open>URL\<close> object: it is
  threaded through the loop and through the recursive calls \<open>down\<close>.
\<close>

fun gh_items ::
  "github_data http \<Rightarrow> (url \<Rightarrow> string \<Rightarrow> (app_error + Resource) option \<times> url)
    \<Rightarrow> url \<Rightarrow> github_entry list \<Rightarrow> (app_error + Resource list) option \<times> url" where
  "gh_items h down u [] = (Some (Inr []), u)"
| "gh_items h down u (item # items) =
     (let (r, u') = (if gh_is_dir item then down (gh_descend h (gh_name item) u) (gh_name item)
                     else (Some (gh_file h item), u))
      in case r of
           None \<Rightarrow> (None, u')
         | Some (Inl e) \<Rightarrow> (Some (Inl e), u')
         | Some (Inr c) \<Rightarrow>
             (case gh_items h down u' items of
                (Some (Inr cs), u'') \<Rightarrow> (Some (Inr (c # cs)), u'')
              | other \<Rightarrow> other))"

fun gh_downloadResource ::
  "github_data http \<Rightarrow> nat \<Rightarrow> url \<Rightarrow> string \<Rightarrow> (app_error + Resource) option \<times> url" where
  "gh_downloadResource h 0 u nm = (None, u)"
| "gh_downloadResource h (Suc n) u nm =
     (case gh_fetch h (gh_url h u) of
        Inl e \<Rightarrow> (Some (Inl e), u)
      | Inr None \<Rightarrow> (Some (Inl (plain_exception ''Error downloading chart'')), u)
      | Inr (Some (GhFile fn c)) \<Rightarrow> (Some (Inr (FileResource fn (Some c))), u)
      | Inr (Some (GhDir items)) \<Rightarrow>
          (case gh_items h (gh_downloadResource h n) u items of
             (Some (Inr cs), u') \<Rightarrow> (Some (Inr (DirResource nm cs)), u')
           | (Some (Inl e), u') \<Rightarrow> (Some (Inl e), u')
           | (None, u') \<Rightarrow> (None, u')))"

text \<open>\<open>new URL(s)\<close> is a parameter (\<open>parse\<close>): the parts of the address, or it throws.\<close>

definition gh_getResource ::
  "github_data http \<Rightarrow> (string \<Rightarrow> url option) \<Rightarrow> nat \<Rightarrow> RequestConfig
    \<Rightarrow> (app_error + Resource) option" where
  "gh_getResource h parse fuel cfg =
     (case parse (rc_url cfg) of
        None \<Rightarrow> Some (Inl TypeError)
      | Some u \<Rightarrow>
          fst (gh_downloadResource h fuel (gh_descend h (rc_resourceName cfg) u) (rc_resourceName cfg)))"

subsection \<open>gitlab-repository.ts\<close>

definition get_param :: "string \<Rightarrow> url \<Rightarrow> string option" where
  "get_param k u = map_of (u_params u) k"

definition appendPathParam :: "string \<Rightarrow> url \<Rightarrow> url" where
  "appendPathParam nm u =
     (let pathValue = get_param ''path'' u
      in u\<lparr>u_params := AList.update ''path''
             (if truthy pathValue then the pathValue @ ''/'' @ nm else nm) (u_params u)\<rparr>)"

definition gl_fetch :: "gitlab_data http \<Rightarrow> string \<Rightarrow> app_error + gitlab_data option" where
  "gl_fetch h u =
     (case fst (retryWhen MOOVE_NOTIFICATION_MAXIMUM_RETRY_ATTEMPTS (http_get h u) 0) of
        Inl f \<Rightarrow> Inl (fetch_exception ''gitlab'' u f)
      | Inr r \<Rightarrow> Inr r)"

definition gl_tree_url :: "gitlab_data http \<Rightarrow> url \<Rightarrow> string" where
  "gl_tree_url h u = u_origin u @ u_pathname u @ ''/tree'' @ show_query h (u_params u)"

definition gl_file_url :: "gitlab_data http \<Rightarrow> url \<Rightarrow> string \<Rightarrow> string" where
  "gl_file_url h u path =
     u_origin u @ u_pathname u @ ''/files/'' @ encodeURIComponent h path @ ''?ref=''
     @ (case get_param ''ref'' u of None \<Rightarrow> ''null'' | Some r \<Rightarrow> r)"

text \<open>
  A listing in the place of a file has neither a \<open>file_name\<close> nor a \<open>content\<close>; the missing
  name prints as \<open>undefined\<close>.
\<close>

definition downloadFile :: "gitlab_data http \<Rightarrow> url \<Rightarrow> string \<Rightarrow> app_error + Resource" where
  "downloadFile h u path =
     (case gl_fetch h (gl_file_url h u path) of
        Inl e \<Rightarrow> Inl e
      | Inr (Some (GlFile n c)) \<Rightarrow> Inr (FileResource n (Some c))
      | Inr (Some (GlTree es)) \<Rightarrow> Inr (FileResource ''undefined'' None)
      | Inr None \<Rightarrow> Inl (plain_exception ''Error downloading file''))"

fun gl_items ::
  "gitlab_data http \<Rightarrow> (url \<Rightarrow> string \<Rightarrow> (app_error + Resource) option)
    \<Rightarrow> url \<Rightarrow> gitlab_entry list \<Rightarrow> (app_error + Resource list) option" where
  "gl_items h down u [] = Some (Inr [])"
| "gl_items h down u (item # items) =
     (case (if gl_is_tree item then down (appendPathParam (gl_name item) u) (gl_name item)
            else Some (downloadFile h u (gl_path item))) of
        None \<Rightarrow> None
      | Some (Inl e) \<Rightarrow> Some (Inl e)
      | Some (Inr c) \<Rightarrow>
          (case gl_items h down u items of
             Some (Inr cs) \<Rightarrow> Some (Inr (c # cs))
           | other \<Rightarrow> other))"

definition isResourceFile :: "gitlab_data \<Rightarrow> bool" where
  "isResourceFile d = (case d of GlTree es \<Rightarrow> es = [] | GlFile n c \<Rightarrow> True)"

definition gl_entries :: "gitlab_data \<Rightarrow> gitlab_entry list" where
  "gl_entries d = (case d of GlTree es \<Rightarrow> es | GlFile n c \<Rightarrow> [])"

fun gl_downloadResource ::
  "gitlab_data http \<Rightarrow> nat \<Rightarrow> url \<Rightarrow> string \<Rightarrow> (app_error + Resource) option" where
  "gl_downloadResource h 0 u nm = None"
| "gl_downloadResource h (Suc n) u nm =
     (case gl_fetch h (gl_tree_url h u) of
        Inl e \<Rightarrow> Some (Inl e)
      | Inr None \<Rightarrow> Some (Inl (plain_exception ''Error downloading resource''))
      | Inr (Some d) \<Rightarrow>
          if isResourceFile d then Some (downloadFile h u nm)
          else
            (case gl_items h (gl_downloadResource h n) u (gl_entries d) of
               Some (Inr cs) \<Rightarrow> Some (Inr (DirResource nm cs))
             | Some (Inl e) \<Rightarrow> Some (Inl e)
             | None \<Rightarrow> None))"

definition gl_getResource ::
  "gitlab_data http \<Rightarrow> (string \<Rightarrow> url option) \<Rightarrow> nat \<Rightarrow> RequestConfig
    \<Rightarrow> (app_error + Resource) option" where
  "gl_getResource h parse fuel cfg =
     (case parse (rc_url cfg) of
        None \<Rightarrow> Some (Inl TypeError)
      | Some u \<Rightarrow> gl_downloadResource h fuel (appendPathParam (rc_resourceName cfg) u) (rc_resourceName cfg))"

subsection \<open>repository-strategy-factory.ts\<close>

type_synonym get_resource = "nat \<Rightarrow> RequestConfig \<Rightarrow> (app_error + Resource) option"

definition RepositoryStrategyFactory_create ::
  "get_resource \<Rightarrow> get_resource \<Rightarrow> GitProvidersEnum \<Rightarrow> get_resource" where
  "RepositoryStrategyFactory_create gitHubRepository gitLabRepository ty =
     (case ty of GITHUB \<Rightarrow> gitHubRepository | GITLAB \<Rightarrow> gitLabRepository)"

subsection \<open>A server that has the chart\<close>

definition is_dir :: "Resource \<Rightarrow> bool" where
  "is_dir t = (case t of DirResource n cs \<Rightarrow> True | FileResource n c \<Rightarrow> False)"

lemma is_dir_simps [simp]: "is_dir (DirResource n cs)" "\<not> is_dir (FileResource n c)"
  by (simp_all add: is_dir_def)

fun depth :: "Resource \<Rightarrow> nat" where
  "depth (FileResource n c) = 0"
| "depth (DirResource n cs) = Suc (fold max (map depth cs) 0)"

lemma fold_max_le: "fold max ns (m::nat) \<le> k \<longleftrightarrow> m \<le> k \<and> (\<forall>n \<in> set ns. n \<le> k)"
  by (induction ns arbitrary: m) auto

lemma depth_children: "depth (DirResource n cs) \<le> Suc k \<longleftrightarrow> (\<forall>c \<in> set cs. depth c \<le> k)"
  by (simp add: fold_max_le)

fun tree_contents :: "Resource \<Rightarrow> string option list" where
  "tree_contents (FileResource n c) = [c]"
| "tree_contents (DirResource n cs) = concat (map tree_contents cs)"

text \<open>
  A GitHub server holds the tree \<open>t\<close> in the directory with the address \<open>u\<close>: listings answer
  with the entries, the link of a file (\<open>link\<close>) with its content.
\<close>

definition gh_entry :: "(url \<Rightarrow> string \<Rightarrow> string) \<Rightarrow> url \<Rightarrow> Resource \<Rightarrow> github_entry" where
  "gh_entry link u t = GhEntry (res_name t) (is_dir t) (link u (res_name t))"

fun gh_serves :: "github_data http \<Rightarrow> (url \<Rightarrow> string \<Rightarrow> string) \<Rightarrow> url \<Rightarrow> Resource \<Rightarrow> bool" where
  "gh_serves h link u (FileResource n c) \<longleftrightarrow>
     (\<exists>x. c = Some x \<and> gh_fetch h (link u n) = Inr (Some (GhFile n x)))"
| "gh_serves h link u (DirResource n cs) \<longleftrightarrow>
     gh_fetch h (gh_url h (gh_descend h n u)) = Inr (Some (GhDir (map (gh_entry link (gh_descend h n u)) cs)))
     \<and> (\<forall>c \<in> set cs. gh_serves h link (gh_descend h n u) c)"

text \<open>No directory of the tree has two directories in it.\<close>

fun chain :: "Resource \<Rightarrow> bool" where
  "chain (FileResource n c) = True"
| "chain (DirResource n cs) \<longleftrightarrow> length (filter is_dir cs) \<le> 1 \<and> (\<forall>c \<in> set cs. chain c)"

lemma gh_entry_simps [simp]:
  "gh_name (gh_entry link u c) = res_name c" "gh_is_dir (gh_entry link u c) = is_dir c"
  "gh_link (gh_entry link u c) = link u (res_name c)"
  by (simp_all add: gh_entry_def)

lemma gh_file_served:
  assumes "gh_serves h link u c" and "\<not> is_dir c"
  shows "gh_file h (gh_entry link u c) = Inr c"
  using assms by (cases c) (auto simp: gh_file_def)

lemma gh_items_files:
  assumes "\<forall>c \<in> set cs. gh_serves h link u c \<and> \<not> is_dir c"
  shows "gh_items h down v (map (gh_entry link u) cs) = (Some (Inr cs), v)"
  using assms by (induction cs) (simp_all add: gh_file_served)

lemma gh_items_served:
  assumes "\<forall>c \<in> set cs. gh_serves h link u c" and "length (filter is_dir cs) \<le> 1"
    and "\<And>c. c \<in> set cs \<Longrightarrow> is_dir c \<Longrightarrow>
      fst (down (gh_descend h (res_name c) u) (res_name c)) = Some (Inr c)"
  shows "fst (gh_items h down u (map (gh_entry link u) cs)) = Some (Inr cs)"
  using assms
proof (induction cs)
  case Nil
  then show ?case by simp
next
  case (Cons c cs)
  show ?case
  proof (cases "is_dir c")
    case False
    then have "gh_file h (gh_entry link u c) = Inr c" using Cons.prems(1) gh_file_served by simp
    moreover have "fst (gh_items h down u (map (gh_entry link u) cs)) = Some (Inr cs)"
      using Cons False by simp
    ultimately show ?thesis
      using False by (cases "gh_items h down u (map (gh_entry link u) cs)") simp
  next
    case True
    then have files: "\<forall>c \<in> set cs. gh_serves h link u c \<and> \<not> is_dir c"
      using Cons.prems(1,2) by (simp add: filter_empty_conv)
    obtain v where "down (gh_descend h (res_name c) u) (res_name c) = (Some (Inr c), v)"
      using Cons.prems(3) [of c] True by (metis list.set_intros(1) prod.collapse)
    then show ?thesis
      using gh_items_files [OF files, of down v] True by simp
  qed
qed

lemma gh_download_served:
  assumes "gh_serves h link u t" and "chain t" and "is_dir t" and "depth t \<le> fuel"
  shows "fst (gh_downloadResource h fuel (gh_descend h (res_name t) u) (res_name t)) = Some (Inr t)"
  using assms
proof (induction fuel arbitrary: t u)
  case 0
  then show ?case by (cases t) simp_all
next
  case (Suc k)
  from Suc.prems(3) obtain n cs where t: "t = DirResource n cs" by (cases t) simp_all
  let ?v = "gh_descend h n u"
  have "fst (gh_items h (gh_downloadResource h k) ?v (map (gh_entry link ?v) cs)) = Some (Inr cs)"
  proof (rule gh_items_served)
    show "\<forall>c \<in> set cs. gh_serves h link ?v c" "length (filter is_dir cs) \<le> 1"
      using Suc.prems(1,2) by (simp_all add: t)
    show "fst (gh_downloadResource h k (gh_descend h (res_name c) ?v) (res_name c)) = Some (Inr c)"
      if "c \<in> set cs" "is_dir c" for c
      using that Suc.prems depth_children [of n cs k] by (intro Suc.IH) (auto simp: t)
  qed
  then show ?case
    using Suc.prems(1) by (auto simp: t split: prod.splits)
qed

text \<open>The same for a GitLab server, whose entries carry their full path.\<close>

definition gl_entry :: "url \<Rightarrow> Resource \<Rightarrow> gitlab_entry" where
  "gl_entry u t = GlEntry (res_name t) (is_dir t) (or_else (get_param ''path'' u) [] @ ''/'' @ res_name t)"

fun gl_serves :: "gitlab_data http \<Rightarrow> url \<Rightarrow> Resource \<Rightarrow> bool" where
  "gl_serves h u (FileResource n c) \<longleftrightarrow>
     (\<exists>x. c = Some x
        \<and> gl_fetch h (gl_file_url h u (gl_path (gl_entry u (FileResource n c)))) = Inr (Some (GlFile n x)))"
| "gl_serves h u (DirResource n cs) \<longleftrightarrow>
     cs \<noteq> []
     \<and> gl_fetch h (gl_tree_url h (appendPathParam n u))
         = Inr (Some (GlTree (map (gl_entry (appendPathParam n u)) cs)))
     \<and> (\<forall>c \<in> set cs. gl_serves h (appendPathParam n u) c)"

lemma gl_items_served:
  assumes "\<forall>c \<in> set cs. gl_serves h u c"
    and "\<And>c. c \<in> set cs \<Longrightarrow> is_dir c \<Longrightarrow>
      down (appendPathParam (res_name c) u) (res_name c) = Some (Inr c)"
  shows "gl_items h down u (map (gl_entry u) cs) = Some (Inr cs)"
  using assms
proof (induction cs)
  case Nil
  then show ?case by simp
next
  case (Cons c cs)
  have rest: "gl_items h down u (map (gl_entry u) cs) = Some (Inr cs)"
    using Cons by simp
  show ?case
  proof (cases c)
    case (FileResource n x)
    then have "downloadFile h u (gl_path (gl_entry u c)) = Inr c"
      using Cons.prems(1) by (auto simp: downloadFile_def)
    moreover have "\<not> gl_is_tree (gl_entry u c)" by (simp add: gl_entry_def FileResource)
    ultimately show ?thesis using rest by simp
  next
    case (DirResource n ds)
    then have "gl_is_tree (gl_entry u c)" "gl_name (gl_entry u c) = res_name c" "is_dir c"
      by (simp_all add: gl_entry_def)
    with Cons.prems(2) [of c] rest show ?thesis by simp
  qed
qed

lemma gl_download_served:
  assumes "gl_serves h u t" and "is_dir t" and "depth t \<le> fuel"
  shows "gl_downloadResource h fuel (appendPathParam (res_name t) u) (res_name t) = Some (Inr t)"
  using assms
proof (induction fuel arbitrary: t u)
  case 0
  then show ?case by (cases t) simp_all
next
  case (Suc k)
  from Suc.prems(2) obtain n cs where t: "t = DirResource n cs" by (cases t) simp_all
  let ?v = "appendPathParam n u"
  have "gl_items h (gl_downloadResource h k) ?v (map (gl_entry ?v) cs) = Some (Inr cs)"
  proof (rule gl_items_served)
    show "\<forall>c \<in> set cs. gl_serves h ?v c" using Suc.prems(1) by (simp add: t)
    show "gl_downloadResource h k (appendPathParam (res_name c) ?v) (res_name c) = Some (Inr c)"
      if "c \<in> set cs" "is_dir c" for c
      using that Suc.prems depth_children [of n cs k] by (intro Suc.IH) (auto simp: t)
  qed
  then show ?case
    using Suc.prems(1) by (simp add: t isResourceFile_def gl_entries_def)
qed

subsection \<open>The contract of a chart repository\<close>

text \<open>
  What the renderer relies on: a request for a chart the repository has ends, with the
  directory of that name and everything in it, as soon as the walk may go as deep as the
  chart.
\<close>

locale chart_repository =
  fixes get :: get_resource
    and holds :: "RequestConfig \<Rightarrow> Resource \<Rightarrow> bool"
  assumes found: "holds cfg t \<Longrightarrow> depth t \<le> fuel \<Longrightarrow> get fuel cfg = Some (Inr t)"
    and directory: "holds cfg t \<Longrightarrow> is_dir t \<and> res_name t = rc_resourceName cfg"
    and contents: "holds cfg t \<Longrightarrow> \<forall>x \<in> set (tree_contents t). x \<noteq> None"

definition gh_holds :: "github_data http \<Rightarrow> (string \<Rightarrow> url option) \<Rightarrow> (url \<Rightarrow> string \<Rightarrow> string)
    \<Rightarrow> RequestConfig \<Rightarrow> Resource \<Rightarrow> bool" where
  "gh_holds h parse link cfg t \<longleftrightarrow>
     (\<exists>u. parse (rc_url cfg) = Some u \<and> gh_serves h link u t) \<and> chain t \<and> is_dir t
     \<and> res_name t = rc_resourceName cfg"

definition gl_holds :: "gitlab_data http \<Rightarrow> (string \<Rightarrow> url option) \<Rightarrow> RequestConfig \<Rightarrow> Resource \<Rightarrow> bool" where
  "gl_holds h parse cfg t \<longleftrightarrow>
     (\<exists>u. parse (rc_url cfg) = Some u \<and> gl_serves h u t) \<and> is_dir t
     \<and> res_name t = rc_resourceName cfg"

lemma gh_contents: "gh_serves h link u t \<Longrightarrow> \<forall>x \<in> set (tree_contents t). x \<noteq> None"
  by (induction h link u t rule: gh_serves.induct) auto

lemma gl_contents: "gl_serves h u t \<Longrightarrow> \<forall>x \<in> set (tree_contents t). x \<noteq> None"
  by (induction h u t rule: gl_serves.induct) auto

interpretation github: chart_repository "gh_getResource h parse" "gh_holds h parse link" for h parse link
proof unfold_locales
  fix cfg t fuel
  assume holds: "gh_holds h parse link cfg t" and "depth t \<le> fuel"
  then obtain u where "parse (rc_url cfg) = Some u" "gh_serves h link u t"
    by (auto simp: gh_holds_def)
  with holds \<open>depth t \<le> fuel\<close> gh_download_served [of h link u t fuel]
  show "gh_getResource h parse fuel cfg = Some (Inr t)"
    by (simp add: gh_getResource_def gh_holds_def)
qed (use gh_contents in \<open>auto simp: gh_holds_def\<close>)

interpretation gitlab: chart_repository "gl_getResource h parse" "gl_holds h parse" for h parse
proof unfold_locales
  fix cfg t fuel
  assume holds: "gl_holds h parse cfg t" and "depth t \<le> fuel"
  then obtain u where "parse (rc_url cfg) = Some u" "gl_serves h u t"
    by (auto simp: gl_holds_def)
  with holds \<open>depth t \<le> fuel\<close> gl_download_served [of h u t fuel]
  show "gl_getResource h parse fuel cfg = Some (Inr t)"
    by (simp add: gl_getResource_def gl_holds_def)
qed (use gl_contents in \<open>auto simp: gl_holds_def\<close>)

end
