(* ===== verification/Helm.thy ===== *)
theory Helm
  imports Charts
begin

text \<open>
  Rendering a component's chart (\<open>core/manifests/helm/helm-manifest.ts\<close>): the chart is read
  from its repository, written into a fresh temporary directory, rendered by the \<open>helm\<close>
  program and parsed; the directory is removed afterwards.

  The file system, the program and the YAML parser are parameters: what creating a directory
  or writing a file fails with, what \<open>helm\<close> prints on its two outputs for its arguments and
  the files it finds, and the documents of a text (or the parser's message).
\<close>

record chart_dir =
  fs_dirs :: "string list"
  fs_files :: "(string \<times> string) list"
  fs_removed :: "string list"

record helm_env =
  tmp_chart_dir :: string
  mkdir_error :: "string \<Rightarrow> string option"
  write_error :: "string \<Rightarrow> string option \<Rightarrow> string option"
  run_helm :: "string list \<Rightarrow> (string \<times> string) list \<Rightarrow> string \<times> string"
  yaml_safeLoadAll :: "string \<Rightarrow> string + KubernetesManifest list"

definition make_dir :: "helm_env \<Rightarrow> string \<Rightarrow> chart_dir \<Rightarrow> (string + unit) \<times> chart_dir" where
  "make_dir env p s =
     (case mkdir_error env p of
        Some m \<Rightarrow> (Inl m, s)
      | None \<Rightarrow> (Inr (), s\<lparr>fs_dirs := fs_dirs s @ [p]\<rparr>))"

definition write_file :: "helm_env \<Rightarrow> string \<Rightarrow> string option \<Rightarrow> chart_dir \<Rightarrow> (string + unit) \<times> chart_dir" where
  "write_file env p c s =
     (case write_error env p c of
        Some m \<Rightarrow> (Inl m, s)
      | None \<Rightarrow> (Inr (), s\<lparr>fs_files := fs_files s @ [(p, or_else c [])]\<rparr>))"

fun saveChartFiles :: "helm_env \<Rightarrow> string \<Rightarrow> Resource \<Rightarrow> chart_dir \<Rightarrow> (string + unit) \<times> chart_dir"
and save_children :: "helm_env \<Rightarrow> string \<Rightarrow> Resource list \<Rightarrow> chart_dir \<Rightarrow> (string + unit) \<times> chart_dir" where
  "saveChartFiles env chartPath (FileResource n c) s = make_dir env (chartPath @ ''/'' @ n) s"
| "saveChartFiles env chartPath (DirResource n cs) s =
     (let basePath = chartPath @ ''/'' @ n
      in case make_dir env basePath s of
           (Inl m, s') \<Rightarrow> (Inl m, s')
         | (Inr _, s') \<Rightarrow> save_children env basePath cs s')"
| "save_children env basePath [] s = (Inr (), s)"
| "save_children env basePath (child # children) s =
     (case (case child of
              DirResource n cs \<Rightarrow> saveChartFiles env basePath child s
            | FileResource n c \<Rightarrow> write_file env (basePath @ ''/'' @ n) c s) of
        (Inl m, s') \<Rightarrow> (Inl m, s')
      | (Inr _, s') \<Rightarrow> save_children env basePath children s')"

definition getValuesFile :: "string \<Rightarrow> string \<Rightarrow> string" where
  "getValuesFile chartPath componentName =
     chartPath @ ''/'' @ componentName @ ''/'' @ componentName @ ''.yaml''"

definition extractCustomValues :: "ManifestConfig \<Rightarrow> (string \<times> string) list" where
  "extractCustomValues cfg =
     [(''name'', mc_componentName cfg), (''image.url'', mc_imageUrl cfg),
      (''circleId'', mc_circleId cfg), (''component'', mc_componentName cfg), (''tag'', mc_tag cfg)]"

definition toStringArray :: "(string \<times> string) list \<Rightarrow> string" where
  "toStringArray customValues =
     foldl (\<lambda>acc (k, v). if v \<noteq> [] then acc @ k @ ''='' @ v @ '','' else acc) [] customValues"

definition formatArguments :: "string \<Rightarrow> ManifestConfig \<Rightarrow> string list" where
  "formatArguments chartPath cfg =
     (let chart = chartPath @ ''/'' @ mc_componentName cfg;
          valuesFile = getValuesFile chartPath (mc_componentName cfg);
          overrideValues = toStringArray (extractCustomValues cfg)
      in [''template'', mc_componentName cfg, chart, ''-f'', valuesFile]
         @ (if mc_namespace cfg \<noteq> [] then [''--namespace'', mc_namespace cfg] else [])
         @ (if overrideValues \<noteq> [] then [''--set'', overrideValues] else []))"

text \<open>The exit code is ignored: anything on the error output is the failure.\<close>

definition executeCommand :: "helm_env \<Rightarrow> string list \<Rightarrow> chart_dir \<Rightarrow> string + string" where
  "executeCommand env args s =
     (let (result, err) = run_helm env args (fs_files s)
      in if err \<noteq> [] then Inl err else Inr result)"

definition helm_template :: "helm_env \<Rightarrow> string \<Rightarrow> ManifestConfig \<Rightarrow> chart_dir \<Rightarrow> string + KubernetesManifest list" where
  "helm_template env chartPath cfg s =
     and_then (executeCommand env (formatArguments chartPath cfg) s) (yaml_safeLoadAll env)"

definition cleanUp :: "string \<Rightarrow> chart_dir \<Rightarrow> chart_dir" where
  "cleanUp dir s = s\<lparr>fs_removed := fs_removed s @ [dir]\<rparr>"

definition invalid_manifest :: "string \<Rightarrow> app_error" where
  "invalid_manifest m = HttpError (build (withDetail m
     (ExceptionBuilder ''Not a valid manifest'' UNPROCESSABLE_ENTITY)))"

definition no_files :: chart_dir where
  "no_files = \<lparr>fs_dirs = [], fs_files = [], fs_removed = []\<rparr>"

definition HelmManifest_generate ::
  "helm_env \<Rightarrow> (GitProvidersEnum \<Rightarrow> get_resource) \<Rightarrow> nat \<Rightarrow> ManifestConfig
    \<Rightarrow> (app_error + KubernetesManifest list) option \<times> chart_dir" where
  "HelmManifest_generate env factory fuel cfg =
     (let requestConfig = \<lparr>rc_url = repo_url (mc_repo cfg), rc_token = repo_token (mc_repo cfg),
                           rc_resourceName = mc_componentName cfg\<rparr>;
          repository = factory (repo_provider (mc_repo cfg))
      in case repository fuel requestConfig of
           None \<Rightarrow> (None, no_files)
         | Some (Inl e) \<Rightarrow> (Some (Inl e), no_files)
         | Some (Inr chart) \<Rightarrow>
             (let chartPath = tmp_chart_dir env
              in case saveChartFiles env chartPath chart no_files of
                   (Inl m, s) \<Rightarrow> (Some (Inl (invalid_manifest m)), cleanUp chartPath s)
                 | (Inr _, s) \<Rightarrow>
                     (case helm_template env chartPath cfg s of
                        Inl m \<Rightarrow> (Some (Inl (invalid_manifest m)), cleanUp chartPath s)
                      | Inr manifest \<Rightarrow> (Some (Inr manifest), cleanUp chartPath s))))"

subsection \<open>The files helm finds\<close>

fun tree_files :: "string \<Rightarrow> Resource \<Rightarrow> (string \<times> string) list" where
  "tree_files p (FileResource n c) = [(p @ ''/'' @ n, or_else c [])]"
| "tree_files p (DirResource n cs) = concat (map (tree_files (p @ ''/'' @ n)) cs)"

definition writable :: "helm_env \<Rightarrow> bool" where
  "writable env \<longleftrightarrow> (\<forall>p. mkdir_error env p = None) \<and> (\<forall>p c. write_error env p (Some c) = None)"

text \<open>What saving adds: the files, nothing removed.\<close>

definition saved :: "(string \<times> string) list \<Rightarrow> chart_dir \<Rightarrow> (string + unit) \<times> chart_dir \<Rightarrow> bool" where
  "saved fs s r \<longleftrightarrow> fst r = Inr () \<and> fs_files (snd r) = fs_files s @ fs
     \<and> fs_removed (snd r) = fs_removed s"

lemma saved_files:
  "writable env \<Longrightarrow> is_dir t \<Longrightarrow> \<forall>x \<in> set (tree_contents t). x \<noteq> None
    \<Longrightarrow> saved (tree_files p t) s (saveChartFiles env p t s)"
  "writable env \<Longrightarrow> \<forall>x \<in> set (concat (map tree_contents cs)). x \<noteq> None
    \<Longrightarrow> saved (concat (map (tree_files q) cs)) s (save_children env q cs s)"
proof (induction env p t s and env q cs s rule: saveChartFiles_save_children.induct)
  case (1 env p n c s)
  then show ?case by simp
next
  case (2 env p n cs s)
  let ?s = "s\<lparr>fs_dirs := fs_dirs s @ [p @ ''/'' @ n]\<rparr>"
  have dir: "make_dir env (p @ ''/'' @ n) s = (Inr (), ?s)"
    using 2 by (simp add: make_dir_def writable_def)
  then have "saved (concat (map (tree_files (p @ ''/'' @ n)) cs)) ?s (save_children env (p @ ''/'' @ n) cs ?s)"
    using 2 by simp
  then show ?case using dir by (simp add: saved_def Let_def)
next
  case (3 env q s)
  then show ?case by (simp add: saved_def)
next
  case (4 env q c cs s)
  have head: "saved (tree_files q c) s (case c of
      DirResource n ds \<Rightarrow> saveChartFiles env q c s
    | FileResource n x \<Rightarrow> write_file env (q @ ''/'' @ n) x s)"
  proof (cases c)
    case (FileResource n x)
    with 4 show ?thesis by (auto simp: saved_def write_file_def writable_def)
  next
    case (DirResource n ds)
    with 4 show ?thesis by simp
  qed
  obtain s' where s': "(case c of DirResource n ds \<Rightarrow> saveChartFiles env q c s
      | FileResource n x \<Rightarrow> write_file env (q @ ''/'' @ n) x s) = (Inr (), s')"
    and files: "fs_files s' = fs_files s @ tree_files q c" "fs_removed s' = fs_removed s"
    using head by (cases "(case c of DirResource n ds \<Rightarrow> saveChartFiles env q c s
      | FileResource n x \<Rightarrow> write_file env (q @ ''/'' @ n) x s)") (auto simp: saved_def)
  have "saved (concat (map (tree_files q) cs)) s' (save_children env q cs s')"
    using 4 s' by simp
  then show ?case using s' files by (simp add: saved_def)
qed

text \<open>
  With a repository that has the chart, rendering ends, \<open>helm\<close> is given exactly the files of
  the chart, and its documents are the result; the directory is removed in every case.
\<close>

definition rendered :: "helm_env \<Rightarrow> ManifestConfig \<Rightarrow> Resource \<Rightarrow> app_error + KubernetesManifest list" where
  "rendered env cfg t =
     (let (out, err) = run_helm env (formatArguments (tmp_chart_dir env) cfg)
                         (tree_files (tmp_chart_dir env) t)
      in if err \<noteq> [] then Inl (invalid_manifest err)
         else (case yaml_safeLoadAll env out of Inl m \<Rightarrow> Inl (invalid_manifest m) | Inr ms \<Rightarrow> Inr ms))"

definition chart_request :: "ManifestConfig \<Rightarrow> RequestConfig" where
  "chart_request cfg = \<lparr>rc_url = repo_url (mc_repo cfg), rc_token = repo_token (mc_repo cfg),
     rc_resourceName = mc_componentName cfg\<rparr>"

context chart_repository begin

lemma generate_renders:
  assumes "writable env" and "factory (repo_provider (mc_repo cfg)) = get"
    and holds: "holds (chart_request cfg) t" and "depth t \<le> fuel"
  shows "\<exists>s. HelmManifest_generate env factory fuel cfg = (Some (rendered env cfg t), s)
    \<and> fs_removed s = [tmp_chart_dir env]"
proof -
  let ?p = "tmp_chart_dir env"
  have get: "get fuel (chart_request cfg) = Some (Inr t)" using holds assms(4) by (rule found)
  have "is_dir t" "\<forall>x \<in> set (tree_contents t). x \<noteq> None"
    using directory [OF holds] contents [OF holds] by simp_all
  from saved_files(1) [OF assms(1) this, of ?p no_files] obtain s where
    s: "saveChartFiles env ?p t no_files = (Inr (), s)" "fs_files s = tree_files ?p t" "fs_removed s = []"
    by (cases "saveChartFiles env ?p t no_files") (auto simp: saved_def no_files_def)
  show ?thesis
    using get s assms(2)
    by (auto simp: HelmManifest_generate_def chart_request_def rendered_def helm_template_def
        executeCommand_def cleanUp_def Let_def split: prod.splits sum.splits)
qed

end

end
