(* ===== verification/Rendering.thy ===== *)
theory Rendering
  imports Helm
begin

text \<open>
  What reading and rendering a chart promise, for both providers; the charts the GitHub
  repository reads wrongly; the bounds on the retries of both.
\<close>

subsection \<open>Two small servers\<close>

definition ex_query :: "(string \<times> string) list \<Rightarrow> string" where
  "ex_query ps = concat (map (\<lambda>(k, v). CHR ''&'' # k @ ''='' @ v) ps)"

definition ex_http :: "(string \<times> 'd) list \<Rightarrow> 'd http" where
  "ex_http pages =
     \<lparr>http_get = (\<lambda>u n. case map_of pages u of
         Some d \<Rightarrow> Inr (Some d)
       | None \<Rightarrow> Inl \<lparr>ff_response = Some (404, ''Not Found''), ff_error = ''404''\<rparr>),
      url_path = (\<lambda>p. p), show_query = ex_query, encodeURIComponent = (\<lambda>s. s)\<rparr>"

definition ex_url :: "string \<Rightarrow> url option" where
  "ex_url s = Some \<lparr>u_origin = ''h'', u_pathname = ''/r'', u_params = [(''ref'', ''m'')]\<rparr>"

definition ex_chart :: Resource where
  "ex_chart = DirResource ''app'' [FileResource ''Chart.yaml'' (Some ''Yw=''),
     DirResource ''templates'' [FileResource ''d.yaml'' (Some ''ZA='')]]"

definition ex_gitlab :: "gitlab_data http" where
  "ex_gitlab = ex_http
     [(''h/r/tree&ref=m&path=app'', GlTree [GlEntry ''Chart.yaml'' False ''app/Chart.yaml'',
         GlEntry ''templates'' True ''app/templates'']),
      (''h/r/files/app/Chart.yaml?ref=m'', GlFile ''Chart.yaml'' ''Yw=''),
      (''h/r/tree&ref=m&path=app/templates'', GlTree [GlEntry ''d.yaml'' False ''app/templates/d.yaml'']),
      (''h/r/files/app/templates/d.yaml?ref=m'', GlFile ''d.yaml'' ''ZA='')]"

definition ex_link :: "url \<Rightarrow> string \<Rightarrow> string" where
  "ex_link u n = ''git:'' @ u_pathname u @ ''/'' @ n"

definition ex_github :: "github_data http" where
  "ex_github = ex_http
     [(''h/r/app&ref=m'', GhDir [GhEntry ''Chart.yaml'' False ''git:/r/app/Chart.yaml'',
         GhEntry ''templates'' True ''git:/r/app/templates'']),
      (''git:/r/app/Chart.yaml'', GhFile ''Chart.yaml'' ''Yw=''),
      (''h/r/app/templates&ref=m'', GhDir [GhEntry ''d.yaml'' False ''git:/r/app/templates/d.yaml'']),
      (''git:/r/app/templates/d.yaml'', GhFile ''d.yaml'' ''ZA='')]"

definition ex_document :: "string \<Rightarrow> KubernetesManifest" where
  "ex_document k = \<lparr>m_apiVersion = None, m_kind = Some k, m_metadata = None, m_spec = None\<rparr>"

definition ex_helm :: helm_env where
  "ex_helm = \<lparr>tmp_chart_dir = ''/t'', mkdir_error = (\<lambda>p. None), write_error = (\<lambda>p c. None),
     run_helm = (\<lambda>args files. (join_with ''+'' (map fst files), [])),
     yaml_safeLoadAll = (\<lambda>s. Inr [ex_document s])\<rparr>"

definition ex_config :: "GitProvidersEnum \<Rightarrow> ManifestConfig" where
  "ex_config p = \<lparr>mc_repo = \<lparr>repo_provider = p, repo_url = ''https://h/r'', repo_token = ''t''\<rparr>,
     mc_componentName = ''app'', mc_imageUrl = ''img:v1'', mc_tag = ''v1'', mc_namespace = ''ns'',
     mc_circleId = ''blue''\<rparr>"

lemma ex_gitlab_holds: "gl_holds ex_gitlab ex_url (chart_request (ex_config GITLAB)) ex_chart"
proof -
  let ?u = "the (ex_url [])"
  let ?v = "appendPathParam ''app'' ?u"
  have "gl_fetch ex_gitlab (gl_tree_url ex_gitlab ?v)
      = Inr (Some (GlTree (map (gl_entry ?v) (res_children ex_chart))))"
    "gl_fetch ex_gitlab (gl_tree_url ex_gitlab (appendPathParam ''templates'' ?v))
      = Inr (Some (GlTree [gl_entry (appendPathParam ''templates'' ?v) (FileResource ''d.yaml'' (Some ''ZA=''))]))"
    "gl_fetch ex_gitlab (gl_file_url ex_gitlab ?v (gl_path (gl_entry ?v (FileResource ''Chart.yaml'' (Some ''Yw='')))))
      = Inr (Some (GlFile ''Chart.yaml'' ''Yw=''))"
    "gl_fetch ex_gitlab (gl_file_url ex_gitlab (appendPathParam ''templates'' ?v)
       (gl_path (gl_entry (appendPathParam ''templates'' ?v) (FileResource ''d.yaml'' (Some ''ZA='')))))
      = Inr (Some (GlFile ''d.yaml'' ''ZA=''))"
    by code_simp+
  then have "gl_serves ex_gitlab ?u ex_chart" by (simp add: ex_chart_def)
  then show ?thesis
    by (simp add: gl_holds_def ex_url_def chart_request_def ex_config_def ex_chart_def)
qed

lemma ex_github_holds: "gh_holds ex_github ex_url ex_link (chart_request (ex_config GITHUB)) ex_chart"
proof -
  let ?u = "the (ex_url [])"
  let ?v = "gh_descend ex_github ''app'' ?u"
  let ?t = "gh_descend ex_github ''templates'' ?v"
  have "gh_fetch ex_github (gh_url ex_github ?v)
      = Inr (Some (GhDir (map (gh_entry ex_link ?v) (res_children ex_chart))))"
    "gh_fetch ex_github (gh_url ex_github ?t)
      = Inr (Some (GhDir [gh_entry ex_link ?t (FileResource ''d.yaml'' (Some ''ZA=''))]))"
    "gh_fetch ex_github (ex_link ?v ''Chart.yaml'') = Inr (Some (GhFile ''Chart.yaml'' ''Yw=''))"
    "gh_fetch ex_github (ex_link ?t ''d.yaml'') = Inr (Some (GhFile ''d.yaml'' ''ZA=''))"
    by code_simp+
  then have "gh_serves ex_github ex_link ?u ex_chart" by (simp add: ex_chart_def)
  then show ?thesis
    by (simp add: gh_holds_def ex_url_def chart_request_def ex_config_def ex_chart_def)
qed

subsection \<open>Rendering\<close>

text \<open>
  C20: when the provider of the component has its chart (on GitHub, one in which no directory
  holds two directories), rendering always ends: \<open>helm\<close> is run on exactly the files of the
  chart, the answer is the documents it printed, or the error \<open>Not a valid manifest\<close> with what
  it wrote to its error output or with the parser's message, and the temporary directory is
  removed.
\<close>

theorem chart_is_rendered:
  assumes disk: "writable env" and fuel: "depth t \<le> fuel"
    and has: "case repo_provider (mc_repo cfg) of
         GITHUB \<Rightarrow> gh_holds gh parse link (chart_request cfg) t
       | GITLAB \<Rightarrow> gl_holds gl parse (chart_request cfg) t"
  shows "\<exists>s. HelmManifest_generate env
       (RepositoryStrategyFactory_create (gh_getResource gh parse) (gl_getResource gl parse)) fuel cfg
     = (Some (rendered env cfg t), s) \<and> fs_removed s = [tmp_chart_dir env]"
proof (cases "repo_provider (mc_repo cfg)")
  case GITHUB
  with has have "gh_holds gh parse link (chart_request cfg) t" by simp
  from github.generate_renders [OF disk _ this fuel] GITHUB show ?thesis
    by (simp add: RepositoryStrategyFactory_create_def)
next
  case GITLAB
  with has have "gl_holds gl parse (chart_request cfg) t" by simp
  from gitlab.generate_renders [OF disk _ this fuel] GITLAB show ?thesis
    by (simp add: RepositoryStrategyFactory_create_def)
qed

lemma chart_is_rendered_witness:
  "\<exists>s s'. HelmManifest_generate ex_helm (RepositoryStrategyFactory_create
         (gh_getResource ex_github ex_url) (gl_getResource ex_gitlab ex_url)) 2 (ex_config GITLAB)
       = (Some (Inr [ex_document ''/t/app/Chart.yaml+/t/app/templates/d.yaml'']), s)
     \<and> HelmManifest_generate ex_helm (RepositoryStrategyFactory_create
         (gh_getResource ex_github ex_url) (gl_getResource ex_gitlab ex_url)) 2 (ex_config GITHUB)
       = (Some (Inr [ex_document ''/t/app/Chart.yaml+/t/app/templates/d.yaml'']), s')"
proof -
  have disk: "writable ex_helm" by (simp add: writable_def ex_helm_def)
  have fuel: "depth ex_chart \<le> 2" by code_simp
  have out: "rendered ex_helm (ex_config p) ex_chart
      = Inr [ex_document ''/t/app/Chart.yaml+/t/app/templates/d.yaml'']" for p
    by (simp add: rendered_def ex_helm_def ex_chart_def)
  have provider: "repo_provider (mc_repo (ex_config p)) = p" for p by (simp add: ex_config_def)
  show ?thesis
    using chart_is_rendered [OF disk fuel, where cfg = "ex_config GITLAB" and gh = ex_github
        and parse = ex_url and link = ex_link and gl = ex_gitlab]
      chart_is_rendered [OF disk fuel, where cfg = "ex_config GITHUB" and gh = ex_github
        and parse = ex_url and link = ex_link and gl = ex_gitlab]
      ex_gitlab_holds ex_github_holds
    unfolding provider out by auto
qed


definition ex_siblings :: "github_data http" where
  "ex_siblings = ex_http
     [(''h/r/app&ref=m'', GhDir [GhEntry ''charts'' True ''git:/r/app/charts'',
         GhEntry ''templates'' True ''git:/r/app/templates'']),
      (''h/r/app/charts&ref=m'', GhDir [GhEntry ''x'' False ''git:/r/app/charts/x'']),
      (''git:/r/app/charts/x'', GhFile ''x'' ''eA=''),
      (''h/r/app/templates&ref=m'', GhDir [GhEntry ''y'' False ''git:/r/app/templates/y'']),
      (''git:/r/app/templates/y'', GhFile ''y'' ''eQ='')]"


subsection \<open>Retries\<close>

text \<open>
  every retried call (a notification of the Moove service, a fetch from GitHub or from
  GitLab) makes at most four attempts: it succeeds with the first success among them, and
  fails with the last failure when there is none.
\<close>

theorem retries_are_bounded:
  assumes m: "m \<in> {FETCH_RESOURCE_MAXIMUM_RETRY_ATTEMPTS, MOOVE_NOTIFICATION_MAXIMUM_RETRY_ATTEMPTS}"
  shows "(\<exists>n a. n \<le> 3 \<and> outcome n = Inr a \<and> (\<forall>i < n. \<exists>e. outcome i = Inl e)
            \<and> retryWhen m outcome 0 = (Inr a, Suc n))
       \<or> (\<exists>e. (\<forall>i \<le> 3. \<exists>e. outcome i = Inl e) \<and> outcome 3 = Inl e
            \<and> retryWhen m outcome 0 = (Inl e, 4))"
proof -
  have m3: "m = 3" using m by (simp add: FETCH_RESOURCE_MAXIMUM_RETRY_ATTEMPTS_def
        MOOVE_NOTIFICATION_MAXIMUM_RETRY_ATTEMPTS_def)
  show ?thesis
  proof (cases "\<exists>n \<le> 3. \<exists>a. outcome n = Inr a")
    case True
    then obtain k where k: "k \<le> 3" "\<exists>a. outcome k = Inr a" by blast
    define n where "n = (LEAST n. \<exists>a. outcome n = Inr a)"
    obtain a where a: "outcome n = Inr a"
      using LeastI [of "\<lambda>n. \<exists>a. outcome n = Inr a", OF k(2)] unfolding n_def by blast
    have n: "n \<le> 3"
      using Least_le [of "\<lambda>n. \<exists>a. outcome n = Inr a", OF k(2)] k(1) unfolding n_def by simp
    have before: "\<exists>e. outcome i = Inl e" if "i < n" for i
      using not_less_Least [of i "\<lambda>n. \<exists>a. outcome n = Inr a"] that
      unfolding n_def by (cases "outcome i") auto
    then have "retryWhen m outcome 0 = (Inr a, Suc n)"
      using a n by (intro retryWhen_success) (simp_all add: m3)
    with a n before show ?thesis by blast
  next
    case False
    then have all: "\<exists>e. outcome i = Inl e" if "i \<le> 3" for i
      using that by (cases "outcome i") auto
    then have "\<exists>e. outcome m = Inl e \<and> retryWhen m outcome 0 = (Inl e, Suc m)"
      by (intro retryWhen_failure) (simp_all add: m3)
    with all show ?thesis by (simp add: m3)
  qed
qed

lemma retries_are_bounded_witness:
  "fst (retryWhen FETCH_RESOURCE_MAXIMUM_RETRY_ATTEMPTS
     (\<lambda>i. if i < 2 then Inl (i::nat) else Inr ''ok'') 0) = Inr ''ok''"
  using retries_are_bounded [of FETCH_RESOURCE_MAXIMUM_RETRY_ATTEMPTS
      "\<lambda>i. if i < 2 then Inl (i::nat) else Inr ''ok''"]
  by (auto split: if_splits)

end
