(* ===== verification/Validation.thy ===== *)
theory Validation
  imports Deployments
begin

text \<open>
  The validation of a deployment request: \<open>validations/create-deployment-validator.ts\<close> and the
  pipe \<open>pipes/joi-validation-pipe.ts\<close> around it. The schemas the code builds are data here;
  the Joi package that runs them is a parameter whose documented promise is that a value it
  accepts satisfies the schema. The custom checks inside the schema are the code's own.
\<close>

subsection \<open>The tag of an image\<close>

definition lower_alnum :: "char \<Rightarrow> bool" where
  "lower_alnum c \<longleftrightarrow> c \<in> set ''abcdefghijklmnopqrstuvwxyz0123456789''"

definition label_char :: "char \<Rightarrow> bool" where
  "label_char c \<longleftrightarrow> lower_alnum c \<or> c = CHR ''-''"

text \<open>
  The regular expression of the code, \<open>L(\.L)*\<close> with \<open>L = [a-z0-9]([-a-z0-9]*[a-z0-9])?\<close>, tried at
  the start of a text. The greedy \<open>L\<close> takes the longest run of \<open>[-a-z0-9]\<close> and gives back
  the dashes at its end; then every \<open>\.L\<close> that follows is taken.
\<close>

definition match_label :: "string \<Rightarrow> string option" where
  "match_label s =
     (if s \<noteq> [] \<and> lower_alnum (hd s)
      then Some (rev (dropWhile (\<lambda>c. c = CHR ''-'') (rev (takeWhile label_char s))))
      else None)"

lemma match_label_shape:
  assumes "match_label s = Some m"
  shows "m \<noteq> [] \<and> lower_alnum (hd m) \<and> lower_alnum (last m) \<and> list_all label_char m
    \<and> (\<exists>k. takeWhile label_char s = m @ replicate k (CHR ''-''))"
proof -
  let ?run = "takeWhile label_char s"
  let ?dashes = "takeWhile (\<lambda>c. c = CHR ''-'') (rev ?run)"
  have s: "s \<noteq> []" "lower_alnum (hd s)"
    and m: "m = rev (dropWhile (\<lambda>c. c = CHR ''-'') (rev ?run))"
    using assms by (auto simp: match_label_def split: if_splits)
  have split: "?run = m @ rev ?dashes"
    unfolding m rev_append [symmetric] by (simp only: takeWhile_dropWhile_id rev_rev_ident)
  have "\<forall>c \<in> set ?dashes. c = CHR ''-''" by (auto dest: set_takeWhileD)
  then have dashes: "rev ?dashes = replicate (length ?dashes) (CHR ''-'')"
    by (metis length_rev replicate_length_same set_rev)
  obtain c cs where cs: "s = c # cs" using s by (cases s) auto
  then have run: "?run = c # takeWhile label_char cs" and c: "lower_alnum c"
    using s by (auto simp: label_char_def)
  then have "c \<noteq> CHR ''-''" by (auto simp: lower_alnum_def)
  then have "m \<noteq> []"
    using split dashes run by (cases m; cases "length ?dashes") auto
  then have "hd m = c" using split run by (cases m) auto
  have "dropWhile (\<lambda>c. c = CHR ''-'') (rev ?run) \<noteq> []" using \<open>m \<noteq> []\<close> m by auto
  then have "last m \<noteq> CHR ''-''"
    unfolding m last_rev by (rule hd_dropWhile)
  moreover have all: "list_all label_char m"
    using split by (metis list_all_append list_all_iff set_takeWhileD)
  ultimately have "lower_alnum (last m)"
    using \<open>m \<noteq> []\<close> by (auto simp: list_all_iff label_char_def)
  with \<open>m \<noteq> []\<close> \<open>hd m = c\<close> c all split dashes show ?thesis by metis
qed

lemma match_label_length: "match_label s = Some m \<Longrightarrow> 0 < length m \<and> length m \<le> length s"
proof -
  assume "match_label s = Some m"
  from match_label_shape [OF this] obtain k where "m \<noteq> []"
    and "takeWhile label_char s = m @ replicate k (CHR ''-'')" by blast
  then show ?thesis using length_takeWhile_le [of label_char s] by simp
qed

function match_tag :: "string \<Rightarrow> string option" where
  "match_tag s =
     (case match_label s of
        None \<Rightarrow> None
      | Some m \<Rightarrow>
          (case drop (length m) s of
             [] \<Rightarrow> Some m
           | d # r \<Rightarrow>
               if d = CHR ''.'' then
                 (case match_tag r of None \<Rightarrow> Some m | Some m' \<Rightarrow> Some (m @ CHR ''.'' # m'))
               else Some m))"
  by pat_completeness auto
termination
proof (relation "measure length", goal_cases)
  case 1
  show ?case by simp
next
  case (2 s m d r)
  then have "length (d # r) \<le> length s" by (metis length_drop diff_le_self)
  then show ?case by simp
qed

declare match_tag.simps [simp del]

lemma match_tag_nonempty: "match_tag s = Some m \<Longrightarrow> 0 < length m"
  by (subst (asm) match_tag.simps)
    (auto split: option.splits list.splits if_splits dest: match_label_length)

text \<open>\<open>tag.match(regExpr)\<close> with the flag \<open>g\<close>: all matches, from left to right.\<close>

function find_all :: "string \<Rightarrow> string list" where
  "find_all [] = []"
| "find_all (c # cs) =
     (case match_tag (c # cs) of
        None \<Rightarrow> find_all cs
      | Some m \<Rightarrow> m # find_all (drop (length m) (c # cs)))"
  by pat_completeness auto
termination
  by (relation "measure length") (auto dest: match_tag_nonempty)

definition compareTag :: "string \<Rightarrow> string option" where
  "compareTag tag = (case find_all tag of [] \<Rightarrow> None | ms \<Rightarrow> Some (join_with ''-'' ms))"

definition extractTag :: "string \<Rightarrow> string \<Rightarrow> string" where
  "extractTag buildImageTag buildImageUrl =
     (let extractedTag = split_char (CHR '':'') buildImageUrl
      in if length extractedTag = 1 then buildImageTag else last extractedTag)"

definition image_url_pattern :: "string \<Rightarrow> bool" where
  "image_url_pattern s \<longleftrightarrow>
     (let alnum = (\<lambda>c. c \<in> set ''abcdefghijklmnopqrstuvwxyzABCDEFGHIJKLMNOPQRSTUVWXYZ0123456789'')
      in 2 \<le> length s \<and> alnum (hd s) \<and> alnum (last s)
         \<and> list_all (\<lambda>c. alnum c \<or> c \<in> set ''-.:/'') s)"

subsection \<open>What the pattern accepts\<close>

definition dns_label :: "string \<Rightarrow> bool" where
  "dns_label l \<longleftrightarrow> l \<noteq> [] \<and> lower_alnum (hd l) \<and> lower_alnum (last l) \<and> list_all label_char l"

definition dns_tag :: "string \<Rightarrow> bool" where
  "dns_tag t \<longleftrightarrow> list_all dns_label (split_char (CHR ''.'') t)"

lemma label_char_simps [simp]:
  "\<not> label_char (CHR ''.'')" "label_char (CHR ''-'')" "\<not> lower_alnum (CHR ''-'')"
  "\<not> lower_alnum (CHR ''.'')" "\<not> lower_alnum (CHR '':'')" "\<not> label_char (CHR '':'')"
  by (simp_all add: label_char_def lower_alnum_def)

lemma dns_label_no_dot: "dns_label l \<Longrightarrow> CHR ''.'' \<notin> set l"
  by (auto simp: dns_label_def list_all_iff)

lemma split_label:
  assumes "CHR ''.'' \<notin> set l"
  shows "split_char (CHR ''.'') (l @ CHR ''.'' # t) = l # split_char (CHR ''.'') t"
  using assms by (induction l) auto

lemma match_label_dns: "match_label s = Some m \<Longrightarrow> dns_label m"
  using match_label_shape by (simp add: dns_label_def)

text \<open>The pattern takes a whole label that is followed by nothing or by a dot.\<close>

lemma match_label_whole:
  assumes "dns_label l" and "t = [] \<or> hd t = CHR ''.''"
  shows "match_label (l @ t) = Some l"
proof -
  have all: "\<forall>c \<in> set l. label_char c" and l: "l \<noteq> []" and last: "last l \<noteq> CHR ''-''"
    using assms(1) by (auto simp: dns_label_def list_all_iff)
  have "takeWhile label_char (l @ t) = l @ takeWhile label_char t"
    using all by (intro takeWhile_append2) simp
  moreover have "takeWhile label_char t = []" using assms(2) by (cases t) auto
  ultimately have run: "takeWhile label_char (l @ t) = l" by simp
  have "rev l \<noteq> []" "hd (rev l) = last l" using l by (simp_all add: hd_rev)
  then have "dropWhile (\<lambda>c. c = CHR ''-'') (rev l) = rev l"
    using last by (simp add: dropWhile_eq_self_iff)
  then show ?thesis using run assms(1) l by (simp add: match_label_def dns_label_def)
qed

lemma match_tag_whole:
  "list_all dns_label (l # ls) \<Longrightarrow>
     match_tag (join_with ''.'' (l # ls)) = Some (join_with ''.'' (l # ls))"
proof (induction ls arbitrary: l)
  case Nil
  then show ?case using match_label_whole [of l "[]"] by (subst match_tag.simps) simp
next
  case (Cons k ks)
  let ?rest = "join_with ''.'' (k # ks)"
  have "match_label (l @ CHR ''.'' # ?rest) = Some l"
    using Cons.prems by (intro match_label_whole) simp_all
  moreover have "match_tag ?rest = Some ?rest" using Cons by simp
  ultimately show ?case by (subst match_tag.simps) simp
qed

lemma match_tag_dns: "match_tag s = Some m \<Longrightarrow> dns_tag m \<and> (\<exists>t. s = m @ t)"
proof (induction s arbitrary: m rule: match_tag.induct)
  case (1 s)
  obtain l where l: "match_label s = Some l"
    using 1(2) by (subst (asm) match_tag.simps) (auto split: option.splits)
  note dns = match_label_dns [OF l]
  obtain k where run: "takeWhile label_char s = l @ replicate k (CHR ''-'')"
    using match_label_shape [OF l] by blast
  have s: "s = l @ drop (length l) s"
    using run by (metis append_eq_conv_conj append_assoc takeWhile_dropWhile_id)
  have single: "dns_tag l \<and> (\<exists>t. s = l @ t)"
    using dns s dns_label_no_dot [OF dns] by (auto simp: dns_tag_def split_char_single)
  show ?case
  proof (cases "drop (length l) s")
    case Nil
    then have "m = l" using 1(2) l by (subst (asm) match_tag.simps) simp
    with single show ?thesis by simp
  next
    case (Cons d r)
    show ?thesis
    proof (cases "d = CHR ''.'' \<and> match_tag r \<noteq> None")
      case False
      then have "m = l" using 1(2) l Cons
        by (subst (asm) match_tag.simps) (auto split: if_splits option.splits)
      with single show ?thesis by simp
    next
      case True
      then obtain m' where m': "d = CHR ''.''" "match_tag r = Some m'" by auto
      from 1(1) [OF l Cons m'] have ih: "dns_tag m'" "\<exists>t. r = m' @ t" by auto
      have m: "m = l @ CHR ''.'' # m'" using 1(2) l Cons m' by (subst (asm) match_tag.simps) simp
      have "dns_tag m"
        using ih dns dns_label_no_dot [OF dns] by (simp add: m dns_tag_def split_label)
      moreover have "\<exists>t. s = m @ t" using s ih(2) Cons m' m by force
      ultimately show ?thesis by simp
    qed
  qed
qed

text \<open>A match is never followed by a dash and a character it could go on with.\<close>

lemma match_label_maximal:
  assumes "match_label s = Some m" and "s = m @ CHR ''-'' # t"
  shows "t = [] \<or> \<not> lower_alnum (hd t)"
proof -
  obtain k where run: "takeWhile label_char s = m @ replicate k (CHR ''-'')"
    and m: "list_all label_char m" using match_label_shape [OF assms(1)] by blast
  have "takeWhile label_char s = m @ CHR ''-'' # takeWhile label_char t"
    using m by (simp add: assms(2) list_all_iff)
  with run have "CHR ''-'' # takeWhile label_char t = replicate k (CHR ''-'')" by simp
  then have "\<forall>c \<in> set (takeWhile label_char t). c = CHR ''-''"
    by (metis in_set_replicate list.set_intros(2))
  note dashes = this
  show ?thesis
  proof (cases t)
    case (Cons a as)
    have "\<not> lower_alnum a"
    proof
      assume a: "lower_alnum a"
      then have "a \<in> set (takeWhile label_char t)" by (simp add: Cons label_char_def)
      then have "a = CHR ''-''" using dashes by blast
      with a show False by simp
    qed
    then show ?thesis by (simp add: Cons)
  qed simp
qed

lemma match_tag_maximal:
  "match_tag s = Some m \<Longrightarrow> s = m @ CHR ''-'' # t \<Longrightarrow> t = [] \<or> \<not> lower_alnum (hd t)"
proof (induction s arbitrary: m rule: match_tag.induct)
  case (1 s)
  obtain l where l: "match_label s = Some l"
    using 1(2) by (subst (asm) match_tag.simps) (auto split: option.splits)
  show ?case
  proof (cases "m = l")
    case True
    with 1(3) match_label_maximal [OF l] show ?thesis by simp
  next
    case False
    then obtain r m' where r: "drop (length l) s = CHR ''.'' # r" "match_tag r = Some m'"
      and m: "m = l @ CHR ''.'' # m'"
      using 1(2) l by (subst (asm) match_tag.simps) (auto split: list.splits if_splits option.splits)
    have "r = m' @ CHR ''-'' # t" using r(1) by (simp add: 1(3) m)
    from 1(1) [OF l r(1) refl r(2) this] show ?thesis .
  qed
qed

lemma compareTag_iff: "compareTag tag = Some tag \<longleftrightarrow> dns_tag tag"
proof
  assume dns: "dns_tag tag"
  obtain l ls where ls: "split_char (CHR ''.'') tag = l # ls"
    by (cases "split_char (CHR ''.'') tag") auto
  then have tag: "tag = join_with ''.'' (l # ls)" by (metis join_split_char)
  have "match_tag tag = Some tag"
    using match_tag_whole [of l ls] dns ls unfolding dns_tag_def tag [symmetric] by simp
  moreover from this have "tag \<noteq> []" using match_tag_nonempty by fastforce
  ultimately have "find_all tag = [tag]" by (cases tag) simp_all
  then show "compareTag tag = Some tag" by (simp add: compareTag_def)
next
  assume eq: "compareTag tag = Some tag"
  then obtain m ms where ms: "find_all tag = m # ms" and tag: "tag = join_with ''-'' (m # ms)"
    by (auto simp: compareTag_def split: list.splits)
  have found: "\<exists>s. match_tag s = Some x" if "x \<in> set (find_all t)" for x t
    using that by (induction t rule: find_all.induct) (auto split: option.splits)
  have nonempty: "x \<noteq> [] \<and> lower_alnum (hd x)" if "match_tag s = Some x" for s x
  proof -
    have "dns_tag x" "0 < length x" using match_tag_dns [OF that] match_tag_nonempty [OF that] by auto
    then obtain k ks where "split_char (CHR ''.'') x = k # ks" "dns_label k" "x \<noteq> []"
      by (cases "split_char (CHR ''.'') x") (auto simp: dns_tag_def)
    then have "x = join_with ''.'' (k # ks)" "k \<noteq> []" "lower_alnum (hd k)"
      by (metis join_split_char, auto simp: dns_label_def)
    then have "hd x = hd k" by (cases ks) auto
    with \<open>lower_alnum (hd k)\<close> \<open>x \<noteq> []\<close> show ?thesis by simp
  qed
  from found [of m tag] ms nonempty have m: "m \<noteq> []" "lower_alnum (hd m)" by force+
  then have "hd tag = hd m" "tag \<noteq> []" using tag by (cases ms; auto)+
  then obtain m' where m': "match_tag tag = Some m'"
    using m(2) by (cases "match_tag tag")
      (auto simp: match_tag.simps [of tag] match_label_def split: option.splits list.splits if_splits)
  then have "m' = m" using ms by (cases tag) auto
  with m' have match: "match_tag tag = Some m" by simp
  show "dns_tag tag"
  proof (cases ms)
    case Nil
    then have "tag = m" using tag by simp
    with match match_tag_dns show ?thesis by blast
  next
    case (Cons k ks)
    then have "tag = m @ CHR ''-'' # join_with ''-'' (k # ks)" using tag by simp
    from match_tag_maximal [OF match this]
    have "\<not> lower_alnum (hd (join_with ''-'' (k # ks))) \<or> join_with ''-'' (k # ks) = []" by blast
    moreover have "k \<noteq> [] \<and> lower_alnum (hd k)"
      using found [of k tag] nonempty ms Cons by force
    then have "join_with ''-'' (k # ks) \<noteq> [] \<and> lower_alnum (hd (join_with ''-'' (k # ks)))"
      by (cases ks) auto
    ultimately show ?thesis by blast
  qed
qed

lemma extractTag_iff:
  assumes "CHR '':'' \<notin> set tag"
  shows "extractTag tag url = tag \<longleftrightarrow> CHR '':'' \<notin> set url \<or> (\<exists>p. url = p @ CHR '':'' # tag)"
proof -
  have last_piece: "\<exists>p. url = p @ CHR '':'' # last (split_char (CHR '':'') url)" if colon: "CHR '':'' \<in> set url"
  proof -
    obtain p t where pt: "url = p @ CHR '':'' # t" "CHR '':'' \<notin> set t"
      using split_list_last [OF colon] by blast
    then show ?thesis using split_char_append_last [OF pt(2), of p] by auto
  qed
  show ?thesis
  proof (cases "CHR '':'' \<in> set url")
    case False
    then show ?thesis by (simp add: extractTag_def split_char_length_1)
  next
    case True
    have "extractTag tag url = last (split_char (CHR '':'') url)"
      using True by (simp add: extractTag_def split_char_length_1)
    then show ?thesis using last_piece [OF True] True split_char_append_last [OF assms] by metis
  qed
qed

subsection \<open>Schemas\<close>

datatype json =
    JNull | JBool bool | JNum int | JStr string | JArr "json list" | JObj "(string \<times> json) list"

datatype presence = Required | Optional | OptionalOrNull

datatype string_rule = Guid | MaxLength nat | Pattern "string \<Rightarrow> bool" | Valid "string list"
datatype number_rule = IntegerRule | Min int
datatype array_rule = MinItems nat | UniqueBy string

datatype schema =
    JoiString presence "string_rule list"
  | JoiNumber presence "number_rule list"
  | JoiBool presence
  | JoiObject presence "(string \<times> schema) list" "((string \<times> json) list \<Rightarrow> string option) list"
  | JoiArray presence schema "array_rule list"

fun string_of :: "json option \<Rightarrow> string" where
  "string_of (Some (JStr s)) = s"
| "string_of _ = []"

text \<open>The two custom checks of a component: the code of the error, if there is one.\<close>

definition check_tag_format :: "(string \<times> json) list \<Rightarrow> string option" where
  "check_tag_format obj =
     (let buildImageTag = string_of (map_of obj ''buildImageTag'');
          componentName = string_of (map_of obj ''componentName'')
      in if compareTag buildImageTag \<noteq> Some buildImageTag then Some ''imageTag.dns.format''
         else if length buildImageTag + length componentName > 63 then Some ''image.length''
         else None)"

definition check_tag_of_url :: "(string \<times> json) list \<Rightarrow> string option" where
  "check_tag_of_url obj =
     (let buildImageTag = string_of (map_of obj ''buildImageTag'');
          buildImageUrl = string_of (map_of obj ''buildImageUrl'')
      in if extractTag buildImageTag buildImageUrl \<noteq> buildImageTag then Some ''imageTag.invalid''
         else None)"

definition componentSchema :: schema where
  "componentSchema = JoiObject Optional
     [(''componentId'', JoiString Required [Guid]),
      (''buildImageUrl'', JoiString Required [MaxLength 255, Pattern image_url_pattern, MaxLength 253]),
      (''buildImageTag'', JoiString Required [MaxLength 255]),
      (''componentName'', JoiString Required [MaxLength 255]),
      (''gatewayName'', JoiString OptionalOrNull [MaxLength 255]),
      (''hostValue'', JoiString OptionalOrNull [MaxLength 255]),
      (''helmRepository'', JoiString Required [])]
     [check_tag_format, check_tag_of_url]"

definition provider_name :: "GitProvidersEnum \<Rightarrow> string" where
  "provider_name p = (case p of GITHUB \<Rightarrow> ''GITHUB'' | GITLAB \<Rightarrow> ''GITLAB'')"

definition deploymentSchema :: "schema \<Rightarrow> schema" where
  "deploymentSchema items = JoiObject Optional
     [(''deploymentId'', JoiString Required [Guid]),
      (''namespace'', JoiString Required [MaxLength 255]),
      (''circle'', JoiObject Required
         [(''id'', JoiString Required [Guid]), (''default'', JoiBool Required)] []),
      (''git'', JoiObject Required
         [(''token'', JoiString Required []),
          (''provider'', JoiString Required [Valid [provider_name GITHUB, provider_name GITLAB]])] []),
      (''components'', JoiArray Required items [UniqueBy ''componentName'', MinItems 1]),
      (''authorId'', JoiString Required [Guid]),
      (''callbackUrl'', JoiString Required [MaxLength 255]),
      (''timeoutInSeconds'', JoiNumber Optional [IntegerRule, Min 5])] []"

text \<open>
  What Joi documents of these schemas: when a value, absent or there, satisfies one. A string
  is not empty unless it is allowed to be; no key outside the object's is accepted
  (\<open>allowUnknown: false\<close>). \<open>guid\<close> is the package's own test of a GUID.
\<close>

definition missing_ok :: "presence \<Rightarrow> json option \<Rightarrow> bool" where
  "missing_ok p v \<longleftrightarrow> (v = None \<and> p \<noteq> Required) \<or> (v = Some JNull \<and> p = OptionalOrNull)"

fun string_rule_ok :: "(string \<Rightarrow> bool) \<Rightarrow> string \<Rightarrow> string_rule \<Rightarrow> bool" where
  "string_rule_ok guid s Guid = guid s"
| "string_rule_ok guid s (MaxLength n) = (length s \<le> n)"
| "string_rule_ok guid s (Pattern p) = p s"
| "string_rule_ok guid s (Valid vs) = (s \<in> set vs)"

fun number_rule_ok :: "int \<Rightarrow> number_rule \<Rightarrow> bool" where
  "number_rule_ok n IntegerRule = True"
| "number_rule_ok n (Min k) = (k \<le> n)"

definition member :: "string \<Rightarrow> json \<Rightarrow> json option" where
  "member k v = (case v of JObj kvs \<Rightarrow> map_of kvs k | _ \<Rightarrow> None)"

fun array_rule_ok :: "json list \<Rightarrow> array_rule \<Rightarrow> bool" where
  "array_rule_ok xs (MinItems n) = (n \<le> length xs)"
| "array_rule_ok xs (UniqueBy k) = distinct (map (member k) xs)"

fun satisfies :: "(string \<Rightarrow> bool) \<Rightarrow> schema \<Rightarrow> json option \<Rightarrow> bool" where
  "satisfies guid (JoiString p rules) v \<longleftrightarrow> missing_ok p v
     \<or> (case v of Some (JStr s) \<Rightarrow> s \<noteq> [] \<and> list_all (string_rule_ok guid s) rules | _ \<Rightarrow> False)"
| "satisfies guid (JoiNumber p rules) v \<longleftrightarrow> missing_ok p v
     \<or> (case v of Some (JNum n) \<Rightarrow> list_all (number_rule_ok n) rules | _ \<Rightarrow> False)"
| "satisfies guid (JoiBool p) v \<longleftrightarrow> missing_ok p v
     \<or> (case v of Some (JBool b) \<Rightarrow> True | _ \<Rightarrow> False)"
| "satisfies guid (JoiObject p keys customs) v \<longleftrightarrow> missing_ok p v
     \<or> (case v of
          Some (JObj kvs) \<Rightarrow>
            (\<forall>f \<in> set keys. satisfies guid (snd f) (map_of kvs (fst f)))
            \<and> list_all (\<lambda>kv. fst kv \<in> set (map fst keys)) kvs
            \<and> list_all (\<lambda>check. check kvs = None) customs
        | _ \<Rightarrow> False)"
| "satisfies guid (JoiArray p item rules) v \<longleftrightarrow> missing_ok p v
     \<or> (case v of
          Some (JArr xs) \<Rightarrow> (\<forall>x \<in> set xs. satisfies guid item (Some x)) \<and> list_all (array_rule_ok xs) rules
        | _ \<Rightarrow> False)"

record ValidationDetail =
  vd_message :: string
  vd_path :: "string list"

type_synonym joi_validate = "schema \<Rightarrow> json \<Rightarrow> ValidationDetail list + json"

text \<open>The value it answers with, which it may have converted, satisfies the schema.\<close>

definition joi_law :: "(string \<Rightarrow> bool) \<Rightarrow> joi_validate \<Rightarrow> bool" where
  "joi_law guid joi \<longleftrightarrow> (\<forall>s x y. joi s x = Inr y \<longrightarrow> satisfies guid s (Some y))"

definition joi_strict :: "(string \<Rightarrow> bool) \<Rightarrow> joi_validate" where
  "joi_strict guid s x = (if satisfies guid s (Some x) then Inr x
     else Inl [\<lparr>vd_message = ''invalid'', vd_path = []\<rparr>])"

lemma joi_strict_law: "joi_law guid (joi_strict guid)"
  by (simp add: joi_law_def joi_strict_def)

subsection \<open>CreateDeploymentValidator and JoiValidationPipe\<close>

fun optional_string :: "json option \<Rightarrow> string option" where
  "optional_string (Some (JStr s)) = Some s"
| "optional_string _ = None"

definition bool_of :: "json option \<Rightarrow> bool" where
  "bool_of v = (case v of Some (JBool b) \<Rightarrow> b | _ \<Rightarrow> False)"

definition array_of :: "json option \<Rightarrow> json list" where
  "array_of v = (case v of Some (JArr xs) \<Rightarrow> xs | _ \<Rightarrow> [])"

definition number_of :: "json option \<Rightarrow> int option" where
  "number_of v = (case v of Some (JNum n) \<Rightarrow> Some n | _ \<Rightarrow> None)"

definition object_of :: "json option \<Rightarrow> json" where
  "object_of v = (case v of Some x \<Rightarrow> x | None \<Rightarrow> JNull)"

definition createDto_component :: "json \<Rightarrow> CreateComponentRequestDto" where
  "createDto_component c =
     \<lparr>cr_componentId = string_of (member ''componentId'' c),
      cr_buildImageUrl = string_of (member ''buildImageUrl'' c),
      cr_buildImageTag = string_of (member ''buildImageTag'' c),
      cr_componentName = string_of (member ''componentName'' c),
      cr_hostValue = optional_string (member ''hostValue'' c),
      cr_gatewayName = optional_string (member ''gatewayName'' c),
      cr_helmRepository = string_of (member ''helmRepository'' c)\<rparr>"

definition createDto :: "json \<Rightarrow> CreateDeploymentRequestDto" where
  "createDto value =
     (let circle = object_of (member ''circle'' value); git = object_of (member ''git'' value)
      in \<lparr>rq_deploymentId = string_of (member ''deploymentId'' value),
          rq_authorId = string_of (member ''authorId'' value),
          rq_callbackUrl = string_of (member ''callbackUrl'' value),
          rq_circle = \<lparr>circle_id = string_of (member ''id'' circle),
                       circle_default = bool_of (member ''default'' circle)\<rparr>,
          rq_git = \<lparr>git_token = string_of (member ''token'' git),
                    git_provider = (if string_of (member ''provider'' git) = provider_name GITLAB
                                    then GITLAB else GITHUB)\<rparr>,
          rq_namespace = string_of (member ''namespace'' value),
          rq_timeoutInSeconds = number_of (member ''timeoutInSeconds'' value),
          rq_status = CREATED,
          rq_components = map createDto_component (array_of (member ''components'' value))\<rparr>)"

definition CreateDeploymentValidator_validate ::
  "joi_validate \<Rightarrow> json \<Rightarrow> ValidationDetail list + CreateDeploymentRequestDto" where
  "CreateDeploymentValidator_validate joi params =
     and_then (joi (deploymentSchema componentSchema) params) (\<lambda>value. Inr (createDto value))"

definition formatErrors :: "ValidationDetail list \<Rightarrow> nat \<Rightarrow> ErrorDetails list" where
  "formatErrors details code =
     map (\<lambda>d. withSource (join_with ''/'' (vd_path d)) (ExceptionBuilder (vd_message d) code)) details"

definition JoiValidationPipe :: "joi_validate \<Rightarrow> json \<Rightarrow> app_error + CreateDeploymentRequestDto" where
  "JoiValidationPipe joi value =
     (case CreateDeploymentValidator_validate joi value of
        Inl es \<Rightarrow> Inl (HttpError (buildFromArray (formatErrors es BAD_REQUEST) BAD_REQUEST))
      | Inr data \<Rightarrow> Inr data)"

end
