(* ===== verification/Requests.thy ===== *)
theory Requests
  imports Validation
begin

text \<open>
  What a validated deployment request is known to be, and that a rejected one is answered with
  every problem found.
\<close>

lemma object_field:
  assumes "satisfies guid (JoiObject p keys customs) (Some (JObj kvs))" and "(k, s) \<in> set keys"
  shows "satisfies guid s (map_of kvs k)"
  using assms by (auto simp: missing_ok_def)

lemma object_shape:
  assumes "satisfies guid (JoiObject p keys customs) v" and "v \<noteq> None" and "p \<noteq> OptionalOrNull"
  obtains kvs where "v = Some (JObj kvs)"
  using assms by (auto simp: missing_ok_def split: option.splits json.splits)

lemma required_string:
  assumes "satisfies guid (JoiString Required rules) v"
  shows "\<exists>s. v = Some (JStr s) \<and> s \<noteq> [] \<and> (\<forall>r \<in> set rules. string_rule_ok guid s r)"
  using assms by (auto simp: missing_ok_def list_all_iff split: option.splits json.splits)

text \<open>A component the schema accepts, read back as the request's component.\<close>

definition good_component :: "(string \<Rightarrow> bool) \<Rightarrow> CreateComponentRequestDto \<Rightarrow> bool" where
  "good_component guid c \<longleftrightarrow> guid (cr_componentId c) \<and> cr_componentName c \<noteq> []
     \<and> dns_tag (cr_buildImageTag c)
     \<and> length (cr_buildImageTag c) + length (cr_componentName c) \<le> 63
     \<and> (CHR '':'' \<notin> set (cr_buildImageUrl c) \<or> (\<exists>p. cr_buildImageUrl c = p @ CHR '':'' # cr_buildImageTag c))
     \<and> length (cr_buildImageUrl c) \<le> 253 \<and> cr_helmRepository c \<noteq> []"

lemma dns_tag_no_colon: "dns_tag t \<Longrightarrow> CHR '':'' \<notin> set t"
proof
  assume dns: "dns_tag t" and "CHR '':'' \<in> set t"
  have "CHR '':'' \<in> set (join_with ''.'' (split_char (CHR ''.'') t))"
    using \<open>CHR '':'' \<in> set t\<close> by (simp add: join_split_char)
  moreover have "set (join_with ''.'' ls) \<subseteq> insert (CHR ''.'') (\<Union> (set ` set ls))" for ls
    by (induction ls rule: induct_list012) auto
  ultimately obtain l where "l \<in> set (split_char (CHR ''.'') t)" "CHR '':'' \<in> set l" by fastforce
  then have "list_all label_char l" using dns by (simp add: dns_tag_def dns_label_def list_all_iff)
  then have "\<forall>c \<in> set l. label_char c" by (simp only: list_all_iff)
  with \<open>CHR '':'' \<in> set l\<close> have "label_char (CHR '':'')" by blast
  then show False by simp
qed

lemma component_accepted:
  assumes "satisfies guid componentSchema (Some x)"
  shows "good_component guid (createDto_component x)
    \<and> member ''componentName'' x = Some (JStr (cr_componentName (createDto_component x)))"
proof -
  obtain kvs where x: "x = JObj kvs"
    using assms unfolding componentSchema_def by (rule object_shape) simp_all
  note sat = assms [unfolded componentSchema_def x]
  have str: "\<exists>s. map_of kvs k = Some (JStr s) \<and> s \<noteq> [] \<and> (\<forall>r \<in> set rules. string_rule_ok guid s r)"
    if "(k, JoiString Required rules) \<in> set
      [(''componentId'', JoiString Required [Guid]),
      (''buildImageUrl'', JoiString Required [MaxLength 255, Pattern image_url_pattern, MaxLength 253]),
      (''buildImageTag'', JoiString Required [MaxLength 255]),
      (''componentName'', JoiString Required [MaxLength 255]),
      (''gatewayName'', JoiString OptionalOrNull [MaxLength 255]),
      (''hostValue'', JoiString OptionalOrNull [MaxLength 255]),
      (''helmRepository'', JoiString Required [])]" for k rules
    using required_string [OF object_field [OF sat that]] .
  obtain i u t n h where
    i: "map_of kvs ''componentId'' = Some (JStr i)" "guid i"
    and u: "map_of kvs ''buildImageUrl'' = Some (JStr u)" "length u \<le> 253"
    and t: "map_of kvs ''buildImageTag'' = Some (JStr t)"
    and n: "map_of kvs ''componentName'' = Some (JStr n)" "n \<noteq> []"
    and h: "map_of kvs ''helmRepository'' = Some (JStr h)" "h \<noteq> []"
    using str [of "''componentId''" "[Guid]"]
      str [of "''buildImageUrl''" "[MaxLength 255, Pattern image_url_pattern, MaxLength 253]"]
      str [of "''buildImageTag''" "[MaxLength 255]"] str [of "''componentName''" "[MaxLength 255]"]
      str [of "''helmRepository''" "[]"] by auto
  have "check_tag_format kvs = None" "check_tag_of_url kvs = None"
    using sat by (auto simp: missing_ok_def)
  then have tag: "dns_tag t" "length t + length n \<le> 63" "extractTag t u = t"
    using t n u by (auto simp: check_tag_format_def check_tag_of_url_def compareTag_iff [symmetric]
        split: if_splits)
  show ?thesis
    using i u t n h tag extractTag_iff [OF dns_tag_no_colon [OF tag(1)], of u]
    by (simp add: good_component_def createDto_component_def member_def x)
qed

text \<open>
  C22: a request the validation lets through: its ids are GUIDs, it has at least one component
  and no two of the same name; the tag of every component is made of dot-separated labels of
  lower case alphanumerics and inner dashes, is at most 63 characters together with the
  component's name, and is the tag of the image's address, if that has one; the timeout, if
  given, is at least 5 seconds.
\<close>

theorem validated_request_is_good:
  assumes law: "joi_law guid joi" and ok: "JoiValidationPipe joi raw = Inr r"
  shows "guid (rq_deploymentId r) \<and> guid (rq_authorId r) \<and> guid (circle_id (rq_circle r))
    \<and> rq_namespace r \<noteq> [] \<and> length (rq_namespace r) \<le> 255
    \<and> rq_components r \<noteq> [] \<and> distinct (map cr_componentName (rq_components r))
    \<and> (\<forall>c \<in> set (rq_components r). good_component guid c)
    \<and> (\<forall>t. rq_timeoutInSeconds r = Some t \<longrightarrow> 5 \<le> t)"
proof -
  obtain v where v: "joi (deploymentSchema componentSchema) raw = Inr v" and r: "r = createDto v"
    using ok by (auto simp: JoiValidationPipe_def CreateDeploymentValidator_validate_def
        and_then_Inr_iff split: sum.splits)
  have sat: "satisfies guid (deploymentSchema componentSchema) (Some v)"
    using law v unfolding joi_law_def by blast
  obtain kvs where kvs: "v = JObj kvs"
    using sat unfolding deploymentSchema_def by (rule object_shape) simp_all
  note field = object_field [OF sat [unfolded deploymentSchema_def kvs]]
  have req: "\<exists>s. map_of kvs k = Some (JStr s) \<and> s \<noteq> [] \<and> (\<forall>q \<in> set rules. string_rule_ok guid s q)"
    if "(k, rules) \<in> {(''deploymentId'', [Guid]), (''authorId'', [Guid]), (''namespace'', [MaxLength 255])}"
    for k rules
    by (rule required_string, rule field) (use that in auto)
  obtain d a n where strings: "map_of kvs ''deploymentId'' = Some (JStr d)" "guid d"
    "map_of kvs ''authorId'' = Some (JStr a)" "guid a"
    "map_of kvs ''namespace'' = Some (JStr n)" "n \<noteq> []" "length n \<le> 255"
    using req [of "''deploymentId''"] req [of "''authorId''"] req [of "''namespace''"] by fastforce
  have circle: "satisfies guid (JoiObject Required
      [(''id'', JoiString Required [Guid]), (''default'', JoiBool Required)] []) (map_of kvs ''circle'')"
    by (rule field) simp
  then obtain ckvs where c: "map_of kvs ''circle'' = Some (JObj ckvs)"
    by (auto simp: missing_ok_def split: option.splits json.splits)
  have "\<exists>s. map_of ckvs ''id'' = Some (JStr s) \<and> s \<noteq> [] \<and> (\<forall>q \<in> set [Guid]. string_rule_ok guid s q)"
    by (rule required_string, rule object_field [OF circle [unfolded c]]) simp
  then obtain ci where ci: "map_of ckvs ''id'' = Some (JStr ci)" "guid ci" by auto
  have comps: "satisfies guid (JoiArray Required componentSchema
      [UniqueBy ''componentName'', MinItems 1]) (map_of kvs ''components'')"
    by (rule field) simp
  then obtain xs where xs: "map_of kvs ''components'' = Some (JArr xs)"
    "\<forall>x \<in> set xs. satisfies guid componentSchema (Some x)"
    "distinct (map (member ''componentName'') xs)" "1 \<le> length xs"
    by (auto simp: missing_ok_def split: option.splits json.splits)
  then have some: "xs \<noteq> []" by auto
  have eq: "map (member ''componentName'') xs
      = map (\<lambda>x. Some (JStr (cr_componentName (createDto_component x)))) xs"
    using xs(2) component_accepted by (intro map_cong) auto
  have "distinct (map (\<lambda>x. Some (JStr (cr_componentName (createDto_component x)))) xs)"
    using xs(3) unfolding eq .
  then have names: "distinct (map (cr_componentName \<circ> createDto_component) xs)"
    by (auto simp: distinct_map inj_on_def)
  have "satisfies guid (JoiNumber Optional [IntegerRule, Min 5]) (map_of kvs ''timeoutInSeconds'')"
    by (rule field) simp
  then have timeout: "5 \<le> t" if "number_of (map_of kvs ''timeoutInSeconds'') = Some t" for t
    using that by (auto simp: number_of_def missing_ok_def split: option.splits json.splits)
  show ?thesis
    using strings c ci xs some names timeout component_accepted
    by (simp add: r createDto_def kvs member_def object_of_def array_of_def Let_def)
qed

definition ex_raw :: json where
  "ex_raw = JObj
     [(''deploymentId'', JStr ''g1''), (''namespace'', JStr ''ns''),
      (''circle'', JObj [(''id'', JStr ''g2''), (''default'', JBool False)]),
      (''git'', JObj [(''token'', JStr ''t''), (''provider'', JStr ''GITHUB'')]),
      (''components'', JArr [JObj
         [(''componentId'', JStr ''g3''), (''buildImageUrl'', JStr ''hub.io/app:v1.0-rc''),
          (''buildImageTag'', JStr ''v1.0-rc''), (''componentName'', JStr ''app''),
          (''helmRepository'', JStr ''repo'')]]),
      (''authorId'', JStr ''g4''), (''callbackUrl'', JStr ''cb''), (''timeoutInSeconds'', JNum 60)]"

lemma validated_request_is_good_witness:
  "\<exists>r. JoiValidationPipe (joi_strict (\<lambda>s. s \<noteq> [])) ex_raw = Inr r
     \<and> (\<forall>c \<in> set (rq_components r). dns_tag (cr_buildImageTag c))"
proof -
  have "(case JoiValidationPipe (joi_strict (\<lambda>s. s \<noteq> [])) ex_raw of Inr r \<Rightarrow> True | Inl e \<Rightarrow> False)"
    by code_simp
  then obtain r where r: "JoiValidationPipe (joi_strict (\<lambda>s. s \<noteq> [])) ex_raw = Inr r"
    by (auto split: sum.splits)
  from validated_request_is_good [OF joi_strict_law r] r show ?thesis
    by (auto simp: good_component_def)
qed

text \<open>
  The image tag check of the code, \<open>tag.match(/../g)?.join('-') === tag\<close>, accepts
  exactly the dot-separated sequences of labels: scanning for matches and joining them with
  dashes never turns a wrong tag into itself.
\<close>

theorem tag_check_is_exact: "compareTag tag = Some tag \<longleftrightarrow> dns_tag tag"
  by (rule compareTag_iff)

end
