(* ===== verification/Executions.thy ===== *)
theory Executions
  imports Validation
begin

text \<open>
  Listing executions and logs: the query of \<open>GET /v2/executions\<close> and its pipe
  (\<open>pipes/joi-validation-execution-pipe.ts\<close>), the use case that fills a page
  (\<open>use-cases/paginated-executions.usecase.ts\<close>, \<open>dto/paginated-response.dto.ts\<close>), and the
  logs of a deployment (\<open>use-cases/find-deployment-logs-by-id.usecase.ts\<close>).

  The parameters of a query arrive as text. A number that may be \<open>NaN\<close> is an optional one.
\<close>

subsection \<open>The query\<close>

record RawQuery =
  raw_size :: "string option"
  raw_page :: "string option"
  raw_current :: "string option"

record ExecutionQuery =
  eq_size :: "int option"
  eq_page :: "int option"
  eq_current :: "string option"

definition digit_value :: "char \<Rightarrow> nat option" where
  "digit_value c = (let n = of_char c in if 48 \<le> n \<and> n \<le> 57 then Some (n - 48) else None)"

text \<open>\<open>parseInt\<close> in base ten: white space, a sign, and the digits up to the first other character.\<close>

fun leading_digits :: "string \<Rightarrow> nat list" where
  "leading_digits [] = []"
| "leading_digits (c # cs) =
     (case digit_value c of None \<Rightarrow> [] | Some d \<Rightarrow> d # leading_digits cs)"

definition digits_value :: "nat list \<Rightarrow> int option" where
  "digits_value ds = (if ds = [] then None else Some (foldl (\<lambda>acc d. 10 * acc + int d) 0 ds))"

fun parseInt :: "string \<Rightarrow> int option" where
  "parseInt [] = None"
| "parseInt (c # cs) =
     (if c \<in> {CHR '' '', CHR 0x09, CHR 0x0A, CHR 0x0D} then parseInt cs
      else if c = CHR ''-'' then map_option uminus (digits_value (leading_digits cs))
      else if c = CHR ''+'' then digits_value (leading_digits cs)
      else digits_value (leading_digits (c # cs)))"

text \<open>\<open>String(v)\<close> of a value that may be missing.\<close>

definition String_of :: "string option \<Rightarrow> string" where
  "String_of v = (case v of None \<Rightarrow> ''undefined'' | Some s \<Rightarrow> s)"

text \<open>
  The constructor's defaults apply to \<open>undefined\<close> only: the outer option is \<open>undefined\<close>, the
  inner \<open>NaN\<close>.
\<close>

definition new_ExecutionQuery :: "int option option \<Rightarrow> int option option \<Rightarrow> string option \<Rightarrow> ExecutionQuery" where
  "new_ExecutionQuery sz page cur =
     \<lparr>eq_size = (case sz of None \<Rightarrow> Some 50 | Some s \<Rightarrow> s),
      eq_page = (case page of None \<Rightarrow> Some 0 | Some p \<Rightarrow> p),
      eq_current = cur\<rparr>"

definition executionSchema :: schema where
  "executionSchema = JoiObject Optional
     [(''size'', JoiNumber Optional [Min 1]), (''page'', JoiNumber Optional [Min 0]),
      (''current'', JoiBool Optional)] []"

definition raw_json :: "RawQuery \<Rightarrow> json" where
  "raw_json q = JObj (List.map_filter (\<lambda>(k, v). map_option (\<lambda>s. (k, JStr s)) v)
     [(''size'', raw_size q), (''page'', raw_page q), (''current'', raw_current q)])"

definition JoiValidationExecutionPipe :: "joi_validate \<Rightarrow> RawQuery \<Rightarrow> app_error + ExecutionQuery" where
  "JoiValidationExecutionPipe joi value =
     (case joi executionSchema (raw_json value) of
        Inl es \<Rightarrow> Inl (HttpError (buildFromArray (formatErrors es BAD_REQUEST) BAD_REQUEST))
      | Inr _ \<Rightarrow>
          (let sizeValue = (if parseInt (String_of (raw_size value)) \<noteq> None
                            then Some (parseInt (String_of (raw_size value))) else None);
               pageValue = (if parseInt (String_of (raw_size value)) \<noteq> None
                            then Some (parseInt (String_of (raw_page value))) else None)
           in Inr (new_ExecutionQuery sizeValue pageValue (raw_current value))))"

subsection \<open>The page\<close>

record PaginatedResponse =
  pr_items :: "ListedExecution list"
  pr_size :: nat
  pr_page :: nat
  pr_last :: bool

definition isLast :: "nat \<Rightarrow> nat \<Rightarrow> bool" where
  "isLast page totalPages = (if totalPages > 0 then int page = int totalPages - 1 else True)"

definition new_PaginatedResponse :: "ListedExecution list \<Rightarrow> nat \<Rightarrow> nat \<Rightarrow> nat \<Rightarrow> PaginatedResponse" where
  "new_PaginatedResponse items sz page totalPages =
     \<lparr>pr_items = items, pr_size = sz, pr_page = page, pr_last = isLast page totalPages\<rparr>"

definition maxPageSize :: nat where "maxPageSize = 50"

definition getPageSize :: "nat \<Rightarrow> nat" where
  "getPageSize actualPageSize = min actualPageSize maxPageSize"

text \<open>\<open>Math.ceil(total / size)\<close> on a size that is at least 1.\<close>

definition ceil_div :: "nat \<Rightarrow> nat \<Rightarrow> nat" where
  "ceil_div a b = (a + b - 1) div b"

definition PaginatedExecutions :: "nat \<Rightarrow> nat \<Rightarrow> string option \<Rightarrow> db \<Rightarrow> PaginatedResponse" where
  "PaginatedExecutions sz page cur s =
     (let (executions, total) = listExecutionsAndRelations (getPageSize sz) page cur s;
          totalPages = ceil_div total sz
      in new_PaginatedResponse executions (length executions) page totalPages)"

subsection \<open>The logs\<close>

definition FindDeploymentLogsById :: "(string \<Rightarrow> int) \<Rightarrow> string \<Rightarrow> db \<Rightarrow> ReadLogsDto" where
  "FindDeploymentLogsById parse did s = LogEntity_toReadDto (findDeploymentLogs parse did s)"

subsection \<open>Pages of a list\<close>

lemma ceil_div_iff: "0 < b \<Longrightarrow> k < ceil_div a b \<longleftrightarrow> k * b < a"
proof -
  assume b: "0 < b"
  have "k < ceil_div a b \<longleftrightarrow> Suc k * b \<le> a + b - 1"
    unfolding ceil_div_def using b by (metis Suc_le_eq less_eq_div_iff_mult_less_eq)
  also have "\<dots> \<longleftrightarrow> k * b < a" using b by auto
  finally show ?thesis .
qed

lemma page_query:
  assumes "0 < n"
  shows "listExecutionsAndRelations n p cur s
     = (if p * n < length (execution_rows cur s)
        then (take n (drop (n * p) (execution_rows cur s)), length (execution_rows cur s)) else ([], 0))"
  using assms by (auto simp: listExecutionsAndRelations_def Let_def mult.commute)

lemma concat_pages:
  assumes "0 < n"
  shows "concat (map (\<lambda>p. take n (drop (n * p) xs)) [0..<k]) = take (n * k) xs"
proof (induction k)
  case 0
  then show ?case by simp
next
  case (Suc k)
  then show ?case by (simp add: take_add [symmetric] add.commute)
qed

end
