(* ===== verification/Listing.thy ===== *)
theory Listing
  imports Executions Examples "HOL-Library.Multiset"
begin

text \<open>
  Reading the executions page by page gives each once, newest first, for the sizes the use
  case honours; what happens for larger sizes and for queries that leave a parameter out; the
  order of the logs.
\<close>

subsection \<open>All the pages\<close>

lemma page_items:
  assumes "0 < n" and "n \<le> 50"
  shows "pr_items (PaginatedExecutions n p cur s) = take n (drop (n * p) (execution_rows cur s))"
  using assms
  by (auto simp: PaginatedExecutions_def page_query getPageSize_def maxPageSize_def
      new_PaginatedResponse_def mult.commute)

lemma page_last:
  assumes "0 < n" and "n \<le> 50"
  shows "pr_last (PaginatedExecutions n p cur s)
    \<longleftrightarrow> (p * n < length (execution_rows cur s)
          \<longrightarrow> int p = int (ceil_div (length (execution_rows cur s)) n) - 1)"
proof -
  have "0 < ceil_div (length (execution_rows cur s)) n" if "p * n < length (execution_rows cur s)"
    using ceil_div_iff [OF assms(1), of p "length (execution_rows cur s)"] that by simp
  then show ?thesis
    using assms by (auto simp: PaginatedExecutions_def page_query getPageSize_def maxPageSize_def
        new_PaginatedResponse_def isLast_def ceil_div_def)
qed

text \<open>
  C24: with a size of 1 to 50, asking for the pages 0, 1, 2, ... up to the first that says it
  is the last gives every execution exactly once, newest first, and the pages before it all
  say they are not.
\<close>

theorem pages_cover_executions:
  assumes "1 \<le> n" and "n \<le> 50"
  shows "\<exists>k. pr_last (PaginatedExecutions n k cur s)
    \<and> (\<forall>i < k. \<not> pr_last (PaginatedExecutions n i cur s))
    \<and> concat (map (\<lambda>p. pr_items (PaginatedExecutions n p cur s)) [0..<Suc k]) = execution_rows cur s
    \<and> sorted (map (\<lambda>r. - exec_createdAt (le_execution r)) (execution_rows cur s))"
proof -
  let ?rows = "execution_rows cur s"
  let ?pages = "ceil_div (length ?rows) n"
  have n: "0 < n" using assms(1) by simp
  have below: "k < ?pages \<longleftrightarrow> k * n < length ?rows" for k using ceil_div_iff [OF n] by simp
  have items: "concat (map (\<lambda>p. pr_items (PaginatedExecutions n p cur s)) [0..<k]) = take (n * k) ?rows" for k
    using concat_pages [OF n, of ?rows k] by (simp only: page_items [OF n assms(2)])
  have sorted: "sorted (map (\<lambda>r. - exec_createdAt (le_execution r)) ?rows)"
    unfolding execution_rows_def by (rule sorted_order_desc)
  show ?thesis
  proof (cases "?rows = []")
    case True
    then have "pr_last (PaginatedExecutions n 0 cur s)" by (simp add: page_last [OF n assms(2)])
    then show ?thesis using items [of 1] True sorted by (intro exI [of _ 0]) simp
  next
    case False
    then have pos: "0 < ?pages" using below [of 0] by simp
    let ?k = "?pages - 1"
    have "pr_last (PaginatedExecutions n ?k cur s)"
      using pos by (simp add: page_last [OF n assms(2)])
    moreover have "\<not> pr_last (PaginatedExecutions n i cur s)" if "i < ?k" for i
    proof -
      have "i < ?pages" using that by arith
      then have "i * n < length ?rows" using below [of i] by blast
      then show ?thesis using that by (simp add: page_last [OF n assms(2)])
    qed
    moreover have "length ?rows \<le> n * ?pages" using below [of ?pages] by (simp add: mult.commute)
    then have "concat (map (\<lambda>p. pr_items (PaginatedExecutions n p cur s)) [0..<Suc ?k]) = ?rows"
      using items [of ?pages] pos by simp
    ultimately show ?thesis using sorted by blast
  qed
qed

lemma pages_cover_executions_witness:
  "\<exists>k. pr_last (PaginatedExecutions 1 k None (w_db ex_world2))
     \<and> length (concat (map (\<lambda>p. pr_items (PaginatedExecutions 1 p None (w_db ex_world2))) [0..<Suc k])) = 2"
proof -
  have rows: "length (execution_rows None (w_db ex_world2)) = 2" by code_simp
  from pages_cover_executions [of 1 None "w_db ex_world2"] obtain k where
    "pr_last (PaginatedExecutions 1 k None (w_db ex_world2))"
    "concat (map (\<lambda>p. pr_items (PaginatedExecutions 1 p None (w_db ex_world2))) [0..<Suc k])
       = execution_rows None (w_db ex_world2)" by auto
  then show ?thesis using rows by metis
qed

text \<open>
  A size above 50 is cut to 50 for the page but not for the count of the pages: when there
  are more than 50 executions and no more than the size, the first page says it is the last
  one and holds only 50 of them.
\<close>

theorem large_page_loses_executions:
  assumes "50 < length (execution_rows cur s)" and "length (execution_rows cur s) \<le> n"
  shows "pr_last (PaginatedExecutions n 0 cur s)
    \<and> pr_items (PaginatedExecutions n 0 cur s) = take 50 (execution_rows cur s)"
proof -
  have n: "0 < n" "getPageSize n = 50" using assms by (auto simp: getPageSize_def maxPageSize_def)
  have "ceil_div (length (execution_rows cur s)) n = 1"
  proof (rule antisym)
    show "ceil_div (length (execution_rows cur s)) n \<le> 1"
      using ceil_div_iff [OF n(1), of 1 "length (execution_rows cur s)"] assms(2) by simp
    show "1 \<le> ceil_div (length (execution_rows cur s)) n"
      using ceil_div_iff [OF n(1), of 0 "length (execution_rows cur s)"] assms(1)
      by (simp only: Suc_le_eq One_nat_def mult_0)
  qed
  moreover have "listExecutionsAndRelations 50 0 cur s
      = (take 50 (execution_rows cur s), length (execution_rows cur s))"
    using page_query [of 50 0 cur s] assms(1) by (auto split: if_splits)
  ultimately show ?thesis
    using n by (simp add: PaginatedExecutions_def new_PaginatedResponse_def isLast_def)
qed

definition ex_many :: db where
  "ex_many = (w_db ex_world2)\<lparr>v2executions := map (\<lambda>i. (hd (v2executions (w_db ex_world2)))
     \<lparr>exec_id := replicate i (CHR ''x'')\<rparr>) [0..<60]\<rparr>"

lemma large_page_loses_executions_witness:
  "pr_last (PaginatedExecutions 100 0 None ex_many)
   \<and> length (pr_items (PaginatedExecutions 100 0 None ex_many)) = 50"
proof -
  have e: "find_deployment (exec_deploymentId (hd (v2executions (w_db ex_world2)))) (w_db ex_world2) \<noteq> None"
    by code_simp
  have find: "find_deployment i ex_many = find_deployment i (w_db ex_world2)" for i
    by (simp add: ex_many_def find_deployment_def)
  have "length (execution_rows None ex_many) = 60"
    using e find by (auto simp: execution_rows_def map_filter_def ex_many_def comp_def)
  then show ?thesis
    using large_page_loses_executions [of None ex_many 100] by simp
qed

subsection \<open>Queries that leave a parameter out\<close>

text \<open>
  the pipe tests the size where it means the page: a query with a size but no page gets
  the page \<open>NaN\<close> instead of 0, and a query with a page but no size gets the first page.
\<close>

theorem page_parameter_depends_on_size:
  assumes ok: "joi executionSchema (raw_json q) = Inr v"
  shows "(raw_page q = None \<and> raw_size q = Some n \<and> parseInt n \<noteq> None \<longrightarrow>
            JoiValidationExecutionPipe joi q
              = Inr \<lparr>eq_size = parseInt n, eq_page = None, eq_current = raw_current q\<rparr>)
    \<and> (raw_size q = None \<longrightarrow>
            JoiValidationExecutionPipe joi q
              = Inr \<lparr>eq_size = Some 50, eq_page = Some 0, eq_current = raw_current q\<rparr>)
    \<and> (raw_size q = Some n \<and> raw_page q = Some m \<and> parseInt n \<noteq> None \<longrightarrow>
            JoiValidationExecutionPipe joi q
              = Inr \<lparr>eq_size = parseInt n, eq_page = parseInt m, eq_current = raw_current q\<rparr>)"
proof -
  have "parseInt ''undefined'' = None" by code_simp
  then show ?thesis
    using ok by (auto simp: JoiValidationExecutionPipe_def Let_def String_of_def new_ExecutionQuery_def)
qed

lemma page_parameter_depends_on_size_witness:
  "JoiValidationExecutionPipe (\<lambda>s x. Inr x) \<lparr>raw_size = Some ''10'', raw_page = None, raw_current = None\<rparr>
     = Inr \<lparr>eq_size = Some 10, eq_page = None, eq_current = None\<rparr>"
proof -
  have "parseInt ''10'' = Some 10" by code_simp
  then show ?thesis
    using page_parameter_depends_on_size [of "\<lambda>s x. Inr x"
        "\<lparr>raw_size = Some ''10'', raw_page = None, raw_current = None\<rparr>" _ "''10''"] by simp
qed

subsection \<open>The logs of a deployment\<close>

lemma mset_insert_by: "mset (insert_by cmp x ys) = add_mset x (mset ys)"
  by (induction ys) auto

lemma mset_sort_by: "mset (sort_by cmp xs) = mset xs"
  by (induction xs) (simp_all add: mset_insert_by)

lemma sorted_insert_by:
  assumes "\<And>a b. cmp a b \<le> 0 \<longleftrightarrow> k a \<le> (k b :: int)" and "sorted (map k ys)"
  shows "sorted (map k (insert_by cmp x ys))"
  using assms(2)
proof (induction ys)
  case Nil
  then show ?case by simp
next
  case (Cons y ys)
  have set: "set (insert_by cmp x ys) = insert x (set ys)"
    using arg_cong [OF mset_insert_by [of cmp x ys], of set_mset] by simp
  show ?case using Cons assms(1) set by (auto simp: assms(1))
qed

lemma byTimestamp_le: "byTimestamp parse a b \<le> 0 \<longleftrightarrow> parse (log_timestamp a) \<le> parse (log_timestamp b)"
  by (simp add: byTimestamp_def Let_def)

text \<open>
  the logs of a deployment are the logs stored for it, each as often as it is stored, in
  the order of their timestamps.
\<close>

theorem logs_are_sorted:
  "sorted (map (\<lambda>l. parse (log_timestamp l)) (rl_logs (FindDeploymentLogsById parse did s)))
   \<and> mset (rl_logs (FindDeploymentLogsById parse did s))
       = mset (concat (map logs (filter (\<lambda>l. log_deploymentId l = did) (v2logs s))))"
proof -
  have "sorted (map (\<lambda>l. parse (log_timestamp l)) (sort_by (byTimestamp parse) ls))" for ls
    by (induction ls) (simp_all add: sorted_insert_by byTimestamp_le)
  then show ?thesis
    by (simp add: FindDeploymentLogsById_def LogEntity_toReadDto_def findDeploymentLogs_def
        extractLogs_def mset_sort_by)
qed

end
