(* ===== verification/Events.thy ===== *)
theory Events
  imports Cluster Store Json
begin

text \<open>
  The logs butler keeps of Kubernetes events: \<open>operator/logs-aggregator\<close>. An event of an object
  that belongs to a deployment is stored as a log of the deployment; an event of the routing
  resource is stored for the current deployment of every circle it lists. The watcher that
  feeds the aggregator reconnects when its connection ends.

  The state is the world and the content \<open>'c\<close> of the LRU cache of resources; the cache, the
  clock, and the printing of dates are parameters.
\<close>

subsection \<open>resource-wrapper.ts\<close>

text \<open>The wrapped object; \<open>ko_labels\<close>, \<open>ko_deploymentId\<close> and \<open>ko_circles\<close> are what it reads.\<close>

type_synonym ResourceWrapper = KubernetesObject

definition isCharlesRoutes :: "ResourceWrapper \<Rightarrow> bool" where
  "isCharlesRoutes r \<longleftrightarrow> ko_kind r = Some CHARLES_CUSTOM_RESOURCE_ROUTES_KIND"

definition isCharlesDeployment :: "ResourceWrapper \<Rightarrow> bool" where
  "isCharlesDeployment r \<longleftrightarrow> ko_kind r = Some CHARLES_CUSTOM_RESOURCE_DEPLOYMENT_KIND"

definition wrapped_circles :: "ResourceWrapper \<Rightarrow> CharlesCircle list option" where
  "wrapped_circles r = (if isCharlesRoutes r then ko_circles r else Some [])"

definition wrapped_deploymentId :: "ResourceWrapper \<Rightarrow> string option" where
  "wrapped_deploymentId r =
     (let label = (case ko_labels r of None \<Rightarrow> None | Some ls \<Rightarrow> map_of ls DEPLOYMENT_ID_LABEL)
      in if truthy label then label
         else if isCharlesDeployment r then ko_deploymentId r else None)"

subsection \<open>Events\<close>

record InvolvedObject =
  io_kind :: "string option"
  io_apiVersion :: "string option"
  io_name :: "string option"
  io_namespace :: "string option"

record CoreV1Event =
  ev_involvedObject :: InvolvedObject
  ev_type :: "string option"
  ev_reason :: "string option"
  ev_message :: "string option"
  ev_creationTimestamp :: "int option"
  ev_firstTimestamp :: "int option"
  ev_lastTimestamp :: "int option"
  ev_eventTime :: "int option"

definition convertType :: "string option \<Rightarrow> string" where
  "convertType eventType = (if eventType = Some ''Warning'' then ''WARN'' else ''INFO'')"

definition event_title :: "CoreV1Event \<Rightarrow> string" where
  "event_title e = or_else (ev_reason e) []"

text \<open>The first of the dates that is there; the current date (\<open>now\<close>) when there is none.\<close>

definition fallBackTimestamp :: "int \<Rightarrow> CoreV1Event \<Rightarrow> int" where
  "fallBackTimestamp now e =
     (case ev_firstTimestamp e of Some t \<Rightarrow> t
      | None \<Rightarrow> (case ev_lastTimestamp e of Some t \<Rightarrow> t
      | None \<Rightarrow> (case ev_eventTime e of Some t \<Rightarrow> t | None \<Rightarrow> now)))"

definition event_timestamp :: "int \<Rightarrow> CoreV1Event \<Rightarrow> int" where
  "event_timestamp now e =
     (case ev_creationTimestamp e of Some t \<Rightarrow> t | None \<Rightarrow> fallBackTimestamp now e)"

text \<open>\<open>JSON.stringify({ message, object })\<close>: a missing message is left out.\<close>

definition event_details :: "CoreV1Event \<Rightarrow> string" where
  "event_details e =
     (let object = in_template (io_kind (ev_involvedObject e)) @ ''/''
            @ in_template (io_name (ev_involvedObject e))
      in ''{'' @ (case ev_message e of None \<Rightarrow> []
                   | Some m \<Rightarrow> stringify_string ''message'' @ '':'' @ stringify_string m @ '','')
         @ stringify_string ''object'' @ '':'' @ stringify_string object @ ''}'')"

definition isAfter :: "int \<Rightarrow> CoreV1Event \<Rightarrow> int \<Rightarrow> bool" where
  "isAfter now e t \<longleftrightarrow> event_timestamp now e \<ge> t"

subsection \<open>kubernetes-events-aggregator.ts\<close>

record 'c event_env =
  ee_now :: int
  format_date :: "int \<Rightarrow> string"
  parse_date :: "string \<Rightarrow> int"
  cache_get :: "string \<Rightarrow> 'c \<Rightarrow> ResourceWrapper option \<times> 'c"
  cache_set :: "string \<Rightarrow> ResourceWrapper \<Rightarrow> 'c \<Rightarrow> 'c"
  ee_log_id :: "nat \<Rightarrow> string"

definition KUBE_SYSTEM_NS_PREFIX :: string where "KUBE_SYSTEM_NS_PREFIX = ''kube-''"

definition isEventOlderThan :: "int \<Rightarrow> CoreV1Event \<Rightarrow> int option \<Rightarrow> bool" where
  "isEventOlderThan now e since = (case since of None \<Rightarrow> False | Some t \<Rightarrow> \<not> isAfter now e t)"

text \<open>Whether the event is kept: the object is identified, not a system one, not older.\<close>

definition validateAndCreateEvent :: "int \<Rightarrow> CoreV1Event \<Rightarrow> int option \<Rightarrow> CoreV1Event option" where
  "validateAndCreateEvent now e since =
     (let involvedObject = ev_involvedObject e
      in if \<not> truthy (io_kind involvedObject) \<or> \<not> truthy (io_apiVersion involvedObject)
            \<or> \<not> truthy (io_name involvedObject) then None
         else if truthy (io_namespace involvedObject)
            \<and> startsWith (the (io_namespace involvedObject)) KUBE_SYSTEM_NS_PREFIX then None
         else if isEventOlderThan now e since then None
         else Some e)"

definition createCacheKey :: "string \<Rightarrow> string \<Rightarrow> string option \<Rightarrow> string" where
  "createCacheKey kind nm ns =
     (if truthy ns then the ns @ '':'' @ kind @ '':'' @ nm else kind @ '':'' @ nm)"

definition createLogFromEvent :: "'c event_env \<Rightarrow> CoreV1Event \<Rightarrow> Log" where
  "createLogFromEvent ee e =
     \<lparr>log_type = convertType (ev_type e), log_title = event_title e,
      log_details = Some (event_details e),
      log_timestamp = format_date ee (event_timestamp (ee_now ee) e)\<rparr>"

definition isSameLog :: "Log \<Rightarrow> Log \<Rightarrow> bool" where
  "isSameLog logRequest logDatabase \<longleftrightarrow> log_title logRequest = log_title logDatabase
     \<and> log_timestamp logRequest = log_timestamp logDatabase
     \<and> log_details logRequest = log_details logDatabase"

definition alreadyLogged :: "'c event_env \<Rightarrow> Log \<Rightarrow> string \<Rightarrow> db \<Rightarrow> Log option" where
  "alreadyLogged ee logRequest did s =
     List.find (isSameLog logRequest) (logs (findDeploymentLogs (parse_date ee) did s))"

type_synonym ('k, 'c) watching = "'k world \<times> 'c"

text \<open>A cached resource, or the one the cluster has, which is then cached; nothing on an error.\<close>

definition cachedResourceFor ::
  "'k env \<Rightarrow> 'c event_env \<Rightarrow> string \<Rightarrow> string \<Rightarrow> string \<Rightarrow> string option
    \<Rightarrow> ('k, 'c) watching \<Rightarrow> ResourceWrapper option \<times> ('k, 'c) watching" where
  "cachedResourceFor env ee kind apiVersion nm ns wc =
     (let cacheKey = createCacheKey kind nm ns; (w, c) = wc
      in case cache_get ee cacheKey c of
           (Some r, c') \<Rightarrow> (Some r, (w, c'))
         | (None, c') \<Rightarrow>
             (case readResource env \<lparr>ref_apiVersion = apiVersion, ref_kind = kind,
                                      ref_namespace = ns, ref_name = nm\<rparr> w of
                (Inr r, w') \<Rightarrow> (Some r, (w', cache_set ee cacheKey r c'))
              | (Inl e, w') \<Rightarrow> (None, (w', c'))))"

definition checkResourceAnnotation ::
  "'c event_env \<Rightarrow> ResourceWrapper \<Rightarrow> CoreV1Event \<Rightarrow> db \<Rightarrow> db" where
  "checkResourceAnnotation ee r e s =
     (let circlesIds = (case wrapped_circles r of None \<Rightarrow> [] | Some cs \<Rightarrow> map cc_id cs)
      in if circlesIds = [] then s
         else
           (let currentDeployments = findCurrentsByCirclesIds circlesIds s;
                currentDeploymentsIds = map dep_id currentDeployments
            in saveDeploymentsLogs (ee_log_id ee) currentDeploymentsIds (createLogFromEvent ee e) s))"

definition saveLogs :: "'c event_env \<Rightarrow> string \<Rightarrow> Log \<Rightarrow> db \<Rightarrow> db" where
  "saveLogs ee did l = save_log \<lparr>log_id = ee_log_id ee 0, log_deploymentId = did, logs = [l]\<rparr>"

definition aggregate ::
  "'k env \<Rightarrow> 'c event_env \<Rightarrow> CoreV1Event \<Rightarrow> int option \<Rightarrow> ('k, 'c) watching \<Rightarrow> ('k, 'c) watching" where
  "aggregate env ee coreEvent since wc =
     (let involvedObject = ev_involvedObject coreEvent
      in case validateAndCreateEvent (ee_now ee) coreEvent since of
           None \<Rightarrow> wc
         | Some event \<Rightarrow>
             (case cachedResourceFor env ee (the (io_kind involvedObject))
                     (the (io_apiVersion involvedObject)) (the (io_name involvedObject))
                     (io_namespace involvedObject) wc of
                (None, wc') \<Rightarrow> wc'
              | (Some r, (w, c)) \<Rightarrow>
                  (if \<not> truthy (wrapped_deploymentId r) then
                     (w\<lparr>w_db := checkResourceAnnotation ee r event (w_db w)\<rparr>, c)
                   else
                     (let did = the (wrapped_deploymentId r); l = createLogFromEvent ee event
                      in if alreadyLogged ee l did (w_db w) \<noteq> None then (w, c)
                         else (w\<lparr>w_db := saveLogs ee did l (w_db w)\<rparr>, c)))))"

subsection \<open>kubernetes-events-watcher.ts and events-operator-service.ts\<close>

definition RESTART_DELAY_IN_SECONDS :: nat where "RESTART_DELAY_IN_SECONDS = 5"

text \<open>
  The fields of the watcher, the number of watch requests that are open and the number of
  timers set to start another.
\<close>

record EventsWatcher =
  lastConnectionLostTimestamp :: "int option"
  connected :: bool
  open_requests :: nat
  restart_timers :: nat

definition new_EventsWatcher :: EventsWatcher where
  "new_EventsWatcher = \<lparr>lastConnectionLostTimestamp = None, connected = False,
     open_requests = 0, restart_timers = 0\<rparr>"

definition watcher_restart :: "EventsWatcher \<Rightarrow> EventsWatcher" where
  "watcher_restart s = s\<lparr>restart_timers := Suc (restart_timers s)\<rparr>"

definition onFinishOrError :: "int \<Rightarrow> EventsWatcher \<Rightarrow> EventsWatcher" where
  "onFinishOrError now s =
     (let s' = (if connected s
                then s\<lparr>lastConnectionLostTimestamp := Some now, connected := False\<rparr> else s)
      in watcher_restart s')"

text \<open>A response to the request: the handler of \<open>verifyConnectivity\<close>.\<close>

definition onResponse :: "EventsWatcher \<Rightarrow> EventsWatcher" where
  "onResponse s = s\<lparr>connected := True\<rparr>"

text \<open>\<open>start()\<close>: a request is opened, or opening it fails and is only reported.\<close>

definition watcher_start :: "bool \<Rightarrow> EventsWatcher \<Rightarrow> EventsWatcher" where
  "watcher_start opens s = (if opens then s\<lparr>open_requests := Suc (open_requests s)\<rparr> else s)"

text \<open>
  A step of the watcher: the bootstrap of the application or a timer starts it, a request is
  answered, ends (the library's callback, documented to be called when the watch closes, and
  the request's own \<open>end\<close> event, each with its call of \<open>onFinishOrError\<close>) or fails before it
  has ended (the library's callback alone).
\<close>

inductive watcher_step :: "EventsWatcher \<Rightarrow> EventsWatcher \<Rightarrow> bool" where
  bootstrap: "s = new_EventsWatcher \<Longrightarrow> watcher_step s (watcher_start opens s)"
| timer: "0 < restart_timers s \<Longrightarrow>
    watcher_step s (watcher_start opens (s\<lparr>restart_timers := restart_timers s - 1\<rparr>))"
| response: "0 < open_requests s \<Longrightarrow> watcher_step s (onResponse s)"
| finish: "0 < open_requests s \<Longrightarrow>
    watcher_step s (onFinishOrError t' (onFinishOrError t (s\<lparr>open_requests := open_requests s - 1\<rparr>)))"
| failure: "0 < open_requests s \<Longrightarrow>
    watcher_step s (onFinishOrError t (s\<lparr>open_requests := open_requests s - 1\<rparr>))"

inductive_cases watcher_stepE [elim!]: "watcher_step s t"

definition processEvent ::
  "'k env \<Rightarrow> 'c event_env \<Rightarrow> EventsWatcher \<Rightarrow> CoreV1Event \<Rightarrow> ('k, 'c) watching \<Rightarrow> ('k, 'c) watching" where
  "processEvent env ee s e = aggregate env ee e (lastConnectionLostTimestamp s)"

end
