(* ===== verification/EventLogs.thy ===== *)
theory EventLogs
  imports Events Examples
begin

text \<open>
  What the event logs promise (only logs are added, each to the deployment it is about, once)
  and the two places where the code does not keep to it: events of the routing resource are
  not checked for being stored already, and an ended watch is restarted twice.
\<close>

subsection \<open>Logs are only added\<close>

lemma saveDeploymentsLogs_tables:
  "saveDeploymentsLogs fresh ids l s = s\<lparr>v2logs := v2logs s
     @ map (\<lambda>(i, did). \<lparr>log_id = fresh i, log_deploymentId = did, logs = [l]\<rparr>) (enumerate 0 ids)\<rparr>"
proof -
  have "fold (\<lambda>(i, did). save_log \<lparr>log_id = fresh i, log_deploymentId = did, logs = [l]\<rparr>) xs s
      = s\<lparr>v2logs := v2logs s
          @ map (\<lambda>(i, did). \<lparr>log_id = fresh i, log_deploymentId = did, logs = [l]\<rparr>) xs\<rparr>" for xs
    by (induction xs arbitrary: s) (simp_all add: save_log_def case_prod_beta)
  then show ?thesis by (simp add: saveDeploymentsLogs_def)
qed

lemma cachedResourceFor_db: "cachedResourceFor env ee k a n ns wc = (r, wc') \<Longrightarrow> w_db (fst wc') = w_db (fst wc)"
proof (cases wc)
  case (Pair w c)
  assume "cachedResourceFor env ee k a n ns wc = (r, wc')"
  moreover have "w_db (snd (readResource env x w)) = w_db w" for x by (simp add: readResource_def)
  ultimately show ?thesis
    unfolding Pair by (auto simp: cachedResourceFor_def Let_def split: prod.splits option.splits sum.splits)
      (metis snd_conv)+
qed

text \<open>The deployments an event is about, by the resource of its object.\<close>

definition concerned :: "ResourceWrapper \<Rightarrow> db \<Rightarrow> string list" where
  "concerned r s =
     (if truthy (wrapped_deploymentId r) then [the (wrapped_deploymentId r)]
      else (case wrapped_circles r of None \<Rightarrow> []
            | Some cs \<Rightarrow> map dep_id (findCurrentsByCirclesIds (map cc_id cs) s)))"

lemma aggregate_tables:
  assumes valid: "validateAndCreateEvent (ee_now ee) e since = Some e"
    and r: "cachedResourceFor env ee (the (io_kind (ev_involvedObject e)))
      (the (io_apiVersion (ev_involvedObject e))) (the (io_name (ev_involvedObject e)))
      (io_namespace (ev_involvedObject e)) wc = (Some r, (w, c))"
  shows "aggregate env ee e since wc =
     (w\<lparr>w_db := (if truthy (wrapped_deploymentId r)
         then (if alreadyLogged ee (createLogFromEvent ee e) (the (wrapped_deploymentId r)) (w_db w) \<noteq> None
               then w_db w
               else saveDeploymentsLogs (ee_log_id ee) (concerned r (w_db w)) (createLogFromEvent ee e) (w_db w))
         else saveDeploymentsLogs (ee_log_id ee) (concerned r (w_db w)) (createLogFromEvent ee e) (w_db w))\<rparr>, c)"
proof -
  have one: "save_log \<lparr>log_id = f 0, log_deploymentId = did, logs = [l]\<rparr> s
      = saveDeploymentsLogs f [did] l s" for f did l and s :: db
    by (simp add: saveDeploymentsLogs_def)
  have none: "saveDeploymentsLogs f [] l s = s" for f l and s :: db
    by (simp add: saveDeploymentsLogs_def)
  show ?thesis
    using valid r
    by (auto simp: aggregate_def Let_def saveLogs_def one checkResourceAnnotation_def concerned_def none
        findCurrentsByCirclesIds_def split: option.splits)
qed

lemma validated_same: "validateAndCreateEvent now e since = Some e' \<Longrightarrow> e' = e"
  by (auto simp: validateAndCreateEvent_def Let_def split: if_splits)

lemma ignored_events:
  assumes "validateAndCreateEvent now e since = Some e'"
  shows "\<not> ((\<exists>ns. io_namespace (ev_involvedObject e) = Some (''kube-'' @ ns))
        \<or> \<not> truthy (io_name (ev_involvedObject e))
        \<or> (\<exists>t. since = Some t \<and> event_timestamp now e < t))"
  using assms by (auto simp: validateAndCreateEvent_def Let_def isEventOlderThan_def isAfter_def
      startsWith_def KUBE_SYSTEM_NS_PREFIX_def split: if_splits)

definition adds_logs :: "Log \<Rightarrow> db \<Rightarrow> db \<Rightarrow> bool" where
  "adds_logs l s s' \<longleftrightarrow> (\<exists>new. s' = s\<lparr>v2logs := v2logs s @ new\<rparr> \<and> (\<forall>x \<in> set new. logs x = [l]))"

lemma adds_logs_refl: "adds_logs l s s"
  unfolding adds_logs_def by (intro exI [of _ "[]"]) simp

lemma aggregate_adds_logs:
  assumes run: "aggregate env ee e since (w, c) = (w', c')"
    and valid: "validateAndCreateEvent (ee_now ee) e since = Some e"
  shows "adds_logs (createLogFromEvent ee e) (w_db w) (w_db w') \<and> w_notified w' = w_notified w"
proof -
  obtain r wc where res: "cachedResourceFor env ee (the (io_kind (ev_involvedObject e)))
      (the (io_apiVersion (ev_involvedObject e))) (the (io_name (ev_involvedObject e)))
      (io_namespace (ev_involvedObject e)) (w, c) = (r, wc)"
    by (rule prod.exhaust)
  then have db: "w_db (fst wc) = w_db w" using cachedResourceFor_db by fastforce
  have notified: "w_notified (fst wc) = w_notified w"
    using res by (auto simp: cachedResourceFor_def Let_def readResource_def on_cluster_def
        split: prod.splits option.splits sum.splits)
  have "adds_logs (createLogFromEvent ee e) (w_db w) (w_db w')"
  proof (cases r)
    case None
    then have "w_db w' = w_db w" using run valid res db by (simp add: aggregate_def Let_def)
    then show ?thesis by (simp add: adds_logs_refl)
  next
    case (Some x)
    then have "cachedResourceFor env ee (the (io_kind (ev_involvedObject e)))
      (the (io_apiVersion (ev_involvedObject e))) (the (io_name (ev_involvedObject e)))
      (io_namespace (ev_involvedObject e)) (w, c) = (Some x, (fst wc, snd wc))" using res by simp
    from aggregate_tables [OF valid this] have "w_db w' = w_db w
        \<or> w_db w' = saveDeploymentsLogs (ee_log_id ee) (concerned x (w_db w)) (createLogFromEvent ee e) (w_db w)"
      using run db by (auto split: if_splits)
    then show ?thesis
      unfolding adds_logs_def saveDeploymentsLogs_tables
      by (elim disjE) (intro exI [of _ "[]"], simp, intro exI conjI, auto)
  qed
  moreover have "w_notified w' = w_notified w"
    using run valid res notified
    by (cases r; cases wc) (auto simp: aggregate_def Let_def split: if_splits)
  ultimately show ?thesis ..
qed

text \<open>
  Processing any event leaves the deployments, components, executions and notifications
  alone and keeps every stored log; a log it adds is the event's and goes to a deployment. An
  event of a \<open>kube-\<close> namespace, one whose object is not identified, and one older than the
  last lost connection add nothing.
\<close>

theorem events_only_add_logs:
  fixes w :: "'k world"
  assumes run: "aggregate env ee e since (w, c) = (w', c')"
  shows "(\<exists>new. w_db w' = (w_db w)\<lparr>v2logs := v2logs (w_db w) @ new\<rparr>
            \<and> (\<forall>l \<in> set new. logs l = [createLogFromEvent ee e]))
    \<and> w_notified w' = w_notified w
    \<and> ((\<exists>ns. io_namespace (ev_involvedObject e) = Some (''kube-'' @ ns))
        \<or> \<not> truthy (io_name (ev_involvedObject e))
        \<or> (\<exists>t. since = Some t \<and> event_timestamp (ee_now ee) e < t) \<longrightarrow> w' = w)"
proof (cases "validateAndCreateEvent (ee_now ee) e since")
  case None
  then have "w' = w" using run by (simp add: aggregate_def Let_def)
  then show ?thesis by (intro conjI exI [of _ "[]"]) simp_all
next
  case (Some e')
  then have "validateAndCreateEvent (ee_now ee) e since = Some e" using validated_same by blast
  then show ?thesis
    using aggregate_adds_logs [OF run] ignored_events [OF Some] unfolding adds_logs_def by blast
qed

text \<open>An event of the Deployment of \<open>d2\<close>, whose resource is in the cache.\<close>

definition ex_wrapper :: ResourceWrapper where
  "ex_wrapper = \<lparr>ko_kind = Some ''Deployment'', ko_labels = Some [(''deploymentId'', ''d2'')],
     ko_deploymentId = None, ko_circles = None\<rparr>"

definition ex_routes :: ResourceWrapper where
  "ex_routes = \<lparr>ko_kind = Some ''CharlesRoutes'', ko_labels = None, ko_deploymentId = None,
     ko_circles = Some [\<lparr>cc_id = ''blue'', cc_default = False, cc_components = []\<rparr>]\<rparr>"

definition ex_event :: CoreV1Event where
  "ex_event = \<lparr>ev_involvedObject = \<lparr>io_kind = Some ''Deployment'', io_apiVersion = Some ''apps/v1'',
       io_name = Some ''app'', io_namespace = Some ''ns''\<rparr>,
     ev_type = Some ''Warning'', ev_reason = Some ''Failed'', ev_message = Some ''no image'',
     ev_creationTimestamp = Some 3000, ev_firstTimestamp = None, ev_lastTimestamp = None,
     ev_eventTime = None\<rparr>"

definition ex_event_env :: "ResourceWrapper \<Rightarrow> unit event_env" where
  "ex_event_env r = \<lparr>ee_now = 4000, format_date = (\<lambda>t. if t = 3000 then ''3000'' else ''other''),
     parse_date = (\<lambda>s. if s = ''3000'' then 3000 else 0), cache_get = (\<lambda>k c. (Some r, c)),
     cache_set = (\<lambda>k r c. c), ee_log_id = (\<lambda>i. ''l'')\<rparr>"

lemma events_only_add_logs_witness:
  "\<exists>w'. aggregate (ex_env 3000 ''e3'') (ex_event_env ex_wrapper) ex_event None (ex_world2, ()) = (w', ())
     \<and> (\<forall>l \<in> set (drop (length (v2logs (w_db ex_world2))) (v2logs (w_db w'))).
          logs l = [createLogFromEvent (ex_event_env ex_wrapper) ex_event])"
proof -
  obtain w' where run: "aggregate (ex_env 3000 ''e3'') (ex_event_env ex_wrapper) ex_event None
      (ex_world2, ()) = (w', ())" by (cases "aggregate (ex_env 3000 ''e3'') (ex_event_env ex_wrapper)
        ex_event None (ex_world2, ())") simp
  from events_only_add_logs [OF run] obtain new where
    "w_db w' = (w_db ex_world2)\<lparr>v2logs := v2logs (w_db ex_world2) @ new\<rparr>"
    "\<forall>l \<in> set new. logs l = [createLogFromEvent (ex_event_env ex_wrapper) ex_event]" by blast
  then have "\<forall>l \<in> set (drop (length (v2logs (w_db ex_world2))) (v2logs (w_db w'))).
      logs l = [createLogFromEvent (ex_event_env ex_wrapper) ex_event]" by simp
  with run show ?thesis by blast
qed

subsection \<open>An event that comes twice\<close>

lemma stored_logs:
  "alreadyLogged ee l did s \<noteq> None
    \<longleftrightarrow> (\<exists>x \<in> set (v2logs s). log_deploymentId x = did \<and> (\<exists>y \<in> set (logs x). isSameLog l y))"
  by (auto simp: alreadyLogged_def find_None_all findDeploymentLogs_def extractLogs_def)



text \<open>
  An event of the routing resource is not checked: each time it comes it is stored again
  for every current deployment of the circles the resource lists.
\<close>

theorem routing_event_stored_again:
  assumes valid: "validateAndCreateEvent (ee_now ee) e since = Some e"
    and r: "cachedResourceFor env ee (the (io_kind (ev_involvedObject e)))
      (the (io_apiVersion (ev_involvedObject e))) (the (io_name (ev_involvedObject e)))
      (io_namespace (ev_involvedObject e)) (w, c) = (Some r, (w', c'))"
    and routes: "wrapped_deploymentId r = None" "wrapped_circles r = Some circles"
  shows "length (v2logs (w_db (fst (aggregate env ee e since (w, c)))))
    = length (v2logs (w_db w)) + length (findCurrentsByCirclesIds (map cc_id circles) (w_db w))"
proof -
  have "w_db w' = w_db w" using cachedResourceFor_db [OF r] by simp
  then show ?thesis
    using aggregate_tables [OF valid r] routes
    by (simp add: saveDeploymentsLogs_tables concerned_def)
qed

lemma routing_event_stored_again_witness:
  "length (v2logs (w_db (fst (aggregate (ex_env 3000 ''e3'') (ex_event_env ex_routes) ex_event None
      (aggregate (ex_env 3000 ''e3'') (ex_event_env ex_routes) ex_event None (ex_world2, ())))))) = 2"
proof -
  let ?env = "ex_env 3000 ''e3''" and ?ee = "ex_event_env ex_routes"
  have valid: "validateAndCreateEvent (ee_now ?ee) ex_event None = Some ex_event" by code_simp
  have cached: "cachedResourceFor ?env ?ee k a n ns (w, c) = (Some ex_routes, (w, c))" for k a n ns w c
    by (simp add: cachedResourceFor_def ex_event_env_def)
  have no: "wrapped_deploymentId ex_routes = None" by code_simp
  have circles: "wrapped_circles ex_routes = Some (the (wrapped_circles ex_routes))" by code_simp
  obtain w1 where run: "aggregate ?env ?ee ex_event None (ex_world2, ()) = (w1, ())"
    by (cases "aggregate ?env ?ee ex_event None (ex_world2, ())") simp
  have one: "length (v2logs (w_db (fst (aggregate ?env ?ee ex_event None (ex_world2, ()))))) = 1"
    "length (findCurrentsByCirclesIds (map cc_id (the (wrapped_circles ex_routes)))
      (w_db (fst (aggregate ?env ?ee ex_event None (ex_world2, ()))))) = 1" by code_simp+
  show ?thesis
    using routing_event_stored_again [OF valid cached no circles, of w1 "()"] one
    by (simp add: run)
qed

subsection \<open>The watcher\<close>

lemma all_finish:
  "\<exists>t. watcher_step\<^sup>*\<^sup>* s t \<and> open_requests t = 0
     \<and> restart_timers t = restart_timers s + 2 * open_requests s"
proof (induction "open_requests s" arbitrary: s)
  case 0
  then show ?case by auto
next
  case (Suc n)
  let ?s = "onFinishOrError 0 (onFinishOrError 0 (s\<lparr>open_requests := open_requests s - 1\<rparr>))"
  have step: "watcher_step s ?s" using Suc.hyps(2) by (intro watcher_step.finish) simp
  have "open_requests ?s = n" "restart_timers ?s = restart_timers s + 2"
    using Suc.hyps(2) by (simp_all add: onFinishOrError_def watcher_restart_def Let_def)
  with Suc.hyps(1) [of ?s] obtain t where "watcher_step\<^sup>*\<^sup>* ?s t" "open_requests t = 0"
    "restart_timers t = restart_timers s + 2 + 2 * n" by auto
  with step Suc.hyps(2) show ?case
    by (intro exI [of _ t]) (auto intro: converse_rtranclp_into_rtranclp)
qed

lemma all_restart:
  "\<exists>t. watcher_step\<^sup>*\<^sup>* s t \<and> restart_timers t = 0
     \<and> open_requests t = open_requests s + restart_timers s"
proof (induction "restart_timers s" arbitrary: s)
  case 0
  then show ?case by auto
next
  case (Suc n)
  let ?s = "watcher_start True (s\<lparr>restart_timers := restart_timers s - 1\<rparr>)"
  have step: "watcher_step s ?s" using Suc.hyps(2) by (intro watcher_step.timer) simp
  have "restart_timers ?s = n" "open_requests ?s = Suc (open_requests s)"
    using Suc.hyps(2) by (simp_all add: watcher_start_def)
  with Suc.hyps(1) [of ?s] obtain t where "watcher_step\<^sup>*\<^sup>* ?s t" "restart_timers t = 0"
    "open_requests t = Suc (open_requests s) + n" by auto
  with step Suc.hyps(2) show ?case
    by (intro exI [of _ t]) (auto intro: converse_rtranclp_into_rtranclp)
qed

text \<open>
  \<open>onFinishOrError\<close> is registered twice for every request, as the library's \<open>done\<close>
  callback and for the request's \<open>end\<close> event, and each call sets a timer: the number of open
  watches can double with every round of connections that end, without bound.
\<close>

theorem watchers_multiply:
  "\<exists>s. watcher_step\<^sup>*\<^sup>* new_EventsWatcher s \<and> open_requests s = 2 ^ n \<and> restart_timers s = 0"
proof (induction n)
  case 0
  have "watcher_step new_EventsWatcher (watcher_start True new_EventsWatcher)"
    by (rule watcher_step.bootstrap) simp
  then show ?case
    by (intro exI [of _ "watcher_start True new_EventsWatcher"])
      (auto simp: watcher_start_def new_EventsWatcher_def)
next
  case (Suc n)
  then obtain s where s: "watcher_step\<^sup>*\<^sup>* new_EventsWatcher s" "open_requests s = 2 ^ n"
    "restart_timers s = 0" by blast
  obtain t where t: "watcher_step\<^sup>*\<^sup>* s t" "open_requests t = 0" "restart_timers t = 2 * 2 ^ n"
    using all_finish [of s] s by auto
  obtain u where "watcher_step\<^sup>*\<^sup>* t u" "restart_timers u = 0" "open_requests u = 2 * 2 ^ n"
    using all_restart [of t] t by auto
  with s(1) t(1) show ?case by (intro exI [of _ u]) (auto intro: rtranclp_trans)
qed

end
