(* ===== verification/Config.thy ===== *)
theory Config
  imports Executions Complex_Main
begin

text \<open>
  The configuration of the service: \<open>core/config/configurations.ts\<close> reads the environment once,
  with the defaults of \<open>core/constants/application/configuration.constants.ts\<close>, and
  \<open>DatabasesService\<close> makes the connection of it. The environment of the process is a function
  from names to values.
\<close>

subsection \<open>JavaScript's \<open>Number\<close> of a string\<close>

datatype js_number = NaN | Infinite bool | Finite rat

definition js_white :: "char \<Rightarrow> bool" where
  "js_white c = (let n = of_char c :: nat in (9 \<le> n \<and> n \<le> 13) \<or> n = 32 \<or> n = 160)"

definition js_trim :: "string \<Rightarrow> string" where
  "js_trim s = rev (dropWhile js_white (rev (dropWhile js_white s)))"

definition is_digit :: "char \<Rightarrow> bool" where "is_digit c = (digit_value c \<noteq> None)"

definition radix_value :: "nat \<Rightarrow> char \<Rightarrow> nat option" where
  "radix_value b c = (let n = of_char c :: nat;
       v = (if 48 \<le> n \<and> n \<le> 57 then n - 48 else if 97 \<le> n \<and> n \<le> 102 then n - 87
            else if 65 \<le> n \<and> n \<le> 70 then n - 55 else b)
     in if v < b then Some v else None)"

definition radix_number :: "nat \<Rightarrow> string \<Rightarrow> js_number" where
  "radix_number b s =
     (if s = [] \<or> \<not> list_all (\<lambda>c. radix_value b c \<noteq> None) s then NaN
      else Finite (of_nat (foldl (\<lambda>acc c. b * acc + the (radix_value b c)) 0 s)))"

definition decimal_exponent :: "string \<Rightarrow> int option" where
  "decimal_exponent s =
     (case s of [] \<Rightarrow> Some 0
      | c # cs \<Rightarrow>
          if c \<noteq> CHR ''e'' \<and> c \<noteq> CHR ''E'' then None
          else (let (sgn, ds) = (case cs of [] \<Rightarrow> (1, [])
                  | d # ds \<Rightarrow> if d = CHR ''-'' then (- 1, ds) else if d = CHR ''+'' then (1, ds) else (1, cs))
                in if list_all is_digit ds then map_option (\<lambda>n. sgn * n) (digits_value (leading_digits ds))
                   else None))"

definition scale :: "int \<Rightarrow> int \<Rightarrow> rat" where
  "scale n e = (if 0 \<le> e then of_int n * 10 ^ nat e else of_int n / 10 ^ nat (- e))"

definition unsigned_decimal :: "string \<Rightarrow> js_number" where
  "unsigned_decimal s =
     (if s = ''Infinity'' then Infinite False
      else (let ip = takeWhile is_digit s; r = dropWhile is_digit s;
                dotted = (r \<noteq> [] \<and> hd r = CHR ''.'');
                fp = (if dotted then takeWhile is_digit (tl r) else []);
                rest = (if dotted then dropWhile is_digit (tl r) else r)
            in case (digits_value (leading_digits (ip @ fp)), decimal_exponent rest) of
                 (Some n, Some e) \<Rightarrow> Finite (scale n (e - int (length fp)))
               | _ \<Rightarrow> NaN))"

fun negated :: "js_number \<Rightarrow> js_number" where
  "negated NaN = NaN"
| "negated (Infinite neg) = Infinite (\<not> neg)"
| "negated (Finite x) = Finite (- x)"

text \<open>\<open>Number(undefined)\<close> is not a number; of a blank string it is 0.\<close>

definition Number :: "string option \<Rightarrow> js_number" where
  "Number v = (case v of None \<Rightarrow> NaN
     | Some s \<Rightarrow>
         (case js_trim s of
            [] \<Rightarrow> Finite 0
          | c # cs \<Rightarrow>
              if c = CHR ''-'' then negated (unsigned_decimal cs)
              else if c = CHR ''+'' then unsigned_decimal cs
              else if c = CHR ''0'' \<and> cs \<noteq> [] \<and> (hd cs = CHR ''x'' \<or> hd cs = CHR ''X'') then radix_number 16 (tl cs)
              else if c = CHR ''0'' \<and> cs \<noteq> [] \<and> (hd cs = CHR ''o'' \<or> hd cs = CHR ''O'') then radix_number 8 (tl cs)
              else if c = CHR ''0'' \<and> cs \<noteq> [] \<and> (hd cs = CHR ''b'' \<or> hd cs = CHR ''B'') then radix_number 2 (tl cs)
              else unsigned_decimal (c # cs)))"

definition number_or :: "js_number \<Rightarrow> rat \<Rightarrow> js_number" where
  "number_or n d = (if n = NaN \<or> n = Finite 0 then Finite d else n)"

subsection \<open>The configuration\<close>

type_synonym process_env = "string \<Rightarrow> string option"

record PgBossConfig =
  pg_host :: string
  pg_database :: string
  pg_user :: string
  pg_password :: string
  pg_max :: nat
  pg_retentionDays :: nat

record IEnvConfiguration =
  postgresHost :: string
  postgresPort :: js_number
  postgresUser :: string
  postgresPass :: string
  postgresDbName :: string
  postgresSSL :: bool
  mooveUrl :: string
  darwinNotificationUrl :: string
  darwinUndeploymentCallbackUrl :: string
  darwinDeploymentCallbackUrl :: string
  darwinIstioDeploymentCallbackUrl :: string
  helmTemplateUrl :: string
  helmPrefixUrl :: string
  helmRepoBranch :: string
  deploymentExpireTime :: js_number
  pgBossConfig :: PgBossConfig
  butlerUrl :: string
  butlerNamespace :: string
  requestSizeLimit :: string
  rejectUnauthorizedTLS :: bool

definition DATABASE_SSL :: bool where "DATABASE_SSL = False"
definition TLS_SKIP_VERIFY :: bool where "TLS_SKIP_VERIFY = False"

text \<open>The constants that are the defaults of a variable, by the name they have there.\<close>

definition ConfigurationConstants :: "(string \<times> string) list" where
  "ConfigurationConstants =
     [(''DATABASE_HOST'', ''localhost''), (''DATABASE_USER'', ''darwin''), (''DATABASE_DB_NAME'', ''darwin''),
      (''DATABASE_DB_PASS'', ''darwin''), (''MOOVE_URL'', ''http://localhost:8883/moove''),
      (''DARWIN_NOTIFICATION_URL'', ''http://localhost:8883/deploy/notifications''),
      (''DARWIN_CALLBACK'', ''http://localhost:8883/deploy/notifications''),
      (''HELM_TEMPLATE_URL'', ''http://localhost:8883/helm''),
      (''HELM_PREFIX_URL'', ''http://localhost:8883/helm''), (''HELM_REPO_BRANCH'', ''darwin-helm''),
      (''BUTLER_URL'', ''http://localhost:8883/butler''), (''BUTLER_NAMESPACE'', ''default''),
      (''REQUEST_SIZE_LIMIT'', ''50mb'')]"

text \<open>\<open>process.env.NAME || ConfigurationConstants.CONSTANT\<close>.\<close>

definition setting :: "process_env \<Rightarrow> string \<Rightarrow> string \<Rightarrow> string" where
  "setting penv variable constant =
     (if truthy (penv variable) then the (penv variable) else the (map_of ConfigurationConstants constant))"

definition Configuration :: "process_env \<Rightarrow> IEnvConfiguration" where
  "Configuration penv =
     \<lparr>postgresHost = setting penv ''DATABASE_HOST'' ''DATABASE_HOST'',
      postgresPort = number_or (Number (penv ''DATABASE_PORT'')) 5432,
      postgresUser = setting penv ''DATABASE_USER'' ''DATABASE_USER'',
      postgresPass = setting penv ''DATABASE_PASS'' ''DATABASE_DB_PASS'',
      postgresDbName = setting penv ''DATABASE_NAME'' ''DATABASE_DB_NAME'',
      postgresSSL = (penv ''DATABASE_SSL'' = Some ''true'' \<or> DATABASE_SSL),
      mooveUrl = setting penv ''MOOVE_URL'' ''MOOVE_URL'',
      darwinNotificationUrl = setting penv ''DARWIN_NOTIFICATION_URL'' ''DARWIN_NOTIFICATION_URL'',
      darwinUndeploymentCallbackUrl = setting penv ''DARWIN_CALLBACK'' ''DARWIN_CALLBACK'',
      darwinDeploymentCallbackUrl = setting penv ''DARWIN_CALLBACK'' ''DARWIN_CALLBACK'',
      darwinIstioDeploymentCallbackUrl = setting penv ''DARWIN_CALLBACK'' ''DARWIN_CALLBACK'',
      helmTemplateUrl = setting penv ''HELM_TEMPLATE_URL'' ''HELM_TEMPLATE_URL'',
      helmPrefixUrl = setting penv ''HELM_PREFIX_URL'' ''HELM_PREFIX_URL'',
      helmRepoBranch = setting penv ''HELM_REPO_BRANCH'' ''HELM_REPO_BRANCH'',
      deploymentExpireTime = number_or (Number (penv ''DEPLOYMENT_EXPIRE_TIME'')) 25,
      pgBossConfig =
        \<lparr>pg_host = setting penv ''DATABASE_HOST'' ''DATABASE_HOST'',
         pg_database = setting penv ''DATABASE_NAME'' ''DATABASE_DB_NAME'',
         pg_user = setting penv ''DATABASE_USER'' ''DATABASE_USER'',
         pg_password = setting penv ''DATABASE_PASS'' ''DATABASE_DB_PASS'',
         pg_max = 5, pg_retentionDays = 7\<rparr>,
      butlerUrl = setting penv ''BUTLER_URL'' ''BUTLER_URL'',
      butlerNamespace = setting penv ''BUTLER_NAMESPACE'' ''BUTLER_NAMESPACE'',
      requestSizeLimit = setting penv ''REQUEST_SIZE_LIMIT'' ''REQUEST_SIZE_LIMIT'',
      rejectUnauthorizedTLS = (\<not> (penv ''TLS_SKIP_VERIFY'' = Some ''true'') \<or> \<not> TLS_SKIP_VERIFY)\<rparr>"

definition getDeploymentNotificationUrl :: "process_env \<Rightarrow> string \<Rightarrow> string" where
  "getDeploymentNotificationUrl penv executionId =
     butlerUrl (Configuration penv) @ ''/v2/executions/'' @ executionId @ ''/notify''"

subsection \<open>The connection\<close>

record IPostgresCredentials =
  pc_host :: string
  pc_port :: js_number
  pc_username :: string
  pc_password :: string
  pc_database :: string
  pc_ssl :: bool

definition getPostgresCredentials :: "IEnvConfiguration \<Rightarrow> IPostgresCredentials" where
  "getPostgresCredentials c =
     \<lparr>pc_host = postgresHost c, pc_port = postgresPort c, pc_username = postgresUser c,
      pc_password = postgresPass c, pc_database = postgresDbName c, pc_ssl = postgresSSL c\<rparr>"

record ConnectionOptions =
  co_type :: string
  co_credentials :: IPostgresCredentials
  co_entities :: "string list"
  co_migrationsTableName :: string
  co_migrations :: "string list"
  co_migrationsRun :: bool
  co_synchronize :: bool

definition getPostgresConnectionOptions :: "string \<Rightarrow> IEnvConfiguration \<Rightarrow> ConnectionOptions" where
  "getPostgresConnectionOptions rootPath c =
     \<lparr>co_type = ''postgres'', co_credentials = getPostgresCredentials c,
      co_entities = [rootPath @ ''/app/**/**.entity{.ts,.js}''],
      co_migrationsTableName = ''darwin-deploy-migrations'',
      co_migrations = [rootPath @ ''/resources/migrations/*{.ts,.js}''],
      co_migrationsRun = True, co_synchronize = False\<rparr>"

subsection \<open>What the settings do\<close>

text \<open>
  whatever the environment says, the certificates of the git providers are verified: the
  variable \<open>TLS_SKIP_VERIFY\<close> has no effect at all, since the negated constant it is combined with
  is always true.
\<close>

theorem skip_verify_has_no_effect:
  "rejectUnauthorizedTLS (Configuration penv)
     \<and> Configuration (penv(''TLS_SKIP_VERIFY'' := v)) = Configuration penv"
  by (simp add: Configuration_def setting_def TLS_SKIP_VERIFY_def)

end
