(* ===== verification/Schema.thy ===== *)
theory Schema
  imports Store "HOL-Library.Multiset"
begin

text \<open>
  The schema of butler's database and the statements that change it: those of the
  \<open>QueryRunner\<close> the migrations call (\<open>createTable\<close>, \<open>addColumn\<close>, ...) and of the SQL text they
  send. A statement that the database refuses is \<open>Inl\<close>. The statements that rewrite rows are
  there with the tables and columns they name; the schema is the same after them.
\<close>

subsection \<open>Tables, indexes and statements\<close>

datatype sql_type = VARCHAR | BOOLEAN | JSONB | INTEGER | TIMESTAMP | TEXT | UUID

record column =
  cl_name :: string
  cl_type :: sql_type
  cl_nullable :: bool
  cl_primary :: bool
  cl_unique :: bool
  cl_generated :: bool
  cl_default :: "string option"

definition TableColumn :: "string \<Rightarrow> sql_type \<Rightarrow> column" where
  "TableColumn n t = \<lparr>cl_name = n, cl_type = t, cl_nullable = False, cl_primary = False,
     cl_unique = False, cl_generated = False, cl_default = None\<rparr>"

definition isPrimary :: "column \<Rightarrow> column" where "isPrimary c = c\<lparr>cl_primary := True\<rparr>"
definition isUnique :: "column \<Rightarrow> column" where "isUnique c = c\<lparr>cl_unique := True\<rparr>"
definition isNullable :: "column \<Rightarrow> column" where "isNullable c = c\<lparr>cl_nullable := True\<rparr>"
definition isGenerated :: "column \<Rightarrow> column" where "isGenerated c = c\<lparr>cl_generated := True\<rparr>"
definition with_default :: "string \<Rightarrow> column \<Rightarrow> column" where "with_default d c = c\<lparr>cl_default := Some d\<rparr>"

datatype table_constraint =
    UniqueColumns "string list"
  | ForeignKey (fk_columns: "string list") (fk_table: string) (fk_refs: "string list") (fk_cascade: bool)

record tbl =
  columns :: "column list"
  table_constraints :: "(string \<times> table_constraint) list"

datatype sql_value = TextValue string | BoolValue bool | NumberValue int

datatype sql_condition = Always | IsNull string | NotNull string | Equals string sql_value

record sql_index =
  ix_table :: string
  ix_columns :: "string list"
  ix_unique :: bool
  ix_where :: sql_condition

record schema =
  tables :: "(string \<times> tbl) list"
  indexes :: "(string \<times> sql_index) list"
  extensions :: "string list"

definition empty_schema :: schema where
  "empty_schema = \<lparr>tables = [], indexes = [], extensions = []\<rparr>"

datatype statement =
    CreateTable bool string "column list" "(string \<times> table_constraint) list"
  | DropTable bool string
  | AddColumn string column
  | DropColumn string string
  | RenameColumn string string string
  | ChangeColumn string string column
  | RenameTable string string
  | AlterNull string string bool
  | AlterDefault string string string
  | AddConstraint string string table_constraint
  | DropConstraint string string
  | CreateIndex string sql_index
  | DropIndex string
  | CreateExtension string
  | DropExtension string
  | Update string string "sql_value option" sql_condition
  | UpdateFrom string string string string
  | Throw string

text \<open>\<open>createTable(table, true)\<close> leaves a table that is there alone; \<open>dropTable\<close> wants one.\<close>

definition createTable :: "string \<Rightarrow> column list \<Rightarrow> statement" where
  "createTable t cs = CreateTable True t cs []"

definition dropTable :: "string \<Rightarrow> statement" where
  "dropTable t = DropTable False t"

subsection \<open>What a statement does to the schema\<close>

definition column_names :: "tbl \<Rightarrow> string list" where
  "column_names tb = map cl_name (columns tb)"

definition has_columns :: "schema \<Rightarrow> string \<Rightarrow> string list \<Rightarrow> bool" where
  "has_columns s t ns =
     (case map_of (tables s) t of None \<Rightarrow> False | Some tb \<Rightarrow> list_all (\<lambda>n. n \<in> set (column_names tb)) ns)"

definition key_columns :: "tbl \<Rightarrow> string list" where
  "key_columns tb = map cl_name (filter (\<lambda>c. cl_primary c \<or> cl_unique c) (columns tb))"

definition refers_to_key :: "schema \<Rightarrow> table_constraint \<Rightarrow> bool" where
  "refers_to_key s c =
     (case c of
        UniqueColumns ns \<Rightarrow> True
      | ForeignKey ns t rs cascade \<Rightarrow>
          (case map_of (tables s) t of None \<Rightarrow> False
           | Some tb \<Rightarrow> list_all (\<lambda>r. r \<in> set (key_columns tb)) rs))"

fun constrained :: "table_constraint \<Rightarrow> string list" where
  "constrained (UniqueColumns ns) = ns"
| "constrained (ForeignKey ns t rs cascade) = ns"

fun condition_columns :: "sql_condition \<Rightarrow> string list" where
  "condition_columns Always = []"
| "condition_columns (IsNull n) = [n]"
| "condition_columns (NotNull n) = [n]"
| "condition_columns (Equals n v) = [n]"

definition index_columns :: "sql_index \<Rightarrow> string list" where
  "index_columns ix = ix_columns ix @ condition_columns (ix_where ix)"

text \<open>Whether a foreign key of a table refers to a column, or to any column, of another.\<close>

fun refers_to :: "string \<Rightarrow> string option \<Rightarrow> table_constraint \<Rightarrow> bool" where
  "refers_to t n (UniqueColumns ns) = False"
| "refers_to t n (ForeignKey ns t' rs cascade) =
     (t' = t \<and> (case n of None \<Rightarrow> True | Some r \<Rightarrow> r \<in> set rs))"

definition referenced :: "schema \<Rightarrow> string \<Rightarrow> string option \<Rightarrow> bool" where
  "referenced s t n =
     list_ex (\<lambda>(t', tb). (t' \<noteq> t \<or> n \<noteq> None) \<and> list_ex (refers_to t n \<circ> snd) (table_constraints tb)) (tables s)"

definition rename :: "string \<Rightarrow> string \<Rightarrow> string \<Rightarrow> string" where
  "rename a b n = (if n = a then b else n)"

fun rename_condition :: "(string \<Rightarrow> string) \<Rightarrow> sql_condition \<Rightarrow> sql_condition" where
  "rename_condition f Always = Always"
| "rename_condition f (IsNull n) = IsNull (f n)"
| "rename_condition f (NotNull n) = NotNull (f n)"
| "rename_condition f (Equals n v) = Equals (f n) v"

text \<open>A constraint of table \<open>t\<close> after a column of table \<open>t'\<close> has been renamed by \<open>f\<close>.\<close>

fun rename_in_constraint ::
  "string \<Rightarrow> string \<Rightarrow> (string \<Rightarrow> string) \<Rightarrow> table_constraint \<Rightarrow> table_constraint" where
  "rename_in_constraint t t' f (UniqueColumns ns) = UniqueColumns (if t = t' then map f ns else ns)"
| "rename_in_constraint t t' f (ForeignKey ns r rs cascade) =
     ForeignKey (if t = t' then map f ns else ns) r (if r = t' then map f rs else rs) cascade"

fun rename_target :: "(string \<Rightarrow> string) \<Rightarrow> table_constraint \<Rightarrow> table_constraint" where
  "rename_target f (UniqueColumns ns) = UniqueColumns ns"
| "rename_target f (ForeignKey ns r rs cascade) = ForeignKey ns (f r) rs cascade"

definition put_table :: "string \<Rightarrow> tbl \<Rightarrow> schema \<Rightarrow> schema" where
  "put_table t tb s = s\<lparr>tables := AList.update t tb (tables s)\<rparr>"

definition with_table :: "string \<Rightarrow> (tbl \<Rightarrow> string + schema) \<Rightarrow> schema \<Rightarrow> string + schema" where
  "with_table t f s = (case map_of (tables s) t of None \<Rightarrow> Inl (''no table '' @ t) | Some tb \<Rightarrow> f tb)"

definition set_column :: "string \<Rightarrow> (column \<Rightarrow> column) \<Rightarrow> tbl \<Rightarrow> tbl" where
  "set_column n f tb = tb\<lparr>columns := map (\<lambda>c. if cl_name c = n then f c else c) (columns tb)\<rparr>"

definition alter_column :: "string \<Rightarrow> string \<Rightarrow> (column \<Rightarrow> column) \<Rightarrow> schema \<Rightarrow> string + schema" where
  "alter_column t n f s = with_table t (\<lambda>tb.
     if n \<in> set (column_names tb) then Inr (put_table t (set_column n f tb) s)
     else Inl (''no column '' @ n)) s"

definition create_table ::
  "bool \<Rightarrow> string \<Rightarrow> column list \<Rightarrow> (string \<times> table_constraint) list \<Rightarrow> schema \<Rightarrow> string + schema" where
  "create_table unless t cs ks s =
     (if map_of (tables s) t \<noteq> None then (if unless then Inr s else Inl (''table exists: '' @ t))
      else (let s' = s\<lparr>tables := tables s @ [(t, \<lparr>columns = cs, table_constraints = ks\<rparr>)]\<rparr>
        in if \<not> distinct (map cl_name cs) \<or> \<not> distinct (map fst ks) then Inl (''duplicate name in '' @ t)
           else if list_all (\<lambda>(k, c). has_columns s' t (constrained c) \<and> refers_to_key s' c) ks then Inr s'
           else Inl (''invalid constraint of '' @ t)))"

definition drop_table :: "bool \<Rightarrow> string \<Rightarrow> schema \<Rightarrow> string + schema" where
  "drop_table unless t s =
     (if map_of (tables s) t = None then (if unless then Inr s else Inl (''no table '' @ t))
      else if referenced s t None then Inl (''other objects depend on '' @ t)
      else Inr (s\<lparr>tables := AList.delete t (tables s),
                  indexes := filter (\<lambda>(i, ix). ix_table ix \<noteq> t) (indexes s)\<rparr>))"

definition add_column :: "string \<Rightarrow> column \<Rightarrow> schema \<Rightarrow> string + schema" where
  "add_column t c s = with_table t (\<lambda>tb.
     if cl_name c \<in> set (column_names tb) then Inl (''column exists: '' @ cl_name c)
     else Inr (put_table t (tb\<lparr>columns := columns tb @ [c]\<rparr>) s)) s"

text \<open>With a column go the constraints of its table and the indexes that mention it.\<close>

definition drop_column :: "string \<Rightarrow> string \<Rightarrow> schema \<Rightarrow> string + schema" where
  "drop_column t n s = with_table t (\<lambda>tb.
     if n \<notin> set (column_names tb) then Inl (''no column '' @ n)
     else if referenced s t (Some n) then Inl (''other objects depend on '' @ n)
     else Inr ((put_table t (tb\<lparr>columns := filter (\<lambda>c. cl_name c \<noteq> n) (columns tb),
                  table_constraints := filter (\<lambda>(k, c). n \<notin> set (constrained c)) (table_constraints tb)\<rparr>) s)
                \<lparr>indexes := filter (\<lambda>(i, ix). ix_table ix \<noteq> t \<or> n \<notin> set (index_columns ix)) (indexes s)\<rparr>)) s"

definition rename_column :: "string \<Rightarrow> string \<Rightarrow> string \<Rightarrow> schema \<Rightarrow> string + schema" where
  "rename_column t a b s = with_table t (\<lambda>tb.
     if a \<notin> set (column_names tb) then Inl (''no column '' @ a)
     else if b \<in> set (column_names tb) then Inl (''column exists: '' @ b)
     else Inr (s\<lparr>tables := map (\<lambda>(t', tb'). (t',
                   \<lparr>columns = (if t' = t then map (\<lambda>c. c\<lparr>cl_name := rename a b (cl_name c)\<rparr>) (columns tb')
                               else columns tb'),
                    table_constraints = map (\<lambda>(k, c). (k, rename_in_constraint t' t (rename a b) c))
                      (table_constraints tb')\<rparr>)) (tables s),
                 indexes := map (\<lambda>(i, ix). (i, if ix_table ix = t
                   then ix\<lparr>ix_columns := map (rename a b) (ix_columns ix),
                           ix_where := rename_condition (rename a b) (ix_where ix)\<rparr> else ix)) (indexes s)\<rparr>)) s"

definition change_column :: "string \<Rightarrow> string \<Rightarrow> column \<Rightarrow> schema \<Rightarrow> string + schema" where
  "change_column t n c s =
     (if cl_name c = n then alter_column t n (\<lambda>c'. c\<lparr>cl_primary := cl_primary c' \<or> cl_primary c,
                                                    cl_unique := cl_unique c' \<or> cl_unique c\<rparr>) s
      else Inl ''unsupported'')"

definition rename_table :: "string \<Rightarrow> string \<Rightarrow> schema \<Rightarrow> string + schema" where
  "rename_table a b s = with_table a (\<lambda>tb.
     if map_of (tables s) b \<noteq> None then Inl (''table exists: '' @ b)
     else Inr (s\<lparr>tables := map (\<lambda>(t', tb'). (rename a b t',
                   tb'\<lparr>table_constraints := map (\<lambda>(k, c). (k, rename_target (rename a b) c))
                      (table_constraints tb')\<rparr>)) (tables s),
                 indexes := map (\<lambda>(i, ix). (i, ix\<lparr>ix_table := rename a b (ix_table ix)\<rparr>)) (indexes s)\<rparr>)) s"

definition add_constraint :: "string \<Rightarrow> string \<Rightarrow> table_constraint \<Rightarrow> schema \<Rightarrow> string + schema" where
  "add_constraint t k c s = with_table t (\<lambda>tb.
     if k \<in> set (map fst (table_constraints tb)) then Inl (''constraint exists: '' @ k)
     else if has_columns s t (constrained c) \<and> refers_to_key s c
     then Inr (put_table t (tb\<lparr>table_constraints := table_constraints tb @ [(k, c)]\<rparr>) s)
     else Inl (''invalid constraint: '' @ k)) s"

definition drop_constraint :: "string \<Rightarrow> string \<Rightarrow> schema \<Rightarrow> string + schema" where
  "drop_constraint t k s = with_table t (\<lambda>tb.
     if k \<in> set (map fst (table_constraints tb))
     then Inr (put_table t (tb\<lparr>table_constraints := filter (\<lambda>(k', c). k' \<noteq> k) (table_constraints tb)\<rparr>) s)
     else Inl (''no constraint '' @ k)) s"

definition create_index :: "string \<Rightarrow> sql_index \<Rightarrow> schema \<Rightarrow> string + schema" where
  "create_index i ix s =
     (if i \<in> set (map fst (indexes s)) then Inl (''index exists: '' @ i)
      else if has_columns s (ix_table ix) (index_columns ix) then Inr (s\<lparr>indexes := indexes s @ [(i, ix)]\<rparr>)
      else Inl (''invalid index: '' @ i))"

definition drop_index :: "string \<Rightarrow> schema \<Rightarrow> string + schema" where
  "drop_index i s =
     (if i \<in> set (map fst (indexes s)) then Inr (s\<lparr>indexes := filter (\<lambda>(i', ix). i' \<noteq> i) (indexes s)\<rparr>)
      else Inl (''no index '' @ i))"

fun execute :: "statement \<Rightarrow> schema \<Rightarrow> string + schema" where
  "execute (CreateTable unless t cs ks) s = create_table unless t cs ks s"
| "execute (DropTable unless t) s = drop_table unless t s"
| "execute (AddColumn t c) s = add_column t c s"
| "execute (DropColumn t n) s = drop_column t n s"
| "execute (RenameColumn t a b) s = rename_column t a b s"
| "execute (ChangeColumn t n c) s = change_column t n c s"
| "execute (RenameTable a b) s = rename_table a b s"
| "execute (AlterNull t n nullable) s = alter_column t n (\<lambda>c. c\<lparr>cl_nullable := nullable\<rparr>) s"
| "execute (AlterDefault t n d) s = alter_column t n (\<lambda>c. c\<lparr>cl_default := Some d\<rparr>) s"
| "execute (AddConstraint t k c) s = add_constraint t k c s"
| "execute (DropConstraint t k) s = drop_constraint t k s"
| "execute (CreateIndex i ix) s = create_index i ix s"
| "execute (DropIndex i) s = drop_index i s"
| "execute (CreateExtension e) s = Inr (s\<lparr>extensions := List.insert e (extensions s)\<rparr>)"
| "execute (DropExtension e) s = Inr (s\<lparr>extensions := removeAll e (extensions s)\<rparr>)"
| "execute (Update t n v p) s =
     (if has_columns s t (n # condition_columns p) then Inr s else Inl (''no column '' @ n))"
| "execute (UpdateFrom t n t' n') s =
     (if has_columns s t [n] \<and> has_columns s t' [n'] then Inr s else Inl (''no column '' @ n))"
| "execute (Throw e) s = Inl e"

fun execute_all :: "statement list \<Rightarrow> schema \<Rightarrow> string + schema" where
  "execute_all [] s = Inr s"
| "execute_all (st # sts) s = and_then (execute st s) (execute_all sts)"

record migration =
  up :: "statement list"
  down :: "statement list"

text \<open>Migrations run in the order of their timestamps; the first that fails stops the rest.\<close>

fun migrate :: "migration list \<Rightarrow> schema \<Rightarrow> string + schema" where
  "migrate [] s = Inr s"
| "migrate (m # ms) s = and_then (execute_all (up m) s) (migrate ms)"

lemma execute_all_append:
  "execute_all (xs @ ys) s = and_then (execute_all xs s) (execute_all ys)"
  by (induction xs arbitrary: s) (simp_all add: and_then_def split: sum.splits)

lemma migrate_append: "migrate (xs @ ys) s = and_then (migrate xs s) (migrate ys)"
  by (induction xs arbitrary: s) (simp_all add: and_then_def split: sum.splits)

text \<open>Two schemas with the same tables, columns, constraints and indexes, in any order.\<close>

fun same_elements :: "'a list \<Rightarrow> 'a list \<Rightarrow> bool" where
  "same_elements [] ys = (ys = [])"
| "same_elements (x # xs) ys =
     (case ys of [] \<Rightarrow> False
      | y # ys' \<Rightarrow> if x = y then same_elements xs ys'
          else if x \<in> set ys' then same_elements xs (y # remove1 x ys') else False)"

lemma same_elements_iff: "same_elements xs ys \<longleftrightarrow> mset xs = mset ys"
proof (induction xs ys rule: same_elements.induct)
  case (1 ys)
  then show ?case by auto
next
  case (2 x xs ys)
  show ?case
  proof (cases ys)
    case (Cons y ys')
    have "x \<in> set ys'" if "x \<noteq> y" "add_mset x (mset xs) = add_mset y (mset ys')"
    proof -
      have "x \<in># add_mset y (mset ys')" by (metis that(2) union_single_eq_member)
      with that(1) show ?thesis by simp
    qed
    moreover have "add_mset x (mset xs) = add_mset y (mset ys') \<longleftrightarrow> mset xs = add_mset y (mset ys' - {#x#})"
      if member: "x \<in> set ys'"
    proof -
      obtain N where N: "mset ys' = add_mset x N" using multi_member_split [of x "mset ys'"] member by auto
      then have "add_mset y (mset ys') = add_mset x (add_mset y N)" by (simp add: add_mset_commute)
      then show ?thesis using N by simp
    qed
    ultimately show ?thesis using 2 Cons by auto
  qed simp
qed

definition same_columns :: "tbl \<Rightarrow> tbl \<Rightarrow> bool" where
  "same_columns a b \<longleftrightarrow> same_elements (columns a) (columns b)
     \<and> same_elements (table_constraints a) (table_constraints b)"

definition same_schema :: "schema \<Rightarrow> schema \<Rightarrow> bool" where
  "same_schema s s' \<longleftrightarrow> length (tables s) = length (tables s')
     \<and> list_all (\<lambda>(t, tb). case map_of (tables s') t of None \<Rightarrow> False | Some tb' \<Rightarrow> same_columns tb tb') (tables s)
     \<and> same_elements (indexes s) (indexes s') \<and> same_elements (extensions s) (extensions s')"

definition undone :: "migration \<Rightarrow> schema \<Rightarrow> bool" where
  "undone m s = (case execute_all (up m) s of
       Inl e \<Rightarrow> False
     | Inr s' \<Rightarrow> (case execute_all (down m) s' of Inl e \<Rightarrow> False | Inr s'' \<Rightarrow> same_schema s'' s))"

end
