(* ===== verification/Migrations.thy ===== *)
theory Migrations
  imports Schema
begin

text \<open>
  Butler's migrations (\<open>src/resources/migrations\<close>), one definition per file with the statements
  of its \<open>up\<close> and \<open>down\<close>, in the order they run at the start of the service. \<open>createTable\<close> is
  called with \<open>ifNotExist\<close>.
\<close>

definition DEFAULT_CIRCLE_ID :: string where
  "DEFAULT_CIRCLE_ID = ''f5d23a57-5607-4306-9993-477e1598cc2a''"

definition CreateDeploymentsTable20190807003400 :: migration where
  "CreateDeploymentsTable20190807003400 = \<lparr>
     up = [createTable ''deployments''
        [isPrimary (TableColumn ''id'' VARCHAR),
         TableColumn ''user_id'' VARCHAR,
         TableColumn ''description'' VARCHAR,
         TableColumn ''callback_url'' VARCHAR,
         TableColumn ''default_circle'' BOOLEAN,
         TableColumn ''circles'' JSONB,
         TableColumn ''status'' VARCHAR]],
     down = [dropTable ''deployments'']\<rparr>"

definition CreateModuleDeploymentsTable20190807010500 :: migration where
  "CreateModuleDeploymentsTable20190807010500 = \<lparr>
     up = [createTable ''module_deployments''
        [isPrimary (TableColumn ''id'' VARCHAR),
         TableColumn ''deployment_id'' VARCHAR,
         TableColumn ''module_id'' VARCHAR,
         TableColumn ''status'' VARCHAR]],
     down = [dropTable ''module_deployments'']\<rparr>"

definition CreateComponentDeploymentsTable20190808190900 :: migration where
  "CreateComponentDeploymentsTable20190808190900 = \<lparr>
     up = [createTable ''component_deployments''
        [isPrimary (TableColumn ''id'' VARCHAR),
         TableColumn ''module_deployment_id'' VARCHAR,
         TableColumn ''component_id'' VARCHAR,
         TableColumn ''build_image_url'' VARCHAR,
         TableColumn ''build_image_tag'' VARCHAR,
         TableColumn ''status'' VARCHAR]],
     down = [dropTable ''component_deployments'']\<rparr>"

definition CreateModulesTable20190808220900 :: migration where
  "CreateModulesTable20190808220900 = \<lparr>
     up = [createTable ''modules''
        [isPrimary (TableColumn ''id'' VARCHAR),
         isUnique (TableColumn ''module_id'' VARCHAR)]],
     down = [dropTable ''modules'']\<rparr>"

definition CreateComponentsTable20190808220901 :: migration where
  "CreateComponentsTable20190808220901 = \<lparr>
     up = [createTable ''components''
        [isPrimary (TableColumn ''id'' VARCHAR),
         TableColumn ''component_id'' VARCHAR,
         TableColumn ''module_id'' VARCHAR,
         TableColumn ''pipeline_options'' JSONB]],
     down = [dropTable ''components'']\<rparr>"

definition CreateQueuedDeploymentsTable20190820235700 :: migration where
  "CreateQueuedDeploymentsTable20190820235700 = \<lparr>
     up = [createTable ''queued_deployments''
        [isGenerated (isPrimary (TableColumn ''id'' INTEGER)),
         TableColumn ''component_id'' VARCHAR,
         TableColumn ''component_deployment_id'' VARCHAR,
         TableColumn ''status'' VARCHAR,
         (with_default ''now()'') (TableColumn ''created_at'' TIMESTAMP)]],
     down = [dropTable ''queued_deployments'']\<rparr>"

definition AddCreatedAtColumns20190918174700 :: migration where
  "AddCreatedAtColumns20190918174700 = \<lparr>
     up = [AddColumn ''deployments'' ((with_default ''now()'') (TableColumn ''created_at'' TIMESTAMP)),
       AddColumn ''module_deployments'' ((with_default ''now()'') (TableColumn ''created_at'' TIMESTAMP)),
       AddColumn ''component_deployments'' ((with_default ''now()'') (TableColumn ''created_at'' TIMESTAMP)),
       DropColumn ''modules'' ''module_id'',
       AddColumn ''modules'' ((with_default ''now()'') (TableColumn ''created_at'' TIMESTAMP)),
       DropColumn ''components'' ''component_id'',
       AddColumn ''components'' ((with_default ''now()'') (TableColumn ''created_at'' TIMESTAMP))],
     down = [DropColumn ''deployments'' ''created_at'',
       DropColumn ''module_deployments'' ''created_at'',
       DropColumn ''component_deployments'' ''created_at'',
       AddColumn ''modules'' (isUnique (TableColumn ''module_id'' VARCHAR)),
       DropColumn ''modules'' ''created_at'',
       AddColumn ''components'' (TableColumn ''component_id'' VARCHAR),
       DropColumn ''components'' ''created_at'']\<rparr>"

definition AddConfigurationColumns20190920165500 :: migration where
  "AddConfigurationColumns20190920165500 = \<lparr>
     up = [AddColumn ''deployments'' (TableColumn ''value_flow_id'' VARCHAR),
       AddColumn ''module_deployments'' (TableColumn ''k8s_configuration_id'' VARCHAR),
       AddColumn ''component_deployments'' (TableColumn ''component_name'' VARCHAR),
       AddColumn ''component_deployments'' (TableColumn ''context_path'' VARCHAR),
       AddColumn ''component_deployments'' (TableColumn ''health_check'' VARCHAR),
       AddColumn ''component_deployments'' (TableColumn ''port'' INTEGER)],
     down = [DropColumn ''deployments'' ''value_flow_id'',
       DropColumn ''module_deployments'' ''k8s_configuration_id'',
       DropColumn ''component_deployments'' ''component_name'',
       DropColumn ''component_deployments'' ''context_path'',
       DropColumn ''component_deployments'' ''health_check'',
       DropColumn ''component_deployments'' ''port'']\<rparr>"

definition AddColumnCreateCircleId20190930190000 :: migration where
  "AddColumnCreateCircleId20190930190000 = \<lparr>
     up = [AddColumn ''deployments'' (isNullable (TableColumn ''circle_id'' VARCHAR))],
     down = [DropColumn ''deployments'' ''circle_id'']\<rparr>"

definition RenameCircleColumn20191024104700 :: migration where
  "RenameCircleColumn20191024104700 = \<lparr>
     up = [RenameColumn ''deployments'' ''circles'' ''circle''],
     down = [RenameColumn ''deployments'' ''circle'' ''circles'']\<rparr>"

definition CreateUndeploymentsTable20191024113700 :: migration where
  "CreateUndeploymentsTable20191024113700 = \<lparr>
     up = [createTable ''undeployments''
        [isPrimary (TableColumn ''id'' VARCHAR),
         TableColumn ''user_id'' VARCHAR,
         (with_default ''now()'') (TableColumn ''created_at'' TIMESTAMP),
         TableColumn ''deployment_id'' VARCHAR,
         TableColumn ''status'' VARCHAR]],
     down = [dropTable ''undeployments'']\<rparr>"

definition AddQueuedDeploymentsType20191024195900 :: migration where
  "AddQueuedDeploymentsType20191024195900 = \<lparr>
     up = [AddColumn ''queued_deployments'' ((with_default ''QueuedDeploymentEntity'') (TableColumn ''type'' VARCHAR))],
     down = [DropColumn ''queued_deployments'' ''type'']\<rparr>"

definition CreateModuleUndeploymentsTable20191028150900 :: migration where
  "CreateModuleUndeploymentsTable20191028150900 = \<lparr>
     up = [createTable ''module_undeployments''
        [isPrimary (TableColumn ''id'' VARCHAR),
         TableColumn ''undeployment_id'' VARCHAR,
         TableColumn ''module_deployment_id'' VARCHAR,
         TableColumn ''status'' VARCHAR,
         (with_default ''now()'') (TableColumn ''created_at'' TIMESTAMP)]],
     down = [dropTable ''module_undeployments'']\<rparr>"

definition CreateComponentUndeploymentsTable20191028151300 :: migration where
  "CreateComponentUndeploymentsTable20191028151300 = \<lparr>
     up = [createTable ''component_undeployments''
        [isPrimary (TableColumn ''id'' VARCHAR),
         TableColumn ''module_undeployment_id'' VARCHAR,
         TableColumn ''component_deployment_id'' VARCHAR,
         TableColumn ''status'' VARCHAR,
         (with_default ''now()'') (TableColumn ''created_at'' TIMESTAMP)]],
     down = [dropTable ''component_undeployments'']\<rparr>"

definition AddQueuedUndeploymentsColumn20191030154200 :: migration where
  "AddQueuedUndeploymentsColumn20191030154200 = \<lparr>
     up = [AddColumn ''queued_deployments'' (isNullable (TableColumn ''component_undeployment_id'' VARCHAR))],
     down = [DropColumn ''queued_deployments'' ''component_undeployment_id'']\<rparr>"

definition RenameValueFlowIdColumn20200124152700 :: migration where
  "RenameValueFlowIdColumn20200124152700 = \<lparr>
     up = [RenameColumn ''deployments'' ''value_flow_id'' ''application_name''],
     down = [RenameColumn ''deployments'' ''application_name'' ''value_flow_id'']\<rparr>"

definition SetCircleAsNullable20200210160200 :: migration where
  "SetCircleAsNullable20200210160200 = \<lparr>
     up = [ChangeColumn ''deployments'' ''circle'' (isNullable (TableColumn ''circle'' JSONB))],
     down = [ChangeColumn ''deployments'' ''circle'' (TableColumn ''circle'' JSONB)]\<rparr>"

definition AddColumnHelmrepositoryModuleDeployment20200212150000 :: migration where
  "AddColumnHelmrepositoryModuleDeployment20200212150000 = \<lparr>
     up = [AddColumn ''module_deployments'' (isNullable (TableColumn ''helm_repository'' VARCHAR))],
     down = [DropColumn ''module_deployments'' ''helm_repository'']\<rparr>"

definition DropConstraintNotnullComponentDeployment20200212170000 :: migration where
  "DropConstraintNotnullComponentDeployment20200212170000 = \<lparr>
     up = [AlterNull ''component_deployments'' ''context_path'' True,
       AlterNull ''component_deployments'' ''health_check'' True,
       AlterNull ''component_deployments'' ''port'' True],
     down = [AlterNull ''component_deployments'' ''context_path'' False,
       AlterNull ''component_deployments'' ''health_check'' False,
       AlterNull ''component_deployments'' ''port'' False]\<rparr>"

definition AddUniqueConstraintToEnqueuedDeployment20200221180000 :: migration where
  "AddUniqueConstraintToEnqueuedDeployment20200221180000 = \<lparr>
     up = [CreateIndex ''queued_deployments_status_running_uniq''
        \<lparr>ix_table = ''queued_deployments'', ix_columns = [''component_id'', ''status''], ix_unique = True,
         ix_where = Equals ''status'' (TextValue ''RUNNING'')\<rparr>],
     down = [DropIndex ''queued_deployments_status_running_uniq'']\<rparr>"

definition CreatePgcryptoExtension20200226213100 :: migration where
  "CreatePgcryptoExtension20200226213100 = \<lparr>
     up = [CreateExtension ''pgcrypto''],
     down = [DropExtension ''pgcrypto'']\<rparr>"

definition CreateK8sConfigurationsTable20200226214600 :: migration where
  "CreateK8sConfigurationsTable20200226214600 = \<lparr>
     up = [createTable ''k8s_configurations''
        [isPrimary (TableColumn ''id'' VARCHAR),
         TableColumn ''name'' VARCHAR,
         TableColumn ''configuration_data'' TEXT,
         TableColumn ''user_id'' VARCHAR,
         TableColumn ''application_id'' VARCHAR,
         (with_default ''now()'') (TableColumn ''created_at'' TIMESTAMP)]],
     down = [dropTable ''k8s_configurations'']\<rparr>"

definition AddCircleIdColumnToUndeployments20200227180000 :: migration where
  "AddCircleIdColumnToUndeployments20200227180000 = \<lparr>
     up = [AddColumn ''undeployments'' (isNullable (TableColumn ''circle_id'' VARCHAR))],
     down = [DropColumn ''undeployments'' ''circle_id'']\<rparr>"

definition AddNewK8sConfigColumn20200228024000 :: migration where
  "AddNewK8sConfigColumn20200228024000 = \<lparr>
     up = [AddColumn ''modules'' (isNullable (TableColumn ''k8s_configuration_id'' VARCHAR)),
       AddConstraint ''modules'' ''module_k8s_configuration_fk''
        (ForeignKey [''k8s_configuration_id''] ''k8s_configurations'' [''id''] True)],
     down = [DropConstraint ''modules'' ''module_k8s_configuration_fk'',
       DropColumn ''modules'' ''k8s_configuration_id'']\<rparr>"

definition RemoveK8sConfigNotNull20200310174900 :: migration where
  "RemoveK8sConfigNotNull20200310174900 = \<lparr>
     up = [AlterNull ''module_deployments'' ''k8s_configuration_id'' True],
     down = [AlterNull ''module_deployments'' ''k8s_configuration_id'' False]\<rparr>"

definition ChangeK8sConfigToCdConfig20200316153600 :: migration where
  "ChangeK8sConfigToCdConfig20200316153600 = \<lparr>
     up = [RenameTable ''k8s_configurations'' ''cd_configurations'',
       RenameColumn ''modules'' ''k8s_configuration_id'' ''cd_configuration_id'',
       DropConstraint ''modules'' ''module_k8s_configuration_fk'',
       AddConstraint ''modules'' ''module_cd_configuration_fk''
        (ForeignKey [''cd_configuration_id''] ''cd_configurations'' [''id''] False)],
     down = [RenameTable ''cd_configurations'' ''k8s_configurations'',
       RenameColumn ''modules'' ''cd_configuration_id'' ''k8s_configuration_id'',
       AddConstraint ''modules'' ''module_k8s_configuration_fk''
        (ForeignKey [''k8s_configuration_id''] ''k8s_configurations'' [''id''] True),
       DropConstraint ''modules'' ''module_cd_configuration_fk'']\<rparr>"

definition AddTypeColumnToCdConfig20200317165300 :: migration where
  "AddTypeColumnToCdConfig20200317165300 = \<lparr>
     up = [AddColumn ''cd_configurations'' (isNullable (TableColumn ''type'' VARCHAR))],
     down = [DropColumn ''cd_configurations'' ''type'']\<rparr>"

definition AddFinishedAtDeploymentColumns20200420144700 :: migration where
  "AddFinishedAtDeploymentColumns20200420144700 = \<lparr>
     up = [AddColumn ''deployments'' (isNullable (TableColumn ''finished_at'' TIMESTAMP)),
       AddColumn ''module_deployments'' (isNullable (TableColumn ''finished_at'' TIMESTAMP)),
       AddColumn ''component_deployments'' (isNullable (TableColumn ''finished_at'' TIMESTAMP))],
     down = [DropColumn ''deployments'' ''finished_at'',
       DropColumn ''module_deployments'' ''finished_at'',
       DropColumn ''component_deployments'' ''finished_at'']\<rparr>"

definition AddFinishedAtUndeploymentColumns20200420144800 :: migration where
  "AddFinishedAtUndeploymentColumns20200420144800 = \<lparr>
     up = [AddColumn ''undeployments'' (isNullable (TableColumn ''finished_at'' TIMESTAMP)),
       AddColumn ''module_undeployments'' (isNullable (TableColumn ''finished_at'' TIMESTAMP)),
       AddColumn ''component_undeployments'' (isNullable (TableColumn ''finished_at'' TIMESTAMP))],
     down = [DropColumn ''undeployments'' ''finished_at'',
       DropColumn ''module_undeployments'' ''finished_at'',
       DropColumn ''component_undeployments'' ''finished_at'']\<rparr>"

definition AlterTableCdConfigurationsRenameColumnApplication20200423162200 :: migration where
  "AlterTableCdConfigurationsRenameColumnApplication20200423162200 = \<lparr>
     up = [RenameColumn ''cd_configurations'' ''application_id'' ''workspace_id''],
     down = [RenameColumn ''cd_configurations'' ''workspace_id'' ''application_id'']\<rparr>"

definition UpdateStatusDeploymentUndeployment20200429160400 :: migration where
  "UpdateStatusDeploymentUndeployment20200429160400 = \<lparr>
     up = [Update ''deployments'' ''status'' (Some (TextValue ''SUCCEEDED'')) (Equals ''status'' (TextValue ''FINISHED'')),
       Update ''module_deployments'' ''status'' (Some (TextValue ''SUCCEEDED'')) (Equals ''status'' (TextValue ''FINISHED'')),
       Update ''component_deployments'' ''status'' (Some (TextValue ''SUCCEEDED'')) (Equals ''status'' (TextValue ''FINISHED'')),
       Update ''component_undeployments'' ''status'' (Some (TextValue ''SUCCEEDED'')) (Equals ''status'' (TextValue ''FINISHED'')),
       Update ''module_undeployments'' ''status'' (Some (TextValue ''SUCCEEDED'')) (Equals ''status'' (TextValue ''FINISHED'')),
       Update ''undeployments'' ''status'' (Some (TextValue ''SUCCEEDED'')) (Equals ''status'' (TextValue ''FINISHED''))],
     down = [Update ''deployments'' ''status'' (Some (TextValue ''FINISHED'')) (Equals ''status'' (TextValue ''SUCCEEDED'')),
       Update ''module_deployments'' ''status'' (Some (TextValue ''FINISHED'')) (Equals ''status'' (TextValue ''SUCCEEDED'')),
       Update ''component_deployments'' ''status'' (Some (TextValue ''FINISHED'')) (Equals ''status'' (TextValue ''SUCCEEDED'')),
       Update ''component_undeployments'' ''status'' (Some (TextValue ''FINISHED'')) (Equals ''status'' (TextValue ''SUCCEEDED'')),
       Update ''module_undeployments'' ''status'' (Some (TextValue ''FINISHED'')) (Equals ''status'' (TextValue ''SUCCEEDED'')),
       Update ''undeployments'' ''status'' (Some (TextValue ''FINISHED'')) (Equals ''status'' (TextValue ''SUCCEEDED''))]\<rparr>"

definition AddCdConfigurationToDeployments20200429235000 :: migration where
  "AddCdConfigurationToDeployments20200429235000 = \<lparr>
     up = [AddColumn ''deployments'' (isNullable (TableColumn ''cd_configuration_id'' VARCHAR)),
       AddConstraint ''deployments'' ''deployment_cd_configuration_fk''
        (ForeignKey [''cd_configuration_id''] ''cd_configurations'' [''id''] False)],
     down = [DropConstraint ''deployments'' ''deployment_cd_configuration_fk'',
       DropColumn ''deployments'' ''cd_configuration_id'']\<rparr>"

definition RemoveCdConfigurationFromModules20200429235100 :: migration where
  "RemoveCdConfigurationFromModules20200429235100 = \<lparr>
     up = [DropConstraint ''modules'' ''module_cd_configuration_fk'',
       DropColumn ''modules'' ''cd_configuration_id''],
     down = [AddColumn ''modules'' (isNullable (TableColumn ''cd_configuration_id'' VARCHAR)),
       AddConstraint ''modules'' ''module_cd_configuration_fk''
        (ForeignKey [''cd_configuration_id''] ''cd_configurations'' [''id''] False)]\<rparr>"

definition CreateQueuedIstioDeploymentsTable20200507175800 :: migration where
  "CreateQueuedIstioDeploymentsTable20200507175800 = \<lparr>
     up = [createTable ''queued_istio_deployments''
        [isGenerated (isPrimary (TableColumn ''id'' INTEGER)),
         TableColumn ''deployment_id'' VARCHAR,
         TableColumn ''component_id'' VARCHAR,
         TableColumn ''component_deployment_id'' VARCHAR,
         TableColumn ''circle_id'' VARCHAR,
         TableColumn ''status'' VARCHAR,
         (with_default ''now()'') (TableColumn ''created_at'' TIMESTAMP)]],
     down = [dropTable ''queued_istio_deployments'']\<rparr>"

definition RemoveCircleIdColumn20200615113000 :: migration where
  "RemoveCircleIdColumn20200615113000 = \<lparr>
     up = [DropColumn ''queued_istio_deployments'' ''circle_id''],
     down = [AddColumn ''queued_istio_deployments'' (TableColumn ''circle_id'' VARCHAR)]\<rparr>"

definition CreateV2Deployments20200715113000 :: migration where
  "CreateV2Deployments20200715113000 = \<lparr>
     up = [CreateTable False ''v2deployments''
        [isPrimary (TableColumn ''id'' UUID),
         TableColumn ''author_id'' VARCHAR,
         TableColumn ''callback_url'' VARCHAR,
         isNullable (TableColumn ''circle_id'' VARCHAR),
         with_default ''false'' (TableColumn ''active'' BOOLEAN),
         with_default ''0'' (TableColumn ''priority'' INTEGER),
         TableColumn ''cd_configuration_id'' VARCHAR,
         with_default ''now()'' (TableColumn ''created_at'' TIMESTAMP)]
        [(''unique_deployments_id'', UniqueColumns [''id'']),
         (''fk_v2cd_config_deployments'', ForeignKey [''cd_configuration_id''] ''cd_configurations'' [''id''] False)],
       CreateIndex ''index_v2_deployments_id''
        \<lparr>ix_table = ''v2deployments'', ix_columns = [''id''], ix_unique = False, ix_where = Always\<rparr>,
       CreateIndex ''only_one_active_for_circle''
        \<lparr>ix_table = ''v2deployments'', ix_columns = [''active'', ''circle_id'', ''cd_configuration_id''], ix_unique = True, ix_where = Equals ''active'' (BoolValue True)\<rparr>],
     down = [dropTable ''v2deployments'']\<rparr>"

definition CreateV2Components20200715114000 :: migration where
  "CreateV2Components20200715114000 = \<lparr>
     up = [CreateTable False ''v2components''
        [isPrimary (with_default ''gen_random_uuid ()'' (TableColumn ''id'' UUID)),
         with_default ''gen_random_uuid ()'' (TableColumn ''deployment_id'' UUID),
         TableColumn ''component_id'' UUID,
         TableColumn ''name'' VARCHAR,
         TableColumn ''image_url'' VARCHAR,
         TableColumn ''image_tag'' VARCHAR,
         TableColumn ''helm_url'' VARCHAR,
         isNullable (TableColumn ''host_value'' VARCHAR),
         isNullable (TableColumn ''gateway_name'' VARCHAR),
         with_default ''false'' (TableColumn ''running'' BOOLEAN),
         with_default ''false'' (TableColumn ''merged'' BOOLEAN),
         with_default ''now()'' (TableColumn ''created_at'' TIMESTAMP)]
        [(''fk_v2deployments'', ForeignKey [''deployment_id''] ''v2deployments'' [''id''] False)],
       CreateIndex ''index_components_id''
        \<lparr>ix_table = ''v2components'', ix_columns = [''deployment_id''], ix_unique = False, ix_where = Always\<rparr>,
       CreateIndex ''index_name''
        \<lparr>ix_table = ''v2components'', ix_columns = [''name''], ix_unique = False, ix_where = Always\<rparr>,
       CreateIndex ''only_one_module_running''
        \<lparr>ix_table = ''v2components'', ix_columns = [''running'', ''name''], ix_unique = True, ix_where = Equals ''running'' (BoolValue True)\<rparr>],
     down = [dropTable ''v2components'']\<rparr>"

definition CreateV2Executions20200715115000 :: migration where
  "CreateV2Executions20200715115000 = \<lparr>
     up = [CreateTable False ''v2executions''
        [isPrimary (with_default ''gen_random_uuid ()'' (TableColumn ''id'' UUID)),
         TableColumn ''type'' VARCHAR,
         TableColumn ''deployment_id'' UUID,
         isNullable (TableColumn ''incoming_circle_id'' UUID),
         with_default ''CREATED'' (TableColumn ''status'' VARCHAR),
         with_default ''NOT_SENT'' (TableColumn ''notification_status'' VARCHAR),
         with_default ''now()'' (TableColumn ''created_at'' TIMESTAMP),
         isNullable (TableColumn ''finished_at'' TIMESTAMP)]
        [(''unique_executions_id'', UniqueColumns [''id'']),
         (''fk_v2executions_v2deployments'', ForeignKey [''deployment_id''] ''v2deployments'' [''id''] False)],
       CreateIndex ''index_deployments_id1''
        \<lparr>ix_table = ''v2executions'', ix_columns = [''deployment_id''], ix_unique = False, ix_where = Always\<rparr>,
       CreateIndex ''index_created_at_id_v2executions''
        \<lparr>ix_table = ''v2executions'', ix_columns = [''created_at'', ''id''], ix_unique = False, ix_where = Always\<rparr>],
     down = [dropTable ''v2executions'']\<rparr>"

definition AddVirtualserviceFieldsToComponents20200716121700 :: migration where
  "AddVirtualserviceFieldsToComponents20200716121700 = \<lparr>
     up = [AddColumn ''components'' (isNullable (TableColumn ''host_value'' VARCHAR)),
       AddColumn ''components'' (isNullable (TableColumn ''gateway_name'' VARCHAR))],
     down = [DropColumn ''components'' ''host_value'',
       DropColumn ''components'' ''gateway_name'']\<rparr>"

definition AddDefaultFieldToDeployment20200917141900 :: migration where
  "AddDefaultFieldToDeployment20200917141900 = \<lparr>
     up = [AddColumn ''v2deployments'' (isNullable (TableColumn ''default_circle'' BOOLEAN)),
       Update ''v2deployments'' ''default_circle'' (Some (BoolValue True)) (IsNull ''circle_id''),
       Update ''v2deployments'' ''default_circle'' (Some (BoolValue False)) (NotNull ''circle_id''),
       AlterNull ''v2deployments'' ''default_circle'' False],
     down = [DropColumn ''v2deployments'' ''default_circle'']\<rparr>"

definition UpdateV2DeploymentsSetCircleIdNotNull20201003153500 :: migration where
  "UpdateV2DeploymentsSetCircleIdNotNull20201003153500 = \<lparr>
     up = [Update ''v2deployments'' ''circle_id'' (Some (TextValue DEFAULT_CIRCLE_ID)) (IsNull ''circle_id''),
       AlterNull ''v2deployments'' ''circle_id'' False],
     down = [Update ''v2deployments'' ''circle_id'' None (Equals ''circle_id'' (TextValue DEFAULT_CIRCLE_ID)),
       AlterNull ''v2deployments'' ''circle_id'' True]\<rparr>"

definition DeleteUnusedv1Tables20201207153500 :: migration where
  "DeleteUnusedv1Tables20201207153500 = \<lparr>
     up = [DropTable True ''component_deployments'',
       DropTable True ''component_undeployments'',
       DropTable True ''component_deployments'',
       DropTable True ''components'',
       DropTable True ''deployments'',
       DropTable True ''module_deployments'',
       DropTable True ''module_undeployments'',
       DropTable True ''modules'',
       DropTable True ''queued_deployments'',
       DropTable True ''queued_istio_deployments'',
       DropTable True ''undeployments'',
       DropTable True ''module_deployments''],
     down = [Throw ''Cannot rollback this migration'']\<rparr>"

definition AddManifestsColumnToV2Components20210106163900 :: migration where
  "AddManifestsColumnToV2Components20210106163900 = \<lparr>
     up = [AddColumn ''v2components'' (isNullable (TableColumn ''manifests'' JSONB))],
     down = [DropColumn ''v2components'' ''manifests'']\<rparr>"

definition AddPreviousDeploymentIdTov2deployments20210115163900 :: migration where
  "AddPreviousDeploymentIdTov2deployments20210115163900 = \<lparr>
     up = [AddColumn ''v2deployments'' (isNullable (TableColumn ''previous_deployment_id'' UUID))],
     down = [DropColumn ''v2deployments'' ''previous_deployment_id'']\<rparr>"

definition RenameDeploymentsActiveAndAddHealthyToCurrent20210118163900 :: migration where
  "RenameDeploymentsActiveAndAddHealthyToCurrent20210118163900 = \<lparr>
     up = [RenameColumn ''v2deployments'' ''active'' ''current'',
       AddColumn ''v2deployments'' ((with_default ''false'') (TableColumn ''healthy'' BOOLEAN)),
       AddColumn ''v2deployments'' ((with_default ''false'') (TableColumn ''routed'' BOOLEAN)),
       AddColumn ''v2deployments'' ((with_default ''60'') (TableColumn ''timeout_in_seconds'' INTEGER))],
     down = [RenameColumn ''v2deployments'' ''current'' ''active'',
       DropColumn ''v2deployments'' ''healthy'',
       DropColumn ''v2deployments'' ''routed'',
       DropColumn ''v2deployments'' ''reconciliation_count'']\<rparr>"

definition AddNamespaceColumnToDeployments20210302120000 :: migration where
  "AddNamespaceColumnToDeployments20210302120000 = \<lparr>
     up = [AddColumn ''v2deployments'' (isNullable (TableColumn ''namespace'' VARCHAR)),
       UpdateFrom ''v2deployments'' ''namespace'' ''cd_configurations'' ''configuration_data'',
       DropConstraint ''v2deployments'' ''fk_v2cd_config_deployments'',
       AlterNull ''v2deployments'' ''cd_configuration_id'' True,
       AlterNull ''v2deployments'' ''namespace'' False],
     down = [DropColumn ''v2deployments'' ''namespace'',
       AddConstraint ''v2deployments'' ''fk_v2cd_config_deployments''
        (ForeignKey [''cd_configuration_id''] ''cd_configurations'' [''id''] False),
       AlterNull ''v2deployments'' ''cd_configuration_id'' False]\<rparr>"

definition CreateLogsTable20210324110300 :: migration where
  "CreateLogsTable20210324110300 = \<lparr>
     up = [CreateTable False ''v2logs''
        [isPrimary (with_default ''gen_random_uuid ()'' (TableColumn ''id'' UUID)),
         TableColumn ''deployment_id'' UUID,
         TableColumn ''logs'' JSONB]
        [(''fk_v2deployments'', ForeignKey [''deployment_id''] ''v2deployments'' [''id''] False)]],
     down = [dropTable (CHR 0x0A # ''    v2logs'')]\<rparr>"

definition UpdateDefaultTimeout20210430161500 :: migration where
  "UpdateDefaultTimeout20210430161500 = \<lparr>
     up = [AlterDefault ''v2deployments'' ''timeout_in_seconds'' ''200''],
     down = [AlterDefault ''v2deployments'' ''timeout_in_seconds'' ''60'']\<rparr>"

definition all_migrations :: "migration list" where
  "all_migrations =
    [CreateDeploymentsTable20190807003400,
     CreateModuleDeploymentsTable20190807010500,
     CreateComponentDeploymentsTable20190808190900,
     CreateModulesTable20190808220900,
     CreateComponentsTable20190808220901,
     CreateQueuedDeploymentsTable20190820235700,
     AddCreatedAtColumns20190918174700,
     AddConfigurationColumns20190920165500,
     AddColumnCreateCircleId20190930190000,
     RenameCircleColumn20191024104700,
     CreateUndeploymentsTable20191024113700,
     AddQueuedDeploymentsType20191024195900,
     CreateModuleUndeploymentsTable20191028150900,
     CreateComponentUndeploymentsTable20191028151300,
     AddQueuedUndeploymentsColumn20191030154200,
     RenameValueFlowIdColumn20200124152700,
     SetCircleAsNullable20200210160200,
     AddColumnHelmrepositoryModuleDeployment20200212150000,
     DropConstraintNotnullComponentDeployment20200212170000,
     AddUniqueConstraintToEnqueuedDeployment20200221180000,
     CreatePgcryptoExtension20200226213100,
     CreateK8sConfigurationsTable20200226214600,
     AddCircleIdColumnToUndeployments20200227180000,
     AddNewK8sConfigColumn20200228024000,
     RemoveK8sConfigNotNull20200310174900,
     ChangeK8sConfigToCdConfig20200316153600,
     AddTypeColumnToCdConfig20200317165300,
     AddFinishedAtDeploymentColumns20200420144700,
     AddFinishedAtUndeploymentColumns20200420144800,
     AlterTableCdConfigurationsRenameColumnApplication20200423162200,
     UpdateStatusDeploymentUndeployment20200429160400,
     AddCdConfigurationToDeployments20200429235000,
     RemoveCdConfigurationFromModules20200429235100,
     CreateQueuedIstioDeploymentsTable20200507175800,
     RemoveCircleIdColumn20200615113000,
     CreateV2Deployments20200715113000,
     CreateV2Components20200715114000,
     CreateV2Executions20200715115000,
     AddVirtualserviceFieldsToComponents20200716121700,
     AddDefaultFieldToDeployment20200917141900,
     UpdateV2DeploymentsSetCircleIdNotNull20201003153500,
     DeleteUnusedv1Tables20201207153500,
     AddManifestsColumnToV2Components20210106163900,
     AddPreviousDeploymentIdTov2deployments20210115163900,
     RenameDeploymentsActiveAndAddHealthyToCurrent20210118163900,
     AddNamespaceColumnToDeployments20210302120000,
     CreateLogsTable20210324110300,
     UpdateDefaultTimeout20210430161500]"

end
