(* ===== verification/Database.thy ===== *)
theory Database
  imports Migrations Examples
begin

text \<open>
  The database the migrations build and what the program relies on: the columns of the
  entities are there, the migrations can be undone but for three, and no index keeps a circle
  from having two current deployments.
\<close>

subsection \<open>The columns of the entities\<close>

text \<open>The table of an entity class and the columns its decorators name.\<close>

definition DeploymentEntityV2_columns :: "string \<times> string list" where
  "DeploymentEntityV2_columns = (''v2deployments'',
     [''id'', ''author_id'', ''callback_url'', ''created_at'', ''priority'', ''circle_id'',
      ''previous_deployment_id'', ''current'', ''namespace'', ''healthy'', ''routed'',
      ''timeout_in_seconds'', ''default_circle''])"

definition ComponentEntityV2_columns :: "string \<times> string list" where
  "ComponentEntityV2_columns = (''v2components'',
     [''id'', ''helm_url'', ''image_tag'', ''image_url'', ''host_value'', ''gateway_name'', ''name'',
      ''running'', ''component_id'', ''merged'', ''deployment_id'', ''manifests''])"

definition Execution_columns :: "string \<times> string list" where
  "Execution_columns = (''v2executions'',
     [''id'', ''type'', ''status'', ''notification_status'', ''deployment_id'', ''created_at'',
      ''finished_at'', ''incoming_circle_id''])"

definition LogEntity_columns :: "string \<times> string list" where
  "LogEntity_columns = (''v2logs'', [''id'', ''deployment_id'', ''logs''])"

text \<open>A row saved from an entity has a value for every column that needs one.\<close>

definition mandatory :: "tbl \<Rightarrow> string list" where
  "mandatory tb = map cl_name (filter (\<lambda>c. \<not> cl_nullable c \<and> cl_default c = None) (columns tb))"

definition fits :: "schema \<Rightarrow> string \<times> string list \<Rightarrow> bool" where
  "fits s e = (case map_of (tables s) (fst e) of None \<Rightarrow> False
     | Some tb \<Rightarrow> list_all (\<lambda>n. n \<in> set (column_names tb)) (snd e)
         \<and> list_all (\<lambda>n. n \<in> set (snd e)) (mandatory tb))"

definition default_of :: "schema \<Rightarrow> string \<Rightarrow> string \<Rightarrow> string option" where
  "default_of s t n = (case map_of (tables s) t of None \<Rightarrow> None
     | Some tb \<Rightarrow> Option.bind (List.find (\<lambda>c. cl_name c = n) (columns tb)) cl_default)"

text \<open>
  The tables of the second version, as they are when those of the first have just been
  deleted: what the first 42 migrations build.
\<close>

definition schema_v2 :: schema where
  "schema_v2 = \<lparr>
     tables =
       [(''cd_configurations'', \<lparr>columns =
           [isPrimary (TableColumn ''id'' VARCHAR), TableColumn ''name'' VARCHAR,
            TableColumn ''configuration_data'' TEXT, TableColumn ''user_id'' VARCHAR,
            TableColumn ''workspace_id'' VARCHAR,
            with_default ''now()'' (TableColumn ''created_at'' TIMESTAMP),
            isNullable (TableColumn ''type'' VARCHAR)],
          table_constraints = []\<rparr>),
        (''v2deployments'', \<lparr>columns =
           [isPrimary (TableColumn ''id'' UUID), TableColumn ''author_id'' VARCHAR,
            TableColumn ''callback_url'' VARCHAR, TableColumn ''circle_id'' VARCHAR,
            with_default ''false'' (TableColumn ''active'' BOOLEAN),
            with_default ''0'' (TableColumn ''priority'' INTEGER),
            TableColumn ''cd_configuration_id'' VARCHAR,
            with_default ''now()'' (TableColumn ''created_at'' TIMESTAMP),
            TableColumn ''default_circle'' BOOLEAN],
          table_constraints =
           [(''unique_deployments_id'', UniqueColumns [''id'']),
            (''fk_v2cd_config_deployments'',
             ForeignKey [''cd_configuration_id''] ''cd_configurations'' [''id''] False)]\<rparr>),
        (''v2components'', \<lparr>columns =
           [isPrimary (with_default ''gen_random_uuid ()'' (TableColumn ''id'' UUID)),
            with_default ''gen_random_uuid ()'' (TableColumn ''deployment_id'' UUID),
            TableColumn ''component_id'' UUID, TableColumn ''name'' VARCHAR,
            TableColumn ''image_url'' VARCHAR, TableColumn ''image_tag'' VARCHAR,
            TableColumn ''helm_url'' VARCHAR, isNullable (TableColumn ''host_value'' VARCHAR),
            isNullable (TableColumn ''gateway_name'' VARCHAR),
            with_default ''false'' (TableColumn ''running'' BOOLEAN),
            with_default ''false'' (TableColumn ''merged'' BOOLEAN),
            with_default ''now()'' (TableColumn ''created_at'' TIMESTAMP)],
          table_constraints =
           [(''fk_v2deployments'', ForeignKey [''deployment_id''] ''v2deployments'' [''id''] False)]\<rparr>),
        (''v2executions'', \<lparr>columns =
           [isPrimary (with_default ''gen_random_uuid ()'' (TableColumn ''id'' UUID)),
            TableColumn ''type'' VARCHAR, TableColumn ''deployment_id'' UUID,
            isNullable (TableColumn ''incoming_circle_id'' UUID),
            with_default ''CREATED'' (TableColumn ''status'' VARCHAR),
            with_default ''NOT_SENT'' (TableColumn ''notification_status'' VARCHAR),
            with_default ''now()'' (TableColumn ''created_at'' TIMESTAMP),
            isNullable (TableColumn ''finished_at'' TIMESTAMP)],
          table_constraints =
           [(''unique_executions_id'', UniqueColumns [''id'']),
            (''fk_v2executions_v2deployments'',
             ForeignKey [''deployment_id''] ''v2deployments'' [''id''] False)]\<rparr>)],
     indexes =
       [(''index_v2_deployments_id'', \<lparr>ix_table = ''v2deployments'', ix_columns = [''id''],
           ix_unique = False, ix_where = Always\<rparr>),
        (''only_one_active_for_circle'', \<lparr>ix_table = ''v2deployments'',
           ix_columns = [''active'', ''circle_id'', ''cd_configuration_id''],
           ix_unique = True, ix_where = Equals ''active'' (BoolValue True)\<rparr>),
        (''index_components_id'', \<lparr>ix_table = ''v2components'', ix_columns = [''deployment_id''],
           ix_unique = False, ix_where = Always\<rparr>),
        (''index_name'', \<lparr>ix_table = ''v2components'', ix_columns = [''name''],
           ix_unique = False, ix_where = Always\<rparr>),
        (''only_one_module_running'', \<lparr>ix_table = ''v2components'', ix_columns = [''running'', ''name''],
           ix_unique = True, ix_where = Equals ''running'' (BoolValue True)\<rparr>),
        (''index_deployments_id1'', \<lparr>ix_table = ''v2executions'', ix_columns = [''deployment_id''],
           ix_unique = False, ix_where = Always\<rparr>),
        (''index_created_at_id_v2executions'', \<lparr>ix_table = ''v2executions'',
           ix_columns = [''created_at'', ''id''], ix_unique = False, ix_where = Always\<rparr>)],
     extensions = [''pgcrypto'']\<rparr>"

definition first_version :: "migration list" where "first_version = take 42 all_migrations"
definition second_version :: "migration list" where "second_version = drop 42 all_migrations"

lemma first_version_builds: "migrate first_version empty_schema = Inr schema_v2"
  by code_simp

lemma all_versions: "all_migrations = first_version @ second_version"
  by (simp add: first_version_def second_version_def)

lemma migrate_all: "migrate all_migrations empty_schema = migrate second_version schema_v2"
  by (simp add: all_versions migrate_append first_version_builds)

text \<open>The schema after the first \<open>i\<close> migrations.\<close>

definition schema_after :: "nat \<Rightarrow> string + schema" where
  "schema_after i = migrate (take i all_migrations) empty_schema"

lemma schema_after_v2: "schema_after (42 + i) = migrate (take i second_version) schema_v2"
proof -
  have "length first_version = 42" by (simp add: first_version_def all_migrations_def)
  then have "take (42 + i) all_migrations = first_version @ take i second_version"
    unfolding all_versions by (simp add: take_add)
  then show ?thesis by (simp add: schema_after_def migrate_append first_version_builds)
qed

definition all_entities :: "(string \<times> string list) list" where
  "all_entities = [DeploymentEntityV2_columns, ComponentEntityV2_columns, Execution_columns, LogEntity_columns]"

text \<open>
  C31: started on an empty database all the migrations succeed, and the schema they build is
  the one the entities want: every column an entity names is in its table, and every column
  that must have a value and has no default is one the entity names. A deployment that is
  saved without a timeout has the one the column has.
\<close>

theorem migrations_fit_entities:
  "\<exists>s. migrate all_migrations empty_schema = Inr s \<and> list_all (fits s) all_entities
     \<and> default_of s ''v2deployments'' ''timeout_in_seconds'' = Some ''200''
     \<and> column_timeout None = 200"
proof -
  have "case migrate second_version schema_v2 of Inl e \<Rightarrow> False
    | Inr s \<Rightarrow> list_all (fits s) all_entities
        \<and> default_of s ''v2deployments'' ''timeout_in_seconds'' = Some ''200''"
    by code_simp
  moreover have "column_timeout None = 200" by (simp add: column_timeout_def default_timeout_def)
  ultimately show ?thesis unfolding migrate_all by (cases "migrate second_version schema_v2") simp_all
qed

subsection \<open>Going back\<close>

definition irreversible :: "nat list" where "irreversible = [41, 44, 46]"

definition down_fails :: "nat \<Rightarrow> bool" where
  "down_fails i = (case schema_after (Suc i) of Inl e \<Rightarrow> False
     | Inr s \<Rightarrow> (case execute_all (down (all_migrations ! i)) s of Inl e \<Rightarrow> True | Inr s' \<Rightarrow> False))"

text \<open>For each migration in turn, whether it is undone where it runs.\<close>

fun undone_in_turn :: "migration list \<Rightarrow> schema \<Rightarrow> bool list" where
  "undone_in_turn [] s = []"
| "undone_in_turn (m # ms) s = undone m s
     # (case execute_all (up m) s of Inl e \<Rightarrow> [] | Inr s' \<Rightarrow> undone_in_turn ms s')"

lemma undone_in_turn_append:
  assumes "migrate ms s = Inr s'"
  shows "undone_in_turn (ms @ ms') s = undone_in_turn ms s @ undone_in_turn ms' s'"
  using assms by (induction ms arbitrary: s) (auto simp: and_then_def split: sum.splits)

text \<open>
  C32: the \<open>down\<close> of a migration, run after its \<open>up\<close>, restores the schema the \<open>up\<close> was run on,
  for every migration but three, whose \<open>down\<close> fails: the one that deletes the tables of the
  first version means to, the one that renames \<open>active\<close> drops a column that never existed, the
  one that creates the logs gives a table name with a line break before it.
\<close>

theorem migrations_round_trip:
  "undone_in_turn all_migrations empty_schema = map (\<lambda>i. i \<notin> set irreversible) [0..<48]
     \<and> list_all down_fails irreversible
     \<and> map (\<lambda>i. all_migrations ! i) irreversible
         = [DeleteUnusedv1Tables20201207153500,
            RenameDeploymentsActiveAndAddHealthyToCurrent20210118163900, CreateLogsTable20210324110300]"
proof (intro conjI)
  have "undone_in_turn all_migrations empty_schema
      = undone_in_turn first_version empty_schema @ undone_in_turn second_version schema_v2"
    unfolding all_versions by (rule undone_in_turn_append [OF first_version_builds])
  moreover have "undone_in_turn first_version empty_schema = replicate 41 True @ [False]" by code_simp
  moreover have "undone_in_turn second_version schema_v2 = [True, True, False, True, False, True]" by code_simp
  ultimately show "undone_in_turn all_migrations empty_schema = map (\<lambda>i. i \<notin> set irreversible) [0..<48]"
    by (simp add: irreversible_def upt_rec numeral_eq_Suc)
  have fails: "down_fails j = (case migrate (take i second_version) schema_v2 of Inl e \<Rightarrow> False
     | Inr s \<Rightarrow> (case execute_all (down (all_migrations ! j)) s of Inl e \<Rightarrow> True | Inr s' \<Rightarrow> False))" if "j = 41 + i" for i j
    unfolding that down_fails_def using schema_after_v2 [of i] by simp
  have "(case migrate (take 0 second_version) schema_v2 of Inl e \<Rightarrow> False
     | Inr s \<Rightarrow> (case execute_all (down (all_migrations ! 41)) s of Inl e \<Rightarrow> True | Inr s' \<Rightarrow> False))" by code_simp
  then have "down_fails 41" using fails [of 41 0] by simp
  moreover have "(case migrate (take 3 second_version) schema_v2 of Inl e \<Rightarrow> False
     | Inr s \<Rightarrow> (case execute_all (down (all_migrations ! 44)) s of Inl e \<Rightarrow> True | Inr s' \<Rightarrow> False))" by code_simp
  then have "down_fails 44" using fails [of 44 3] by simp
  moreover have "(case migrate (take 5 second_version) schema_v2 of Inl e \<Rightarrow> False
     | Inr s \<Rightarrow> (case execute_all (down (all_migrations ! 46)) s of Inl e \<Rightarrow> True | Inr s' \<Rightarrow> False))" by code_simp
  then have "down_fails 46" using fails [of 46 5] by simp
  ultimately show "list_all down_fails irreversible" by (simp add: irreversible_def)
  show "map (\<lambda>i. all_migrations ! i) irreversible
         = [DeleteUnusedv1Tables20201207153500,
            RenameDeploymentsActiveAndAddHealthyToCurrent20210118163900, CreateLogsTable20210324110300]"
    by (simp add: irreversible_def all_migrations_def)
qed

subsection \<open>The unique index on current deployments\<close>

type_synonym row = "string \<Rightarrow> sql_value option"

text \<open>The values a saved deployment has in its row; a column it does not name is null.\<close>

definition deployment_row :: "DeploymentEntityV2 \<Rightarrow> row" where
  "deployment_row d = map_of
     ([(''id'', TextValue (dep_id d)), (''author_id'', TextValue (authorId d)),
       (''callback_url'', TextValue (callbackUrl d)), (''created_at'', NumberValue (createdAt d)),
       (''priority'', NumberValue (priority d)), (''circle_id'', TextValue (circleId d)),
       (''current'', BoolValue (current d)), (''namespace'', TextValue (namespace d)),
       (''healthy'', BoolValue (healthy d)), (''routed'', BoolValue (routed d)),
       (''timeout_in_seconds'', NumberValue (timeoutInSeconds d)),
       (''default_circle'', BoolValue (defaultCircle d))]
      @ (case previousDeploymentId d of None \<Rightarrow> [] | Some p \<Rightarrow> [(''previous_deployment_id'', TextValue p)]))"

fun satisfies_condition :: "sql_condition \<Rightarrow> row \<Rightarrow> bool" where
  "satisfies_condition Always r = True"
| "satisfies_condition (IsNull n) r = (r n = None)"
| "satisfies_condition (NotNull n) r = (r n \<noteq> None)"
| "satisfies_condition (Equals n v) r = (r n = Some v)"

text \<open>A unique index refuses two rows it covers that agree on all its columns, none null.\<close>

definition conflict :: "sql_index \<Rightarrow> row \<Rightarrow> row \<Rightarrow> bool" where
  "conflict ix a b \<longleftrightarrow> ix_unique ix \<and> satisfies_condition (ix_where ix) a
     \<and> satisfies_condition (ix_where ix) b
     \<and> list_all (\<lambda>n. a n \<noteq> None \<and> a n = b n) (ix_columns ix)"

definition indexes_of :: "schema \<Rightarrow> string \<Rightarrow> sql_index list" where
  "indexes_of s t = filter (\<lambda>ix. ix_table ix = t) (map snd (indexes s))"

definition circle_index :: "string \<Rightarrow> sql_index" where
  "circle_index c = \<lparr>ix_table = ''v2deployments'', ix_columns = [c, ''circle_id'', ''cd_configuration_id''],
     ix_unique = True, ix_where = Equals c (BoolValue True)\<rparr>"

definition with_configuration :: "string \<Rightarrow> row \<Rightarrow> row" where
  "with_configuration conf r = r(''cd_configuration_id'' \<mapsto> TextValue conf)"

lemma circle_index_stays:
  "\<exists>s. schema_after 45 = Inr s \<and> circle_index ''current'' \<in> set (indexes_of s ''v2deployments'')
     \<and> (\<exists>tb. map_of (tables s) ''v2deployments'' = Some tb \<and> ''cd_configuration_id'' \<in> set (mandatory tb))"
  "\<exists>s. migrate all_migrations empty_schema = Inr s
     \<and> filter ix_unique (indexes_of s ''v2deployments'') = [circle_index ''current'']"
proof -
  have "case migrate (take 3 second_version) schema_v2 of Inl e \<Rightarrow> False | Inr s \<Rightarrow>
      circle_index ''current'' \<in> set (indexes_of s ''v2deployments'')
      \<and> (case map_of (tables s) ''v2deployments'' of None \<Rightarrow> False
         | Some tb \<Rightarrow> ''cd_configuration_id'' \<in> set (mandatory tb))" by code_simp
  then show "\<exists>s. schema_after 45 = Inr s \<and> circle_index ''current'' \<in> set (indexes_of s ''v2deployments'')
     \<and> (\<exists>tb. map_of (tables s) ''v2deployments'' = Some tb \<and> ''cd_configuration_id'' \<in> set (mandatory tb))"
    using schema_after_v2 [of 3]
    by (cases "migrate (take 3 second_version) schema_v2") (simp_all split: option.splits)
  have "case migrate second_version schema_v2 of Inl e \<Rightarrow> False | Inr s \<Rightarrow>
      filter ix_unique (indexes_of s ''v2deployments'') = [circle_index ''current'']" by code_simp
  then show "\<exists>s. migrate all_migrations empty_schema = Inr s
     \<and> filter ix_unique (indexes_of s ''v2deployments'') = [circle_index ''current'']"
    unfolding migrate_all by (cases "migrate second_version schema_v2") simp_all
qed

lemma configuration_is_null: "deployment_row d ''cd_configuration_id'' = None"
  by (simp add: deployment_row_def split: option.splits)

lemma only_unique_conflicts: "conflict ix a b \<Longrightarrow> ix \<in> set l \<Longrightarrow> ix \<in> set (filter ix_unique l)"
  by (simp add: conflict_def)

text \<open>
  The index \<open>only_one_active_for_circle\<close> used to keep a circle from having two current
  deployments of one configuration, whose id every deployment had to have. Since the
  namespace migration the id may be null, and it is in every row the program saves, so no
  index of the table refuses any two deployments: that a circle has one current deployment is
  up to the program.
\<close>

theorem no_index_keeps_one_current:
  "(\<exists>s. schema_after 45 = Inr s
       \<and> (\<exists>ix \<in> set (indexes_of s ''v2deployments''). \<forall>a b conf.
            conflict ix (with_configuration conf (deployment_row a)) (with_configuration conf (deployment_row b))
              = (current a \<and> current b \<and> circleId a = circleId b)))
   \<and> (\<exists>s. migrate all_migrations empty_schema = Inr s
       \<and> (\<forall>a b. \<not> list_ex (\<lambda>ix. conflict ix (deployment_row a) (deployment_row b))
            (indexes_of s ''v2deployments'')))"
proof
  have "conflict (circle_index ''current'') (with_configuration conf (deployment_row a))
      (with_configuration conf (deployment_row b))
    = (current a \<and> current b \<and> circleId a = circleId b)" for a b conf
    by (auto simp: conflict_def circle_index_def with_configuration_def deployment_row_def)
  with circle_index_stays(1) show "\<exists>s. schema_after 45 = Inr s
       \<and> (\<exists>ix \<in> set (indexes_of s ''v2deployments''). \<forall>a b conf.
            conflict ix (with_configuration conf (deployment_row a)) (with_configuration conf (deployment_row b))
              = (current a \<and> current b \<and> circleId a = circleId b))" by blast
next
  obtain s where s: "migrate all_migrations empty_schema = Inr s"
    and unique: "filter ix_unique (indexes_of s ''v2deployments'') = [circle_index ''current'']"
    using circle_index_stays(2) by blast
  have never: "\<not> conflict (circle_index ''current'') (deployment_row a) (deployment_row b)" for a b
    by (simp add: conflict_def circle_index_def configuration_is_null)
  have "\<not> conflict ix (deployment_row a) (deployment_row b)"
    if "ix \<in> set (indexes_of s ''v2deployments'')" for ix a b
  proof
    assume "conflict ix (deployment_row a) (deployment_row b)"
    moreover from this that have "ix = circle_index ''current''"
      using only_unique_conflicts unique by fastforce
    ultimately show False using never by simp
  qed
  then have "\<forall>a b. \<not> list_ex (\<lambda>ix. conflict ix (deployment_row a) (deployment_row b))
      (indexes_of s ''v2deployments'')" unfolding list_ex_iff by blast
  with s show "\<exists>s. migrate all_migrations empty_schema = Inr s
       \<and> (\<forall>a b. \<not> list_ex (\<lambda>ix. conflict ix (deployment_row a) (deployment_row b))
            (indexes_of s ''v2deployments''))" by blast
qed

end
