(* ===== verification/Segments.thy ===== *)
theory Segments
  imports Complex_Main Prelude
begin

text \<open>
  The editor of the segmentation of a circle: \<open>modules/Circles/Segments\<close> of the front end
  (\<open>hooks.ts\<close>, \<open>helpers.ts\<close>, \<open>constants.ts\<close> and the form of \<open>index.tsx\<close>).

  The form holds a list of groups; a group is one rule or a clause of rules with a logical
  operator of its own. A button replaces a group in two steps: the handler inserts the new
  group behind the old one and notes the index of the old one in the state of the hook;
  the effect that runs after the next rendering removes the old one and forgets the index.
  The array of fields belongs to react-hook-form: its operations are the record
  \<open>field_array\<close>, a parameter, and \<open>field_array_law\<close> is what its documentation says of them.
\<close>

subsection \<open>Rules and groups\<close>

record rule_content =
  ct_key :: string
  ct_value :: "string list"
  ct_condition :: string

datatype group =
    Rule (content: rule_content)
  | Clause (logicalOperator: string) (rules: "rule_content list")

text \<open>\<open>RULE\<close> is a rule with empty fields. \<open>{...CLAUSE, clauses}\<close> keeps from the constant the
  operator; every use replaces its \<open>clauses\<close>.\<close>

definition RULE :: rule_content where
  "RULE = \<lparr>ct_key = [], ct_value = [[]], ct_condition = []\<rparr>"

definition CLAUSE :: "rule_content list \<Rightarrow> group" where
  "CLAUSE cs = Clause ''OR'' cs"

record segmentation =
  sg_operator :: string
  sg_clauses :: "group list"

subsection \<open>The array of fields and the form\<close>

record field_array =
  fa_append :: "group \<Rightarrow> group list \<Rightarrow> group list"
  fa_insert :: "nat \<Rightarrow> group \<Rightarrow> group list \<Rightarrow> group list"
  fa_remove :: "nat \<Rightarrow> group list \<Rightarrow> group list"

definition field_array_law :: "field_array \<Rightarrow> bool" where
  "field_array_law A \<longleftrightarrow>
     (\<forall>g gs. fa_append A g gs = gs @ [g]) \<and>
     (\<forall>i g gs. i \<le> length gs \<longrightarrow> fa_insert A i g gs = take i gs @ g # drop i gs) \<and>
     (\<forall>i gs. i < length gs \<longrightarrow> fa_remove A i gs = take i gs @ drop (Suc i) gs)"

text \<open>The state of the component: the values of the form, and the index the hook has
  noted for removal (\<open>init\<close>, that is -1, is \<open>None\<close>).\<close>

record editor =
  ed_form :: segmentation
  ed_removeIndex :: "nat option"

definition on_groups :: "(group list \<Rightarrow> group list) \<Rightarrow> editor \<Rightarrow> editor" where
  "on_groups f s = s\<lparr>ed_form := (ed_form s)\<lparr>sg_clauses := f (sg_clauses (ed_form s))\<rparr>\<rparr>"

abbreviation groups :: "editor \<Rightarrow> group list" where
  "groups s \<equiv> sg_clauses (ed_form s)"

text \<open>A form without rules starts with one empty rule.\<close>

definition defaultValues :: "bool \<Rightarrow> segmentation option \<Rightarrow> segmentation option" where
  "defaultValues viewMode segs =
     (if viewMode \<or> segs \<noteq> None then segs
      else Some \<lparr>sg_operator = ''OR'', sg_clauses = [Rule RULE]\<rparr>)"

subsection \<open>The handlers\<close>

definition updateRule :: "editor \<Rightarrow> nat \<Rightarrow> group" where
  "updateRule s groupIndex = CLAUSE [content (groups s ! groupIndex), RULE]"

definition updateGroup :: "editor \<Rightarrow> nat \<Rightarrow> group" where
  "updateGroup s groupIndex =
     (let g = groups s ! groupIndex in Clause (logicalOperator g) (rules g @ [RULE]))"

definition addField :: "editor \<Rightarrow> group \<Rightarrow> nat \<Rightarrow> group" where
  "addField s g groupIndex =
     (case g of Rule _ \<Rightarrow> updateRule s groupIndex | Clause _ _ \<Rightarrow> updateGroup s groupIndex)"

text \<open>\<open>filter(clauses, (c, index) => index !== clauseIndex)\<close>.\<close>

definition without_index :: "nat \<Rightarrow> 'a list \<Rightarrow> 'a list" where
  "without_index i xs = map fst (filter (\<lambda>(x, k). k \<noteq> i) (zip xs [0..<length xs]))"

definition removeClause :: "editor \<Rightarrow> nat \<Rightarrow> nat \<Rightarrow> group" where
  "removeClause s groupIndex clauseIndex =
     (let cs = without_index clauseIndex (rules (groups s ! groupIndex))
      in if length cs > 1 then CLAUSE cs else Rule (hd cs))"

definition addGroup :: "field_array \<Rightarrow> editor \<Rightarrow> editor" where
  "addGroup A = on_groups (fa_append A (Rule RULE))"

definition addRule :: "field_array \<Rightarrow> nat \<Rightarrow> group \<Rightarrow> editor \<Rightarrow> editor" where
  "addRule A i g s =
     (let after = i + 1; updatedGroup = addField s g i
      in (on_groups (fa_insert A after updatedGroup) s)\<lparr>ed_removeIndex := Some i\<rparr>)"

definition removeRule :: "field_array \<Rightarrow> group \<Rightarrow> nat \<Rightarrow> nat \<Rightarrow> editor \<Rightarrow> editor" where
  "removeRule A g groupIndex clauseIndex s =
     (case g of
        Rule _ \<Rightarrow> on_groups (fa_remove A groupIndex) s
      | Clause _ _ \<Rightarrow>
          (let remainedGroup = removeClause s groupIndex clauseIndex; after = groupIndex + 1
           in (on_groups (fa_insert A after remainedGroup) s)\<lparr>ed_removeIndex := Some groupIndex\<rparr>))"

text \<open>The effect of the hook.\<close>

definition removal_effect :: "field_array \<Rightarrow> editor \<Rightarrow> editor" where
  "removal_effect A s =
     (case ed_removeIndex s of
        None \<Rightarrow> s
      | Some i \<Rightarrow> (on_groups (fa_remove A i) s)\<lparr>ed_removeIndex := None\<rparr>)"

definition toggled :: "string \<Rightarrow> string" where
  "toggled v = (if v = ''AND'' then ''OR'' else ''AND'')"

text \<open>The input of an operator: of the whole form, or of the clause at an index.\<close>

definition changeOperatorValue :: "nat option \<Rightarrow> editor \<Rightarrow> editor" where
  "changeOperatorValue name s =
     (case name of
        None \<Rightarrow> s\<lparr>ed_form := (ed_form s)\<lparr>sg_operator := toggled (sg_operator (ed_form s))\<rparr>\<rparr>
      | Some i \<Rightarrow> on_groups (\<lambda>gs. gs[i := Clause (toggled (logicalOperator (gs ! i))) (rules (gs ! i))]) s)"

text \<open>
  What a user can do. The button that removes a rule is shown on a group only when there
  is another group, and on every rule of a clause. React runs the effect before it
  handles the next click.
\<close>

definition hasGroup :: "editor \<Rightarrow> bool" where
  "hasGroup s \<longleftrightarrow> length (groups s) > 1"

inductive click :: "field_array \<Rightarrow> editor \<Rightarrow> editor \<Rightarrow> bool" for A :: field_array where
  add_group: "click A s (removal_effect A (addGroup A s))"
| add_rule: "i < length (groups s) \<Longrightarrow>
    click A s (removal_effect A (addRule A i (groups s ! i) s))"
| remove_group: "\<lbrakk>i < length (groups s); groups s ! i = Rule c; hasGroup s\<rbrakk> \<Longrightarrow>
    click A s (removal_effect A (removeRule A (groups s ! i) i j s))"
| remove_rule: "\<lbrakk>i < length (groups s); groups s ! i = Clause opr cs; j < length cs\<rbrakk> \<Longrightarrow>
    click A s (removal_effect A (removeRule A (groups s ! i) i j s))"
| change_operator: "click A s (changeOperatorValue None s)"
| change_clause_operator: "\<lbrakk>i < length (groups s); groups s ! i = Clause opr cs\<rbrakk> \<Longrightarrow>
    click A s (changeOperatorValue (Some i) s)"

inductive clicks :: "field_array \<Rightarrow> editor \<Rightarrow> editor \<Rightarrow> bool" for A :: field_array where
  opened: "clicks A s s"
| clicked: "\<lbrakk>clicks A s t; click A t u\<rbrakk> \<Longrightarrow> clicks A s u"

subsection \<open>The lines between the groups\<close>

definition RULE_SIZE :: rat where "RULE_SIZE = 62"
definition BUTTON_RULE :: rat where "BUTTON_RULE = 30 + 20"
definition RULE_OPERATOR :: rat where "RULE_OPERATOR = 24"

definition getClauseOperatorPosition :: "nat \<Rightarrow> rat" where
  "getClauseOperatorPosition n = (RULE_SIZE * of_nat n) / 2 + RULE_SIZE / 2 - RULE_OPERATOR / 2"

definition getClauseVerticalLine :: "nat \<Rightarrow> rat" where
  "getClauseVerticalLine n = RULE_SIZE * of_nat n - RULE_SIZE"

definition getClauseHorizontalLine :: "nat \<Rightarrow> rat" where
  "getClauseHorizontalLine n = (of_nat n * RULE_SIZE - RULE_SIZE) / 2 + RULE_SIZE - 1"

definition getGroupClauseHeight :: "nat \<Rightarrow> rat" where
  "getGroupClauseHeight n = (of_nat n * RULE_SIZE - RULE_SIZE) / 2"

text \<open>The body of the loop of \<open>getGroupVerticalLine\<close>: \<open>height\<close> and \<open>top\<close> after one field.\<close>

definition line_step :: "nat \<Rightarrow> nat \<Rightarrow> group \<Rightarrow> rat \<times> rat \<Rightarrow> rat \<times> rat" where
  "line_step n index field ht =
     (let (height, top) = ht;
          isMiddleGroup = (index > 0 \<and> index + 1 < n)
      in if index = 0 then
           (height + (case field of Rule _ \<Rightarrow> 0 | Clause _ cs \<Rightarrow> getGroupClauseHeight (length cs)),
            case field of Rule _ \<Rightarrow> RULE_SIZE | Clause _ cs \<Rightarrow> getClauseHorizontalLine (length cs))
         else (case field of
             Rule _ \<Rightarrow> (height + RULE_SIZE, top)
           | Clause _ cs \<Rightarrow>
               if isMiddleGroup then (height + of_nat (length cs) * RULE_SIZE, top)
               else (height + (getGroupClauseHeight (length cs) + RULE_SIZE), top)))"

fun line_loop :: "nat \<Rightarrow> nat \<Rightarrow> group list \<Rightarrow> rat \<times> rat \<Rightarrow> rat \<times> rat" where
  "line_loop n index [] ht = ht"
| "line_loop n index (f # fs) ht = line_loop n (Suc index) fs (line_step n index f ht)"

record vertical_line =
  vl_top :: rat
  vl_height :: rat
  vl_operator :: rat

definition getGroupVerticalLine :: "group list \<Rightarrow> vertical_line" where
  "getGroupVerticalLine gs =
     (let (height, top) = line_loop (length gs) 0 gs (0, 0);
          sumButtons = of_nat (length gs) * BUTTON_RULE - BUTTON_RULE;
          height' = height + sumButtons
      in \<lparr>vl_top = top, vl_height = height', vl_operator = height' / 2 + top - RULE_OPERATOR / 2\<rparr>)"

inductive_cases clickE: "click A s t"

subsection \<open>Edits take place where the button is\<close>

lemma without_index_append:
  "i < length xs \<Longrightarrow> without_index i xs = take i xs @ drop (Suc i) xs"
proof -
  assume i: "i < length xs"
  have other: "map fst (filter (\<lambda>(x, k). k \<noteq> i) (zip ys [m..<m + length ys])) = ys"
    if "i < m \<or> m + length ys \<le> i" for m and ys :: "'a list"
    using that by (subst filter_True) (auto simp: set_zip map_fst_zip)
  have xs: "xs = take i xs @ xs ! i # drop (Suc i) xs"
    using i by (rule id_take_nth_drop)
  have upt: "[0..<length xs] = [0..<i] @ i # [Suc i..<length xs]"
    using i by (metis less_imp_le_nat upt_add_eq_append upt_conv_Cons le_add_diff_inverse zero_le)
  have left: "map fst (filter (\<lambda>(x, k). k \<noteq> i) (zip (take i xs) [0..<i])) = take i xs"
    using other [of 0 "take i xs"] i by (simp add: min_def)
  have right: "map fst (filter (\<lambda>(x, k). k \<noteq> i) (zip (drop (Suc i) xs) [Suc i..<length xs]))
      = drop (Suc i) xs"
    using other [of "Suc i" "drop (Suc i) xs"] i
    by (simp only: length_drop le_add_diff_inverse Suc_leI lessI simp_thms)
  have "zip xs [0..<length xs] = zip (take i xs) [0..<i]
      @ (xs ! i, i) # zip (drop (Suc i) xs) [Suc i..<length xs]"
    using i by (subst xs, subst upt) (simp del: append_take_drop_id)
  then show ?thesis
    unfolding without_index_def using left right by simp
qed

lemma length_without_index: "i < length xs \<Longrightarrow> length (without_index i xs) = length xs - 1"
  by (simp add: without_index_append)

lemma insert_then_remove:
  assumes "field_array_law A" "i < length gs"
  shows "fa_remove A i (fa_insert A (i + 1) g gs) = gs[i := g]"
  using assms by (simp add: field_array_law_def upd_conv_take_nth_drop min_def take_Suc_conv_app_nth)

text \<open>The same buttons as operations on the list of groups.\<close>

fun with_new_rule :: "group \<Rightarrow> group" where
  "with_new_rule (Rule c) = Clause ''OR'' [c, RULE]"
| "with_new_rule (Clause opr cs) = Clause opr (cs @ [RULE])"

fun without_rule :: "nat \<Rightarrow> group \<Rightarrow> group option" where
  "without_rule j (Rule c) = None"
| "without_rule j (Clause opr cs) =
     Some (let ds = take j cs @ drop (Suc j) cs
           in if length ds > 1 then Clause ''OR'' ds else Rule (hd ds))"

definition replaced :: "nat \<Rightarrow> group option \<Rightarrow> group list \<Rightarrow> group list" where
  "replaced i r gs = take i gs @ (case r of None \<Rightarrow> [] | Some g \<Rightarrow> [g]) @ drop (Suc i) gs"

lemma replaced_Some: "i < length gs \<Longrightarrow> replaced i (Some g) gs = gs[i := g]"
  by (simp add: replaced_def upd_conv_take_nth_drop)

lemma on_groups_cong: "f (groups s) = h (groups s) \<Longrightarrow> on_groups f s = on_groups h s"
  by (simp add: on_groups_def)

lemma replace_group:
  assumes "field_array_law A" "i < length (groups s)" "ed_removeIndex s = None"
  shows "removal_effect A ((on_groups (fa_insert A (i + 1) g) s)\<lparr>ed_removeIndex := Some i\<rparr>)
           = on_groups (replaced i (Some g)) s"
  using assms insert_then_remove [of A i "groups s" g]
  by (cases s) (simp add: removal_effect_def on_groups_def replaced_Some)

lemma add_rule_replaces:
  assumes "field_array_law A" "i < length (groups s)" "ed_removeIndex s = None"
  shows "removal_effect A (addRule A i (groups s ! i) s)
           = on_groups (replaced i (Some (with_new_rule (groups s ! i)))) s"
proof -
  have "addField s (groups s ! i) i = with_new_rule (groups s ! i)"
    by (cases "groups s ! i") (simp_all add: addField_def updateRule_def updateGroup_def CLAUSE_def)
  then show ?thesis
    by (simp only: addRule_def Let_def replace_group [OF assms])
qed

lemma remove_rule_replaces:
  assumes "field_array_law A" "i < length (groups s)" "ed_removeIndex s = None"
    and shown: "\<And>opr cs. groups s ! i = Clause opr cs \<Longrightarrow> j < length cs"
  shows "removal_effect A (removeRule A (groups s ! i) i j s)
           = on_groups (replaced i (without_rule j (groups s ! i))) s"
proof (cases "groups s ! i")
  case (Rule c)
  then show ?thesis
    using assms by (simp add: removeRule_def removal_effect_def on_groups_def replaced_def
        field_array_law_def)
next
  case (Clause opr cs)
  then have "without_rule j (groups s ! i) = Some (removeClause s i j)"
    using shown [OF Clause] by (simp add: removeClause_def CLAUSE_def without_index_append Let_def)
  then show ?thesis
    by (simp only: Clause removeRule_def Let_def group.case replace_group [OF assms(1-3)])
qed

subsection \<open>What the buttons do to the segmentation\<close>

datatype edit = AddGroup | AddRule nat | RemoveRule nat nat | Toggle "nat option"

fun offered :: "edit \<Rightarrow> segmentation \<Rightarrow> bool" where
  "offered AddGroup sg \<longleftrightarrow> True"
| "offered (AddRule i) sg \<longleftrightarrow> i < length (sg_clauses sg)"
| "offered (RemoveRule i j) sg \<longleftrightarrow> i < length (sg_clauses sg) \<and>
     (case sg_clauses sg ! i of Rule c \<Rightarrow> length (sg_clauses sg) > 1 | Clause _ cs \<Rightarrow> j < length cs)"
| "offered (Toggle None) sg \<longleftrightarrow> True"
| "offered (Toggle (Some i)) sg \<longleftrightarrow> i < length (sg_clauses sg) \<and>
     (case sg_clauses sg ! i of Rule c \<Rightarrow> False | Clause _ cs \<Rightarrow> True)"

fun toggled_clause :: "group \<Rightarrow> group" where
  "toggled_clause (Rule c) = Rule c"
| "toggled_clause (Clause opr cs) = Clause (toggled opr) cs"

fun edited :: "edit \<Rightarrow> segmentation \<Rightarrow> segmentation" where
  "edited AddGroup sg = sg\<lparr>sg_clauses := sg_clauses sg @ [Rule RULE]\<rparr>"
| "edited (AddRule i) sg =
     sg\<lparr>sg_clauses := replaced i (Some (with_new_rule (sg_clauses sg ! i))) (sg_clauses sg)\<rparr>"
| "edited (RemoveRule i j) sg =
     sg\<lparr>sg_clauses := replaced i (without_rule j (sg_clauses sg ! i)) (sg_clauses sg)\<rparr>"
| "edited (Toggle None) sg = sg\<lparr>sg_operator := toggled (sg_operator sg)\<rparr>"
| "edited (Toggle (Some i)) sg =
     sg\<lparr>sg_clauses := replaced i (Some (toggled_clause (sg_clauses sg ! i))) (sg_clauses sg)\<rparr>"

lemma click_is_edit:
  assumes A: "field_array_law A" and s: "ed_removeIndex s = None" and "click A s t"
  shows "\<exists>e. offered e (ed_form s) \<and> t = s\<lparr>ed_form := edited e (ed_form s)\<rparr>"
  using \<open>click A s t\<close>
proof (cases rule: click.cases)
  case add_group
  then show ?thesis
    using A s by (intro exI [of _ AddGroup])
      (simp add: addGroup_def removal_effect_def on_groups_def field_array_law_def)
next
  case (add_rule i)
  then show ?thesis
    using add_rule_replaces [OF A _ s] by (intro exI [of _ "AddRule i"]) (simp add: on_groups_def)
next
  case (remove_group i c j)
  then show ?thesis
    using remove_rule_replaces [OF A _ s, of i j]
    by (intro exI [of _ "RemoveRule i j"]) (simp add: on_groups_def hasGroup_def)
next
  case (remove_rule i opr cs j)
  then show ?thesis
    using remove_rule_replaces [OF A _ s, of i j]
    by (intro exI [of _ "RemoveRule i j"]) (simp add: on_groups_def)
next
  case change_operator
  then show ?thesis
    by (intro exI [of _ "Toggle None"]) (simp add: changeOperatorValue_def)
next
  case (change_clause_operator i opr cs)
  then show ?thesis
    by (intro exI [of _ "Toggle (Some i)"])
      (simp add: changeOperatorValue_def on_groups_def replaced_Some)
qed

lemma edit_is_click:
  assumes A: "field_array_law A" and s: "ed_removeIndex s = None" and e: "offered e (ed_form s)"
  shows "click A s (s\<lparr>ed_form := edited e (ed_form s)\<rparr>)"
proof (cases "(e, ed_form s)" rule: edited.cases)
  case (1 sg)
  then show ?thesis
    using click.add_group [of A s] A s
    by (simp add: addGroup_def removal_effect_def on_groups_def field_array_law_def)
next
  case (2 i sg)
  then show ?thesis
    using click.add_rule [of i s A] add_rule_replaces [OF A _ s, of i] e by (simp add: on_groups_def)
next
  case (3 i j sg)
  then show ?thesis
    using click.remove_group [of i s _ A j] click.remove_rule [of i s _ _ j A]
      remove_rule_replaces [OF A _ s, of i j] e
    by (cases "sg_clauses sg ! i") (simp_all add: on_groups_def hasGroup_def)
next
  case (4 sg)
  then show ?thesis
    using click.change_operator [of A s] by (simp add: changeOperatorValue_def)
next
  case (5 i sg)
  then show ?thesis
    using click.change_clause_operator [of i s _ _ A] e
    by (cases "sg_clauses sg ! i") (simp_all add: changeOperatorValue_def on_groups_def replaced_Some)
qed

subsection \<open>The form is always a segmentation\<close>

text \<open>There is a group, a clause has at least two rules, and the operators are the two the
  server knows.\<close>

definition group_ok :: "group \<Rightarrow> bool" where
  "group_ok g \<longleftrightarrow>
     (case g of Rule _ \<Rightarrow> True | Clause opr cs \<Rightarrow> opr \<in> {''AND'', ''OR''} \<and> length cs > 1)"

definition segmentation_ok :: "segmentation \<Rightarrow> bool" where
  "segmentation_ok sg \<longleftrightarrow> sg_clauses sg \<noteq> [] \<and> list_all group_ok (sg_clauses sg)
     \<and> sg_operator sg \<in> {''AND'', ''OR''}"

lemma group_ok_simps [simp]:
  "group_ok (Rule c)"
  "group_ok (Clause opr cs) \<longleftrightarrow> opr \<in> {''AND'', ''OR''} \<and> length cs > 1"
  by (simp_all add: group_ok_def)

lemma group_ok_edits:
  assumes "group_ok g"
  shows "group_ok (with_new_rule g)" "group_ok (toggled_clause g)"
    "without_rule j g = Some h \<Longrightarrow> group_ok h"
  using assms by (cases g; auto simp: toggled_def Let_def split: if_splits)+

lemma list_all_replaced:
  assumes "list_all P gs" "\<And>h. r = Some h \<Longrightarrow> P h"
  shows "list_all P (replaced i r gs)"
  using assms by (auto simp: replaced_def list_all_iff dest: in_set_takeD in_set_dropD
      split: option.split)

lemma segmentation_ok_edited:
  assumes ok: "segmentation_ok sg" and e: "offered e sg"
  shows "segmentation_ok (edited e sg)"
proof -
  have nth: "group_ok (sg_clauses sg ! i)" if "i < length (sg_clauses sg)" for i
    using ok that by (simp add: segmentation_ok_def list_all_length)
  have some: "replaced i (Some g) gs \<noteq> []" for i g and gs :: "group list"
    by (simp add: replaced_def)
  show ?thesis
  proof (cases "(e, sg)" rule: edited.cases)
    case (1 sg)
    then show ?thesis using ok by (simp add: segmentation_ok_def)
  next
    case (2 i sg)
    then have "list_all group_ok (sg_clauses (edited e sg))"
      using ok e nth by (auto simp: segmentation_ok_def intro!: list_all_replaced group_ok_edits(1))
    then show ?thesis
      using 2 ok some by (simp add: segmentation_ok_def)
  next
    case (3 i j sg)
    have "replaced i (without_rule j (sg_clauses sg ! i)) (sg_clauses sg) \<noteq> []"
      using 3 e by (cases "sg_clauses sg ! i") (auto simp: replaced_def)
    moreover have "list_all group_ok (sg_clauses (edited e sg))"
      using 3 ok e nth by (auto simp: segmentation_ok_def intro!: list_all_replaced
          dest: group_ok_edits(3) [rotated])
    ultimately show ?thesis
      using 3 ok by (simp add: segmentation_ok_def)
  next
    case (4 sg)
    then show ?thesis using ok by (simp add: segmentation_ok_def toggled_def)
  next
    case (5 i sg)
    then have "list_all group_ok (sg_clauses (edited e sg))"
      using ok e nth by (auto simp: segmentation_ok_def intro!: list_all_replaced group_ok_edits(2))
    then show ?thesis
      using 5 ok some by (simp add: segmentation_ok_def)
  qed
qed

lemma clicks_ok:
  assumes "field_array_law A" "clicks A s t" "ed_removeIndex s = None" "segmentation_ok (ed_form s)"
  shows "ed_removeIndex t = None \<and> segmentation_ok (ed_form t)"
  using assms(2-4)
proof (induction rule: clicks.induct)
  case (opened s)
  then show ?case by simp
next
  case (clicked s t u)
  then show ?case
    using click_is_edit [OF assms(1), of t u] segmentation_ok_edited by fastforce
qed

subsection \<open>Where the lines are drawn\<close>

text \<open>Half the height of a group is where the line meets it.\<close>

fun group_height :: "group \<Rightarrow> rat" where
  "group_height (Rule c) = RULE_SIZE"
| "group_height (Clause opr cs) = RULE_SIZE * of_nat (length cs)"

lemma line_loop_tail:
  assumes "0 < index" "n = index + length fs"
  shows "line_loop n index fs (h, t) =
    (h + (\<Sum>g\<leftarrow>fs. group_height g)
       - (if fs = [] then 0 else group_height (last fs) / 2 - RULE_SIZE / 2), t)"
  using assms
proof (induction fs arbitrary: index h)
  case Nil
  then show ?case by simp
next
  case (Cons f fs)
  show ?case
  proof (cases "fs = []")
    case True
    then show ?thesis
      using Cons.prems
      by (cases f) (simp_all add: line_step_def Let_def RULE_SIZE_def getGroupClauseHeight_def field_simps)
  next
    case False
    then show ?thesis
      using Cons.prems Cons.IH [of "Suc index"]
      by (cases f) (simp_all add: line_step_def Let_def Cons.IH algebra_simps)
  qed
qed

lemma line_of_groups:
  assumes "gs = first # rest" "rest \<noteq> []"
  shows "vl_height (getGroupVerticalLine gs)
           = group_height first / 2 + group_height (last rest) / 2
             + (\<Sum>g\<leftarrow>butlast rest. group_height g) + of_nat (length rest) * BUTTON_RULE"
proof -
  obtain mid l where rest: "rest = mid @ [l]"
    using assms(2) by (cases rest rule: rev_cases) auto
  have step: "line_step n 0 first (0, 0) = (group_height first / 2 - RULE_SIZE / 2,
      snd (line_step n 0 first (0, 0)))" for n
    by (cases first) (simp_all add: line_step_def RULE_SIZE_def getGroupClauseHeight_def field_simps)
  show ?thesis
    unfolding assms(1) getGroupVerticalLine_def Let_def line_loop.simps
    by (subst step) (simp add: line_loop_tail rest algebra_simps)
qed

text \<open>
  What a segmentation means: whether a user, given by which rules he satisfies, is in the
  circle.
\<close>

definition in_group :: "(rule_content \<Rightarrow> bool) \<Rightarrow> group \<Rightarrow> bool" where
  "in_group sat g =
     (case g of Rule c \<Rightarrow> sat c
      | Clause opr cs \<Rightarrow> if opr = ''AND'' then list_all sat cs else list_ex sat cs)"

text \<open>
  Removing a rule of a clause with at least three rules rebuilds the clause from the
  constant, whose operator is OR: a clause that asked for every rule is then satisfied by
  any of those that are left.
\<close>

theorem removed_rule_turns_and_into_or:
  assumes "field_array_law A" "ed_removeIndex s = None" "i < length (groups s)"
    and "groups s ! i = Clause ''AND'' cs" "j < length cs" "2 < length cs"
  shows "in_group sat (groups (removal_effect A (removeRule A (groups s ! i) i j s)) ! i)
           \<longleftrightarrow> list_ex sat (take j cs @ drop (Suc j) cs)"
proof -
  have "length (take j cs @ drop (Suc j) cs) > 1"
    using assms by simp
  then have "without_rule j (groups s ! i) = Some (Clause ''OR'' (take j cs @ drop (Suc j) cs))"
    by (simp only: assms without_rule.simps Let_def if_True)
  then have "removal_effect A (removeRule A (groups s ! i) i j s)
      = on_groups (replaced i (Some (Clause ''OR'' (take j cs @ drop (Suc j) cs)))) s"
    using remove_rule_replaces [of A i s j] assms by simp
  then show ?thesis
    using assms by (simp add: on_groups_def replaced_Some in_group_def)
qed

text \<open>An instance of the parameter: arrays.\<close>

definition plain_array :: field_array where
  "plain_array = \<lparr>fa_append = (\<lambda>g gs. gs @ [g]),
     fa_insert = (\<lambda>i g gs. take i gs @ g # drop i gs),
     fa_remove = (\<lambda>i gs. take i gs @ drop (Suc i) gs)\<rparr>"

lemma plain_array_law: "field_array_law plain_array"
  by (simp add: field_array_law_def plain_array_def)

definition three_rules :: editor where
  "three_rules = \<lparr>ed_form = \<lparr>sg_operator = ''OR'', sg_clauses =
     [Clause ''AND'' (map (\<lambda>k. \<lparr>ct_key = k, ct_value = [''1''], ct_condition = ''EQUAL''\<rparr>)
        [''age'', ''city'', ''plan''])]\<rparr>, ed_removeIndex = None\<rparr>"

lemma removed_rule_turns_and_into_or_witness:
  "in_group (\<lambda>c. ct_key c = ''city'')
     (groups (removal_effect plain_array
        (removeRule plain_array (groups three_rules ! 0) 0 2 three_rules)) ! 0)"
  using removed_rule_turns_and_into_or [OF plain_array_law, of three_rules 0
      "map (\<lambda>k. \<lparr>ct_key = k, ct_value = [''1''], ct_condition = ''EQUAL''\<rparr>)
        [''age'', ''city'', ''plan'']" 2 "\<lambda>c. ct_key c = ''city''"]
  by (simp add: three_rules_def)

text \<open> C34: The two-step edits of the segment editor (insert behind, remove in the effect of
  the next rendering) amount to edits in place: what a click does is exactly one of the
  offered edits of the list of groups, and every offered edit is a click. \<close>

theorem segment_clicks_are_edits:
  assumes "field_array_law A" "ed_removeIndex s = None"
  shows "click A s t \<longleftrightarrow> (\<exists>e. offered e (ed_form s) \<and> t = s\<lparr>ed_form := edited e (ed_form s)\<rparr>)"
  using click_is_edit [OF assms] edit_is_click [OF assms] by blast

lemma segment_clicks_are_edits_witness:
  "click plain_array three_rules
     (three_rules\<lparr>ed_form := edited (AddRule 0) (ed_form three_rules)\<rparr>)"
proof -
  have "ed_removeIndex three_rules = None" "offered (AddRule 0) (ed_form three_rules)"
    by (simp_all add: three_rules_def)
  then show ?thesis
    using segment_clicks_are_edits [OF plain_array_law] by blast
qed

text \<open> C35: Whatever is clicked, in any order, the form of the segment editor stays a
  segmentation the server understands: there is at least one group, every clause has two
  rules or more, every operator is AND or OR, and no removal is left pending. \<close>

theorem segment_editor_invariant:
  assumes "field_array_law A" "clicks A s t" "ed_removeIndex s = None" "segmentation_ok (ed_form s)"
  shows "ed_removeIndex t = None \<and> segmentation_ok (ed_form t)"
  using assms by (rule clicks_ok)

definition new_form :: editor where
  "new_form = \<lparr>ed_form = the (defaultValues False None), ed_removeIndex = None\<rparr>"

lemma segment_editor_invariant_witness:
  "clicks plain_array new_form (changeOperatorValue None
     (removal_effect plain_array (addRule plain_array 0 (groups new_form ! 0) new_form)))
   \<and> segmentation_ok (ed_form (changeOperatorValue None
     (removal_effect plain_array (addRule plain_array 0 (groups new_form ! 0) new_form))))"
proof -
  have new: "ed_removeIndex new_form = None" "segmentation_ok (ed_form new_form)"
      "0 < length (groups new_form)"
    by (simp_all add: new_form_def defaultValues_def segmentation_ok_def)
  then have "clicks plain_array new_form (changeOperatorValue None
     (removal_effect plain_array (addRule plain_array 0 (groups new_form ! 0) new_form)))"
    by (blast intro: clicks.intros click.intros)
  then show ?thesis
    using segment_editor_invariant [OF plain_array_law] new by blast
qed

end
