(* ===== verification/Queries.thy ===== *)
theory Queries
  imports Prelude
begin

text \<open>
  Query strings of the front end and the tabs it keeps in them: \<open>core/utils/path.ts\<close> and
  \<open>core/utils/query.ts\<close>, over the standard \<open>URLSearchParams\<close>.

  A text stands for its UTF-8 bytes, one character each; comparing, splitting at an ASCII
  character and looking for a part of a text are the same on both.
\<close>

subsection \<open>The text of a number\<close>

fun decimal :: "nat \<Rightarrow> string" where
  "decimal n = (if n < 10 then [char_of (48 + n)] else decimal (n div 10) @ [char_of (48 + n mod 10)])"

declare decimal.simps [simp del]

lemma decimal_value:
  "foldl (\<lambda>acc c. 10 * acc + (of_char c - 48)) 0 (decimal n) = (n :: nat)"
proof (induction n rule: decimal.induct)
  case (1 n)
  have "of_char (char_of (48 + k) :: char) = (48 + k :: nat)" if "k < 10" for k
    using that by (simp add: of_char_of)
  then show ?case
    using 1 by (subst decimal.simps) auto
qed

lemma decimal_inject [simp]: "decimal m = decimal n \<longleftrightarrow> m = n"
  using decimal_value [of m] decimal_value [of n] by metis

subsection \<open>The standard form encoding\<close>

definition unreserved :: "char \<Rightarrow> bool" where
  "unreserved c = (let n = of_char c :: nat in
     (48 \<le> n \<and> n \<le> 57) \<or> (65 \<le> n \<and> n \<le> 90) \<or> (97 \<le> n \<and> n \<le> 122)
     \<or> n = 42 \<or> n = 45 \<or> n = 46 \<or> n = 95)"

definition upper_hex :: "nat \<Rightarrow> char" where
  "upper_hex n = char_of (if n < 10 then 48 + n else 55 + n)"

definition hex_of :: "char \<Rightarrow> nat option" where
  "hex_of c = (let n = of_char c :: nat in
     if 48 \<le> n \<and> n \<le> 57 then Some (n - 48) else if 65 \<le> n \<and> n \<le> 70 then Some (n - 55)
     else if 97 \<le> n \<and> n \<le> 102 then Some (n - 87) else None)"

definition encode_byte :: "char \<Rightarrow> string" where
  "encode_byte c =
     (if unreserved c then [c] else if c = CHR '' '' then ''+''
      else [CHR ''%'', upper_hex (of_char c div 16), upper_hex (of_char c mod 16)])"

definition form_encode :: "string \<Rightarrow> string" where
  "form_encode s = concat (map encode_byte s)"

fun form_decode :: "string \<Rightarrow> string" where
  "form_decode [] = []"
| "form_decode (c # cs) =
     (if c = CHR ''+'' then CHR '' '' # form_decode cs
      else if c = CHR ''%'' then
        (case cs of
           a # b # ds \<Rightarrow>
             (case (hex_of a, hex_of b) of
                (Some x, Some y) \<Rightarrow> char_of (16 * x + y) # form_decode ds
              | _ \<Rightarrow> c # form_decode cs)
         | _ \<Rightarrow> c # form_decode cs)
      else c # form_decode cs)"

type_synonym params = "(string \<times> string) list"

definition serialize :: "params \<Rightarrow> string" where
  "serialize ps = join_with ''&'' (map (\<lambda>(n, v). form_encode n @ ''='' @ form_encode v) ps)"

definition parse_pair :: "string \<Rightarrow> string \<times> string" where
  "parse_pair s = (form_decode (takeWhile (\<lambda>c. c \<noteq> CHR ''='') s),
     form_decode (drop 1 (dropWhile (\<lambda>c. c \<noteq> CHR ''='') s)))"

definition parse_query :: "string \<Rightarrow> params" where
  "parse_query s =
     (let t = (case s of [] \<Rightarrow> [] | c # cs \<Rightarrow> if c = CHR ''?'' then cs else s)
      in map parse_pair (filter (\<lambda>p. p \<noteq> []) (split_char (CHR ''&'') t)))"

definition getAll :: "string \<Rightarrow> params \<Rightarrow> string list" where
  "getAll n ps = map snd (filter (\<lambda>p. fst p = n) ps)"

definition get_param :: "string \<Rightarrow> params \<Rightarrow> string option" where
  "get_param n ps = map_of ps n"

subsection \<open>Reading back what was written\<close>

lemma hex_of_upper_hex: "n < 16 \<Longrightarrow> hex_of (upper_hex n) = Some n"
  by (auto simp: hex_of_def upper_hex_def Let_def of_char_of)

lemma upper_hex_set: "n < 16 \<Longrightarrow> unreserved (upper_hex n)"
  by (auto simp: unreserved_def upper_hex_def Let_def of_char_of)

lemma form_decode_byte: "form_decode (encode_byte c @ cs) = c # form_decode cs"
proof (cases "unreserved c \<or> c = CHR '' ''")
  case True
  then show ?thesis
    by (auto simp: encode_byte_def unreserved_def)
next
  case False
  have "of_char c div 16 < (16::nat)" "of_char c mod 16 < (16::nat)"
    using nat_of_char_less_256 [of c] by (simp_all add: less_mult_imp_div_less)
  then show ?thesis
    using False by (simp add: encode_byte_def hex_of_upper_hex)
qed

lemma form_decode_encode: "form_decode (form_encode s @ cs) = s @ form_decode cs"
  by (induction s) (simp_all add: form_encode_def form_decode_byte)

lemma encoded_chars: "c \<in> set (form_encode s) \<Longrightarrow> unreserved c \<or> c = CHR ''+'' \<or> c = CHR ''%''"
  by (auto simp: form_encode_def encode_byte_def less_mult_imp_div_less
      intro!: upper_hex_set split: if_splits)

lemma encoded_free:
  "c \<in> {CHR ''='', CHR ''&'', CHR ''/'', CHR ''?'', CHR ''#''} \<Longrightarrow> c \<notin> set (form_encode s)"
  using encoded_chars [of c s] by (auto simp: unreserved_def)

lemma parse_pair_encoded: "parse_pair (form_encode n @ ''='' @ form_encode v) = (n, v)"
proof -
  have "CHR ''='' \<notin> set (form_encode n)"
    by (simp add: encoded_free)
  then have "takeWhile (\<lambda>c. c \<noteq> CHR ''='') (form_encode n @ ''='' @ form_encode v) = form_encode n"
      "dropWhile (\<lambda>c. c \<noteq> CHR ''='') (form_encode n @ ''='' @ form_encode v) = ''='' @ form_encode v"
    by (auto simp: takeWhile_append dropWhile_append)
  then show ?thesis
    using form_decode_encode [of n "[]"] form_decode_encode [of v "[]"]
    by (simp add: parse_pair_def)
qed

lemma split_char_append: "c \<notin> set s \<Longrightarrow> split_char c (s @ c # t) = s # split_char c t"
  by (induction s) auto

lemma split_char_join:
  "\<lbrakk>xs \<noteq> []; list_all (\<lambda>x. c \<notin> set x) xs\<rbrakk> \<Longrightarrow> split_char c (join_with [c] xs) = xs"
  by (induction "[c]" xs rule: join_with.induct) (simp_all add: split_char_single split_char_append)

lemma serialize_head:
  assumes "ps \<noteq> []"
  shows "serialize ps \<noteq> []" "hd (serialize ps) \<noteq> CHR ''?''"
proof -
  obtain n v rest where ps: "ps = (n, v) # rest"
    using assms by (cases ps) auto
  have "CHR ''?'' \<notin> set (form_encode n)"
    by (simp add: encoded_free)
  then have "hd (form_encode n @ ''='' @ t) \<noteq> CHR ''?''" for t
    by (cases "form_encode n") auto
  then show "serialize ps \<noteq> []" "hd (serialize ps) \<noteq> CHR ''?''"
    by (cases rest; simp add: serialize_def ps)+
qed

lemma parse_serialize: "parse_query (serialize ps) = ps"
proof (cases "ps = []")
  case True
  then show ?thesis by (simp add: serialize_def parse_query_def)
next
  case False
  let ?es = "map (\<lambda>(n, v). form_encode n @ ''='' @ form_encode v) ps"
  have "list_all (\<lambda>x. CHR ''&'' \<notin> set x) ?es"
    by (auto simp: list_all_iff encoded_free)
  then have "split_char (CHR ''&'') (serialize ps) = ?es"
    using False by (simp add: serialize_def split_char_join)
  moreover have "parse_query (serialize ps)
      = map parse_pair (filter (\<lambda>p. p \<noteq> []) (split_char (CHR ''&'') (serialize ps)))"
    using serialize_head [OF False]
    by (cases "serialize ps") (simp_all only: parse_query_def list.case list.sel Let_def if_False)
  moreover have "map parse_pair (filter (\<lambda>p. p \<noteq> []) ?es) = ps"
    by (induction ps) (auto simp: parse_pair_encoded [simplified])
  ultimately show ?thesis
    by simp
qed

subsection \<open>The tabs of a page\<close>

text \<open>
  The tabs that are open are the values of one name in the query of the location; the
  functions below are what is pushed to the history, given the query the location has.
\<close>

definition getQueryStrings :: "string \<Rightarrow> params" where
  "getQueryStrings search = parse_query search"

definition addParam :: "string \<Rightarrow> string \<Rightarrow> string \<Rightarrow> string" where
  "addParam paramName param search = serialize (getQueryStrings search @ [(paramName, param)])"

text \<open>\<open>includes(q, param)\<close> on texts: whether the one contains the other.\<close>

fun contains_text :: "string \<Rightarrow> string \<Rightarrow> bool" where
  "contains_text [] p \<longleftrightarrow> p = []"
| "contains_text (c # cs) p \<longleftrightarrow> startsWith (c # cs) p \<or> contains_text cs p"

definition delParam :: "string \<Rightarrow> string \<Rightarrow> string \<Rightarrow> string" where
  "delParam paramName param search =
     (let queries = getAll paramName (getQueryStrings search);
          remaineds = filter (\<lambda>q. \<not> contains_text q param) queries
      in serialize (map (\<lambda>i. (paramName, i)) remaineds))"

definition updateParam :: "string \<Rightarrow> string \<Rightarrow> string \<Rightarrow> string \<Rightarrow> string" where
  "updateParam paramName oldParam newParam search =
     serialize (map (\<lambda>param. (paramName, if contains_text param oldParam then newParam else param))
       (getAll paramName (getQueryStrings search)))"

definition NEW_TAB :: string where "NEW_TAB = ''Untitled''"

definition updateUntitledParam :: "string \<Rightarrow> string \<Rightarrow> string \<Rightarrow> string" where
  "updateUntitledParam paramName param search =
     ''?'' @ serialize (map (\<lambda>p. (paramName, if p = NEW_TAB then param else p))
       (getAll paramName (getQueryStrings search)))"

definition getAllParams :: "string \<Rightarrow> string \<Rightarrow> string list" where
  "getAllParams paramName search = rev (getAll paramName (getQueryStrings search))"

definition isParamExists :: "string \<Rightarrow> string \<Rightarrow> string \<Rightarrow> bool" where
  "isParamExists paramName param search \<longleftrightarrow> param \<in> set (getAllParams paramName search)"

text \<open>\<open>buildParams\<close>: a value is one text or an array of texts; empty texts are left out.\<close>

datatype given_value = OneText string | Texts "string list"

fun value_params :: "string \<times> given_value \<Rightarrow> params" where
  "value_params (key, OneText v) = (if v = [] then [] else [(key, v)])"
| "value_params (key, Texts vs) = map (\<lambda>v. (key, v)) (filter (\<lambda>v. v \<noteq> []) vs)"

definition buildParams :: "(string \<times> given_value) list \<Rightarrow> params" where
  "buildParams data = concat (map value_params data)"

lemma getAll_single [simp]: "getAll n (map (\<lambda>i. (n, f i)) xs) = map f xs"
  by (induction xs) (simp_all add: getAll_def)

lemma parse_query_question: "parse_query (CHR ''?'' # serialize ps) = parse_query (serialize ps)"
proof -
  have "parse_query s = parse_query (CHR ''?'' # s)" if "s = [] \<or> hd s \<noteq> CHR ''?''" for s
    using that by (cases s) (simp_all add: parse_query_def)
  moreover have "serialize ps = [] \<or> hd (serialize ps) \<noteq> CHR ''?''"
    using serialize_head by (cases "ps = []") (simp_all add: serialize_def)
  ultimately show ?thesis by simp
qed

text \<open>The open tabs, latest first, as a list; what the functions do to it.\<close>

theorem tabs_are_a_list:
  "getAllParams n (addParam n t search) = t # getAllParams n search"
  "getAllParams n (delParam n t search) = filter (\<lambda>q. \<not> contains_text q t) (getAllParams n search)"
  "getAllParams n (updateParam n t u search)
     = map (\<lambda>q. if contains_text q t then u else q) (getAllParams n search)"
  "getAllParams n (updateUntitledParam n t search)
     = map (\<lambda>q. if q = NEW_TAB then t else q) (getAllParams n search)"
  by (simp_all add: getAllParams_def getQueryStrings_def addParam_def delParam_def updateParam_def
      updateUntitledParam_def parse_serialize parse_query_question rev_map rev_filter Let_def,
      simp_all add: getAll_def)

text \<open>
  The match by parts serves the suffixes of a tab (\<open>id~mode\<close>); the tabs of users are named by
  their e-mail addresses, and one address may end with another: closing the tab of one user
  closes the tab of the other.
\<close>

theorem closing_one_user_closes_another:
  "getAllParams ''user'' (addParam ''user'' ''ana@zup.com'' (addParam ''user'' ''mariana@zup.com'' []))
     = [''ana@zup.com'', ''mariana@zup.com'']"
  "getAllParams ''user'' (delParam ''user'' ''ana@zup.com''
     (addParam ''user'' ''ana@zup.com'' (addParam ''user'' ''mariana@zup.com'' []))) = []"
proof -
  show opened: "getAllParams ''user'' (addParam ''user'' ''ana@zup.com''
      (addParam ''user'' ''mariana@zup.com'' [])) = [''ana@zup.com'', ''mariana@zup.com'']"
    unfolding tabs_are_a_list by (simp add: getAllParams_def getQueryStrings_def parse_query_def getAll_def)
  have "contains_text ''ana@zup.com'' ''ana@zup.com''" "contains_text ''mariana@zup.com'' ''ana@zup.com''"
    by code_simp+
  then show "getAllParams ''user'' (delParam ''user'' ''ana@zup.com''
      (addParam ''user'' ''ana@zup.com'' (addParam ''user'' ''mariana@zup.com'' []))) = []"
    unfolding tabs_are_a_list(2) opened by simp
qed

end
