(* ===== verification/Sessions.thy ===== *)
theory Sessions
  imports Config Queries
begin

text \<open>
  The session of a user of the front end: \<open>core/utils/auth.ts\<close> with the stores of
  \<open>circle.ts\<close>, \<open>profile.ts\<close> and \<open>workspace.ts\<close>, the requests of \<open>core/providers/base\<close> with
  the renewal of the token, \<open>core/providers/auth.ts\<close> and the login of \<open>modules/Auth/Login\<close>.

  The state is what the page can change: the local storage, the cookie of the circle, the
  location, the requests sent, and how many requests of a logout are under way. What the
  browser and the servers give is the record \<open>page\<close>, a parameter: the environment of the
  page, the answer to the n-th request, base64 and JSON.
\<close>

subsection \<open>Values that come from JSON\<close>

text \<open>A number is kept as the text JavaScript prints for it.\<close>

datatype json_value =
    Undefined | Null | Bool bool | Num string | Str string
  | Arr "json_value list" | Obj "(string \<times> json_value) list"

fun truthy_value :: "json_value \<Rightarrow> bool" where
  "truthy_value Undefined = False"
| "truthy_value Null = False"
| "truthy_value (Bool b) = b"
| "truthy_value (Num t) = (t \<noteq> ''0'')"
| "truthy_value (Str s) = (s \<noteq> [])"
| "truthy_value (Arr xs) = True"
| "truthy_value (Obj ps) = True"

text \<open>Conversion to a string, as \<open>setItem\<close> and a template literal do it.\<close>

fun to_text :: "json_value \<Rightarrow> string" where
  "to_text Undefined = ''undefined''"
| "to_text Null = ''null''"
| "to_text (Bool b) = (if b then ''true'' else ''false'')"
| "to_text (Num t) = t"
| "to_text (Str s) = s"
| "to_text (Arr xs) =
     join_with '','' (map (\<lambda>x. if x = Undefined \<or> x = Null then [] else to_text x) xs)"
| "to_text (Obj ps) = ''[object Object]''"

text \<open>\<open>v[k]\<close>: \<open>None\<close> is the exception for \<open>undefined\<close> and \<open>null\<close>.\<close>

fun member_of :: "string \<Rightarrow> json_value \<Rightarrow> json_value option" where
  "member_of k Undefined = None"
| "member_of k Null = None"
| "member_of k (Obj ps) = Some (case map_of ps k of None \<Rightarrow> Undefined | Some v \<Rightarrow> v)"
| "member_of k _ = Some Undefined"

subsection \<open>The page and its state\<close>

datatype sent_body = NoBody | Text string | FormData "(string \<times> string) list"

record request =
  rq_method :: string
  rq_url :: string
  rq_headers :: object
  rq_body :: sent_body

record response =
  rs_status :: nat
  rs_statusText :: string
  rs_json :: "json_value option"

definition rs_ok :: "response \<Rightarrow> bool" where
  "rs_ok r \<longleftrightarrow> 200 \<le> rs_status r \<and> rs_status r \<le> 299"

record page =
  CHARLESCD_ENVIRONMENT :: "string \<Rightarrow> string option"
  answer :: "nat \<Rightarrow> request \<Rightarrow> response option"
  btoa :: "string \<Rightarrow> string option"
  atob :: "string \<Rightarrow> string option"
  json_text :: "json_value \<Rightarrow> string"
  json_read :: "string \<Rightarrow> json_value option"
  encodeURIComponent :: "string \<Rightarrow> string"
  cookie_value :: "json_value \<Rightarrow> string option"

record browser =
  localStorage :: "string \<Rightarrow> string option"
  circle_cookie :: "string option"
  location :: string
  requests :: "request list"
  logouts :: nat

definition config :: "page \<Rightarrow> string \<Rightarrow> string" where
  "config p k = in_template (CHARLESCD_ENVIRONMENT p k)"

text \<open>\<open>getItem\<close> gives \<open>null\<close> for a missing key; a template prints it.\<close>

definition or_null :: "string option \<Rightarrow> string" where
  "or_null v = (case v of None \<Rightarrow> ''null'' | Some s \<Rightarrow> s)"

definition setItem :: "string \<Rightarrow> string \<Rightarrow> browser \<Rightarrow> browser" where
  "setItem k v b = b\<lparr>localStorage := (localStorage b)(k := Some v)\<rparr>"

definition removeItem :: "string \<Rightarrow> browser \<Rightarrow> browser" where
  "removeItem k b = b\<lparr>localStorage := (localStorage b)(k := None)\<rparr>"

definition redirectTo :: "string \<Rightarrow> browser \<Rightarrow> browser" where
  "redirectTo path b = b\<lparr>location := path\<rparr>"

subsection \<open>The stores\<close>

definition accessTokenKey :: string where "accessTokenKey = ''access-token''"
definition refreshTokenKey :: string where "refreshTokenKey = ''refresh-token''"
definition profileKey :: string where "profileKey = ''profile''"
definition WORKSPACE :: string where "WORKSPACE = ''workspace''"

definition setAccessToken :: "string \<Rightarrow> browser \<Rightarrow> browser" where
  "setAccessToken = setItem accessTokenKey"

definition setRefreshToken :: "string \<Rightarrow> browser \<Rightarrow> browser" where
  "setRefreshToken = setItem refreshTokenKey"

definition getAccessToken :: "browser \<Rightarrow> string option" where
  "getAccessToken b = localStorage b accessTokenKey"

definition getRefreshToken :: "browser \<Rightarrow> string option" where
  "getRefreshToken b = localStorage b refreshTokenKey"

definition isLogged :: "browser \<Rightarrow> bool" where
  "isLogged b \<longleftrightarrow> truthy (getAccessToken b) \<and> truthy (getRefreshToken b)"

definition getCircleId :: "browser \<Rightarrow> string option" where
  "getCircleId b = circle_cookie b"

definition clearCircleId :: "browser \<Rightarrow> browser" where
  "clearCircleId b = b\<lparr>circle_cookie := None\<rparr>"

definition saveCircleId :: "page \<Rightarrow> json_value \<Rightarrow> browser \<Rightarrow> browser" where
  "saveCircleId p v b = b\<lparr>circle_cookie := cookie_value p v\<rparr>"

definition getProfile :: "page \<Rightarrow> browser \<Rightarrow> json_value" where
  "getProfile p b =
     (case Option.bind (atob p (or_null (localStorage b profileKey))) (json_read p) of
        None \<Rightarrow> Obj [] | Some v \<Rightarrow> v)"

definition getProfileByKey :: "page \<Rightarrow> string \<Rightarrow> browser \<Rightarrow> json_value option" where
  "getProfileByKey p k b = member_of k (getProfile p b)"

definition isRoot :: "page \<Rightarrow> browser \<Rightarrow> json_value option" where
  "isRoot p b = map_option (\<lambda>v. if truthy_value v then v else Bool False) (getProfileByKey p ''root'' b)"

definition clearProfile :: "browser \<Rightarrow> browser" where
  "clearProfile = removeItem profileKey"

text \<open>\<open>btoa\<close> throws for a character that is not a byte.\<close>

definition saveProfile :: "page \<Rightarrow> json_value \<Rightarrow> browser \<Rightarrow> browser option" where
  "saveProfile p profile b =
     (case btoa p (json_text p profile) of None \<Rightarrow> None | Some t \<Rightarrow> Some (setItem profileKey t b))"

definition clearWorkspace :: "browser \<Rightarrow> browser" where
  "clearWorkspace = removeItem WORKSPACE"

definition getWorkspace :: "page \<Rightarrow> browser \<Rightarrow> json_value" where
  "getWorkspace p b =
     (case json_read p (or_null (localStorage b WORKSPACE)) of
        None \<Rightarrow> Obj [(''id'', Str [])]
      | Some v \<Rightarrow> if truthy_value v then v else Obj [(''id'', Str [])])"

definition getWorkspaceId :: "page \<Rightarrow> browser \<Rightarrow> json_value" where
  "getWorkspaceId p b = the (member_of ''id'' (getWorkspace p b))"

definition saveWorkspace :: "page \<Rightarrow> json_value \<Rightarrow> browser \<Rightarrow> browser" where
  "saveWorkspace p w b =
     (let b' = clearWorkspace b in if truthy_value w then setItem WORKSPACE (json_text p w) b' else b')"

definition getPermissions :: "page \<Rightarrow> browser \<Rightarrow> json_value" where
  "getPermissions p b =
     (case member_of ''permissions'' (getWorkspace p b) of
        None \<Rightarrow> Arr [] | Some v \<Rightarrow> if truthy_value v then v else Arr [])"

definition saveSessionData :: "json_value \<Rightarrow> json_value \<Rightarrow> browser \<Rightarrow> browser" where
  "saveSessionData accessToken refreshToken b =
     setItem refreshTokenKey (to_text refreshToken) (setItem accessTokenKey (to_text accessToken) b)"

definition clearSession :: "browser \<Rightarrow> browser" where
  "clearSession b =
     (let b1 = removeItem accessTokenKey b;
          b2 = removeItem refreshTokenKey b1;
          b3 = clearCircleId b2;
          b4 = clearProfile b3
      in clearWorkspace b4)"

text \<open>\<open>parseInt\<close>: white space, a sign, a hexadecimal prefix, then the digits up to the first
  other character; \<open>None\<close> is not a number.\<close>

definition parseInt :: "string \<Rightarrow> int option" where
  "parseInt s =
     (let t = js_trim s;
          neg = (t \<noteq> [] \<and> hd t = CHR ''-'');
          u = (if t \<noteq> [] \<and> (hd t = CHR ''-'' \<or> hd t = CHR ''+'') then tl t else t);
          hex = (take 2 u = ''0x'' \<or> take 2 u = ''0X'');
          base = (if hex then 16 else 10);
          ds = takeWhile (\<lambda>c. radix_value base c \<noteq> None) (if hex then drop 2 u else u)
      in if ds = [] then None
         else (let n = foldl (\<lambda>acc c. int base * acc + int (the (radix_value base c))) 0 ds
               in Some (if neg then - n else n)))"

definition isIDMEnabled :: "page \<Rightarrow> bool" where
  "isIDMEnabled p =
     (case parseInt (config p ''REACT_APP_IDM'') of None \<Rightarrow> False | Some n \<Rightarrow> n \<noteq> 0)"

subsection \<open>Requests\<close>

text \<open>
  A promise is settled with a value or a reason. Both may be a response of the server; a
  failure without one (no connection, an exception) has a message only.
\<close>

datatype thing = Response response | JsError string
datatype 'a settled = Resolved 'a | Rejected thing

definition fetch :: "page \<Rightarrow> request \<Rightarrow> browser \<Rightarrow> thing settled \<times> browser" where
  "fetch p rq b =
     (case answer p (length (requests b)) rq of
        None \<Rightarrow> Rejected (JsError ''Failed to fetch'')
      | Some r \<Rightarrow> Resolved (Response r),
      b\<lparr>requests := requests b @ [rq]\<rparr>)"

text \<open>The addresses of the identity manager, and its logout.\<close>

definition realm_url :: "page \<Rightarrow> string" where
  "realm_url p = config p ''REACT_APP_AUTH_URI'' @ ''/auth/realms/'' @ config p ''REACT_APP_AUTH_REALM''"

definition redirectToIDM :: "page \<Rightarrow> browser \<Rightarrow> browser" where
  "redirectToIDM p b =
     (let params = ''?client_id='' @ config p ''REACT_APP_AUTH_CLIENT_ID''
            @ ''&response_type=code&redirect_uri='' @ config p ''REACT_APP_IDM_REDIRECT_URI'';
          url = realm_url p @ config p ''REACT_APP_IDM_LOGIN_URI'' @ params
      in redirectTo url (clearSession b))"

definition form_headers :: object where
  "form_headers = [(''Content-Type'', ''application/x-www-form-urlencoded'')]"

definition routes_login :: string where "routes_login = ''/auth/login''"
definition routes_main :: string where "routes_main = ''/''"

definition logout :: "page \<Rightarrow> browser \<Rightarrow> browser" where
  "logout p b =
     (if isIDMEnabled p then
        (let url = realm_url p @ config p ''REACT_APP_IDM_LOGOUT_URI'';
             body = ''client_id='' @ config p ''REACT_APP_AUTH_CLIENT_ID''
               @ ''&refresh_token='' @ or_null (getRefreshToken b)
         in (snd (fetch p \<lparr>rq_method = ''POST'', rq_url = url, rq_headers = form_headers,
               rq_body = Text body\<rparr> b))\<lparr>logouts := logouts b + 1\<rparr>)
      else redirectTo routes_login (clearSession b))"

text \<open>The \<open>finally\<close> of a logout, when its answer is there.\<close>

definition logout_answered :: "browser \<Rightarrow> browser" where
  "logout_answered b =
     redirectTo routes_main (clearSession (b\<lparr>logouts := logouts b - 1\<rparr>))"

definition checkStatus :: "page \<Rightarrow> nat \<Rightarrow> browser \<Rightarrow> browser" where
  "checkStatus p code b = (if code = 401 then logout p b else b)"

definition buildHeaders :: "page \<Rightarrow> bool \<Rightarrow> string option \<Rightarrow> browser \<Rightarrow> object" where
  "buildHeaders p isFormData cid b =
     [(''Authorization'', ''Bearer '' @ or_null (getAccessToken b)),
      (''x-workspace-id'', to_text (getWorkspaceId p b))]
     @ (if truthy cid then [(''x-circle-id'', the cid)] else [])
     @ (if \<not> isFormData then [(''Content-Type'', ''application/json'')] else [])"

text \<open>What a caller passes as the body: nothing, a string, a form, or an object.\<close>

datatype given_body = Absent | Given string | Form "(string \<times> string) list" | Data json_value

definition buildBody :: "page \<Rightarrow> given_body \<Rightarrow> sent_body" where
  "buildBody p body =
     (case body of
        Absent \<Rightarrow> NoBody | Given s \<Rightarrow> Text s | Form f \<Rightarrow> FormData f | Data v \<Rightarrow> Text (json_text p v))"

definition rejecting :: "(nat \<Rightarrow> browser \<Rightarrow> browser) \<Rightarrow> thing settled \<times> browser \<Rightarrow> thing settled \<times> browser" where
  "rejecting check sb =
     (case sb of
        (Resolved (Response r), b) \<Rightarrow>
          if rs_ok r then sb else (Rejected (Response r), check (rs_status r) b)
      | _ \<Rightarrow> sb)"

definition auth_rq :: "page \<Rightarrow> string \<Rightarrow> string \<Rightarrow> request" where
  "auth_rq p url body =
     \<lparr>rq_method = ''POST'', rq_url = config p ''REACT_APP_AUTH_URI'' @ url,
      rq_headers = form_headers, rq_body = Text body\<rparr>"

definition authRequest :: "page \<Rightarrow> string \<Rightarrow> string \<Rightarrow> browser \<Rightarrow> thing settled \<times> browser" where
  "authRequest p url body b = rejecting (\<lambda>_ b. b) (fetch p (auth_rq p url body) b)"

definition unauthenticatedRequest :: "page \<Rightarrow> string \<Rightarrow> given_body \<Rightarrow> browser \<Rightarrow> thing settled \<times> browser" where
  "unauthenticatedRequest p meth body b =
     rejecting (\<lambda>_ b. b) (fetch p \<lparr>rq_method = meth,
       rq_url = config p ''REACT_APP_CIRCLE_MATCHER_URL'',
       rq_headers = [(''Accept'', ''application/json''), (''Content-Type'', ''application/json'')],
       rq_body = buildBody p body\<rparr> b)"

definition base_rq :: "page \<Rightarrow> string \<Rightarrow> given_body \<Rightarrow> string \<Rightarrow> browser \<Rightarrow> request" where
  "base_rq p url body meth b =
     (let isFormData = (case body of Form _ \<Rightarrow> True | _ \<Rightarrow> False)
      in \<lparr>rq_method = meth, rq_url = config p ''REACT_APP_API_URI'' @ url,
          rq_headers = buildHeaders p isFormData (getCircleId b) b,
          rq_body = buildBody p body\<rparr>)"

definition baseRequest :: "page \<Rightarrow> string \<Rightarrow> given_body \<Rightarrow> string \<Rightarrow> browser \<Rightarrow> thing settled \<times> browser" where
  "baseRequest p url body meth b =
     rejecting (checkStatus p) (fetch p (base_rq p url body meth b) b)"

definition postRequest :: "page \<Rightarrow> string \<Rightarrow> given_body \<Rightarrow> browser \<Rightarrow> thing settled \<times> browser" where
  "postRequest p url body = baseRequest p url body ''POST''"

definition putRequest :: "page \<Rightarrow> string \<Rightarrow> given_body \<Rightarrow> browser \<Rightarrow> thing settled \<times> browser" where
  "putRequest p url body = baseRequest p url body ''PUT''"

definition deleteRequest :: "page \<Rightarrow> string \<Rightarrow> browser \<Rightarrow> thing settled \<times> browser" where
  "deleteRequest p url = baseRequest p url (Data Null) ''DELETE''"

definition patchRequest :: "page \<Rightarrow> string \<Rightarrow> string \<Rightarrow> string \<Rightarrow> json_value \<Rightarrow> browser \<Rightarrow> thing settled \<times> browser" where
  "patchRequest p url opType path v =
     (let patches = (if v = Undefined then [Obj [(''op'', Str opType), (''path'', Str path)]]
            else [Obj [(''op'', Str opType), (''path'', Str path), (''value'', v)]])
      in baseRequest p url (Data (Obj [(''patches'', Arr patches)])) ''PATCH'')"

subsection \<open>Tokens\<close>

definition endpoint :: "page \<Rightarrow> string" where
  "endpoint p = ''/auth/realms/'' @ config p ''REACT_APP_AUTH_REALM'' @ ''/protocol/openid-connect/token''"

definition login :: "page \<Rightarrow> string \<Rightarrow> string \<Rightarrow> browser \<Rightarrow> thing settled \<times> browser" where
  "login p username password =
     authRequest p (endpoint p)
       (''grant_type=password&client_id='' @ config p ''REACT_APP_AUTH_CLIENT_ID''
        @ ''&username='' @ username @ ''&password='' @ encodeURIComponent p password)"

definition codeToTokens :: "page \<Rightarrow> string \<Rightarrow> browser \<Rightarrow> thing settled \<times> browser" where
  "codeToTokens p code =
     authRequest p (endpoint p)
       (''grant_type=authorization_code&client_id='' @ config p ''REACT_APP_AUTH_CLIENT_ID''
        @ ''&code='' @ code @ ''&redirect_uri='' @ config p ''REACT_APP_IDM_REDIRECT_URI'')"

definition renewToken :: "page \<Rightarrow> string option \<Rightarrow> browser \<Rightarrow> thing settled \<times> browser" where
  "renewToken p refreshToken =
     authRequest p (endpoint p)
       (''grant_type=refresh_token&client_id='' @ config p ''REACT_APP_AUTH_CLIENT_ID''
        @ ''&refresh_token='' @ or_null refreshToken)"

definition circleMatcher :: "page \<Rightarrow> json_value \<Rightarrow> browser \<Rightarrow> thing settled \<times> browser" where
  "circleMatcher p payload =
     unauthenticatedRequest p ''POST'' (Data (Obj [(''requestData'', payload),
       (''workspaceId'', Str (or_else (CHARLESCD_ENVIRONMENT p ''REACT_APP_WORKSPACE_ID'') ''UNKNOWN''))]))"

text \<open>
  \<open>renewTokenByCb\<close>: in the handler of a refused request, \<open>return fn()\<close> hands the promise of
  the second attempt on, whose rejection the \<open>try\<close> does not see; the \<open>catch\<close> sees the
  failure of the renewal only, and returns it, which resolves the promise with it.
\<close>

definition unauthorized :: "thing \<Rightarrow> bool" where
  "unauthorized t \<longleftrightarrow> (case t of Response r \<Rightarrow> rs_status r = 401 | JsError _ \<Rightarrow> False)"

definition renewTokenByCb ::
  "page \<Rightarrow> (browser \<Rightarrow> thing settled \<times> browser) \<Rightarrow> bool \<Rightarrow> browser \<Rightarrow> thing settled \<times> browser" where
  "renewTokenByCb p fn isLoginRequest b =
     (case fn b of
        (Resolved t, b1) \<Rightarrow> (Resolved t, b1)
      | (Rejected e, b1) \<Rightarrow>
          if unauthorized e then
            if \<not> isLoginRequest \<and> \<not> isIDMEnabled p then
              (case renewToken p (getRefreshToken b1) b1 of
                 (Resolved _, b2) \<Rightarrow> fn b2
               | (Rejected e2, b2) \<Rightarrow> (Resolved e2, redirectTo routes_login b2))
            else fn b1
          else (Rejected e, b1))"

text \<open>\<open>getResponse\<close>: an object without \<open>json\<close> throws in the \<open>try\<close>, and its missing status is
  not at least 400.\<close>

definition getResponse :: "thing \<Rightarrow> json_value settled" where
  "getResponse t =
     (case t of
        JsError _ \<Rightarrow> Resolved Undefined
      | Response r \<Rightarrow>
          (case rs_json r of
             Some v \<Rightarrow> Resolved v
           | None \<Rightarrow> if rs_status r \<ge> 400 then Rejected (JsError ''SyntaxError'')
                     else Resolved (Num (decimal (rs_status r)))))"

definition useFetchData ::
  "page \<Rightarrow> (browser \<Rightarrow> thing settled \<times> browser) \<Rightarrow> bool \<Rightarrow> browser \<Rightarrow> json_value settled \<times> browser" where
  "useFetchData p fn isLoginRequest b =
     (case renewTokenByCb p fn isLoginRequest b of
        (Resolved t, b1) \<Rightarrow> (getResponse t, b1)
      | (Rejected e, b1) \<Rightarrow> (Rejected e, b1))"

subsection \<open>Login\<close>

record login_state =
  ls_status :: string
  ls_error :: string

text \<open>The circle of the user: whatever goes wrong is only written to the console.\<close>

definition useCircleMatcher_getCircleId :: "page \<Rightarrow> json_value \<Rightarrow> browser \<Rightarrow> browser" where
  "useCircleMatcher_getCircleId p data b =
     (case useFetchData p (circleMatcher p data) False b of
        (Rejected _, b1) \<Rightarrow> b1
      | (Resolved v, b1) \<Rightarrow>
          if truthy_value v then
            (case member_of ''circles'' v of
               Some (Arr []) \<Rightarrow> saveCircleId p Undefined b1
             | Some (Arr (c # cs)) \<Rightarrow>
                 (case member_of ''id'' c of
                    None \<Rightarrow> saveCircleId p Undefined b1 | Some i \<Rightarrow> saveCircleId p i b1)
             | Some (Str _) \<Rightarrow> saveCircleId p Undefined b1
             | _ \<Rightarrow> b1)
          else b1)"

definition findUserByEmail :: "page \<Rightarrow> string \<Rightarrow> browser \<Rightarrow> thing settled \<times> browser" where
  "findUserByEmail p email b =
     (case btoa p email of
        None \<Rightarrow> (Rejected (JsError ''InvalidCharacterError''), b)
      | Some encodedEmail \<Rightarrow> baseRequest p (''/moove/v2/users/'' @ encodedEmail) Absent ''GET'' b)"

text \<open>\<open>findByEmail\<close> of \<open>useUser\<close> returns nothing when the request fails.\<close>

definition findByEmail :: "page \<Rightarrow> string \<Rightarrow> browser \<Rightarrow> json_value \<times> browser" where
  "findByEmail p email b =
     (if email = [] then (Undefined, b)
      else (case useFetchData p (findUserByEmail p email) False b of
              (Resolved v, b1) \<Rightarrow> (v, b1)
            | (Rejected _, b1) \<Rightarrow> (Undefined, b1)))"

definition errorMessage :: "thing \<Rightarrow> string" where
  "errorMessage e =
     (case e of
        JsError m \<Rightarrow> if m = [] then ''undefined: undefined'' else m
      | Response r \<Rightarrow> decimal (rs_status r) @ '': '' @ rs_statusText r)"

definition rejected_with :: "thing \<Rightarrow> login_state" where
  "rejected_with e = \<lparr>ls_status = ''rejected'', ls_error = errorMessage e\<rparr>"

text \<open>\<open>{...v}\<close>.\<close>

definition spread :: "json_value \<Rightarrow> json_value" where
  "spread v =
     (let indexed = \<lambda>xs. Obj (map (\<lambda>i. (decimal i, xs ! i)) [0..<length xs])
      in case v of
           Obj ps \<Rightarrow> Obj ps
         | Arr xs \<Rightarrow> indexed xs
         | Str t \<Rightarrow> indexed (map (\<lambda>c. Str [c]) t)
         | _ \<Rightarrow> Obj [])"

text \<open>The texts of the exceptions the engine throws are abbreviated to their names.\<close>

definition doLogin :: "page \<Rightarrow> string \<Rightarrow> string \<Rightarrow> browser \<Rightarrow> login_state \<times> browser" where
  "doLogin p email password b =
     (case useFetchData p (login p email password) True b of
        (Rejected e, b1) \<Rightarrow> (rejected_with e, b1)
      | (Resolved v, b1) \<Rightarrow>
          (case (member_of ''access_token'' v, member_of ''refresh_token'' v) of
             (Some accessToken, Some refreshToken) \<Rightarrow>
               (let b2 = saveSessionData accessToken refreshToken b1;
                    b3 = (if truthy (CHARLESCD_ENVIRONMENT p ''REACT_APP_CIRCLE_MATCHER_URL'')
                          then useCircleMatcher_getCircleId p (Obj [(''username'', Str email)]) b2 else b2);
                    (user, b4) = findByEmail p email b3
                in if truthy_value user then
                     (case saveProfile p (spread user) b4 of
                        None \<Rightarrow> (rejected_with (JsError ''InvalidCharacterError''), b4)
                      | Some b5 \<Rightarrow> (\<lparr>ls_status = ''resolved'', ls_error = []\<rparr>, b5))
                   else (\<lparr>ls_status = ''pending'', ls_error = []\<rparr>, b4))
           | _ \<Rightarrow> (rejected_with (JsError ''TypeError''), b1)))"

subsection \<open>Sessions end completely\<close>

definition no_session :: "browser \<Rightarrow> bool" where
  "no_session b \<longleftrightarrow> getAccessToken b = None \<and> getRefreshToken b = None \<and> getCircleId b = None
     \<and> localStorage b profileKey = None \<and> localStorage b WORKSPACE = None"

lemmas key_defs = accessTokenKey_def refreshTokenKey_def profileKey_def WORKSPACE_def

lemmas store_defs = setItem_def removeItem_def getAccessToken_def getRefreshToken_def
  getCircleId_def clearCircleId_def clearProfile_def clearWorkspace_def saveSessionData_def

lemma no_session_clearSession [simp]: "no_session (clearSession b)"
  by (simp add: no_session_def clearSession_def store_defs key_defs)

lemma clearSession_rest [simp]:
  "requests (clearSession b) = requests b" "location (clearSession b) = location b"
  by (simp_all add: clearSession_def store_defs Let_def)

lemma redirectTo_simps [simp]:
  "no_session (redirectTo path b) = no_session b" "requests (redirectTo path b) = requests b"
  "location (redirectTo path b) = path"
  by (simp_all add: redirectTo_def no_session_def store_defs)

lemma fetch_simps [simp]:
  "requests (snd (fetch p rq b)) = requests b @ [rq]"
  "no_session (snd (fetch p rq b)) = no_session b"
  "location (snd (fetch p rq b)) = location b"
  by (simp_all add: fetch_def no_session_def store_defs)

lemma logout_off:
  "\<not> isIDMEnabled p \<Longrightarrow> logout p b = redirectTo routes_login (clearSession b)"
  by (simp add: logout_def)

lemma rejecting_cases:
  "rejecting check sb = sb \<or>
   (\<exists>r. fst sb = Resolved (Response r) \<and> \<not> rs_ok r \<and>
        rejecting check sb = (Rejected (Response r), check (rs_status r) (snd sb)))"
  by (auto simp: rejecting_def split: prod.splits settled.splits thing.splits)

lemma authRequest_state: "snd (authRequest p url body b) = snd (fetch p (auth_rq p url body) b)"
  by (auto simp: authRequest_def rejecting_def split: prod.splits settled.splits thing.splits)

text \<open>A request of a page whose session was cleared, with the identity manager off.\<close>

definition at_login :: "browser \<Rightarrow> bool" where
  "at_login b \<longleftrightarrow> no_session b \<and> location b = routes_login"

lemma at_login_baseRequest:
  assumes "\<not> isIDMEnabled p" "at_login b"
  shows "at_login (snd (baseRequest p url body meth b)) \<and>
    requests (snd (baseRequest p url body meth b)) = requests b @ [base_rq p url body meth b]"
  using rejecting_cases [of "checkStatus p" "fetch p (base_rq p url body meth b) b"] assms
  by (auto simp: baseRequest_def checkStatus_def at_login_def logout_off)

lemma bearer_null:
  "no_session b \<Longrightarrow> (''Authorization'', ''Bearer null'') \<in> set (rq_headers (base_rq p url body meth b))"
  by (simp add: base_rq_def buildHeaders_def no_session_def or_null_def Let_def)

lemma baseRequest_unauthorized:
  assumes "\<not> isIDMEnabled p" "answer p (length (requests b)) (base_rq p url body meth b) = Some r"
    "rs_status r = 401"
  obtains b1 where "baseRequest p url body meth b = (Rejected (Response r), b1)" "at_login b1"
    "requests b1 = requests b @ [base_rq p url body meth b]"
proof -
  let ?b = "b\<lparr>requests := requests b @ [base_rq p url body meth b]\<rparr>"
  have "baseRequest p url body meth b = (Rejected (Response r), redirectTo routes_login (clearSession ?b))"
    using assms by (simp add: baseRequest_def fetch_def rejecting_def rs_ok_def checkStatus_def logout_off)
  then show thesis
    by (rule that) (simp_all add: at_login_def)
qed

text \<open>The renewal that is sent when the refresh token is gone.\<close>

definition empty_renewal :: "page \<Rightarrow> request" where
  "empty_renewal p = auth_rq p (endpoint p) (''grant_type=refresh_token&client_id=''
     @ config p ''REACT_APP_AUTH_CLIENT_ID'' @ ''&refresh_token=null'')"

lemma renewal_at_login:
  assumes "at_login b"
  shows "renewToken p (getRefreshToken b) b = authRequest p (endpoint p)
      (''grant_type=refresh_token&client_id='' @ config p ''REACT_APP_AUTH_CLIENT_ID''
        @ ''&refresh_token=null'') b"
    and "at_login (snd (renewToken p (getRefreshToken b) b))"
    and "requests (snd (renewToken p (getRefreshToken b) b)) = requests b @ [empty_renewal p]"
  using assms
  by (simp_all add: at_login_def no_session_def renewToken_def or_null_def authRequest_state
      fetch_simps [unfolded no_session_def] empty_renewal_def)


text \<open>When the renewal is refused, what the server said of it is handed to the caller as the
  answer to the caller's own request.\<close>

theorem refused_renewal_is_an_answer:
  assumes "\<not> isIDMEnabled p"
    and "answer p (length (requests b)) (base_rq p url body meth b) = Some r" "rs_status r = 401"
    and "answer p (Suc (length (requests b))) (empty_renewal p) = Some r2" "\<not> rs_ok r2"
    and "rs_json r2 = Some v"
  shows "fst (useFetchData p (baseRequest p url body meth) False b) = Resolved v"
proof -
  obtain b1 where b1: "baseRequest p url body meth b = (Rejected (Response r), b1)" "at_login b1"
      "requests b1 = requests b @ [base_rq p url body meth b]"
    using baseRequest_unauthorized assms(1-3) by metis
  have "fst (renewToken p (getRefreshToken b1) b1) = Rejected (Response r2)"
    using assms(4,5) b1 renewal_at_login(1) [OF b1(2), of p]
    by (simp add: authRequest_def fetch_def rejecting_def empty_renewal_def)
  then obtain b2 where "renewToken p (getRefreshToken b1) b1 = (Rejected (Response r2), b2)"
    by (cases "renewToken p (getRefreshToken b1) b1") simp
  then have "renewTokenByCb p (baseRequest p url body meth) False b
      = (Resolved (Response r2), redirectTo routes_login b2)"
    using b1 assms by (simp add: renewTokenByCb_def unauthorized_def)
  then show ?thesis
    using assms(6) by (simp add: useFetchData_def getResponse_def)
qed

subsection \<open>Login\<close>

definition base64_law :: "page \<Rightarrow> bool" where
  "base64_law p \<longleftrightarrow> (\<forall>s t. btoa p s = Some t \<longrightarrow> atob p t = Some s)"

definition login_rq :: "page \<Rightarrow> string \<Rightarrow> string \<Rightarrow> request" where
  "login_rq p username password = auth_rq p (endpoint p)
     (''grant_type=password&client_id='' @ config p ''REACT_APP_AUTH_CLIENT_ID''
        @ ''&username='' @ username @ ''&password='' @ encodeURIComponent p password)"

lemma login_fetches: "login p u w b = rejecting (\<lambda>_ b. b) (fetch p (login_rq p u w) b)"
  by (simp add: login_def authRequest_def login_rq_def)

text \<open>The token is there: what the page holds after the first request of a login.\<close>

definition logged_in :: "page \<Rightarrow> string \<Rightarrow> string \<Rightarrow> string \<Rightarrow> string \<Rightarrow> browser \<Rightarrow> browser" where
  "logged_in p email password a t b = saveSessionData (Str a) (Str t)
     (b\<lparr>requests := requests b @ [login_rq p email password]\<rparr>)"

lemma logged_in_simps [simp]:
  "getAccessToken (logged_in p e w a t b) = Some a" "getRefreshToken (logged_in p e w a t b) = Some t"
  "requests (logged_in p e w a t b) = requests b @ [login_rq p e w]"
  by (simp_all add: logged_in_def store_defs key_defs)

definition tokens_answered :: "page \<Rightarrow> browser \<Rightarrow> string \<Rightarrow> string \<Rightarrow> string \<Rightarrow> string \<Rightarrow> bool" where
  "tokens_answered p b email password a t \<longleftrightarrow>
     (case answer p (length (requests b)) (login_rq p email password) of
        None \<Rightarrow> False
      | Some r \<Rightarrow> rs_ok r \<and> rs_json r = Some (Obj [(''access_token'', Str a), (''refresh_token'', Str t)]))"

lemma login_succeeds:
  assumes "tokens_answered p b email password a t"
  shows "useFetchData p (login p email password) True b
    = (Resolved (Obj [(''access_token'', Str a), (''refresh_token'', Str t)]),
       b\<lparr>requests := requests b @ [login_rq p email password]\<rparr>)"
proof -
  obtain r where "answer p (length (requests b)) (login_rq p email password) = Some r" "rs_ok r"
      "rs_json r = Some (Obj [(''access_token'', Str a), (''refresh_token'', Str t)])"
    using assms by (auto simp: tokens_answered_def split: option.splits)
  then show ?thesis
    by (simp add: useFetchData_def renewTokenByCb_def login_fetches fetch_def rejecting_def
        getResponse_def)
qed

definition user_rq :: "page \<Rightarrow> string \<Rightarrow> browser \<Rightarrow> request" where
  "user_rq p enc b = base_rq p (''/moove/v2/users/'' @ enc) Absent ''GET'' b"

lemma doLogin_after_tokens:
  assumes "tokens_answered p b email password a t"
    and "\<not> truthy (CHARLESCD_ENVIRONMENT p ''REACT_APP_CIRCLE_MATCHER_URL'')"
    and "findByEmail p email (logged_in p email password a t b) = (user, b4)"
  shows "doLogin p email password b =
    (if truthy_value user then
       (case saveProfile p (spread user) b4 of
          None \<Rightarrow> (rejected_with (JsError ''InvalidCharacterError''), b4)
        | Some b5 \<Rightarrow> (\<lparr>ls_status = ''resolved'', ls_error = []\<rparr>, b5))
     else (\<lparr>ls_status = ''pending'', ls_error = []\<rparr>, b4))"
  using assms by (simp add: doLogin_def login_succeeds logged_in_def Let_def)

lemma findByEmail_answered:
  assumes "email \<noteq> []" "btoa p email = Some enc"
    and "answer p (length (requests b)) (user_rq p enc b) = Some r" "rs_status r \<noteq> 401"
  shows "findByEmail p email b =
    (if rs_ok r then (case getResponse (Response r) of Resolved v \<Rightarrow> v | Rejected _ \<Rightarrow> Undefined)
     else Undefined, b\<lparr>requests := requests b @ [user_rq p enc b]\<rparr>)"
  using assms
  by (auto simp: findByEmail_def useFetchData_def findUserByEmail_def renewTokenByCb_def unauthorized_def
      baseRequest_def user_rq_def fetch_def rejecting_def checkStatus_def split: settled.splits)

text \<open> A login whose token and user requests are answered ends resolved, with exactly these
  two requests sent, the second one authorized by the new token; the page is logged in with
  the tokens the server gave and reads back from its storage the profile of the user. \<close>

theorem login_saves_the_session:
  assumes "base64_law p" "json_read p (json_text p (Obj ps)) = Some (Obj ps)"
    and "\<not> truthy (CHARLESCD_ENVIRONMENT p ''REACT_APP_CIRCLE_MATCHER_URL'')"
    and "tokens_answered p b email password a t" "a \<noteq> []" "t \<noteq> []"
    and "email \<noteq> []" "btoa p email = Some enc" "btoa p (json_text p (Obj ps)) = Some encoded"
    and "answer p (Suc (length (requests b))) (user_rq p enc (logged_in p email password a t b)) = Some r"
    and "rs_ok r" "rs_json r = Some (Obj ps)"
  shows "fst (doLogin p email password b) = \<lparr>ls_status = ''resolved'', ls_error = []\<rparr>
    \<and> isLogged (snd (doLogin p email password b))
    \<and> getAccessToken (snd (doLogin p email password b)) = Some a
    \<and> getRefreshToken (snd (doLogin p email password b)) = Some t
    \<and> getProfile p (snd (doLogin p email password b)) = Obj ps
    \<and> requests (snd (doLogin p email password b))
        = requests b @ [login_rq p email password, user_rq p enc (logged_in p email password a t b)]
    \<and> (''Authorization'', ''Bearer '' @ a)
        \<in> set (rq_headers (user_rq p enc (logged_in p email password a t b)))"
proof -
  let ?b = "logged_in p email password a t b"
  have "rs_status r \<noteq> 401"
    using \<open>rs_ok r\<close> by (simp add: rs_ok_def)
  then have "findByEmail p email ?b = (Obj ps, ?b\<lparr>requests := requests ?b @ [user_rq p enc ?b]\<rparr>)"
    using assms findByEmail_answered [of email p enc ?b r] by (simp add: getResponse_def)
  note login = doLogin_after_tokens [OF assms(4,3) this]
  have "getAccessToken ?b = Some a" "getRefreshToken ?b = Some t"
    by simp_all
  then show ?thesis
    unfolding login using assms
    by (simp add: saveProfile_def spread_def Let_def isLogged_def store_defs key_defs getProfile_def
        or_null_def base64_law_def user_rq_def base_rq_def buildHeaders_def)
qed

text \<open>When the user cannot be read, the login neither succeeds nor fails: the state stays
  \<open>pending\<close>, without an error, and the session that was saved stays.\<close>

theorem login_without_user_stays_pending:
  assumes "\<not> truthy (CHARLESCD_ENVIRONMENT p ''REACT_APP_CIRCLE_MATCHER_URL'')"
    and "tokens_answered p b email password a t" "a \<noteq> []" "t \<noteq> []"
    and "email \<noteq> []" "btoa p email = Some enc"
    and "answer p (Suc (length (requests b))) (user_rq p enc (logged_in p email password a t b)) = Some r"
    and "\<not> rs_ok r" "rs_status r \<noteq> 401"
  shows "fst (doLogin p email password b) = \<lparr>ls_status = ''pending'', ls_error = []\<rparr>
    \<and> isLogged (snd (doLogin p email password b))"
proof -
  let ?b = "logged_in p email password a t b"
  have "findByEmail p email ?b = (Undefined, ?b\<lparr>requests := requests ?b @ [user_rq p enc ?b]\<rparr>)"
    using assms findByEmail_answered [of email p enc ?b r] by simp
  note login = doLogin_after_tokens [OF assms(2,1) this]
  have "getAccessToken ?b = Some a" "getRefreshToken ?b = Some t"
    by simp_all
  then show ?thesis
    unfolding login using assms by (simp add: isLogged_def store_defs)
qed

text \<open>A refused login is sent a second time.\<close>

theorem refused_login_is_sent_twice:
  assumes "answer p (length (requests b)) (login_rq p email password) = Some r" "rs_status r = 401"
    and "answer p (Suc (length (requests b))) (login_rq p email password) = Some r" 
  shows "requests (snd (doLogin p email password b))
      = requests b @ [login_rq p email password, login_rq p email password]
    \<and> fst (doLogin p email password b) = rejected_with (Response r)"
  using assms
  by (simp add: doLogin_def useFetchData_def renewTokenByCb_def unauthorized_def login_fetches
      fetch_def rejecting_def rs_ok_def)

subsection \<open>An instance\<close>

text \<open>A page whose servers answer the requests in turn.\<close>

definition some_user :: json_value where
  "some_user = Obj [(''email'', Str ''ana@zup.com''), (''root'', Bool True)]"

definition some_page :: "response option list \<Rightarrow> page" where
  "some_page answers = \<lparr>CHARLESCD_ENVIRONMENT = [''REACT_APP_IDM'' \<mapsto> ''0'',
       ''REACT_APP_AUTH_URI'' \<mapsto> ''https://auth'', ''REACT_APP_API_URI'' \<mapsto> ''https://api''],
     answer = (\<lambda>n rq. if n < length answers then answers ! n else None),
     btoa = Some, atob = Some, json_text = (\<lambda>v. if v = some_user then ''user'' else ''null''),
     json_read = (\<lambda>s. if s = ''user'' then Some some_user else if s = ''null'' then Some Null else None),
     encodeURIComponent = id, cookie_value = (\<lambda>v. Some (to_text v))\<rparr>"

definition fresh_tab :: browser where
  "fresh_tab = \<lparr>localStorage = Map.empty, circle_cookie = None, location = ''/'', requests = [],
     logouts = 0\<rparr>"

definition old_tab :: browser where
  "old_tab = saveSessionData (Str ''old'') (Str ''stale'') fresh_tab"

definition answered :: "nat \<Rightarrow> json_value \<Rightarrow> response option" where
  "answered code v = Some \<lparr>rs_status = code, rs_statusText = [], rs_json = Some v\<rparr>"

lemma some_page_off: "\<not> isIDMEnabled (some_page answers)"
proof -
  have "parseInt ''0'' = Some 0" by code_simp
  then show ?thesis by (simp add: isIDMEnabled_def config_def some_page_def in_template_def)
qed

lemma some_page_simps [simp]:
  "answer (some_page answers) n rq = (if n < length answers then answers ! n else None)"
  "btoa (some_page answers) s = Some s" "base64_law (some_page answers)"
  "json_read (some_page answers) ''user'' = Some some_user"
  "\<not> truthy (CHARLESCD_ENVIRONMENT (some_page answers) ''REACT_APP_CIRCLE_MATCHER_URL'')"
  by (simp_all add: some_page_def base64_law_def)

lemma some_page_json: "json_text (some_page answers) some_user = ''user''"
  by (simp add: some_page_def)

lemma tab_simps [simp]: "requests fresh_tab = []" "requests old_tab = []"
  by (simp_all add: fresh_tab_def old_tab_def store_defs)


lemma refused_renewal_is_an_answer_witness:
  "fst (useFetchData (some_page [answered 401 Null, answered 400 (Obj [(''error'', Str ''invalid_grant'')])])
      (baseRequest (some_page [answered 401 Null, answered 400 (Obj [(''error'', Str ''invalid_grant'')])])
        ''/moove/v2/circles'' Absent ''GET'') False old_tab)
   = Resolved (Obj [(''error'', Str ''invalid_grant'')])"
  using refused_renewal_is_an_answer [OF some_page_off, where b = old_tab
      and answers1 = "[answered 401 Null, answered 400 (Obj [(''error'', Str ''invalid_grant'')])]"
      and r = "the (answered 401 Null)" and url = "''/moove/v2/circles''" and body = Absent
      and meth = "''GET''" and v = "Obj [(''error'', Str ''invalid_grant'')]"
      and ?r2.0 = "the (answered 400 (Obj [(''error'', Str ''invalid_grant'')]))"]
  by (simp add: answered_def rs_ok_def)

definition login_page :: page where
  "login_page = some_page [answered 200 (Obj [(''access_token'', Str ''A''), (''refresh_token'', Str ''R'')]),
     answered 200 some_user]"

lemma tokens_answered_login_page:
  "tokens_answered login_page fresh_tab ''ana@zup.com'' ''secret'' ''A'' ''R''"
  by (simp add: tokens_answered_def login_page_def answered_def rs_ok_def)

lemma login_saves_the_session_witness:
  "fst (doLogin login_page ''ana@zup.com'' ''secret'' fresh_tab)
      = \<lparr>ls_status = ''resolved'', ls_error = []\<rparr>
    \<and> getProfile login_page (snd (doLogin login_page ''ana@zup.com'' ''secret'' fresh_tab)) = some_user"
  using login_saves_the_session [OF _ _ _ tokens_answered_login_page,
      where ps = "[(''email'', Str ''ana@zup.com''), (''root'', Bool True)]"
      and enc = "''ana@zup.com''" and encoded = "''user''" and r = "the (answered 200 some_user)",
      folded some_user_def]
  by (simp add: login_page_def answered_def rs_ok_def some_page_json)

end
