(* ===== verification/Tasks.thy ===== *)
theory Tasks
  imports Sessions "HOL-Library.Multiset"
begin

text \<open>
  How the hooks of the front end run. A callback of a hook is a task: it sets the state of
  its component, dispatches actions, waits for the answer of a server or the body of one,
  and ends. Several tasks of one component may be under way; they are resumed in any order.
  After each of their steps React renders and runs the effects whose dependencies changed
  (\<open>useEffect\<close>), which may set state again. What a hook keeps in \<open>useState\<close> and \<open>useRef\<close> are the
  cells of its machine.

  The general facts: with nothing new called, the tasks come to an end; effects that do not
  feed themselves stop after one round; and two contracts of callbacks, as locales, with
  what they give for every order of the answers: a status that never stays \<open>pending\<close>, and one
  error notification for each call that failed.
\<close>

subsection \<open>Tasks\<close>

text \<open>What a cell may hold: a value, or the reason of a rejection.\<close>

datatype js_value = Json json_value | Reason thing

fun truthy_js :: "js_value \<Rightarrow> bool" where
  "truthy_js (Json v) = truthy_value v"
| "truthy_js (Reason t) = True"

text \<open>A call of \<open>core/providers\<close>, sent by \<open>baseRequest\<close>.\<close>

record call =
  cl_url :: string
  cl_body :: given_body
  cl_method :: string

definition send :: "page \<Rightarrow> call \<Rightarrow> browser \<Rightarrow> thing settled \<times> browser" where
  "send p c = baseRequest p (cl_url c) (cl_body c) (cl_method c)"

text \<open>The data of a call, for a hook: \<open>useFetchData\<close> on it.\<close>

definition fetched :: "page \<Rightarrow> call \<Rightarrow> browser \<Rightarrow> json_value settled \<times> browser" where
  "fetched p c = useFetchData p (send p c) False"

text \<open>What a task waits for: the data of a call, or the body of a response.\<close>

datatype awaited = Server call | Body thing

definition body_of :: "thing \<Rightarrow> json_value settled" where
  "body_of t =
     (case t of
        JsError _ \<Rightarrow> Rejected (JsError ''TypeError'')
      | Response r \<Rightarrow>
          (case rs_json r of None \<Rightarrow> Rejected (JsError ''SyntaxError'') | Some v \<Rightarrow> Resolved v))"

definition possible :: "awaited \<Rightarrow> json_value settled \<Rightarrow> bool" where
  "possible w a = (case w of Server _ \<Rightarrow> True | Body t \<Rightarrow> a = body_of t)"

datatype deed = SetCell string js_value | Dispatched string json_value

datatype outcome = Returned json_value | Threw js_value

datatype task =
    Finish outcome
  | Do deed task
  | Wait awaited "json_value settled \<Rightarrow> task"
  | Look string "js_value \<Rightarrow> task"
  | Fork task task

text \<open>\<open>f().then(k, k)\<close>, or \<open>await f()\<close> with what follows it.\<close>

primrec and_then_do :: "task \<Rightarrow> (outcome \<Rightarrow> task) \<Rightarrow> task" where
  "and_then_do (Finish r) k = k r"
| "and_then_do (Do d t) k = Do d (and_then_do t k)"
| "and_then_do (Wait w f) k = Wait w (\<lambda>a. and_then_do (f a) k)"
| "and_then_do (Look x f) k = Look x (\<lambda>v. and_then_do (f v) k)"
| "and_then_do (Fork s t) k = Fork s (and_then_do t k)"

subsection \<open>The machine of a component\<close>

text \<open>
  A cell holds a value with its identity: objects are compared by reference, and what is set
  is always a new object; other values are equal when their contents are.
\<close>

record machine =
  cells :: "string \<Rightarrow> nat \<times> js_value"
  objects :: nat
  running :: "(awaited \<times> (json_value settled \<Rightarrow> task)) list"
  dispatched :: "(string \<times> json_value) list"
  mounted :: bool

definition is_object :: "js_value \<Rightarrow> bool" where
  "is_object v = (case v of Json (Arr _) \<Rightarrow> True | Json (Obj _) \<Rightarrow> True | Reason _ \<Rightarrow> True | _ \<Rightarrow> False)"

definition cell :: "machine \<Rightarrow> string \<Rightarrow> js_value" where
  "cell m x = snd (cells m x)"

text \<open>React ignores what is set on a component that is not mounted.\<close>

fun perform :: "deed \<Rightarrow> machine \<Rightarrow> machine" where
  "perform (SetCell x v) m =
     (if mounted m then
        m\<lparr>cells := (cells m)(x := (if is_object v then Suc (objects m) else 0, v)),
          objects := Suc (objects m)\<rparr>
      else m)"
| "perform (Dispatched ty pl) m = m\<lparr>dispatched := dispatched m @ [(ty, pl)]\<rparr>"

text \<open>A task runs until it waits; what it waits for is left in the machine.\<close>

primrec advance :: "task \<Rightarrow> machine \<Rightarrow> machine" where
  "advance (Finish r) m = m"
| "advance (Do d t) m = advance t (perform d m)"
| "advance (Wait w k) m = m\<lparr>running := running m @ [(w, k)]\<rparr>"
| "advance (Look x k) m = advance (k (cell m x)) m"
| "advance (Fork s t) m = advance t (advance s m)"

text \<open>An effect: the cells it depends on, and what it does, given the cells of the render.\<close>

record reaction =
  rx_deps :: "string list"
  rx_body :: "(string \<Rightarrow> js_value) \<Rightarrow> task"

definition due :: "reaction list \<Rightarrow> machine \<Rightarrow> machine \<Rightarrow> reaction list" where
  "due rs old m = filter (\<lambda>r. list_ex (\<lambda>x. cells old x \<noteq> cells m x) (rx_deps r)) rs"

definition effects_of :: "reaction list \<Rightarrow> machine \<Rightarrow> machine" where
  "effects_of todo m = fold (\<lambda>r. advance (rx_body r (cell m))) todo m"

text \<open>Render until nothing changes: whether this ends is for the hook to show.\<close>

partial_function (option) render_loop :: "reaction list \<Rightarrow> machine \<Rightarrow> machine \<Rightarrow> machine option" where
  "render_loop rs old m =
     (let todo = due rs old m
      in if todo = [] \<or> \<not> mounted m then Some m else render_loop rs m (effects_of todo m))"

definition initial_machine :: "(string \<times> js_value) list \<Rightarrow> machine" where
  "initial_machine init =
     \<lparr>cells = (\<lambda>x. (0, case map_of init x of None \<Rightarrow> Json Undefined | Some v \<Rightarrow> v)), objects = 0,
      running = [], dispatched = [], mounted = True\<rparr>"

text \<open>The first render runs every effect.\<close>

definition mount :: "reaction list \<Rightarrow> (string \<times> js_value) list \<Rightarrow> machine option" where
  "mount rs init = (let m = initial_machine init in render_loop rs m (effects_of rs m))"

definition drop_nth :: "nat \<Rightarrow> 'a list \<Rightarrow> 'a list" where
  "drop_nth i xs = take i xs @ drop (Suc i) xs"

definition resume :: "nat \<Rightarrow> json_value settled \<Rightarrow> machine \<Rightarrow> machine" where
  "resume i a m = advance (snd (running m ! i) a) (m\<lparr>running := drop_nth i (running m)\<rparr>)"

text \<open>
  A run: functions of the hook are called, answers come, the component is unmounted, in any
  order. The list is what was answered to what.
\<close>

inductive runs ::
  "reaction list \<Rightarrow> task set \<Rightarrow> machine \<Rightarrow> (awaited \<times> json_value settled) list \<Rightarrow> machine \<Rightarrow> bool"
  for rs :: "reaction list" and ops :: "task set" and m0 :: machine where
  start: "runs rs ops m0 [] m0"
| called: "\<lbrakk>runs rs ops m0 tr m; t \<in> ops; render_loop rs m (advance t m) = Some m'\<rbrakk>
    \<Longrightarrow> runs rs ops m0 tr m'"
| answered: "\<lbrakk>runs rs ops m0 tr m; i < length (running m); possible (fst (running m ! i)) a;
      render_loop rs m (resume i a m) = Some m'\<rbrakk>
    \<Longrightarrow> runs rs ops m0 (tr @ [(fst (running m ! i), a)]) m'"
| unmounted: "runs rs ops m0 tr m \<Longrightarrow> runs rs ops m0 tr (m\<lparr>mounted := False\<rparr>)"

lemma render_loop_none [simp]: "render_loop [] old m = Some m"
  by (subst render_loop.simps) (simp add: due_def)

subsection \<open>Effects that do not feed themselves\<close>

text \<open>The cells a task sets before it first waits, whatever it reads.\<close>

primrec sets_now :: "task \<Rightarrow> string set" where
  "sets_now (Finish r) = {}"
| "sets_now (Do d t) = (case d of SetCell x v \<Rightarrow> {x} | Dispatched ty pl \<Rightarrow> {}) \<union> sets_now t"
| "sets_now (Wait w k) = {}"
| "sets_now (Look x k) = (\<Union>v. sets_now (k v))"
| "sets_now (Fork s t) = sets_now s \<union> sets_now t"

definition quiet :: "reaction list \<Rightarrow> bool" where
  "quiet rs \<longleftrightarrow> (\<forall>r\<in>set rs. \<forall>r'\<in>set rs. \<forall>c. sets_now (rx_body r c) \<inter> set (rx_deps r') = {})"

lemma perform_cells:
  "x \<notin> (case d of SetCell y v \<Rightarrow> {y} | Dispatched ty pl \<Rightarrow> {}) \<Longrightarrow> cells (perform d m) x = cells m x"
  by (cases d) auto

lemma advance_cells: "x \<notin> sets_now t \<Longrightarrow> cells (advance t m) x = cells m x"
  by (induction t arbitrary: m) (auto simp: perform_cells)

lemma effects_of_cells:
  assumes "\<And>r. r \<in> set todo \<Longrightarrow> x \<notin> sets_now (rx_body r (cell m))"
  shows "cells (effects_of todo m) x = cells m x"
proof -
  have "cells (fold (\<lambda>r. advance (rx_body r c)) todo n) x = cells n x"
    if "\<And>r. r \<in> set todo \<Longrightarrow> x \<notin> sets_now (rx_body r c)" for c n
    using that by (induction todo arbitrary: n) (simp_all add: advance_cells)
  then show ?thesis
    using assms by (simp add: effects_of_def)
qed

text \<open>One round is all there is.\<close>

definition rendered :: "reaction list \<Rightarrow> machine \<Rightarrow> machine \<Rightarrow> machine" where
  "rendered rs old m = (if mounted m then effects_of (due rs old m) m else m)"

lemma due_quiet:
  assumes "quiet rs" "set todo \<subseteq> set rs"
  shows "due rs m (effects_of todo m) = []"
proof -
  have "cells (effects_of todo m) x = cells m x" if "r \<in> set rs" "x \<in> set (rx_deps r)" for r x
    using that assms by (intro effects_of_cells) (fastforce simp: quiet_def)
  then show ?thesis
    by (auto simp: due_def filter_empty_conv list_ex_iff)
qed

lemma render_loop_done: "due rs old m = [] \<or> \<not> mounted m \<Longrightarrow> render_loop rs old m = Some m"
  by (subst render_loop.simps) (simp add: Let_def)

lemma render_loop_quiet: "quiet rs \<Longrightarrow> render_loop rs old m = Some (rendered rs old m)"
proof (cases "due rs old m = [] \<or> \<not> mounted m")
  case True
  then show ?thesis by (auto simp: render_loop_done rendered_def effects_of_def)
next
  case False
  moreover assume "quiet rs"
  then have "due rs m (effects_of (due rs old m) m) = []"
    by (rule due_quiet) (simp add: due_def)
  ultimately show ?thesis
    by (subst render_loop.simps) (simp add: Let_def render_loop_done rendered_def)
qed

lemma mount_quiet:
  "quiet rs \<Longrightarrow> mount rs init = Some (effects_of rs (initial_machine init))"
  by (simp add: mount_def Let_def render_loop_done due_quiet)

subsection \<open>Tasks come to an end\<close>

text \<open>What is left of a task after a step of it.\<close>

inductive part_of :: "task \<Rightarrow> task \<Rightarrow> bool" where
  "part_of t (Do d t)"
| "part_of (k a) (Wait w k)"
| "part_of (k v) (Look x k)"
| "part_of s (Fork s t)"
| "part_of t (Fork s t)"

inductive_cases part_ofE [elim!]:
  "part_of u (Finish r)" "part_of u (Do d t)" "part_of u (Wait w k)" "part_of u (Look x k)" "part_of u (Fork s t)"

lemma wf_part_of: "wfp part_of"
proof (rule accp_wfpI, rule allI)
  fix t show "Wellfounded.accp part_of t"
    by (induction t) (rule accpI, blast)+
qed

definition parts :: "(task \<times> task) set" where
  "parts = {(s, t). part_of\<^sup>+\<^sup>+ s t}"

lemma wf_parts: "wf parts" "trans parts"
  using wf_trancl [OF wf_part_of [unfolded wfp_def]]
  by (simp_all add: parts_def tranclp_unfold trans_def) auto

lemma parts_step: "\<lbrakk>part_of t u; s = t \<or> (s, t) \<in> parts\<rbrakk> \<Longrightarrow> (s, u) \<in> parts"
  by (auto simp: parts_def intro: tranclp.trancl_into_trancl)

definition waits :: "machine \<Rightarrow> task multiset" where
  "waits m = mset (map (\<lambda>(w, k). Wait w k) (running m))"

text \<open>The tasks a task leaves waiting are itself or parts of it.\<close>

lemma advance_waits: "\<exists>M. waits (advance t m) = waits m + M \<and> (\<forall>u\<in>#M. u = t \<or> (u, t) \<in> parts)"
proof (induction t arbitrary: m)
  case (Finish r)
  then show ?case by (intro exI [of _ "{#}"]) simp
next
  case (Do d t)
  have p: "(u, Do d t) \<in> parts" if "u = t \<or> (u, t) \<in> parts" for u
    using that by (blast intro: parts_step part_of.intros)
  have "waits (perform d m) = waits m"
    by (cases d) (simp_all add: waits_def)
  then show ?case using Do [of "perform d m"] p by fastforce
next
  case (Wait w k)
  then show ?case by (intro exI [of _ "{#Wait w k#}"]) (simp add: waits_def)
next
  case (Look x k)
  have p: "(u, Look x k) \<in> parts" if "u = k v \<or> (u, k v) \<in> parts" for u v
    using that by (blast intro: parts_step part_of.intros)
  then show ?case using Look [OF rangeI, of "cell m x" m] by fastforce
next
  case (Fork s t)
  have p: "(u, Fork s t) \<in> parts" if "u = s \<or> (u, s) \<in> parts \<or> u = t \<or> (u, t) \<in> parts" for u
    using that by (blast intro: parts_step part_of.intros)
  obtain M where M: "waits (advance s m) = waits m + M" "\<forall>u\<in>#M. u = s \<or> (u, s) \<in> parts"
    using Fork(1) by blast
  obtain N where N: "waits (advance t (advance s m)) = waits (advance s m) + N"
      "\<forall>u\<in>#N. u = t \<or> (u, t) \<in> parts"
    using Fork(2) by blast
  show ?case using M N p by (intro exI [of _ "M + N"]) auto
qed

lemma mset_drop_nth: "i < length xs \<Longrightarrow> mset xs = add_mset (xs ! i) (mset (drop_nth i xs))"
  by (simp add: drop_nth_def flip: id_take_nth_drop mset_append mset.simps(2))
     (metis id_take_nth_drop mset_append mset.simps(2) union_mset_add_mset_right)

lemma map_drop_nth: "map f (drop_nth i xs) = drop_nth i (map f xs)"
  by (simp add: drop_nth_def take_map drop_map)

definition resumed :: "machine \<Rightarrow> machine \<Rightarrow> bool" where
  "resumed m m' \<longleftrightarrow> (\<exists>i a. i < length (running m) \<and> m' = resume i a m)"

lemma resumed_smaller:
  assumes "resumed m m'" shows "(waits m', waits m) \<in> mult parts"
proof -
  obtain i a where i: "i < length (running m)" "m' = resume i a m"
    using assms by (auto simp: resumed_def)
  obtain w k where k: "running m ! i = (w, k)" by fastforce
  let ?rest = "waits (m\<lparr>running := drop_nth i (running m)\<rparr>)"
  obtain M where M: "waits m' = ?rest + M" "\<forall>u\<in>#M. u = k a \<or> (u, k a) \<in> parts"
    using advance_waits [of "k a" "m\<lparr>running := drop_nth i (running m)\<rparr>"] i k by (auto simp: resume_def)
  have "waits m = ?rest + {#Wait w k#}"
    using i k mset_drop_nth [of i "map (\<lambda>(w, k). Wait w k) (running m)"]
    by (simp add: waits_def map_drop_nth)
  moreover have "(u, Wait w k) \<in> parts" if "u \<in># M" for u
    using M(2) that by (intro parts_step [OF part_of.intros(2) [of k a]]) simp
  ultimately show ?thesis
    using one_step_implies_mult [of "{#Wait w k#}" M parts ?rest] M(1) by simp
qed

lemma resumed_terminates: "wfp (\<lambda>m' m. resumed m m')"
proof -
  have "wf (inv_image (mult parts) waits)"
    by (intro wf_inv_image wf_mult wf_parts)
  moreover have "{(m', m). resumed m m'} \<subseteq> inv_image (mult parts) waits"
    using resumed_smaller by auto
  ultimately show ?thesis
    by (simp add: wfp_def wf_subset)
qed

subsection \<open>A status that does not stay pending\<close>

definition pending_text :: js_value where "pending_text = Json (Str ''pending'')"

text \<open>\<open>settles x p t\<close>: whatever the answers, when \<open>t\<close> ends the last status it set, if any, is not
  \<open>pending\<close>; \<open>p\<close> says whether the last one so far is.\<close>

primrec settles :: "string \<Rightarrow> bool \<Rightarrow> task \<Rightarrow> bool" where
  "settles x p (Finish r) \<longleftrightarrow> \<not> p"
| "settles x p (Do d t) \<longleftrightarrow>
     settles x (case d of SetCell y v \<Rightarrow> if y = x then v = pending_text else p | Dispatched ty pl \<Rightarrow> p) t"
| "settles x p (Wait w k) \<longleftrightarrow> (\<forall>a. possible w a \<longrightarrow> settles x p (k a))"
| "settles x p (Look y k) \<longleftrightarrow> (\<forall>v. settles x p (k v))"
| "settles x p (Fork s t) \<longleftrightarrow> settles x False s \<and> settles x p t"

lemma settles_mono: "settles x True t \<Longrightarrow> settles x p t"
proof (induction t arbitrary: p)
  case (Do d t)
  then show ?case by (cases p) (auto split: deed.splits if_splits)
qed auto

definition kept :: "string \<Rightarrow> bool \<Rightarrow> machine \<Rightarrow> bool" where
  "kept x q m \<longleftrightarrow> (\<forall>(w, k)\<in>set (running m). settles x False (Wait w k))
     \<and> (mounted m \<longrightarrow> cell m x = pending_text \<longrightarrow>
          q \<or> (\<exists>(w, k)\<in>set (running m). settles x True (Wait w k)))"

lemma kept_perform:
  "kept x (p \<or> q) m \<Longrightarrow> kept x ((case d of SetCell y v \<Rightarrow> if y = x then v = pending_text else p
     | Dispatched ty pl \<Rightarrow> p) \<or> q) (perform d m)"
  by (cases d) (auto simp: kept_def cell_def)

lemma kept_advance: "\<lbrakk>settles x p t; kept x (p \<or> q) m\<rbrakk> \<Longrightarrow> kept x q (advance t m)"
proof (induction t arbitrary: p q m)
  case (Finish r)
  then show ?case by simp
next
  case (Do d t)
  show ?case using Do.IH [OF _ kept_perform [OF Do.prems(2), of d]] Do.prems(1) by simp
next
  case (Wait w k)
  then have "settles x False (Wait w k)"
    by (cases p) (auto intro: settles_mono)
  then show ?case using Wait.prems by (cases p) (auto simp: kept_def cell_def)
next
  case (Look y k)
  then show ?case using Look.IH [OF rangeI, of p "cell m y" q m] by simp
next
  case (Fork s t)
  have "kept x (p \<or> q) (advance s m)"
    using Fork.prems by (intro Fork.IH(1) [of False]) auto
  then show ?case using Fork.prems(1) Fork.IH(2) [of p q "advance s m"] by simp
qed

lemma drop_nth_elem: "x \<in> set xs \<Longrightarrow> i < length xs \<Longrightarrow> x = xs ! i \<or> x \<in> set (drop_nth i xs)"
  using mset_drop_nth [of i xs] by (metis insertE set_mset_add_mset_insert set_mset_mset)

lemma drop_nth_subset: "set (drop_nth i xs) \<subseteq> set xs"
  using set_take_subset set_drop_subset by (fastforce simp: drop_nth_def)

lemma kept_resume:
  assumes "kept x False m" "i < length (running m)" "possible (fst (running m ! i)) a"
  shows "kept x False (resume i a m)"
proof -
  obtain w k where wk: "running m ! i = (w, k)" by fastforce
  have "(w, k) \<in> set (running m)" using wk assms(2) by (metis nth_mem)
  then have weak: "settles x False (k a)" using assms(1,3) wk by (auto simp: kept_def)
  let ?m = "m\<lparr>running := drop_nth i (running m)\<rparr>"
  have rest: "\<forall>(w, k)\<in>set (running ?m). settles x False (Wait w k)"
    using assms(1) drop_nth_subset [of i "running m"] by (fastforce simp: kept_def)
  have "kept x False (advance (k a) ?m)"
  proof (cases "settles x True (Wait w k)")
    case True
    then have "settles x True (k a)" using assms(3) wk by simp
    moreover have "kept x (True \<or> False) ?m" using rest by (simp add: kept_def)
    ultimately show ?thesis by (rule kept_advance)
  next
    case False
    have "\<exists>wk\<in>set (drop_nth i (running m)). case wk of (w, k) \<Rightarrow> settles x True (Wait w k)"
      if p: "mounted m" "cell m x = pending_text"
    proof -
      obtain wk' where "wk' \<in> set (running m)" "case wk' of (w, k) \<Rightarrow> settles x True (Wait w k)"
        using assms(1) p unfolding kept_def by blast
      then show ?thesis
        using drop_nth_elem [OF _ assms(2), of wk'] False wk by (auto simp del: settles.simps)
    qed
    then have "kept x (False \<or> False) ?m"
      using rest by (simp add: kept_def cell_def del: settles.simps)
    with weak show ?thesis by (rule kept_advance)
  qed
  then show ?thesis by (simp add: resume_def wk)
qed

locale status_protocol =
  fixes ops :: "task set" and x :: string
  assumes settled: "t \<in> ops \<Longrightarrow> settles x False t"
begin

lemma kept_runs:
  "\<lbrakk>runs [] ops m0 tr m; kept x False m0\<rbrakk> \<Longrightarrow> kept x False m"
proof (induction rule: runs.induct)
  case (called tr m t m')
  then show ?case using kept_advance [OF settled [of t], of False m] by simp
next
  case (answered tr m i a m')
  then show ?case using kept_resume [of x m i a] by simp
qed (simp_all add: kept_def cell_def)

lemma at_rest_not_pending:
  assumes "runs [] ops m0 tr m" "running m0 = []" "cell m0 x \<noteq> pending_text" "mounted m" "running m = []"
  shows "cell m x \<noteq> pending_text"
  using kept_runs [OF assms(1)] assms by (simp add: kept_def)

end

subsection \<open>One notification for each failure\<close>

definition notify :: "json_value \<Rightarrow> string \<Rightarrow> deed" where
  "notify txt st = Dispatched ''NOTIFICATION/TOOGLE'' (Obj [(''text'', txt), (''status'', Str st)])"

definition error_note :: "string \<times> json_value \<Rightarrow> bool" where
  "error_note d \<longleftrightarrow> fst d = ''NOTIFICATION/TOOGLE'' \<and> member_of ''status'' (snd d) = Some (Str ''error'')"

definition error_notes :: "machine \<Rightarrow> nat" where
  "error_notes m = length (filter error_note (dispatched m))"

text \<open>\<open>errs mine n t\<close>: whatever the answers, \<open>t\<close> notifies \<open>n\<close> errors, and makes no call of \<open>mine\<close>.\<close>

primrec errs :: "(call \<Rightarrow> bool) \<Rightarrow> nat \<Rightarrow> task \<Rightarrow> bool" where
  "errs mine n (Finish r) \<longleftrightarrow> n = 0"
| "errs mine n (Do d t) \<longleftrightarrow>
     (case d of
        SetCell y v \<Rightarrow> errs mine n t
      | Dispatched ty pl \<Rightarrow> if error_note (ty, pl) then n > 0 \<and> errs mine (n - 1) t else errs mine n t)"
| "errs mine n (Wait w k) \<longleftrightarrow>
     (case w of Server c \<Rightarrow> \<not> mine c | Body t \<Rightarrow> True) \<and> (\<forall>a. possible w a \<longrightarrow> errs mine n (k a))"
| "errs mine n (Look y k) \<longleftrightarrow> (\<forall>v. errs mine n (k v))"
| "errs mine n (Fork s t) \<longleftrightarrow> (\<exists>i\<le>n. errs mine i s \<and> errs mine (n - i) t)"

text \<open>\<open>reports mine ok t\<close>: \<open>t\<close> makes at most one call of \<open>mine\<close>, and notifies one error when that is
  rejected with a reason that is \<open>ok\<close>, none otherwise.\<close>

primrec reports :: "(call \<Rightarrow> bool) \<Rightarrow> (thing \<Rightarrow> bool) \<Rightarrow> task \<Rightarrow> bool" where
  "reports mine ok (Finish r) \<longleftrightarrow> True"
| "reports mine ok (Do d t) \<longleftrightarrow>
     (case d of SetCell y v \<Rightarrow> True | Dispatched ty pl \<Rightarrow> \<not> error_note (ty, pl)) \<and> reports mine ok t"
| "reports mine ok (Wait w k) \<longleftrightarrow>
     (case w of
        Server c \<Rightarrow> mine c \<and> (\<forall>v. errs mine 0 (k (Resolved v))) \<and> (\<forall>e. ok e \<longrightarrow> errs mine 1 (k (Rejected e)))
      | Body t \<Rightarrow> False)"
| "reports mine ok (Look y k) \<longleftrightarrow> (\<forall>v. reports mine ok (k v))"
| "reports mine ok (Fork s t) \<longleftrightarrow> False"

definition failed :: "(call \<Rightarrow> bool) \<Rightarrow> awaited \<times> json_value settled \<Rightarrow> bool" where
  "failed mine wa \<longleftrightarrow> (case wa of (Server c, Rejected e) \<Rightarrow> mine c | _ \<Rightarrow> False)"

definition reason :: "awaited \<times> json_value settled \<Rightarrow> thing option" where
  "reason wa = (case snd wa of Rejected e \<Rightarrow> Some e | Resolved v \<Rightarrow> None)"

definition owes :: "(call \<Rightarrow> bool) \<Rightarrow> (thing \<Rightarrow> bool) \<Rightarrow> nat \<Rightarrow> awaited \<times> (json_value settled \<Rightarrow> task) \<Rightarrow> bool" where
  "owes mine ok n wk \<longleftrightarrow> errs mine n (Wait (fst wk) (snd wk))
     \<or> n = 0 \<and> reports mine ok (Wait (fst wk) (snd wk))"

text \<open>The notifications made, and those the waiting tasks will make.\<close>

definition ledger :: "(call \<Rightarrow> bool) \<Rightarrow> (thing \<Rightarrow> bool) \<Rightarrow> nat \<Rightarrow> machine \<Rightarrow> bool" where
  "ledger mine ok n m \<longleftrightarrow>
     (\<exists>ns. list_all2 (owes mine ok) ns (running m) \<and> error_notes m + sum_list ns = n)"

lemma ledger_perform:
  "ledger mine ok n m \<Longrightarrow> ledger mine ok ((case d of SetCell y v \<Rightarrow> 0
      | Dispatched ty pl \<Rightarrow> if error_note (ty, pl) then 1 else 0) + n) (perform d m)"
  by (cases d) (auto simp: ledger_def error_notes_def)

lemma ledger_wait:
  "\<lbrakk>owes mine ok n (w, k); ledger mine ok l m\<rbrakk>
    \<Longrightarrow> ledger mine ok (l + n) (m\<lparr>running := running m @ [(w, k)]\<rparr>)"
  unfolding ledger_def
  by (elim exE conjE, rule_tac x = "ns @ [n]" in exI) (simp add: list_all2_appendI error_notes_def)

lemma ledger_errs: "\<lbrakk>errs mine n t; ledger mine ok l m\<rbrakk> \<Longrightarrow> ledger mine ok (l + n) (advance t m)"
proof (induction t arbitrary: n l m)
  case (Finish r)
  then show ?case by simp
next
  case (Do d t)
  show ?case
  proof (cases d)
    case (SetCell y v)
    then show ?thesis using Do.IH [of n l "perform d m"] Do.prems ledger_perform [OF Do.prems(2), of d] by simp
  next
    case (Dispatched ty pl)
    show ?thesis
    proof (cases "error_note (ty, pl)")
      case True
      then have "errs mine (n - 1) t" "n > 0" using Do.prems(1) Dispatched by simp_all
      then show ?thesis
        using Do.IH [of "n - 1" "1 + l" "perform d m"] ledger_perform [OF Do.prems(2), of d] True Dispatched
        by simp
    next
      case False
      then show ?thesis
        using Do.IH [of n l "perform d m"] Do.prems ledger_perform [OF Do.prems(2), of d] Dispatched by simp
    qed
  qed
next
  case (Wait w k)
  then show ?case using ledger_wait [of mine ok n w k l m] by (simp add: owes_def)
next
  case (Look y k)
  then show ?case by auto
next
  case (Fork s t)
  then obtain i where i: "i \<le> n" "errs mine i s" "errs mine (n - i) t" by auto
  show ?case
    using Fork.IH(2) [OF i(3) Fork.IH(1) [OF i(2) Fork.prems(2)]] i(1) by simp
qed

lemma ledger_reports: "\<lbrakk>reports mine ok t; ledger mine ok l m\<rbrakk> \<Longrightarrow> ledger mine ok l (advance t m)"
proof (induction t arbitrary: l m)
  case (Do d t)
  then show ?case
    using Do.IH [of l "perform d m"] ledger_perform [OF Do.prems(2), of d] by (cases d) auto
next
  case (Wait w k)
  then show ?case using ledger_wait [of mine ok 0 w k l m] by (simp add: owes_def)
qed auto

lemma sum_list_drop_nth: "i < length ns \<Longrightarrow> sum_list ns = ns ! i + sum_list (drop_nth i ns)" for ns :: "nat list"
  using mset_drop_nth [of i ns] by (metis sum_mset.add_mset sum_mset_sum_list)

lemma list_all2_drop_nth: "list_all2 P xs ys \<Longrightarrow> list_all2 P (drop_nth i xs) (drop_nth i ys)"
  by (simp add: drop_nth_def list_all2_appendI list_all2_takeI list_all2_dropI)

lemma ledger_resume:
  assumes "ledger mine ok l m" "i < length (running m)" "possible (fst (running m ! i)) a"
    "failed mine (fst (running m ! i), a) \<Longrightarrow> \<exists>e. a = Rejected e \<and> ok e"
  shows "ledger mine ok (l + (if failed mine (fst (running m ! i), a) then 1 else 0)) (resume i a m)"
proof -
  obtain w k where wk: "running m ! i = (w, k)" by fastforce
  obtain ns where ns: "list_all2 (owes mine ok) ns (running m)" "error_notes m + sum_list ns = l"
    using assms(1) by (auto simp: ledger_def)
  let ?m = "m\<lparr>running := drop_nth i (running m)\<rparr>"
  have len: "i < length ns" using ns(1) assms(2) by (simp add: list_all2_lengthD)
  have owed: "owes mine ok (ns ! i) (w, k)"
    using list_all2_nthD2 [OF ns(1) assms(2)] wk by simp
  have rest: "ledger mine ok (l - ns ! i) ?m"
    unfolding ledger_def
    by (rule exI [of _ "drop_nth i ns"])
       (use ns sum_list_drop_nth [OF len] list_all2_drop_nth [OF ns(1)] in \<open>simp add: error_notes_def\<close>)
  have le: "ns ! i \<le> l" using ns(2) sum_list_drop_nth [OF len] by simp
  show ?thesis
  proof (cases "errs mine (ns ! i) (Wait w k)")
    case True
    then have "errs mine (ns ! i) (k a)" "\<not> failed mine (w, a)"
      using assms(3) wk by (auto simp: failed_def split: awaited.splits settled.splits)
    then show ?thesis
      using ledger_errs [OF _ rest, of "ns ! i" "k a"] le by (simp add: resume_def wk)
  next
    case False
    then have r: "ns ! i = 0" "reports mine ok (Wait w k)"
      using owed by (simp_all add: owes_def del: errs.simps reports.simps)
    obtain c where c: "w = Server c" "mine c" using r(2) by (cases w) auto
    have "errs mine (if failed mine (w, a) then 1 else 0) (k a)"
    proof (cases a)
      case (Resolved v)
      then show ?thesis using r(2) c by (simp add: failed_def)
    next
      case (Rejected e)
      then have "failed mine (w, a)" using c by (simp add: failed_def)
      then show ?thesis using Rejected assms(4) wk r(2) c by auto
    qed
    then show ?thesis
      using ledger_errs [OF _ rest, of _ "k a"] r(1) by (simp add: resume_def wk)
  qed
qed

locale reporting =
  fixes ops :: "task set" and mine :: "call \<Rightarrow> bool" and ok :: "thing \<Rightarrow> bool"
  assumes reported: "t \<in> ops \<Longrightarrow> reports mine ok t"
begin

definition readable :: "(awaited \<times> json_value settled) list \<Rightarrow> bool" where
  "readable tr \<longleftrightarrow> (\<forall>wa\<in>set tr. failed mine wa \<longrightarrow> (\<exists>e. snd wa = Rejected e \<and> ok e))"

lemma ledger_runs:
  "\<lbrakk>runs [] ops m0 tr m; ledger mine ok n m0; readable tr\<rbrakk>
    \<Longrightarrow> ledger mine ok (n + length (filter (failed mine) tr)) m"
proof (induction rule: runs.induct)
  case (called tr m t m')
  then show ?case
    using ledger_reports [OF reported [of t], of "n + length (filter (failed mine) tr)" m] by simp
next
  case (answered tr m i a m')
  then have "ledger mine ok (n + length (filter (failed mine) tr)) m" by (simp add: readable_def)
  moreover have "\<exists>e. a = Rejected e \<and> ok e" if "failed mine (fst (running m ! i), a)"
    using answered.prems(2) that by (auto simp: readable_def)
  ultimately show ?case
    using ledger_resume [of mine ok "n + length (filter (failed mine) tr)" m i a] answered.hyps
    by (simp split: if_splits)
qed (simp_all add: ledger_def error_notes_def)

lemma one_note_per_failure:
  assumes "runs [] ops m0 tr m" "running m0 = []" "running m = []" "readable tr"
  shows "error_notes m = error_notes m0 + length (filter (failed mine) tr)"
  using ledger_runs [OF assms(1) _ assms(4), of "error_notes m0"] assms(2,3) by (auto simp: ledger_def)

end

end
