(* ===== verification/Calls.thy ===== *)
theory Calls
  imports Tasks
begin

text \<open>
  The calls of the front end to its servers: the functions of \<open>core/providers\<close>. Each names an
  address, a method and a body; the headers are added when the call is sent. A property a
  caller may leave out is an option; the number of a page is its text.
\<close>

definition get_call :: "string \<Rightarrow> call" where
  "get_call url = \<lparr>cl_url = url, cl_body = Absent, cl_method = ''GET''\<rparr>"
definition post_call :: "string \<Rightarrow> given_body \<Rightarrow> call" where
  "post_call url body = \<lparr>cl_url = url, cl_body = body, cl_method = ''POST''\<rparr>"
definition put_call :: "string \<Rightarrow> given_body \<Rightarrow> call" where
  "put_call url body = \<lparr>cl_url = url, cl_body = body, cl_method = ''PUT''\<rparr>"
definition delete_call :: "string \<Rightarrow> given_body \<Rightarrow> call" where
  "delete_call url body = \<lparr>cl_url = url, cl_body = body, cl_method = ''DELETE''\<rparr>"
definition patch_call :: "string \<Rightarrow> given_body \<Rightarrow> call" where
  "patch_call url body = \<lparr>cl_url = url, cl_body = body, cl_method = ''PATCH''\<rparr>"

definition patches :: "json_value list \<Rightarrow> given_body" where
  "patches ps = Data (Obj [(''patches'', Arr ps)])"

definition patch_op :: "string \<Rightarrow> string \<Rightarrow> json_value \<Rightarrow> json_value" where
  "patch_op opType path v =
     (if v = Undefined then Obj [(''op'', Str opType), (''path'', Str path)]
      else Obj [(''op'', Str opType), (''path'', Str path), (''value'', v)])"

definition patch_one :: "string \<Rightarrow> string \<Rightarrow> string \<Rightarrow> json_value \<Rightarrow> call" where
  "patch_one url opType path v = patch_call url (patches [patch_op opType path v])"

definition or_zero :: "string option \<Rightarrow> string" where
  "or_zero page = (case page of None \<Rightarrow> ''0'' | Some n \<Rightarrow> n)"

definition or_empty :: "string option \<Rightarrow> string" where
  "or_empty name = (case name of None \<Rightarrow> [] | Some n \<Rightarrow> n)"

definition DEFAULT_PAGE_SIZE :: string where "DEFAULT_PAGE_SIZE = ''50''"

definition with_query :: "string \<Rightarrow> params \<Rightarrow> string" where
  "with_query url ps = url @ ''?'' @ serialize ps"

text \<open>What the lists of modules, groups, tokens and workspaces ask for.\<close>

definition page_params :: "string option \<Rightarrow> string option \<Rightarrow> params" where
  "page_params name page =
     [(''size'', DEFAULT_PAGE_SIZE), (''name'', or_empty name), (''page'', or_zero page)]"

subsection \<open>Users\<close>

definition users_endpoint :: string where "users_endpoint = ''/moove/v2/users''"
definition users_v1Endpoint :: string where "users_v1Endpoint = ''/moove/users''"

definition findAllUsers :: "string option \<Rightarrow> string option \<Rightarrow> string option \<Rightarrow> call" where
  "findAllUsers name email page = get_call (with_query users_endpoint
     ([(''size'', DEFAULT_PAGE_SIZE), (''page'', or_zero page)]
      @ (if truthy name then [(''name'', the name)] else [])
      @ (if truthy email then [(''email'', the email)] else [])))"

definition users_findAll :: call where
  "users_findAll = get_call (with_query users_v1Endpoint
     [(''size'', DEFAULT_PAGE_SIZE), (''page'', ''0''), (''sort'', ''createdAt,desc'')])"

definition resetPasswordById :: "string \<Rightarrow> call" where
  "resetPasswordById i = put_call (users_endpoint @ ''/'' @ i @ ''/reset-password'') Absent"
definition updateProfileById :: "string \<Rightarrow> json_value \<Rightarrow> call" where
  "updateProfileById i profile = put_call (users_v1Endpoint @ ''/'' @ i) (Data profile)"
definition patchProfileById :: "string \<Rightarrow> string \<Rightarrow> call" where
  "patchProfileById i name = patch_one (users_endpoint @ ''/'' @ i) ''replace'' ''/name'' (Str name)"
definition findWorkspacesByUserId :: "string \<Rightarrow> string option \<Rightarrow> call" where
  "findWorkspacesByUserId i name = get_call (with_query (users_endpoint @ ''/'' @ i @ ''/workspaces'')
     [(''size'', DEFAULT_PAGE_SIZE), (''name'', or_empty name), (''page'', ''0''),
      (''sort'', ''createdAt,desc'')])"
definition deleteUserById :: "string \<Rightarrow> call" where
  "deleteUserById i = delete_call (users_v1Endpoint @ ''/'' @ i) (Data Null)"
definition createNewUser :: "json_value \<Rightarrow> call" where
  "createNewUser user = post_call users_endpoint (Data user)"
definition changePassword :: "json_value \<Rightarrow> call" where
  "changePassword d = put_call (users_endpoint @ ''/password'') (Data d)"

text \<open>\<open>findUserByEmail\<close> throws when the e-mail is not made of bytes.\<close>

definition findUserByEmail_call :: "page \<Rightarrow> string \<Rightarrow> call option" where
  "findUserByEmail_call p email =
     map_option (\<lambda>encodedEmail. get_call (users_endpoint @ ''/'' @ encodedEmail)) (btoa p email)"

subsection \<open>Groups of users\<close>

definition groups_endpoint :: string where "groups_endpoint = ''/moove/v2/user-groups''"

definition findAllUserGroup :: "string option \<Rightarrow> string option \<Rightarrow> call" where
  "findAllUserGroup name page = get_call (with_query groups_endpoint (page_params name page))"
definition findUserGroupById :: "string \<Rightarrow> call" where
  "findUserGroupById i = get_call (groups_endpoint @ ''/'' @ i)"
definition saveUserGroup :: "json_value \<Rightarrow> call" where
  "saveUserGroup d = post_call groups_endpoint (Data d)"
definition updateUserGroup :: "string \<Rightarrow> json_value \<Rightarrow> call" where
  "updateUserGroup i d = put_call (groups_endpoint @ ''/'' @ i) (Data d)"
definition deleteUserGroup :: "string \<Rightarrow> call" where
  "deleteUserGroup i = delete_call (groups_endpoint @ ''/'' @ i) (Data Null)"
definition addMemberToUserGroup :: "string \<Rightarrow> json_value \<Rightarrow> call" where
  "addMemberToUserGroup i d = post_call (groups_endpoint @ ''/'' @ i @ ''/members'') (Data d)"
definition removeMemberToUserGroup :: "string \<Rightarrow> string \<Rightarrow> call" where
  "removeMemberToUserGroup g m =
     delete_call (groups_endpoint @ ''/'' @ g @ ''/members/'' @ m) (Data Null)"

subsection \<open>Tokens\<close>

definition tokens_endpoint :: string where "tokens_endpoint = ''/gate/api/v1/system-token''"

definition tokens_findAll :: "string option \<Rightarrow> string option \<Rightarrow> call" where
  "tokens_findAll name page = get_call (with_query tokens_endpoint (page_params name page))"
definition tokens_findById :: "string \<Rightarrow> call" where
  "tokens_findById i = get_call (tokens_endpoint @ ''/'' @ i)"
definition tokens_create :: "json_value \<Rightarrow> call" where
  "tokens_create t = post_call tokens_endpoint (Data t)"
definition tokens_revoke :: "string \<Rightarrow> call" where
  "tokens_revoke i = post_call (tokens_endpoint @ ''/'' @ i @ ''/revoke'') Absent"
definition tokens_regenerate :: "string \<Rightarrow> call" where
  "tokens_regenerate i = put_call (tokens_endpoint @ ''/'' @ i @ ''/regenerate'') Absent"

subsection \<open>Modules and their components\<close>

definition modules_endpoint :: string where "modules_endpoint = ''/moove/v2/modules''"

definition modules_findAll :: "string option \<Rightarrow> string option \<Rightarrow> call" where
  "modules_findAll name page = get_call (with_query modules_endpoint (page_params name page))"
definition modules_findById :: "string \<Rightarrow> call" where
  "modules_findById i = get_call (modules_endpoint @ ''/'' @ i)"
definition modules_create :: "json_value \<Rightarrow> call" where
  "modules_create d = post_call modules_endpoint (Data d)"
definition modules_update :: "string \<Rightarrow> json_value \<Rightarrow> call" where
  "modules_update i d = put_call (modules_endpoint @ ''/'' @ i) (Data d)"
definition deleteModule :: "string \<Rightarrow> call" where
  "deleteModule i = delete_call (modules_endpoint @ ''/'' @ i) (Data (Obj []))"
definition createComponent :: "string \<Rightarrow> json_value \<Rightarrow> call" where
  "createComponent moduleId d = post_call (modules_endpoint @ ''/'' @ moduleId @ ''/components'') (Data d)"
definition updateComponent :: "string \<Rightarrow> string \<Rightarrow> json_value \<Rightarrow> call" where
  "updateComponent m i d =
     put_call (modules_endpoint @ ''/'' @ m @ ''/components/'' @ i) (Data d)"
definition deleteComponent :: "string \<Rightarrow> string \<Rightarrow> call" where
  "deleteComponent m i =
     delete_call (modules_endpoint @ ''/'' @ m @ ''/components/'' @ i) (Data (Obj []))"
definition findComponentTags :: "string \<Rightarrow> string \<Rightarrow> (string \<times> given_value) list \<Rightarrow> call" where
  "findComponentTags m i ps = get_call (with_query
     (modules_endpoint @ ''/'' @ m @ ''/components/'' @ i @ ''/tags'') (buildParams ps))"

subsection \<open>Circles\<close>

definition circles_endpoint :: string where "circles_endpoint = ''/moove/v2/circles''"

text \<open>A template prints a flag that is missing as \<open>undefined\<close>.\<close>

definition flag_text :: "bool option \<Rightarrow> string" where
  "flag_text f = (case f of None \<Rightarrow> ''undefined'' | Some b \<Rightarrow> if b then ''true'' else ''false'')"

definition findAllCircles :: "bool option \<Rightarrow> string option \<Rightarrow> string option \<Rightarrow> call" where
  "findAllCircles active name page = get_call (with_query circles_endpoint
     [(''active'', flag_text active), (''size'', DEFAULT_PAGE_SIZE), (''name'', in_template name),
      (''page'', or_zero page)])"
definition findPercentageCircles :: "bool option \<Rightarrow> string option \<Rightarrow> call" where
  "findPercentageCircles active name = get_call (with_query (circles_endpoint @ ''/percentage'')
     [(''active'', flag_text active), (''size'', ''200''), (''name'', in_template name)])"
definition findComponents :: "string \<Rightarrow> call" where
  "findComponents i = get_call (circles_endpoint @ ''/'' @ i @ ''/components'')"
definition findCircleById :: "string option \<Rightarrow> call" where
  "findCircleById i = get_call (circles_endpoint @ ''/'' @ in_template i)"
definition deleteCircleById :: "string \<Rightarrow> call" where
  "deleteCircleById i = delete_call (circles_endpoint @ ''/'' @ i) (Data Null)"
definition circleMatcherIdentify :: "json_value \<Rightarrow> call" where
  "circleMatcherIdentify d = post_call (circles_endpoint @ ''/identify'') (Data d)"
definition createCircleManually :: "json_value \<Rightarrow> call" where
  "createCircleManually d = post_call circles_endpoint (Data d)"
definition createCirclePercentage :: "json_value \<Rightarrow> call" where
  "createCirclePercentage d = post_call (circles_endpoint @ ''/percentage'') (Data d)"

text \<open>Each update replaces two properties of the circle; a value the payload does not have is left
  out when the body is written.\<close>

definition updateCirclePercentage :: "json_value \<Rightarrow> json_value \<Rightarrow> string \<Rightarrow> call" where
  "updateCirclePercentage percentage name i = patch_call (circles_endpoint @ ''/'' @ i @ ''/percentage'')
     (patches [patch_op ''replace'' ''/percentage'' percentage, patch_op ''replace'' ''/name'' name])"
definition updateCircleManually :: "json_value \<Rightarrow> json_value \<Rightarrow> string \<Rightarrow> call" where
  "updateCircleManually rules name cid = patch_call (circles_endpoint @ ''/'' @ cid)
     (patches [patch_op ''replace'' ''/rules'' rules, patch_op ''replace'' ''/name'' name])"

definition createCircleWithFile :: "(string \<times> string) list \<Rightarrow> call" where
  "createCircleWithFile d = post_call (circles_endpoint @ ''/csv'') (Form d)"
definition updateCircleWithFile :: "(string \<times> string) list \<Rightarrow> string \<Rightarrow> call" where
  "updateCircleWithFile d cid = put_call (circles_endpoint @ ''/'' @ cid @ ''/csv'') (Form d)"
definition findAllCirclesWithoutActive :: "string option \<Rightarrow> call" where
  "findAllCirclesWithoutActive name = get_call (with_query circles_endpoint
     [(''size'', DEFAULT_PAGE_SIZE), (''name'', in_template name)])"
definition findAllCirclesSimple :: "string option \<Rightarrow> string option \<Rightarrow> bool option \<Rightarrow> call" where
  "findAllCirclesSimple name i active =
     (let ps = [(''size'', DEFAULT_PAGE_SIZE), (''name'', in_template name), (''except'', in_template i)]
      in get_call (with_query (circles_endpoint @ ''/simple'')
           (if active = Some True then ps @ [(''active'', flag_text active)] else ps)))"

subsection \<open>Builds and deployments\<close>

definition composeBuild :: "json_value \<Rightarrow> call" where
  "composeBuild d = post_call ''/moove/v2/builds/compose'' (Data d)"
definition findBuilds :: "(string \<times> given_value) list \<Rightarrow> call" where
  "findBuilds d = get_call (with_query ''/moove/v2/builds'' (buildParams d))"
definition deployments_v2Endpoint :: string where "deployments_v2Endpoint = ''/moove/v2/deployments''"
definition createDeployment_call :: "json_value \<Rightarrow> call" where
  "createDeployment_call d = post_call deployments_v2Endpoint (Data d)"
definition undeploy :: "string \<Rightarrow> call" where
  "undeploy did = post_call (deployments_v2Endpoint @ ''/'' @ did @ ''/undeploy'') Absent"
definition getDeployHistoryByCircleId :: "params \<Rightarrow> string \<Rightarrow> call" where
  "getDeployHistoryByCircleId ps cid = get_call (with_query
     (deployments_v2Endpoint @ ''/circle/'' @ cid @ ''/history'') (ps @ [(''size'', ''10'')]))"
definition findDeployLogsByDeploymentId :: "string \<Rightarrow> call" where
  "findDeployLogsByDeploymentId did =
     get_call (deployments_v2Endpoint @ ''/'' @ did @ ''/logs'')"

subsection \<open>Workspaces and their configuration\<close>

definition workspaces_endpoint :: string where "workspaces_endpoint = ''/moove/v2/workspaces''"

definition findAllWorkspaceUsers :: "string \<Rightarrow> (string \<times> given_value) list \<Rightarrow> call" where
  "findAllWorkspaceUsers wid flt = get_call (with_query
     (workspaces_endpoint @ ''/'' @ wid @ ''/users'')
     (buildParams (map (\<lambda>(k, d). (k, case map_of flt k of None \<Rightarrow> d | Some v \<Rightarrow> v))
          [(''size'', OneText ''100''), (''page'', OneText ''0'')]
        @ filter (\<lambda>kv. fst kv \<noteq> ''size'' \<and> fst kv \<noteq> ''page'') flt)))"
definition workspaces_findAll :: "string option \<Rightarrow> string option \<Rightarrow> call" where
  "workspaces_findAll name page = get_call (with_query workspaces_endpoint (page_params name page))"
definition saveWorkspaceName :: "json_value \<Rightarrow> call" where
  "saveWorkspaceName d = post_call workspaces_endpoint (Data d)"
definition workspaces_findById :: "string option \<Rightarrow> call" where
  "workspaces_findById i = get_call (workspaces_endpoint @ ''/'' @ in_template i)"

text \<open>The workspace of the page is in the address: \<open>w\<close> is what \<open>getWorkspaceId\<close> gives.\<close>

definition updateName :: "string \<Rightarrow> string \<Rightarrow> call" where
  "updateName w v = patch_one (workspaces_endpoint @ ''/'' @ w) ''replace'' ''/name'' (Str v)"
definition addConfig :: "string \<Rightarrow> string \<Rightarrow> json_value \<Rightarrow> call" where
  "addConfig w path v = patch_one (workspaces_endpoint @ ''/'' @ w) ''replace'' path v"
definition delConfig :: "string \<Rightarrow> string \<Rightarrow> json_value \<Rightarrow> call" where
  "delConfig w path v = patch_one (workspaces_endpoint @ ''/'' @ w) ''remove'' path v"
definition testGitConnection :: "json_value \<Rightarrow> call" where
  "testGitConnection d = post_call ''/moove/v2/configurations/git/connection-status'' (Data d)"

definition registry_endpoint :: string where "registry_endpoint = ''/moove/config/registry''"
definition registry_configPath :: string where "registry_configPath = ''/registryConfigurationId''"
definition registry_create :: "json_value \<Rightarrow> call" where
  "registry_create d = post_call registry_endpoint (Data d)"
definition testRegistryConnection :: "json_value \<Rightarrow> call" where
  "testRegistryConnection d = post_call (registry_endpoint @ ''/validation'') (Data d)"
definition validateConnection :: "string \<Rightarrow> call" where
  "validateConnection conf = post_call (registry_endpoint @ ''/connection-validation'')
     (Data (Obj [(''configurationId'', Str conf)]))"

definition git_configPath :: string where "git_configPath = ''/gitConfigurationId''"
definition git_create :: "json_value \<Rightarrow> call" where
  "git_create d = post_call ''/moove/v2/configurations/git'' (Data d)"
definition circleMatcher_configPath :: string where "circleMatcher_configPath = ''/circleMatcherUrl''"

definition deployment_configPath :: string where
  "deployment_configPath = ''/deploymentConfigurationId''"
definition deploymentConfiguration_create :: "json_value \<Rightarrow> call" where
  "deploymentConfiguration_create d = post_call ''/moove/v2/configurations/deployment'' (Data d)"
definition removeDeploymentConfiguration :: "string \<Rightarrow> call" where
  "removeDeploymentConfiguration i =
     delete_call (''/moove/v2/configurations/deployment/'' @ i) (Data Null)"

definition webhooks_endpoint :: string where "webhooks_endpoint = ''/moove/v1/webhooks''"
definition webhook_saveConfig :: "json_value \<Rightarrow> call" where
  "webhook_saveConfig d = post_call webhooks_endpoint (Data d)"
definition webhook_getConfig :: "string \<Rightarrow> call" where
  "webhook_getConfig i = get_call (webhooks_endpoint @ ''/'' @ i)"
definition webhook_editConfig :: "string \<Rightarrow> string list \<Rightarrow> call" where
  "webhook_editConfig i v =
     patch_one (webhooks_endpoint @ ''/'' @ i) ''replace'' ''/events'' (Arr (map Str v))"
definition webhook_delConfig :: "string \<Rightarrow> call" where
  "webhook_delConfig i = delete_call (webhooks_endpoint @ ''/'' @ i) (Data Null)"

definition roles_findAll :: call where
  "roles_findAll = get_call ''/moove/v2/roles?size=30''"

text \<open>The name of a group is put into the address as it is.\<close>

definition userGroup_findAll :: call where
  "userGroup_findAll = get_call ''/moove/v2/user-groups''"
definition userGroup_findByName :: "string \<Rightarrow> call" where
  "userGroup_findByName name = get_call (''/moove/v2/user-groups?name='' @ name)"
definition userGroup_create :: "string \<Rightarrow> json_value \<Rightarrow> call" where
  "userGroup_create i d = post_call (workspaces_endpoint @ ''/'' @ i @ ''/groups'') (Data d)"
definition userGroup_detach :: "string \<Rightarrow> string \<Rightarrow> call" where
  "userGroup_detach i g =
     delete_call (workspaces_endpoint @ ''/'' @ i @ ''/groups/'' @ g) (Data Null)"

subsection \<open>Metrics\<close>

definition metricProvider_create :: "json_value \<Rightarrow> call" where
  "metricProvider_create d = post_call ''/moove/v2/configurations/metric-configurations'' (Data d)"
definition verifyProviderConnection :: "params \<Rightarrow> call" where
  "verifyProviderConnection ps =
     get_call (with_query ''/moove/v2/configurations/metric-configurations/provider-status'' ps)"
definition metricProviderConfigConnection :: "params \<Rightarrow> string \<Rightarrow> call" where
  "metricProviderConfigConnection ps workspaceId =
     get_call (with_query (''/moove/v2/workspaces/'' @ workspaceId @ ''/metrics/provider-status'') ps)"
definition metricProvider_configPath :: string where
  "metricProvider_configPath = ''/metricConfigurationId''"

definition compass_endpoint :: string where "compass_endpoint = ''/compass/api/v1''"

definition group_address :: "string \<Rightarrow> string" where
  "group_address g = compass_endpoint @ ''/metrics-groups/'' @ g"

definition getMetricsGroupsResumeById :: "params \<Rightarrow> call" where
  "getMetricsGroupsResumeById ps =
     get_call (with_query (compass_endpoint @ ''/resume/metrics-groups'') ps)"
definition getAllMetricsGroupsById :: "string \<Rightarrow> call" where
  "getAllMetricsGroupsById cid =
     get_call (compass_endpoint @ ''/circles/'' @ cid @ ''/metrics-groups'')"
definition getAllMetricsProviders :: call where
  "getAllMetricsProviders = get_call (compass_endpoint @ ''/datasources'')"
definition createMetric :: "string \<Rightarrow> json_value \<Rightarrow> call" where
  "createMetric g d = post_call (group_address g @ ''/metrics'') (Data d)"
definition updateMetric :: "string \<Rightarrow> string \<Rightarrow> json_value \<Rightarrow> call" where
  "updateMetric g i d = put_call (group_address g @ ''/metrics/'' @ i) (Data d)"
definition getAllDataSourceMetrics :: "string \<Rightarrow> call" where
  "getAllDataSourceMetrics i = get_call (compass_endpoint @ ''/datasources/'' @ i @ ''/metrics'')"
definition createMetricGroup :: "json_value \<Rightarrow> call" where
  "createMetricGroup d = post_call (compass_endpoint @ ''/metrics-groups'') (Data d)"
definition updateMetricGroup :: "json_value \<Rightarrow> string \<Rightarrow> call" where
  "updateMetricGroup d g = patch_call (group_address g) (Data d)"
definition deleteMetricGroup :: "string \<Rightarrow> call" where
  "deleteMetricGroup g = delete_call (group_address g) (Data Null)"
definition deleteMetricByMetricId :: "string \<Rightarrow> string \<Rightarrow> call" where
  "deleteMetricByMetricId g i = delete_call (group_address g @ ''/metrics/'' @ i) (Data Null)"
definition getChartDataByQuery :: "string \<Rightarrow> params \<Rightarrow> call" where
  "getChartDataByQuery g ps = get_call (with_query (group_address g @ ''/query'') ps)"
definition getAllActionsTypes :: call where
  "getAllActionsTypes = get_call (compass_endpoint @ ''/actions'')"
definition createAction_group :: "json_value \<Rightarrow> call" where
  "createAction_group d = post_call (compass_endpoint @ ''/group-actions'') (Data d)"
definition deleteActionByActionId :: "string \<Rightarrow> call" where
  "deleteActionByActionId i = delete_call (compass_endpoint @ ''/group-actions/'' @ i) (Data Null)"
definition updateAction :: "json_value \<Rightarrow> string \<Rightarrow> call" where
  "updateAction d i = put_call (compass_endpoint @ ''/group-actions/'' @ i) (Data d)"
definition getGroupActionById :: "string \<Rightarrow> call" where
  "getGroupActionById i = get_call (compass_endpoint @ ''/group-actions/'' @ i)"

definition getAllActions :: call where
  "getAllActions = get_call (compass_endpoint @ ''/actions'')"
definition deleteActionById :: "string \<Rightarrow> call" where
  "deleteActionById i = delete_call (compass_endpoint @ ''/actions/'' @ i) (Data Null)"
definition getPluginsByCategory :: "string \<Rightarrow> call" where
  "getPluginsByCategory category =
     get_call (with_query (compass_endpoint @ ''/plugins'') [(''category'', category)])"
definition createAction_call :: "json_value \<Rightarrow> call" where
  "createAction_call d = post_call (compass_endpoint @ ''/actions'') (Data d)"

definition getAllPlugins :: call where
  "getAllPlugins = get_call (compass_endpoint @ ''/plugins?category=datasource'')"
definition getAllDatasources :: call where
  "getAllDatasources = get_call (compass_endpoint @ ''/datasources'')"
definition testDataSourceConnection :: "json_value \<Rightarrow> call" where
  "testDataSourceConnection d = post_call (compass_endpoint @ ''/datasources/test-connection'') (Data d)"
definition createDatasource :: "json_value \<Rightarrow> call" where
  "createDatasource d = post_call (compass_endpoint @ ''/datasources'') (Data d)"
definition deleteDatasource :: "string \<Rightarrow> call" where
  "deleteDatasource i = delete_call (compass_endpoint @ ''/datasources/'' @ i) (Data Null)"

definition metrics_endpoint :: string where "metrics_endpoint = ''/moove/metrics''"
definition findCircleMetrics :: "params \<Rightarrow> call" where
  "findCircleMetrics d = get_call (with_query (metrics_endpoint @ ''/'') d)"
definition findDeployMetrics :: "params \<Rightarrow> call" where
  "findDeployMetrics ps = get_call (with_query (metrics_endpoint @ ''/deployments'') ps)"
definition findAllCirclesMetrics :: call where
  "findAllCirclesMetrics = get_call (metrics_endpoint @ ''/circles'')"
definition findAllCirclesHistory :: "params \<Rightarrow> call" where
  "findAllCirclesHistory ps =
     get_call (with_query (circles_endpoint @ ''/history'') (ps @ [(''size'', ''50'')]))"
definition findAllCirclesReleases :: "params \<Rightarrow> string \<Rightarrow> call" where
  "findAllCirclesReleases ps cid = get_call (with_query
     (deployments_v2Endpoint @ ''/circle/'' @ cid @ ''/history'') (ps @ [(''size'', ''50'')]))"
definition findAllReleases :: "params \<Rightarrow> json_value \<Rightarrow> call" where
  "findAllReleases ps d =
     post_call (with_query (deployments_v2Endpoint @ ''/history'') (ps @ [(''size'', ''50'')])) (Data d)"

subsection \<open>Facts\<close>

text \<open>The calls are those of \<open>core/providers/base\<close>.\<close>

lemma send_base:
  "send p (post_call url body) = postRequest p url body"
  "send p (put_call url body) = putRequest p url body"
  "send p (delete_call url (Data Null)) = deleteRequest p url"
  "send p (patch_one url opType path v) = patchRequest p url opType path v"
  by (rule ext, simp add: send_def post_call_def put_call_def delete_call_def patch_one_def
      patch_call_def patches_def patch_op_def postRequest_def putRequest_def deleteRequest_def
      patchRequest_def)+

text \<open>A server reads from a query what was put in.\<close>

lemma query_read_back:
  "parse_query (drop (Suc (length url)) (with_query url ps)) = ps"
  by (simp add: with_query_def parse_serialize)

text \<open>The address for the groups with a name is not a query of that name: the name \<open>a&size=1\<close>
  asks for one group whose name has an \<open>a\<close>.\<close>

theorem group_name_breaks_the_query:
  "userGroup_findByName ''a&size=1'' = get_call (with_query ''/moove/v2/user-groups'' [(''name'', ''a''), (''size'', ''1'')])"
proof -
  have "serialize [(''name'', ''a''), (''size'', ''1'')] = ''name=a&size=1''" by code_simp
  then show ?thesis by (simp add: userGroup_findByName_def with_query_def)
qed

end
