(* ===== verification/Gateway.thy ===== *)
theory Gateway
  imports Calls Queries
begin

text \<open>
  How the front end opens when the identity manager is on: the effects of \<open>Routes.tsx\<close> with
  \<open>useAuth\<close> (\<open>modules/Auth/hooks.ts\<close>), \<open>useUser\<close> and \<open>useCreateUser\<close>. Each effect waits for the state
  the one before has set, so that there is one chain of requests: the code of the address is
  exchanged for tokens, the circle of the user is looked for, the user is read, and created when
  the server does not know it. \<open>jwt_decode\<close> is a parameter; the e-mail of a token is a text.
\<close>

type_synonym jwt_decoder = "string \<Rightarrow> json_value option"

text \<open>What is shown at the end of the chain: the pages, nothing at all, nothing because an effect
  threw (React takes the application off the page), or the page of the identity manager.\<close>

datatype gate = Opened | Blank | Crashed | ToIDM

definition getAccessTokenDecoded :: "jwt_decoder \<Rightarrow> browser \<Rightarrow> json_value" where
  "getAccessTokenDecoded JwtDecode b =
     (case Option.bind (getAccessToken b) JwtDecode of None \<Rightarrow> Obj [] | Some v \<Rightarrow> v)"

definition claim :: "string \<Rightarrow> json_value \<Rightarrow> json_value" where
  "claim k v = (case member_of k v of None \<Rightarrow> Undefined | Some u \<Rightarrow> u)"

definition email_of :: "json_value \<Rightarrow> string" where
  "email_of v = (case claim ''email'' v of Str s \<Rightarrow> s | _ \<Rightarrow> [])"

text \<open>\<open>getParam\<close> takes the whole address for a query.\<close>

definition getParam :: "string \<Rightarrow> browser \<Rightarrow> string option" where
  "getParam param b = get_param param (parse_query (location b))"

text \<open>
  \<open>getTokens\<close>: the request is not awaited, so that the \<open>catch\<close> never sees its rejection; what
  the answer holds is in \<open>grants\<close>.
\<close>

definition getTokens :: "page \<Rightarrow> string \<Rightarrow> browser \<Rightarrow> json_value option \<times> browser" where
  "getTokens p code b =
     (case codeToTokens p code b of
        (Resolved (Response r), b1) \<Rightarrow> (if rs_ok r then rs_json r else None, b1)
      | (_, b1) \<Rightarrow> (None, b1))"

definition find_user :: "page \<Rightarrow> string \<Rightarrow> browser \<Rightarrow> json_value settled \<times> browser" where
  "find_user p email = useFetchData p (findUserByEmail p email) False"

definition create_user :: "page \<Rightarrow> json_value \<Rightarrow> browser \<Rightarrow> json_value settled \<times> browser" where
  "create_user p claims =
     useFetchData p (send p (createNewUser
       (Obj [(''name'', claim ''name'' claims), (''email'', claim ''email'' claims)]))) False"

definition not_found :: "thing \<Rightarrow> bool" where
  "not_found t = (case t of Response r \<Rightarrow> rs_status r = 404 | JsError _ \<Rightarrow> False)"

text \<open>The effect on \<open>user\<close>.\<close>

definition user_loaded :: "page \<Rightarrow> json_value \<Rightarrow> browser \<Rightarrow> gate \<times> browser" where
  "user_loaded p user b =
     (if truthy_value user then
        (case saveProfile p user b of None \<Rightarrow> (Crashed, b) | Some b' \<Rightarrow> (Opened, b'))
      else (Blank, b))"

text \<open>
  \<open>findByEmail\<close> with the effects on \<open>user\<close>, \<open>error\<close> and \<open>newUser\<close>: after a creation the user is
  looked for again, which may fail again. Whether this ends is up to the server.
\<close>

partial_function (option) visit ::
  "page \<Rightarrow> jwt_decoder \<Rightarrow> string \<Rightarrow> browser \<Rightarrow> (gate \<times> browser) option" where
  "visit p JwtDecode email b =
     (if email = [] then Some (Blank, b)
      else case find_user p email b of
          (Resolved v, b1) \<Rightarrow> Some (user_loaded p v b1)
        | (Rejected t, b1) \<Rightarrow>
            if not_found t then
              (case create_user p (getAccessTokenDecoded JwtDecode b1) b1 of
                 (Resolved v, b2) \<Rightarrow>
                   if truthy_value v
                   then visit p JwtDecode (email_of (getAccessTokenDecoded JwtDecode b2)) b2
                   else Some (Blank, b2)
               | (Rejected e, b2) \<Rightarrow> Some (Blank, b2))
            else Some (Blank, b1))"

text \<open>The effect on \<open>grants\<close>.\<close>

definition with_grants ::
  "page \<Rightarrow> jwt_decoder \<Rightarrow> json_value \<Rightarrow> browser \<Rightarrow> (gate \<times> browser) option" where
  "with_grants p JwtDecode grants b =
     (case (member_of ''access_token'' grants, member_of ''refresh_token'' grants) of
        (Some accessToken, Some refreshToken) \<Rightarrow>
          (let b1 = saveSessionData accessToken refreshToken b;
               decoded = getAccessTokenDecoded JwtDecode b1;
               b2 = useCircleMatcher_getCircleId p (Obj [(''username'', claim ''email'' decoded)]) b1
           in visit p JwtDecode (email_of decoded) b2)
      | _ \<Rightarrow> Some (Blank, b))"

text \<open>The first effect, and all that follows from it.\<close>

definition open_page :: "page \<Rightarrow> jwt_decoder \<Rightarrow> browser \<Rightarrow> (gate \<times> browser) option" where
  "open_page p JwtDecode b =
     (if isIDMEnabled p then
        (let code = getParam ''code'' b; email = email_of (getAccessTokenDecoded JwtDecode b)
         in if truthy code then
              (case getTokens p (the code) b of
                 (None, b1) \<Rightarrow> Some (Blank, b1)
               | (Some grants, b1) \<Rightarrow>
                   if truthy_value grants then with_grants p JwtDecode grants b1 else Some (Blank, b1))
            else if email \<noteq> [] then visit p JwtDecode email b
            else Some (ToIDM, redirectToIDM p b))
      else Some (Opened, b))"

subsection \<open>What the requests leave as it is\<close>

definition grows :: "browser \<Rightarrow> browser \<Rightarrow> bool" where
  "grows b b' \<longleftrightarrow> localStorage b' = localStorage b \<and> location b' = location b
     \<and> (\<exists>rs. requests b' = requests b @ rs)"

lemma grows_refl [simp]: "grows b b" by (simp add: grows_def)

lemma grows_trans [trans]: "grows a b \<Longrightarrow> grows b c \<Longrightarrow> grows a c"
  by (auto simp: grows_def)

lemma grows_fetch: "grows b (snd (fetch p rq b))"
  by (simp add: grows_def fetch_def)

lemma grows_rejecting:
  assumes "grows b (snd sb)" "\<And>n b'. grows b' (check n b')"
  shows "grows b (snd (rejecting check sb))"
  using rejecting_cases [of check sb] assms grows_trans by fastforce

lemma grows_checkStatus: "isIDMEnabled p \<Longrightarrow> grows b (checkStatus p n b)"
  by (simp add: checkStatus_def logout_def Let_def grows_def fetch_def)

lemma grows_baseRequest: "isIDMEnabled p \<Longrightarrow> grows b (snd (baseRequest p url body meth b))"
  unfolding baseRequest_def by (intro grows_rejecting grows_fetch grows_checkStatus)

lemma grows_useFetchData:
  assumes "isIDMEnabled p" "\<And>b. grows b (snd (fn b))"
  shows "grows b (snd (useFetchData p fn False b))"
proof -
  have "grows b (snd (renewTokenByCb p fn False b))"
    using assms(2) [of b] assms(2) [of "snd (fn b)"] grows_trans [of b] assms(1)
    by (auto simp: renewTokenByCb_def split: prod.splits settled.splits)
  then show ?thesis by (auto simp: useFetchData_def split: prod.splits settled.splits)
qed

lemma grows_find_user: "isIDMEnabled p \<Longrightarrow> grows b (snd (find_user p email b))"
  unfolding find_user_def
  by (rule grows_useFetchData) (auto simp: findUserByEmail_def grows_baseRequest split: option.splits)

lemma grows_create_user: "isIDMEnabled p \<Longrightarrow> grows b (snd (create_user p claims b))"
  unfolding create_user_def send_def by (rule grows_useFetchData) (simp_all add: grows_baseRequest)

subsection \<open>Who is let in\<close>

text \<open>A request for this user was answered with this value.\<close>

definition user_answered :: "page \<Rightarrow> string \<Rightarrow> json_value \<Rightarrow> browser \<Rightarrow> bool" where
  "user_answered p email v b \<longleftrightarrow>
     (\<exists>enc n r. btoa p email = Some enc \<and> n < length (requests b)
        \<and> rq_url (requests b ! n) = config p ''REACT_APP_API_URI'' @ ''/moove/v2/users/'' @ enc
        \<and> answer p n (requests b ! n) = Some r \<and> rs_ok r \<and> getResponse (Response r) = Resolved v)"

lemma user_answered_grows: "user_answered p email v b \<Longrightarrow> grows b b' \<Longrightarrow> user_answered p email v b'"
  by (fastforce simp: user_answered_def grows_def nth_append)

lemma baseRequest_resolved:
  assumes "baseRequest p url body meth b = (Resolved t, b')"
  shows "\<exists>r. t = Response r \<and> rs_ok r
    \<and> answer p (length (requests b)) (base_rq p url body meth b) = Some r
    \<and> requests b' = requests b @ [base_rq p url body meth b]"
  using assms by (auto simp: baseRequest_def fetch_def rejecting_def split: option.splits if_splits)

lemma find_user_resolved:
  assumes idm: "isIDMEnabled p" and run: "find_user p email b = (Resolved v, b')"
  shows "user_answered p email v b'"
proof -
  let ?fn = "findUserByEmail p email"
  have one: "user_answered p email v b2"
    if fn: "?fn b1 = (Resolved t, b2)" and v: "getResponse t = Resolved v" for b1 b2 t
  proof -
    from fn obtain enc where enc: "btoa p email = Some enc"
      and rq: "baseRequest p (''/moove/v2/users/'' @ enc) Absent ''GET'' b1 = (Resolved t, b2)"
      by (auto simp: findUserByEmail_def split: option.splits)
    from baseRequest_resolved [OF rq] obtain r where "t = Response r" "rs_ok r"
      "answer p (length (requests b1)) (base_rq p (''/moove/v2/users/'' @ enc) Absent ''GET'' b1) = Some r"
      "requests b2 = requests b1 @ [base_rq p (''/moove/v2/users/'' @ enc) Absent ''GET'' b1]" by blast
    then show ?thesis
      using enc v unfolding user_answered_def
      by (intro exI [of _ enc] exI [of _ "length (requests b1)"] exI [of _ r]) (simp add: base_rq_def Let_def)
  qed
  from run obtain t where cb: "renewTokenByCb p ?fn False b = (Resolved t, b')" and v: "getResponse t = Resolved v"
    by (auto simp: find_user_def useFetchData_def split: prod.splits settled.splits)
  from cb idm obtain b1 where "?fn b1 = (Resolved t, b')"
    by (auto simp: renewTokenByCb_def split: prod.splits settled.splits if_splits)
  then show ?thesis using v by (rule one)
qed

lemma decoded_cong: "localStorage b = localStorage b' \<Longrightarrow> getAccessTokenDecoded J b = getAccessTokenDecoded J b'"
  by (simp add: getAccessTokenDecoded_def getAccessToken_def)

lemma grows_decoded: "grows b b' \<Longrightarrow> getAccessTokenDecoded J b' = getAccessTokenDecoded J b"
  by (rule decoded_cong) (simp add: grows_def)

lemma matcher_storage:
  assumes "isIDMEnabled p"
  shows "localStorage (useCircleMatcher_getCircleId p d b) = localStorage b"
proof -
  have "grows b (snd (circleMatcher p d b))" for b
    unfolding circleMatcher_def unauthenticatedRequest_def by (intro grows_rejecting grows_fetch) simp
  then have "grows b (snd (useFetchData p (circleMatcher p d) False b))"
    by (rule grows_useFetchData [OF assms])
  then have "localStorage (snd (useFetchData p (circleMatcher p d) False b)) = localStorage b"
    by (simp add: grows_def)
  then show ?thesis
    by (auto simp: useCircleMatcher_getCircleId_def saveCircleId_def
        split: prod.splits settled.splits option.splits json_value.splits list.splits)
qed

text \<open>The page holds the token of a user the server has named, and the profile it answered.\<close>

definition let_in :: "page \<Rightarrow> jwt_decoder \<Rightarrow> browser \<Rightarrow> bool" where
  "let_in p J b \<longleftrightarrow>
     (let email = email_of (getAccessTokenDecoded J b)
      in email \<noteq> [] \<and> (\<exists>v profile. truthy_value v \<and> user_answered p email v b
           \<and> btoa p (json_text p v) = Some profile \<and> localStorage b profileKey = Some profile))"

lemma user_loaded_opened:
  assumes "user_loaded p v b = (Opened, b')" "user_answered p email v b"
    and "email = email_of (getAccessTokenDecoded J b)" "email \<noteq> []"
  shows "let_in p J b'"
proof -
  from assms(1) obtain profile where v: "truthy_value v" "btoa p (json_text p v) = Some profile"
    and b': "b' = setItem profileKey profile b"
    by (auto simp: user_loaded_def saveProfile_def split: if_splits option.splits)
  have "getAccessTokenDecoded J b' = getAccessTokenDecoded J b"
    by (simp add: getAccessTokenDecoded_def b' store_defs key_defs)
  moreover have "user_answered p email v b'"
    using assms(2) by (simp add: user_answered_def b' setItem_def)
  moreover have "localStorage b' profileKey = Some profile" by (simp add: b' setItem_def)
  ultimately show ?thesis using v assms(3,4) by (auto simp: let_in_def Let_def)
qed

lemma visit_opened:
  assumes "visit p J email b = Some r"
  shows "isIDMEnabled p \<longrightarrow> fst r = Opened \<longrightarrow> email = email_of (getAccessTokenDecoded J b) \<longrightarrow> let_in p J (snd r)"
proof (rule visit.raw_induct [where P = "\<lambda>p J email b r. isIDMEnabled p \<longrightarrow> fst r = Opened
      \<longrightarrow> email = email_of (getAccessTokenDecoded J b) \<longrightarrow> let_in p J (snd r)", OF _ assms])
  fix again p J email b r
  assume IH: "\<And>J email b ba y. again J email b ba = Some y \<Longrightarrow> isIDMEnabled J \<longrightarrow> fst y = Opened
      \<longrightarrow> b = email_of (getAccessTokenDecoded email ba) \<longrightarrow> let_in J email (snd y)"
    and body: "(if email = [] then Some (Blank, b)
      else case find_user p email b of
          (Resolved v, b1) \<Rightarrow> Some (user_loaded p v b1)
        | (Rejected t, b1) \<Rightarrow>
            if not_found t then
              (case create_user p (getAccessTokenDecoded J b1) b1 of
                 (Resolved v, b2) \<Rightarrow>
                   if truthy_value v
                   then again p J (email_of (getAccessTokenDecoded J b2)) b2
                   else Some (Blank, b2)
               | (Rejected e, b2) \<Rightarrow> Some (Blank, b2))
            else Some (Blank, b1)) = Some r"
  show "isIDMEnabled p \<longrightarrow> fst r = Opened \<longrightarrow> email = email_of (getAccessTokenDecoded J b) \<longrightarrow> let_in p J (snd r)"
  proof (intro impI)
    assume idm: "isIDMEnabled p" and opened: "fst r = Opened"
      and email: "email = email_of (getAccessTokenDecoded J b)"
    have some: "email \<noteq> []" using body opened by (auto split: if_splits)
    obtain f b1 where find: "find_user p email b = (f, b1)" by (cases "find_user p email b")
    have same1: "getAccessTokenDecoded J b1 = getAccessTokenDecoded J b"
      using grows_find_user [OF idm, of b email] find by (metis grows_decoded snd_conv)
    show "let_in p J (snd r)"
    proof (cases f)
      case (Resolved v)
      then have "user_loaded p v b1 = r" using body some find by simp
      then show ?thesis
        using user_loaded_opened [of p v b1 "snd r" email J] find_user_resolved [OF idm find [unfolded Resolved]]
          email same1 some opened by (cases r) simp
    next
      case (Rejected t)
      obtain g b2 where create: "create_user p (getAccessTokenDecoded J b1) b1 = (g, b2)"
        by (cases "create_user p (getAccessTokenDecoded J b1) b1")
      with body some find Rejected opened
      have "again p J (email_of (getAccessTokenDecoded J b2)) b2 = Some r"
        by (auto split: if_splits settled.splits)
      then show ?thesis using IH idm opened by blast
    qed
  qed
qed

text \<open>
  C33: With the identity manager on, the pages open only for a user the server has named: then
  the page holds a token with an e-mail, a request for the user of this e-mail was answered,
  and the profile in the storage is the one that was answered.
\<close>

theorem pages_open_for_a_named_user:
  assumes "isIDMEnabled p" "open_page p JwtDecode b = Some (Opened, b')"
  shows "\<exists>email v profile. email = email_of (getAccessTokenDecoded JwtDecode b') \<and> email \<noteq> []
    \<and> user_answered p email v b' \<and> truthy_value v
    \<and> btoa p (json_text p v) = Some profile \<and> localStorage b' profileKey = Some profile"
proof -
  have "let_in p JwtDecode b'"
  proof (cases "truthy (getParam ''code'' b)")
    case True
    obtain g b1 where tokens: "getTokens p (the (getParam ''code'' b)) b = (g, b1)"
      by (cases "getTokens p (the (getParam ''code'' b)) b")
    from assms True tokens obtain grants where "with_grants p JwtDecode grants b1 = Some (Opened, b')"
      by (auto simp: open_page_def Let_def split: option.splits if_splits)
    then obtain a t where "visit p JwtDecode (email_of (getAccessTokenDecoded JwtDecode (saveSessionData a t b1)))
        (useCircleMatcher_getCircleId p (Obj [(''username'', claim ''email''
          (getAccessTokenDecoded JwtDecode (saveSessionData a t b1)))]) (saveSessionData a t b1))
        = Some (Opened, b')"
      by (auto simp: with_grants_def Let_def split: option.splits)
    from visit_opened [OF this] show ?thesis
      using assms(1) by (simp add: decoded_cong [OF matcher_storage [OF assms(1)]])
  next
    case False
    with assms have "visit p JwtDecode (email_of (getAccessTokenDecoded JwtDecode b)) b = Some (Opened, b')"
      by (auto simp: open_page_def Let_def split: if_splits)
    from visit_opened [OF this] show ?thesis using assms(1) by simp
  qed
  then show ?thesis by (auto simp: let_in_def Let_def)
qed

text \<open>A page that comes back from the identity manager with a code, and servers that answer.\<close>

definition idm_page :: "response option list \<Rightarrow> page" where
  "idm_page answers = (some_page answers)\<lparr>CHARLESCD_ENVIRONMENT :=
     [''REACT_APP_IDM'' \<mapsto> ''1'', ''REACT_APP_AUTH_URI'' \<mapsto> ''https://auth'', ''REACT_APP_API_URI'' \<mapsto> ''https://api'']\<rparr>"

definition some_claims :: jwt_decoder where
  "some_claims token = (if token = ''A'' then Some some_user else None)"

definition returned_tab :: browser where
  "returned_tab = fresh_tab\<lparr>location := ''https://charles/?session_state=s&code=abc''\<rparr>"

definition granted :: "response option list" where
  "granted = [answered 200 (Obj [(''access_token'', Str ''A''), (''refresh_token'', Str ''R'')]), answered 404 Null,
     answered 200 some_user]"

lemma idm_page_on: "isIDMEnabled (idm_page answers)"
proof -
  have "parseInt ''1'' = Some 1" by code_simp
  then show ?thesis by (simp add: isIDMEnabled_def config_def idm_page_def in_template_def)
qed

definition returned_user :: browser where
  "returned_user = useCircleMatcher_getCircleId (idm_page granted) (Obj [(''username'', Str ''ana@zup.com'')])
     (saveSessionData (Str ''A'') (Str ''R'') (snd (getTokens (idm_page granted) ''abc'' returned_tab)))"

lemma returned_user_opens:
  "open_page (idm_page granted) some_claims returned_tab
     = Some (user_loaded (idm_page granted) some_user (snd (find_user (idm_page granted) ''ana@zup.com'' returned_user)))"
proof -
  let ?p = "idm_page granted"
  let ?b = "saveSessionData (Str ''A'') (Str ''R'') (snd (getTokens ?p ''abc'' returned_tab))"
  have code: "getParam ''code'' returned_tab = Some ''abc''" by code_simp
  have "fst (getTokens ?p ''abc'' returned_tab)
      = Some (Obj [(''access_token'', Str ''A''), (''refresh_token'', Str ''R'')])" by code_simp
  then obtain b1 where tokens: "getTokens ?p ''abc'' returned_tab
      = (Some (Obj [(''access_token'', Str ''A''), (''refresh_token'', Str ''R'')]), b1)"
    by (cases "getTokens ?p ''abc'' returned_tab") simp
  have email: "claim ''email'' (getAccessTokenDecoded some_claims ?b) = Str ''ana@zup.com''" by code_simp
  have "fst (find_user ?p ''ana@zup.com'' returned_user) = Resolved some_user" by code_simp
  then have find: "find_user ?p ''ana@zup.com'' returned_user
      = (Resolved some_user, snd (find_user ?p ''ana@zup.com'' returned_user))" by (metis prod.collapse)
  have "open_page ?p some_claims returned_tab = visit ?p some_claims ''ana@zup.com'' returned_user"
    by (simp add: open_page_def idm_page_on code tokens truthy_def with_grants_def Let_def
        email [unfolded tokens snd_conv] email_of_def returned_user_def)
  also have "\<dots> = Some (user_loaded ?p some_user (snd (find_user ?p ''ana@zup.com'' returned_user)))"
    by (subst visit.simps, subst find) simp
  finally show ?thesis .
qed

lemma pages_open_for_a_named_user_witness:
  "\<exists>b'. open_page (idm_page granted) some_claims returned_tab = Some (Opened, b')
     \<and> (\<exists>v. user_answered (idm_page granted) ''ana@zup.com'' v b' \<and> localStorage b' profileKey = Some ''user'')"
proof -
  let ?g = "user_loaded (idm_page granted) some_user
    (snd (find_user (idm_page granted) ''ana@zup.com'' returned_user))"
  have after: "fst ?g = Opened" "email_of (getAccessTokenDecoded some_claims (snd ?g)) = ''ana@zup.com''"
    "localStorage (snd ?g) profileKey = Some ''user''" by code_simp+
  have run: "open_page (idm_page granted) some_claims returned_tab = Some (Opened, snd ?g)"
    unfolding returned_user_opens using after(1) by (metis prod.collapse)
  from pages_open_for_a_named_user [OF idm_page_on run] after(2,3) run show ?thesis by metis
qed

subsection \<open>Who is left out\<close>

definition code_rq :: "page \<Rightarrow> string \<Rightarrow> request" where
  "code_rq p code = auth_rq p (endpoint p) (''grant_type=authorization_code&client_id=''
     @ config p ''REACT_APP_AUTH_CLIENT_ID'' @ ''&code='' @ code
     @ ''&redirect_uri='' @ config p ''REACT_APP_IDM_REDIRECT_URI'')"

text \<open>
  A code the identity manager refuses (it was used before, say) leaves an empty page: nobody is
  told, the address keeps the code, and loading it again asks the same.
\<close>

theorem refused_code_leaves_a_blank_page:
  assumes "isIDMEnabled p" "getParam ''code'' b = Some code" "code \<noteq> []"
    and "case answer p (length (requests b)) (code_rq p code) of None \<Rightarrow> True | Some r \<Rightarrow> \<not> rs_ok r"
  shows "open_page p JwtDecode b = Some (Blank, b\<lparr>requests := requests b @ [code_rq p code]\<rparr>)"
proof -
  have "getTokens p code b = (None, b\<lparr>requests := requests b @ [code_rq p code]\<rparr>)"
    using assms(4) by (auto simp: getTokens_def codeToTokens_def authRequest_def fetch_def rejecting_def
        code_rq_def split: option.splits)
  then show ?thesis using assms(1-3) by (simp add: open_page_def truthy_def)
qed

lemma refused_code_leaves_a_blank_page_witness:
  "open_page (idm_page [answered 400 Null]) some_claims returned_tab
     = Some (Blank, returned_tab\<lparr>requests := [code_rq (idm_page [answered 400 Null]) ''abc'']\<rparr>)"
proof -
  have "getParam ''code'' returned_tab = Some ''abc''" by code_simp
  from refused_code_leaves_a_blank_page [OF idm_page_on this, of "[answered 400 Null]" some_claims]
  show ?thesis by (simp add: idm_page_def some_page_def answered_def rs_ok_def returned_tab_def fresh_tab_def)
qed

text \<open>
  The address is parsed as a query, so that its first parameter is called by all that comes
  before it: a code that is the first parameter is not found, and a page without a token goes
  back to the identity manager, which returns the same address.
\<close>

theorem code_first_is_not_seen:
  assumes "isIDMEnabled p" "location b = ''https://'' @ rest @ ''?code='' @ code"
    and "CHR ''='' \<notin> set rest" "CHR ''&'' \<notin> set rest" "CHR ''&'' \<notin> set code"
    and "email_of (getAccessTokenDecoded JwtDecode b) = []"
  shows "open_page p JwtDecode b = Some (ToIDM, redirectToIDM p b)"
proof -
  have whole: "split_char (CHR ''&'') s = [s]" if "CHR ''&'' \<notin> set s" for s
    using that by (rule split_char_single)
  have "parse_query (location b) = [parse_pair (location b)]"
    using assms(4,5) by (simp add: parse_query_def assms(2) whole)
  moreover have "fst (parse_pair (location b)) \<noteq> ''code''"
    by (simp add: parse_pair_def assms(2))
  ultimately have "getParam ''code'' b = None"
    by (cases "parse_pair (location b)") (simp add: getParam_def get_param_def)
  then show ?thesis using assms(1,6) by (simp add: open_page_def truthy_def)
qed

lemma code_first_is_not_seen_witness:
  "open_page (idm_page []) some_claims (fresh_tab\<lparr>location := ''https://charles/?code=abc''\<rparr>)
     = Some (ToIDM, redirectToIDM (idm_page []) (fresh_tab\<lparr>location := ''https://charles/?code=abc''\<rparr>))"
  by (rule code_first_is_not_seen [OF idm_page_on, of _ "''charles/''" "''abc''"])
    (simp_all add: fresh_tab_def getAccessTokenDecoded_def getAccessToken_def email_of_def claim_def)

text \<open>A user whose profile \<open>btoa\<close> does not take, one with a name outside Latin-1, cannot open the
  pages: the exception of the effect takes the application off the page.\<close>

theorem profile_outside_latin1_crashes:
  assumes "email \<noteq> []" "find_user p email b = (Resolved v, b1)" "truthy_value v"
    and "btoa p (json_text p v) = None"
  shows "visit p JwtDecode email b = Some (Crashed, b1)"
  using assms by (subst visit.simps) (simp add: user_loaded_def saveProfile_def)

subsection \<open>A user that is never there\<close>

lemma find_user_answered:
  assumes "btoa p email = Some enc" "answer p (length (requests b)) (user_rq p enc b) = Some r"
    "rs_status r = 404"
  shows "find_user p email b = (Rejected (Response r), b\<lparr>requests := requests b @ [user_rq p enc b]\<rparr>)"
  using assms by (simp add: find_user_def useFetchData_def renewTokenByCb_def findUserByEmail_def baseRequest_def
      user_rq_def fetch_def rejecting_def rs_ok_def checkStatus_def unauthorized_def)

lemma create_user_answered:
  assumes "\<And>rq. rq_method rq = ''POST'' \<Longrightarrow> answer p (length (requests b)) rq = Some r" "rs_ok r" "rs_json r = Some v"
  shows "\<exists>rq. create_user p claims b = (Resolved v, b\<lparr>requests := requests b @ [rq]\<rparr>)"
  using assms by (simp add: create_user_def useFetchData_def renewTokenByCb_def send_def createNewUser_def
      post_call_def baseRequest_def base_rq_def fetch_def rejecting_def getResponse_def Let_def) blast

lemma decoded_requests [simp]:
  "getAccessTokenDecoded J (b\<lparr>requests := rqs\<rparr>) = getAccessTokenDecoded J b"
  by (simp add: getAccessTokenDecoded_def getAccessToken_def)

text \<open>
  Nothing bounds the creations: with a server that takes each user it is given and does not find
  the e-mail afterwards (it stores another spelling of it, say), the page creates the user
  again and again, and never comes to an end.
\<close>

theorem unknown_user_is_created_forever:
  assumes "email_of (getAccessTokenDecoded JwtDecode b) = email" "email \<noteq> []" "btoa p email = Some enc"
    and "\<And>n rq. rq_method rq = ''GET'' \<Longrightarrow> answer p n rq = Some r" "rs_status r = 404"
    and "\<And>n rq. rq_method rq = ''POST'' \<Longrightarrow> answer p n rq = Some r'" "rs_ok r'" "rs_json r' = Some v"
      "truthy_value v"
  shows "visit p JwtDecode email b = None"
proof (rule ccontr)
  assume "visit p JwtDecode email b \<noteq> None"
  then obtain g where run: "visit p JwtDecode email b = Some g" by blast
  have "p = p \<longrightarrow> JwtDecode = JwtDecode \<longrightarrow> email = email
      \<longrightarrow> email_of (getAccessTokenDecoded JwtDecode b) = email \<longrightarrow> False"
  proof (rule visit.raw_induct [where P = "\<lambda>q J e b g. q = p \<longrightarrow> J = JwtDecode \<longrightarrow> e = email
      \<longrightarrow> email_of (getAccessTokenDecoded J b) = email \<longrightarrow> False", OF _ run])
    fix again q J e b g
    assume IH: "\<And>q J e b g. again q J e b = Some g \<Longrightarrow> q = p \<longrightarrow> J = JwtDecode \<longrightarrow> e = email
        \<longrightarrow> email_of (getAccessTokenDecoded J b) = email \<longrightarrow> False"
      and body: "(if e = [] then Some (Blank, b)
        else case find_user q e b of
            (Resolved v, b1) \<Rightarrow> Some (user_loaded q v b1)
          | (Rejected t, b1) \<Rightarrow>
              if not_found t then
                (case create_user q (getAccessTokenDecoded J b1) b1 of
                   (Resolved v, b2) \<Rightarrow>
                     if truthy_value v
                     then again q J (email_of (getAccessTokenDecoded J b2)) b2
                     else Some (Blank, b2)
                 | (Rejected e, b2) \<Rightarrow> Some (Blank, b2))
              else Some (Blank, b1)) = Some g"
    show "q = p \<longrightarrow> J = JwtDecode \<longrightarrow> e = email \<longrightarrow> email_of (getAccessTokenDecoded J b) = email \<longrightarrow> False"
    proof (intro impI)
      assume here: "q = p" "J = JwtDecode" "e = email" "email_of (getAccessTokenDecoded J b) = email"
      let ?b1 = "b\<lparr>requests := requests b @ [user_rq p enc b]\<rparr>"
      have "answer p (length (requests b)) (user_rq p enc b) = Some r"
        by (rule assms(4)) (simp add: user_rq_def base_rq_def Let_def)
      with assms(3,5) have find: "find_user p email b = (Rejected (Response r), ?b1)"
        by (intro find_user_answered)
      obtain rq where "create_user p (getAccessTokenDecoded J ?b1) ?b1
          = (Resolved v, ?b1\<lparr>requests := requests ?b1 @ [rq]\<rparr>)"
        using create_user_answered [OF assms(6,7,8)] by blast
      with body find here assms(2,5,9)
      have "again p J (email_of (getAccessTokenDecoded J (?b1\<lparr>requests := requests ?b1 @ [rq]\<rparr>)))
          (?b1\<lparr>requests := requests ?b1 @ [rq]\<rparr>) = Some g" by (simp add: not_found_def)
      from IH [OF this] here show False by simp
    qed
  qed
  then show False using assms(1) by simp
qed

end
