(* ===== verification/UiState.thy ===== *)
theory UiState
  imports Prelude
begin

text \<open>
  The state of the front end: \<open>core/state\<close> combines the reducers of the circles, workspaces,
  users, notifications, user groups, modules and tokens (\<open>modules/*/state\<close>,
  \<open>core/components/Notification/state\<close>) into one. Every reducer sees every action and picks
  its own by the string in \<open>type\<close>.

  The entities in the lists are opaque but for what a reducer reads: the id, and the
  components of a module. A reducer that throws (a component loaded before its module) gives
  \<open>None\<close>.
\<close>

subsection \<open>Actions\<close>

datatype entity = Entity (en_id: string) (en_rest: object) (en_components: "entity list")

text \<open>A page as the server sends it; any property may be missing.\<close>

record sent_page =
  sp_content :: "entity list option"
  sp_page :: "int option"
  sp_size :: "int option"
  sp_totalPages :: "int option"
  sp_last :: "bool option"

datatype payload =
    NoPayload | Page sent_page | Entities "entity list" | One entity | Words "string list"
  | Status string | Message string string

record action =
  act_type :: string
  act_payload :: payload

definition page_of :: "payload \<Rightarrow> sent_page option" where
  "page_of p = (case p of Page g \<Rightarrow> Some g | _ \<Rightarrow> None)"

definition entity_of :: "payload \<Rightarrow> entity option" where
  "entity_of p = (case p of One e \<Rightarrow> Some e | _ \<Rightarrow> None)"

definition loadedCirclesAction :: "sent_page \<Rightarrow> action" where
  "loadedCirclesAction g = \<lparr>act_type = ''CIRCLES/LOADED_CIRCLES'', act_payload = Page g\<rparr>"
definition loadedCircleAction :: "entity \<Rightarrow> action" where
  "loadedCircleAction e = \<lparr>act_type = ''CIRLCES/LOADED_CIRCLE'', act_payload = One e\<rparr>"
definition loadedCirclesMetricsAction :: "sent_page \<Rightarrow> action" where
  "loadedCirclesMetricsAction g = \<lparr>act_type = ''CIRCLE/LOADED_CIRCLES_METRICS'', act_payload = Page g\<rparr>"
definition updateCirclesAction :: "entity list \<Rightarrow> action" where
  "updateCirclesAction es = \<lparr>act_type = ''CIRCLES/UPDATE'', act_payload = Entities es\<rparr>"
definition resetCirclesAction :: action where
  "resetCirclesAction = \<lparr>act_type = ''CIRCLES/RESET_CONTENT'', act_payload = NoPayload\<rparr>"

definition loadedWorkspacesAction :: "sent_page \<Rightarrow> action" where
  "loadedWorkspacesAction g = \<lparr>act_type = ''WORKSPACES/LOADED_WORKSPACES'', act_payload = Page g\<rparr>"
definition loadedWorkspaceAction :: "entity \<Rightarrow> action" where
  "loadedWorkspaceAction e = \<lparr>act_type = ''WORKSPACES/LOADED_WORKSPACE'', act_payload = One e\<rparr>"
definition loadedWorkspacePermissionsAction :: "string list \<Rightarrow> action" where
  "loadedWorkspacePermissionsAction ps =
     \<lparr>act_type = ''WORKSPACES/LOADED_WORKSPACE_PERMISSIONS'', act_payload = Words ps\<rparr>"
definition statusWorkspaceAction :: "string \<Rightarrow> action" where
  "statusWorkspaceAction st = \<lparr>act_type = ''WORKSPACES/STATUS'', act_payload = Status st\<rparr>"
definition resetWorkspacesAction :: action where
  "resetWorkspacesAction = \<lparr>act_type = ''WORKSPACES/RESET_CONTENT'', act_payload = NoPayload\<rparr>"

definition LoadedUsersAction :: "sent_page \<Rightarrow> action" where
  "LoadedUsersAction g = \<lparr>act_type = ''USERS/LOADED_USERS'', act_payload = Page g\<rparr>"
definition LoadedUserAction :: "entity \<Rightarrow> action" where
  "LoadedUserAction e = \<lparr>act_type = ''USERS/LOADED_USER'', act_payload = One e\<rparr>"
definition resetUsersAction :: action where
  "resetUsersAction = \<lparr>act_type = ''USERS/RESET_CONTENT'', act_payload = NoPayload\<rparr>"

definition toogleNotification :: "string \<Rightarrow> string \<Rightarrow> action" where
  "toogleNotification txt st = \<lparr>act_type = ''NOTIFICATION/TOOGLE'', act_payload = Message txt st\<rparr>"
definition dismissNotification :: action where
  "dismissNotification = \<lparr>act_type = ''NOTIFICATION/DISMISS'', act_payload = NoPayload\<rparr>"

definition loadUserGroupsAction :: "sent_page \<Rightarrow> action" where
  "loadUserGroupsAction g = \<lparr>act_type = ''USERS_GROUP/LOADED_USERS_GROUP'', act_payload = Page g\<rparr>"
definition loadUserGroupAction :: "entity \<Rightarrow> action" where
  "loadUserGroupAction e = \<lparr>act_type = ''USERS_GROUP/GET_USERS_GROUP'', act_payload = One e\<rparr>"
definition updateUserGroupAction :: "entity \<Rightarrow> action" where
  "updateUserGroupAction e = \<lparr>act_type = ''USERS_GROUP/EDIT_USERS_GROUP'', act_payload = One e\<rparr>"
definition resetUserGroupsAction :: action where
  "resetUserGroupsAction = \<lparr>act_type = ''USERS_GROUP/RESET_USERS_GROUP'', act_payload = NoPayload\<rparr>"

definition loadModulesAction :: "sent_page \<Rightarrow> action" where
  "loadModulesAction g = \<lparr>act_type = ''MODULES/LIST'', act_payload = Page g\<rparr>"
definition loadModuleAction :: "entity \<Rightarrow> action" where
  "loadModuleAction e = \<lparr>act_type = ''MODULES/GET'', act_payload = One e\<rparr>"
definition loadComponentAction :: "entity \<Rightarrow> action" where
  "loadComponentAction e = \<lparr>act_type = ''MODULES/ADD_COMPONENT'', act_payload = One e\<rparr>"
definition resetModuleAction :: action where
  "resetModuleAction = \<lparr>act_type = ''MODULE/RESET'', act_payload = NoPayload\<rparr>"
definition resetModulesAction :: action where
  "resetModulesAction = \<lparr>act_type = ''MODULES/RESET'', act_payload = NoPayload\<rparr>"

definition loadedTokens :: "sent_page \<Rightarrow> action" where
  "loadedTokens g = \<lparr>act_type = ''TOKENS/LOADED'', act_payload = Page g\<rparr>"
definition clearTokens :: action where
  "clearTokens = \<lparr>act_type = ''TOKENS/CLEAR'', act_payload = NoPayload\<rparr>"
definition updateTokens :: "entity \<Rightarrow> action" where
  "updateTokens e = \<lparr>act_type = ''TOKENS/UPDATE'', act_payload = One e\<rparr>"

subsection \<open>Lists that grow page by page\<close>

record pagination =
  pg_content :: "entity list"
  pg_page :: "int option"
  pg_size :: "int option"
  pg_totalPages :: "int option"
  pg_last :: "bool option"

definition initialListState :: pagination where
  "initialListState = \<lparr>pg_content = [], pg_page = Some 0, pg_size = Some 0, pg_totalPages = Some 0,
     pg_last = Some False\<rparr>"

definition page_content :: "sent_page option \<Rightarrow> entity list" where
  "page_content g = (case Option.bind g sp_content of None \<Rightarrow> [] | Some es \<Rightarrow> es)"

text \<open>\<open>{...payload, content: [...list.content, ...(payload?.content ?? [])]}\<close>.\<close>

definition with_page :: "sent_page option \<Rightarrow> pagination \<Rightarrow> pagination" where
  "with_page g l = \<lparr>pg_content = pg_content l @ page_content g,
     pg_page = Option.bind g sp_page, pg_size = Option.bind g sp_size,
     pg_totalPages = Option.bind g sp_totalPages, pg_last = Option.bind g sp_last\<rparr>"

text \<open>\<open>map(content, x => x?.id === e?.id ? e : x)\<close>.\<close>

definition replacing :: "entity option \<Rightarrow> entity list \<Rightarrow> entity list" where
  "replacing e es = map (\<lambda>x. case e of None \<Rightarrow> x | Some n \<Rightarrow> if en_id x = en_id n then n else x) es"

subsection \<open>The reducers\<close>

record circles_state =
  cs_list :: pagination
  cs_metrics :: "sent_page option"
  cs_item :: "entity option"

definition circlesInitialState :: circles_state where
  "circlesInitialState = \<lparr>cs_list = initialListState,
     cs_metrics = Some \<lparr>sp_content = Some [], sp_page = Some 0, sp_size = Some 0,
       sp_totalPages = Some 0, sp_last = Some False\<rparr>, cs_item = None\<rparr>"

definition circlesReducer :: "circles_state \<Rightarrow> action \<Rightarrow> circles_state" where
  "circlesReducer s a =
     (if act_type a = ''CIRCLES/LOADED_CIRCLES'' then
        s\<lparr>cs_list := with_page (page_of (act_payload a)) (cs_list s)\<rparr>
      else if act_type a = ''CIRLCES/LOADED_CIRCLE'' then s\<lparr>cs_item := entity_of (act_payload a)\<rparr>
      else if act_type a = ''CIRCLE/LOADED_CIRCLES_METRICS'' then
        s\<lparr>cs_metrics := page_of (act_payload a)\<rparr>
      else if act_type a = ''CIRCLES/UPDATE'' then
        (let newCircle = (case act_payload a of Entities (e # _) \<Rightarrow> Some e | _ \<Rightarrow> None)
         in s\<lparr>cs_list := (cs_list s)\<lparr>pg_content := replacing newCircle (pg_content (cs_list s))\<rparr>\<rparr>)
      else if act_type a = ''CIRCLES/RESET_CONTENT'' then
        s\<lparr>cs_list := (cs_list s)\<lparr>pg_content := []\<rparr>\<rparr>
      else s)"

record workspaces_state =
  ws_list :: pagination
  ws_item :: "entity option"
  ws_permissions :: "string list"
  ws_status :: string

definition workspaceInitialState :: workspaces_state where
  "workspaceInitialState = \<lparr>ws_list = initialListState,
     ws_item = Some (Entity [] [(''name'', []), (''status'', ''COMPLETE''), (''createdAt'', [])] []),
     ws_permissions = [], ws_status = ''idle''\<rparr>"

definition workspaceReducer :: "workspaces_state \<Rightarrow> action \<Rightarrow> workspaces_state" where
  "workspaceReducer s a =
     (if act_type a = ''WORKSPACES/LOADED_WORKSPACES'' then
        s\<lparr>ws_list := with_page (page_of (act_payload a)) (ws_list s)\<rparr>
      else if act_type a = ''WORKSPACES/LOADED_WORKSPACE'' then s\<lparr>ws_item := entity_of (act_payload a)\<rparr>
      else if act_type a = ''WORKSPACES/STATUS'' then
        s\<lparr>ws_status := (case act_payload a of Status st \<Rightarrow> st | _ \<Rightarrow> ''undefined'')\<rparr>
      else if act_type a = ''WORKSPACES/RESET_CONTENT'' then
        s\<lparr>ws_list := (ws_list s)\<lparr>pg_content := []\<rparr>\<rparr>
      else s)"

record users_state =
  us_list :: pagination
  us_item :: "entity option"

definition userInitialState :: users_state where
  "userInitialState = \<lparr>us_list = initialListState, us_item = None\<rparr>"

definition userReducer :: "users_state \<Rightarrow> action \<Rightarrow> users_state" where
  "userReducer s a =
     (if act_type a = ''USERS/LOADED_USERS'' then
        s\<lparr>us_list := with_page (page_of (act_payload a)) (us_list s)\<rparr>
      else if act_type a = ''USERS/LOADED_USER'' then s\<lparr>us_item := entity_of (act_payload a)\<rparr>
      else if act_type a = ''USERS/RESET_CONTENT'' then
        s\<lparr>us_list := (us_list s)\<lparr>pg_content := []\<rparr>\<rparr>
      else s)"

record notification_state =
  nt_isVisible :: bool
  nt_text :: string
  nt_status :: string

definition notificationInitialState :: notification_state where
  "notificationInitialState = \<lparr>nt_isVisible = False, nt_text = ''Message'', nt_status = ''success''\<rparr>"

definition notificationReducer :: "notification_state \<Rightarrow> action \<Rightarrow> notification_state" where
  "notificationReducer s a =
     (if act_type a = ''NOTIFICATION/TOOGLE'' then
        (case act_payload a of
           Message txt st \<Rightarrow> \<lparr>nt_isVisible = True, nt_text = txt, nt_status = st\<rparr>
         | _ \<Rightarrow> \<lparr>nt_isVisible = True, nt_text = ''undefined'', nt_status = ''undefined''\<rparr>)
      else if act_type a = ''NOTIFICATION/DISMISS'' then notificationInitialState
      else s)"

record groups_state =
  ug_list :: pagination
  ug_item :: "entity option"

definition userGroupInitialState :: groups_state where
  "userGroupInitialState = \<lparr>ug_list = initialListState, ug_item = None\<rparr>"

definition userGroupReducer :: "groups_state \<Rightarrow> action \<Rightarrow> groups_state" where
  "userGroupReducer s a =
     (if act_type a = ''USERS_GROUP/LOADED_USERS_GROUP'' then
        s\<lparr>ug_list := with_page (page_of (act_payload a)) (ug_list s)\<rparr>
      else if act_type a = ''USERS_GROUP/GET_USERS_GROUP'' then s\<lparr>ug_item := entity_of (act_payload a)\<rparr>
      else if act_type a = ''USERS_GROUP/EDIT_USERS_GROUP'' then
        s\<lparr>ug_list := (ug_list s)
            \<lparr>pg_content := replacing (entity_of (act_payload a)) (pg_content (ug_list s))\<rparr>\<rparr>
      else if act_type a = ''USERS_GROUP/RESET_USERS_GROUP'' then
        s\<lparr>ug_list := ug_list userGroupInitialState\<rparr>
      else s)"

record modules_state =
  ms_list :: pagination
  ms_item :: "entity option"

definition modulesInitialState :: modules_state where
  "modulesInitialState = \<lparr>ms_list = initialListState, ms_item = None\<rparr>"

text \<open>Without a module \<open>state.item.components\<close> throws.\<close>

definition modulesReducer :: "modules_state \<Rightarrow> action \<Rightarrow> modules_state option" where
  "modulesReducer s a =
     (if act_type a = ''MODULES/LIST'' then
        Some (s\<lparr>ms_list := with_page (page_of (act_payload a)) (ms_list s)\<rparr>)
      else if act_type a = ''MODULES/GET'' then Some (s\<lparr>ms_item := entity_of (act_payload a)\<rparr>)
      else if act_type a = ''MODULES/ADD_COMPONENT'' then
        (case (ms_item s, entity_of (act_payload a)) of
           (Some (Entity i rest cs), Some c) \<Rightarrow> Some (s\<lparr>ms_item := Some (Entity i rest (cs @ [c]))\<rparr>)
         | _ \<Rightarrow> None)
      else if act_type a = ''MODULE/RESET'' then Some (s\<lparr>ms_item := ms_item modulesInitialState\<rparr>)
      else if act_type a = ''MODULES/RESET'' then Some (s\<lparr>ms_list := ms_list modulesInitialState\<rparr>)
      else Some s)"

record tokens_state =
  tk_list :: pagination

definition tokensInitialState :: tokens_state where
  "tokensInitialState = \<lparr>tk_list = initialListState\<rparr>"

definition tokensReducer :: "tokens_state \<Rightarrow> action \<Rightarrow> tokens_state" where
  "tokensReducer s a =
     (if act_type a = ''TOKENS/LOADED'' then
        s\<lparr>tk_list := with_page (page_of (act_payload a)) (tk_list s)\<rparr>
      else if act_type a = ''TOKENS/CLEAR'' then s\<lparr>tk_list := (tk_list s)\<lparr>pg_content := []\<rparr>\<rparr>
      else if act_type a = ''TOKENS/UPDATE'' then
        s\<lparr>tk_list := (tk_list s)
            \<lparr>pg_content := replacing (entity_of (act_payload a)) (pg_content (tk_list s))\<rparr>\<rparr>
      else s)"

subsection \<open>The root reducer\<close>

fun combine_keys ::
  "(string \<times> ('s \<Rightarrow> 'a \<Rightarrow> 's option)) list \<Rightarrow> (string \<Rightarrow> 's) \<Rightarrow> 'a \<Rightarrow> (string \<Rightarrow> 's) \<Rightarrow> (string \<Rightarrow> 's) option" where
  "combine_keys [] st a nextState = Some nextState"
| "combine_keys ((key, reducer) # rs) st a nextState =
     (case reducer (st key) a of
        None \<Rightarrow> None
      | Some nextStateForKey \<Rightarrow> combine_keys rs st a (nextState(key := nextStateForKey)))"

definition combineReducer ::
  "(string \<times> ('s \<Rightarrow> 'a \<Rightarrow> 's option)) list \<Rightarrow> (string \<Rightarrow> 's) \<Rightarrow> 'a \<Rightarrow> (string \<Rightarrow> 's) option" where
  "combineReducer reducers st a = combine_keys reducers st a st"

text \<open>The state is an object with a slice under each key; a reducer applied to another kind of
  slice, which the types exclude, is \<open>None\<close> as well.\<close>

datatype slice =
    Circles circles_state | Workspaces workspaces_state | Users users_state
  | Notifications notification_state | UserGroups groups_state | Modules modules_state
  | Tokens tokens_state | NoSlice

definition rootState :: "string \<Rightarrow> slice" where
  "rootState = (\<lambda>_. NoSlice)(''circles'' := Circles circlesInitialState,
     ''workspaces'' := Workspaces workspaceInitialState, ''users'' := Users userInitialState,
     ''notification'' := Notifications notificationInitialState,
     ''userGroups'' := UserGroups userGroupInitialState, ''modules'' := Modules modulesInitialState,
     ''tokens'' := Tokens tokensInitialState)"

definition reducers :: "(string \<times> (slice \<Rightarrow> action \<Rightarrow> slice option)) list" where
  "reducers =
     [(''circles'', \<lambda>s a. case s of Circles c \<Rightarrow> Some (Circles (circlesReducer c a)) | _ \<Rightarrow> None),
      (''workspaces'', \<lambda>s a. case s of Workspaces w \<Rightarrow> Some (Workspaces (workspaceReducer w a)) | _ \<Rightarrow> None),
      (''users'', \<lambda>s a. case s of Users u \<Rightarrow> Some (Users (userReducer u a)) | _ \<Rightarrow> None),
      (''notification'', \<lambda>s a. case s of Notifications n \<Rightarrow> Some (Notifications (notificationReducer n a)) | _ \<Rightarrow> None),
      (''userGroups'', \<lambda>s a. case s of UserGroups g \<Rightarrow> Some (UserGroups (userGroupReducer g a)) | _ \<Rightarrow> None),
      (''modules'', \<lambda>s a. case s of Modules m \<Rightarrow> map_option Modules (modulesReducer m a) | _ \<Rightarrow> None),
      (''tokens'', \<lambda>s a. case s of Tokens t \<Rightarrow> Some (Tokens (tokensReducer t a)) | _ \<Rightarrow> None)]"

definition rootReducer :: "(string \<Rightarrow> slice) \<Rightarrow> action \<Rightarrow> (string \<Rightarrow> slice) option" where
  "rootReducer = combineReducer reducers"

subsection \<open>What a slice owes the others\<close>

text \<open>Actions one after the other, until one throws; a reducer leaves its slice alone unless the type of the action is one of its own.\<close>

fun run :: "('s \<Rightarrow> action \<Rightarrow> 's option) \<Rightarrow> action list \<Rightarrow> 's \<Rightarrow> 's option" where
  "run reduce [] s = Some s"
| "run reduce (a # acts) s = (case reduce s a of None \<Rightarrow> None | Some t \<Rightarrow> run reduce acts t)"

locale slice_reducer =
  fixes reduce :: "'s \<Rightarrow> action \<Rightarrow> 's option" and own_types :: "string list"
  assumes ignores: "act_type a \<notin> set own_types \<Longrightarrow> reduce s a = Some s"
begin

lemma run_foreign:
  "list_all (\<lambda>a. act_type a \<notin> set own_types) acts \<Longrightarrow>
     run reduce acts s = Some s"
  by (induction acts) (simp_all add: ignores)

end

text \<open>A list that is scrolled: each page is appended, and a reset empties the list.\<close>

locale paged_reducer =
  fixes reduce :: "'s \<Rightarrow> action \<Rightarrow> 's option" and entities :: "'s \<Rightarrow> entity list"
    and load :: "sent_page \<Rightarrow> action" and reset :: action
  assumes load_appends:
      "\<exists>t. reduce s (load g) = Some t \<and> entities t = entities s @ page_content (Some g)"
    and reset_empties: "\<exists>t. reduce s reset = Some t \<and> entities t = []"
begin

lemma run_pages:
  "\<exists>t. run reduce (map load gs) s = Some t
     \<and> entities t = entities s @ concat (map (\<lambda>g. page_content (Some g)) gs)"
proof (induction gs arbitrary: s)
  case Nil
  then show ?case by simp
next
  case (Cons g gs)
  obtain t where "reduce s (load g) = Some t" "entities t = entities s @ page_content (Some g)"
    using load_appends by blast
  then show ?case
    using Cons.IH [of t] by simp
qed

lemma scrolled:
  "\<exists>t. run reduce (reset # map load gs) s = Some t
     \<and> entities t = concat (map (\<lambda>g. page_content (Some g)) gs)"
proof -
  obtain t where "reduce s reset = Some t" "entities t = []"
    using reset_empties by blast
  then show ?thesis
    using run_pages [of gs t] by simp
qed

end

definition circle_types :: "string list" where
  "circle_types = [''CIRCLES/LOADED_CIRCLES'', ''CIRLCES/LOADED_CIRCLE'',
     ''CIRCLE/LOADED_CIRCLES_METRICS'', ''CIRCLES/UPDATE'', ''CIRCLES/RESET_CONTENT'']"
definition workspace_types :: "string list" where
  "workspace_types = [''WORKSPACES/LOADED_WORKSPACES'', ''WORKSPACES/LOADED_WORKSPACE'',
     ''WORKSPACES/STATUS'', ''WORKSPACES/RESET_CONTENT'', ''WORKSPACES/LOADED_WORKSPACE_PERMISSIONS'']"
definition user_types :: "string list" where
  "user_types = [''USERS/LOADED_USERS'', ''USERS/LOADED_USER'', ''USERS/RESET_CONTENT'']"
definition notification_types :: "string list" where
  "notification_types = [''NOTIFICATION/TOOGLE'', ''NOTIFICATION/DISMISS'']"
definition group_types :: "string list" where
  "group_types = [''USERS_GROUP/LOADED_USERS_GROUP'', ''USERS_GROUP/GET_USERS_GROUP'',
     ''USERS_GROUP/EDIT_USERS_GROUP'', ''USERS_GROUP/RESET_USERS_GROUP'']"
definition module_types :: "string list" where
  "module_types = [''MODULES/LIST'', ''MODULES/GET'', ''MODULES/ADD_COMPONENT'', ''MODULE/RESET'',
     ''MODULES/RESET'']"
definition token_types :: "string list" where
  "token_types = [''TOKENS/LOADED'', ''TOKENS/CLEAR'', ''TOKENS/UPDATE'']"

lemmas type_defs = circle_types_def workspace_types_def user_types_def notification_types_def
  group_types_def module_types_def token_types_def

interpretation circles: slice_reducer "\<lambda>s a. Some (circlesReducer s a)" circle_types
  by unfold_locales (simp add: circlesReducer_def circle_types_def)
interpretation workspaces: slice_reducer "\<lambda>s a. Some (workspaceReducer s a)" workspace_types
  by unfold_locales (simp add: workspaceReducer_def workspace_types_def)
interpretation users: slice_reducer "\<lambda>s a. Some (userReducer s a)" user_types
  by unfold_locales (simp add: userReducer_def user_types_def)
interpretation notifications: slice_reducer "\<lambda>s a. Some (notificationReducer s a)" notification_types
  by unfold_locales (simp add: notificationReducer_def notification_types_def)
interpretation userGroups: slice_reducer "\<lambda>s a. Some (userGroupReducer s a)" group_types
  by unfold_locales (simp add: userGroupReducer_def group_types_def)
interpretation modules: slice_reducer modulesReducer module_types
  by unfold_locales (simp add: modulesReducer_def module_types_def)
interpretation tokens: slice_reducer "\<lambda>s a. Some (tokensReducer s a)" token_types
  by unfold_locales (simp add: tokensReducer_def token_types_def)

lemma page_of_Page [simp]: "page_of (Page g) = Some g"
  by (simp add: page_of_def)

lemma pg_content_with_page [simp]: "pg_content (with_page g l) = pg_content l @ page_content g"
  by (simp add: with_page_def)

interpretation circle_list: paged_reducer "\<lambda>s a. Some (circlesReducer s a)"
    "\<lambda>s. pg_content (cs_list s)" loadedCirclesAction resetCirclesAction
  by unfold_locales
    (simp_all add: circlesReducer_def loadedCirclesAction_def resetCirclesAction_def)
interpretation workspace_list: paged_reducer "\<lambda>s a. Some (workspaceReducer s a)"
    "\<lambda>s. pg_content (ws_list s)" loadedWorkspacesAction resetWorkspacesAction
  by unfold_locales
    (simp_all add: workspaceReducer_def loadedWorkspacesAction_def resetWorkspacesAction_def)
interpretation user_list: paged_reducer "\<lambda>s a. Some (userReducer s a)"
    "\<lambda>s. pg_content (us_list s)" LoadedUsersAction resetUsersAction
  by unfold_locales (simp_all add: userReducer_def LoadedUsersAction_def resetUsersAction_def)
interpretation group_list: paged_reducer "\<lambda>s a. Some (userGroupReducer s a)"
    "\<lambda>s. pg_content (ug_list s)" loadUserGroupsAction resetUserGroupsAction
  by unfold_locales
    (simp_all add: userGroupReducer_def loadUserGroupsAction_def resetUserGroupsAction_def
      userGroupInitialState_def initialListState_def)
interpretation module_list: paged_reducer modulesReducer
    "\<lambda>s. pg_content (ms_list s)" loadModulesAction resetModulesAction
  by unfold_locales
    (simp_all add: modulesReducer_def loadModulesAction_def resetModulesAction_def
      modulesInitialState_def initialListState_def)
interpretation token_list: paged_reducer "\<lambda>s a. Some (tokensReducer s a)"
    "\<lambda>s. pg_content (tk_list s)" loadedTokens clearTokens
  by unfold_locales (simp_all add: tokensReducer_def loadedTokens_def clearTokens_def)

text \<open>Which slice an action is for.\<close>

definition owners :: "(string \<times> string list) list" where
  "owners = [(''circles'', circle_types), (''workspaces'', workspace_types), (''users'', user_types),
     (''notification'', notification_types), (''userGroups'', group_types),
     (''modules'', module_types), (''tokens'', token_types)]"

definition owner :: "string \<Rightarrow> string option" where
  "owner ty = map_option fst (List.find (\<lambda>(key, types). ty \<in> set types) owners)"

lemma owner_lists:
  "list_all (\<lambda>ty. owner ty = Some ''circles'') circle_types"
  "list_all (\<lambda>ty. owner ty = Some ''workspaces'') workspace_types"
  "list_all (\<lambda>ty. owner ty = Some ''users'') user_types"
  "list_all (\<lambda>ty. owner ty = Some ''notification'') notification_types"
  "list_all (\<lambda>ty. owner ty = Some ''userGroups'') group_types"
  "list_all (\<lambda>ty. owner ty = Some ''modules'') module_types"
  "list_all (\<lambda>ty. owner ty = Some ''tokens'') token_types"
  by code_simp+

lemmas owner_types = owner_lists [unfolded list_all_iff, THEN bspec]

text \<open>The kind of slice under each key.\<close>

definition slice_kind :: "string \<Rightarrow> slice \<Rightarrow> bool" where
  "slice_kind key s \<longleftrightarrow>
     (case s of
        Circles _ \<Rightarrow> key = ''circles'' | Workspaces _ \<Rightarrow> key = ''workspaces'' | Users _ \<Rightarrow> key = ''users''
      | Notifications _ \<Rightarrow> key = ''notification'' | UserGroups _ \<Rightarrow> key = ''userGroups''
      | Modules _ \<Rightarrow> key = ''modules'' | Tokens _ \<Rightarrow> key = ''tokens'' | NoSlice \<Rightarrow> False)"

definition well_typed :: "(string \<Rightarrow> slice) \<Rightarrow> bool" where
  "well_typed st \<longleftrightarrow> list_all (\<lambda>(key, r). slice_kind key (st key)) reducers"

definition apply_own :: "string \<Rightarrow> slice \<Rightarrow> action \<Rightarrow> slice option" where
  "apply_own key s a = (case map_of reducers key of None \<Rightarrow> Some s | Some r \<Rightarrow> r s a)"

lemma slice_kind_intro [simp]:
  "slice_kind key (Circles c) \<longleftrightarrow> key = ''circles''"
  "slice_kind key (Workspaces w) \<longleftrightarrow> key = ''workspaces''"
  "slice_kind key (Users u) \<longleftrightarrow> key = ''users''"
  "slice_kind key (Notifications n) \<longleftrightarrow> key = ''notification''"
  "slice_kind key (UserGroups g) \<longleftrightarrow> key = ''userGroups''"
  "slice_kind key (Modules m) \<longleftrightarrow> key = ''modules''"
  "slice_kind key (Tokens t) \<longleftrightarrow> key = ''tokens''"
  "\<not> slice_kind key NoSlice"
  by (simp_all add: slice_kind_def)

lemma not_own_type:
  "owner ty \<noteq> Some ''circles'' \<Longrightarrow> ty \<notin> set circle_types"
  "owner ty \<noteq> Some ''workspaces'' \<Longrightarrow> ty \<notin> set workspace_types"
  "owner ty \<noteq> Some ''users'' \<Longrightarrow> ty \<notin> set user_types"
  "owner ty \<noteq> Some ''notification'' \<Longrightarrow> ty \<notin> set notification_types"
  "owner ty \<noteq> Some ''userGroups'' \<Longrightarrow> ty \<notin> set group_types"
  "owner ty \<noteq> Some ''modules'' \<Longrightarrow> ty \<notin> set module_types"
  "owner ty \<noteq> Some ''tokens'' \<Longrightarrow> ty \<notin> set token_types"
  using owner_types by blast+

lemmas all_ignore = circles.ignores [simplified] workspaces.ignores [simplified]
  users.ignores [simplified] notifications.ignores [simplified] userGroups.ignores [simplified]
  modules.ignores tokens.ignores [simplified]

lemma own_reducer_ignores:
  assumes "(key, r) \<in> set reducers" "slice_kind key s" "owner (act_type a) \<noteq> Some key"
  shows "r s a = Some s"
  using assms by (cases s) (auto simp: reducers_def all_ignore not_own_type)

lemma own_reducer_kind:
  assumes "(key, r) \<in> set reducers" "slice_kind key s" "r s a = Some t"
  shows "slice_kind key t"
  using assms by (cases s) (auto simp: reducers_def)

lemma distinct_keys: "distinct (map fst reducers)"
  by (simp add: reducers_def)

lemma combine_ignored:
  assumes "\<And>key r. (key, r) \<in> set rs \<Longrightarrow> r (st key) a = Some (st key)"
    and "\<And>key r. (key, r) \<in> set rs \<Longrightarrow> nextState key = st key"
  shows "combine_keys rs st a nextState = Some nextState"
  using assms
proof (induction rs arbitrary: nextState)
  case Nil
  then show ?case by simp
next
  case (Cons kr rs)
  obtain key r where kr: "kr = (key, r)" by fastforce
  have "r (st key) a = Some (st key)"
    by (rule Cons.prems(1)) (simp add: kr)
  moreover have "nextState key = st key"
    using Cons.prems(2) [of key r] kr by simp
  ultimately have "combine_keys (kr # rs) st a nextState = combine_keys rs st a nextState"
    by (simp add: kr fun_upd_idem)
  also have "\<dots> = Some nextState"
  proof (rule Cons.IH)
    fix k q
    assume kq: "(k, q) \<in> set rs"
    show "q (st k) a = Some (st k)"
      by (rule Cons.prems(1)) (simp add: kq)
    show "nextState k = st k"
      using Cons.prems(2) [of k q] kq by simp
  qed
  finally show ?case .
qed

lemma combine_keys_append:
  "combine_keys (rs @ qs) st a next1 =
     (case combine_keys rs st a next1 of None \<Rightarrow> None | Some n \<Rightarrow> combine_keys qs st a n)"
proof (induction rs arbitrary: next1)
  case Nil
  then show ?case by simp
next
  case (Cons kr rs)
  obtain key r where kr: "kr = (key, r)" by fastforce
  show ?case
    by (cases "r (st key) a") (simp_all only: kr append_Cons combine_keys.simps option.case Cons.IH)
qed

text \<open>An action reaches the slice that owns its type, and no other.\<close>

lemma rootReducer_own:
  assumes st: "well_typed st" and "(key, r) \<in> set reducers" "owner (act_type a) = Some key"
  shows "rootReducer st a = map_option (\<lambda>s. st(key := s)) (r (st key) a)"
proof -
  obtain before later where rs: "reducers = before @ (key, r) # later"
    using assms(2) by (meson split_list)
  have others: "q (st k) a = Some (st k)" "k \<noteq> key" if "(k, q) \<in> set before \<union> set later" for k q
  proof -
    have "key \<notin> fst ` (set before \<union> set later)"
      using distinct_keys by (simp add: rs image_Un)
    then show "k \<noteq> key"
      using that by (metis fst_conv imageI)
    then show "q (st k) a = Some (st k)"
      using own_reducer_ignores [of k q "st k" a] that st assms(3)
      by (auto simp: rs well_typed_def list_all_iff)
  qed
  have first: "combine_keys before st a st = Some st"
    by (rule combine_ignored) (auto intro: others(1))
  have rest: "combine_keys later st a (st(key := s)) = Some (st(key := s))" for s
    by (rule combine_ignored) (use others in auto)
  show ?thesis
    unfolding rootReducer_def combineReducer_def rs combine_keys_append
    by (simp add: first rest split: option.splits)
qed

lemma rootReducer_unknown:
  assumes "well_typed st" "owner (act_type a) = None"
  shows "rootReducer st a = Some st"
  unfolding rootReducer_def combineReducer_def
  using assms own_reducer_ignores
  by (intro combine_ignored) (auto simp: well_typed_def list_all_iff)

lemma owner_key: "owner ty = Some key \<Longrightarrow> \<exists>r. (key, r) \<in> set reducers"
proof -
  assume "owner ty = Some key"
  then have "key \<in> set (map fst owners)"
    by (force simp: owner_def dest: find_Some_in)
  also have "map fst owners = map fst reducers"
    by (simp add: owners_def reducers_def)
  finally show ?thesis
    by auto
qed

lemma well_typed_rootState: "well_typed rootState"
  by (simp add: well_typed_def reducers_def rootState_def)

lemma rootReducer_Some:
  assumes "well_typed st" "(key, r) \<in> set reducers" "owner (act_type a) = Some key"
  shows "rootReducer st a = Some st' \<longleftrightarrow> (\<exists>s. r (st key) a = Some s \<and> st' = st(key := s))"
  by (auto simp: rootReducer_own [OF assms])

lemma well_typed_rootReducer:
  assumes "well_typed st" "rootReducer st a = Some st'"
  shows "well_typed st' \<and> (\<forall>key. owner (act_type a) \<noteq> Some key \<longrightarrow> st' key = st key)"
proof (cases "owner (act_type a)")
  case None
  then show ?thesis using assms rootReducer_unknown by simp
next
  case (Some key)
  then obtain r where r: "(key, r) \<in> set reducers" using owner_key by blast
  then obtain s where s: "r (st key) a = Some s" "st' = st(key := s)"
    using rootReducer_Some [OF assms(1) r Some] assms(2) by blast
  then have "slice_kind key s"
    using own_reducer_kind [OF r _ s(1)] assms(1) r by (auto simp: well_typed_def list_all_iff)
  then show ?thesis
    using assms(1) s(2) Some by (auto simp: well_typed_def list_all_iff)
qed

lemma rootReducer_after:
  assumes st: "well_typed st" and a: "(key, r) \<in> set reducers" "owner (act_type a) = Some key"
    and b: "owner (act_type b) \<noteq> Some key"
  shows "Option.bind (rootReducer st b) (\<lambda>t. rootReducer t a)
    = Option.bind (r (st key) a) (\<lambda>s. map_option (\<lambda>t. t(key := s)) (rootReducer st b))"
proof (cases "rootReducer st b")
  case None
  then show ?thesis by (cases "r (st key) a") simp_all
next
  case (Some t)
  then have "well_typed t" "t key = st key"
    using well_typed_rootReducer [OF st Some] b by simp_all
  then show ?thesis
    using Some rootReducer_own [OF _ a, of t] by (cases "r (st key) a") simp_all
qed

lemma rootReducer_commute:
  assumes st: "well_typed st" and differ: "owner (act_type a) \<noteq> owner (act_type b)"
  shows "Option.bind (rootReducer st a) (\<lambda>t. rootReducer t b)
        = Option.bind (rootReducer st b) (\<lambda>t. rootReducer t a)"
proof (cases "owner (act_type a) = None \<or> owner (act_type b) = None")
  case True
  have idle: "rootReducer t c = Some t" if "well_typed t" "owner (act_type c) = None" for t c
    using that by (rule rootReducer_unknown)
  have keep: "Option.bind (rootReducer st c) (\<lambda>t. rootReducer t d) = rootReducer st c"
    if "owner (act_type d) = None" for c d
    using well_typed_rootReducer [OF st, of c] idle that by (cases "rootReducer st c") simp_all
  show ?thesis
    using True keep idle [OF st] by (cases "owner (act_type a)") auto
next
  case False
  then obtain k j where owners: "owner (act_type a) = Some k" "owner (act_type b) = Some j"
    by auto
  then obtain r q where keys: "owner (act_type a) = Some k" "(k, r) \<in> set reducers"
      "owner (act_type b) = Some j" "(j, q) \<in> set reducers"
    using owner_key [OF owners(1)] owner_key [OF owners(2)] by blast
  then have "k \<noteq> j" using differ by auto
  then show ?thesis
    using rootReducer_after [OF st keys(4,3), of a] rootReducer_after [OF st keys(2,1), of b]
      rootReducer_own [OF st keys(2,1)] rootReducer_own [OF st keys(4,3)] keys
    by (cases "r (st k) a"; cases "q (st j) b") (simp_all add: fun_upd_twist)
qed

text \<open> In a state of the front end each action changes at most the slice that owns its
  type, the state keeps its type, and the actions of different slices can be dispatched in
  either order, exceptions included. \<close>

theorem slices_are_independent:
  assumes "well_typed st"
  shows "(case rootReducer st a of None \<Rightarrow> True
      | Some st' \<Rightarrow> well_typed st' \<and> (\<forall>key. owner (act_type a) \<noteq> Some key \<longrightarrow> st' key = st key))
    \<and> (owner (act_type a) \<noteq> owner (act_type b) \<longrightarrow>
        Option.bind (rootReducer st a) (\<lambda>t. rootReducer t b)
          = Option.bind (rootReducer st b) (\<lambda>t. rootReducer t a))"
  using well_typed_rootReducer [OF assms] rootReducer_commute [OF assms]
  by (simp split: option.split)

lemma slices_are_independent_witness:
  "Option.bind (rootReducer rootState clearTokens) (\<lambda>t. rootReducer t dismissNotification)
     = Option.bind (rootReducer rootState dismissNotification) (\<lambda>t. rootReducer t clearTokens)"
proof -
  have "owner (act_type clearTokens) = Some ''tokens''"
      "owner (act_type dismissNotification) = Some ''notification''"
    by code_simp+
  then show ?thesis
    using slices_are_independent [OF well_typed_rootState, of clearTokens dismissNotification] by simp
qed

text \<open>Every list of the state is scrolled the same way: after a reset and the pages of a search
  it holds exactly the entities of these pages, in their order.\<close>

theorem scrolled_lists:
  "\<exists>s'. run (\<lambda>s a. Some (circlesReducer s a)) (resetCirclesAction # map loadedCirclesAction gs) s
      = Some s' \<and> pg_content (cs_list s') = concat (map (\<lambda>g. page_content (Some g)) gs)"
  "\<exists>m'. run modulesReducer (resetModulesAction # map loadModulesAction gs) m
      = Some m' \<and> pg_content (ms_list m') = concat (map (\<lambda>g. page_content (Some g)) gs)"
  "\<exists>t'. run (\<lambda>s a. Some (tokensReducer s a)) (clearTokens # map loadedTokens gs) t
      = Some t' \<and> pg_content (tk_list t') = concat (map (\<lambda>g. page_content (Some g)) gs)"
  by (fact circle_list.scrolled module_list.scrolled token_list.scrolled)+

text \<open>The permissions of a workspace have an action but no case in the reducer: they are never
  stored.\<close>

theorem loaded_permissions_are_dropped:
  assumes "well_typed st"
  shows "rootReducer st (loadedWorkspacePermissionsAction ps) = Some st"
proof -
  have w: "(''workspaces'', \<lambda>s a. case s of Workspaces w \<Rightarrow> Some (Workspaces (workspaceReducer w a)) | _ \<Rightarrow> None)
      \<in> set reducers"
    by (simp add: reducers_def)
  have o: "owner (act_type (loadedWorkspacePermissionsAction ps)) = Some ''workspaces''"
    using owner_types(2) by (simp add: loadedWorkspacePermissionsAction_def workspace_types_def)
  have "workspaceReducer s (loadedWorkspacePermissionsAction ps) = s" for s
    by (simp add: workspaceReducer_def loadedWorkspacePermissionsAction_def)
  moreover obtain s where "st ''workspaces'' = Workspaces s"
    using assms by (auto simp: well_typed_def reducers_def slice_kind_def split: slice.splits)
  ultimately show ?thesis
    using rootReducer_own [OF assms w o] by (simp add: fun_upd_idem)
qed

end
