(* ===== verification/Fetching.thy ===== *)
theory Fetching
  imports Sessions UiState
begin

text \<open>
  The hook every page of the front end fetches with: \<open>useFetch\<close> and \<open>useFetchStatus\<close> of
  \<open>core/providers/base/hooks.ts\<close>, as a machine over the calls that are under way. Calls are
  answered in any order, and the component may be unmounted in between; React ignores what
  is set on a component that is not mounted. \<open>useCircles\<close> of \<open>modules/Circles/hooks.ts\<close> is a
  client: its effect passes a page of circles on to the state.
\<close>

subsection \<open>The hook\<close>

record 'r fetch_data =
  fd_response :: "'r option"
  fd_error :: "thing option"
  fd_loading :: bool

definition setResponse :: "'r \<Rightarrow> 'r fetch_data \<Rightarrow> 'r fetch_data" where
  "setResponse r s = s\<lparr>fd_response := Some r\<rparr>"
definition setError :: "thing \<Rightarrow> 'r fetch_data \<Rightarrow> 'r fetch_data" where
  "setError e s = s\<lparr>fd_error := Some e\<rparr>"
definition setLoading :: "bool \<Rightarrow> 'r fetch_data \<Rightarrow> 'r fetch_data" where
  "setLoading l s = s\<lparr>fd_loading := l\<rparr>"

text \<open>The two functions of the hook: \<open>trigger\<close> keeps the outcome in the hook, \<open>promise\<close> hands it
  to the caller.\<close>

datatype call_kind = Trigger | Promise

record 'r hook =
  hk_data :: "'r fetch_data"
  hk_mounted :: bool
  hk_pending :: "(nat \<times> call_kind) list"
  hk_calls :: nat

definition useFetch :: "'r hook" where
  "useFetch = \<lparr>hk_data = \<lparr>fd_response = None, fd_error = None, fd_loading = False\<rparr>,
     hk_mounted = True, hk_pending = [], hk_calls = 0\<rparr>"

definition set_data :: "('r fetch_data \<Rightarrow> 'r fetch_data) \<Rightarrow> 'r hook \<Rightarrow> 'r hook" where
  "set_data f h = (if hk_mounted h then h\<lparr>hk_data := f (hk_data h)\<rparr> else h)"

definition call_started :: "call_kind \<Rightarrow> 'r hook \<Rightarrow> 'r hook" where
  "call_started kind h =
     (set_data (setLoading True) h)\<lparr>hk_pending := hk_pending h @ [(hk_calls h, kind)],
       hk_calls := Suc (hk_calls h)\<rparr>"

definition trigger_settled :: "'r settled \<Rightarrow> 'r hook \<Rightarrow> 'r hook" where
  "trigger_settled out h =
     (let h1 = (case out of
            Resolved d \<Rightarrow> if hk_mounted h then set_data (setResponse d) h else h
          | Rejected e \<Rightarrow> if hk_mounted h then set_data (setError e) h else h)
      in if hk_mounted h1 then set_data (setLoading False) h1 else h1)"

text \<open>After a rejection the rest of \<open>promise\<close> does not run.\<close>

definition promise_settled :: "'r settled \<Rightarrow> 'r hook \<Rightarrow> 'r hook" where
  "promise_settled out h =
     (case out of Resolved d \<Rightarrow> set_data (setLoading False) h | Rejected e \<Rightarrow> h)"

definition call_settled :: "nat \<times> call_kind \<Rightarrow> 'r settled \<Rightarrow> 'r hook \<Rightarrow> 'r hook" where
  "call_settled c out h =
     (let h1 = h\<lparr>hk_pending := remove1 c (hk_pending h)\<rparr>
      in case snd c of Trigger \<Rightarrow> trigger_settled out h1 | Promise \<Rightarrow> promise_settled out h1)"

inductive fetch_step :: "'r hook \<Rightarrow> 'r hook \<Rightarrow> bool" where
  call: "fetch_step h (call_started kind h)"
| settle: "c \<in> set (hk_pending h) \<Longrightarrow> fetch_step h (call_settled c out h)"
| unmount: "fetch_step h (h\<lparr>hk_mounted := False\<rparr>)"

inductive fetch_steps :: "'r hook \<Rightarrow> 'r hook \<Rightarrow> bool" where
  start: "fetch_steps h h"
| step: "\<lbrakk>fetch_steps h i; fetch_step i j\<rbrakk> \<Longrightarrow> fetch_steps h j"

inductive_cases fetch_stepE: "fetch_step h i"

subsection \<open>The status of a fetch\<close>

definition fetch_statuses :: "string list" where
  "fetch_statuses = [''idle'', ''pending'', ''resolved'', ''rejected'']"

text \<open>The four flags of \<open>useFetchStatus\<close>.\<close>

definition status_flags :: "string \<Rightarrow> bool list" where
  "status_flags st = map (\<lambda>k. st = k) fetch_statuses"

subsection \<open>Pages of circles\<close>

datatype circle_view = Metrics | List

definition useCircles_effect :: "circle_view \<Rightarrow> sent_page fetch_data \<Rightarrow> UiState.action option" where
  "useCircles_effect view s =
     (case fd_response s of
        None \<Rightarrow> None
      | Some r \<Rightarrow>
          if fd_error s = None \<and> view = List then Some (loadedCirclesAction r)
          else if fd_error s = None \<and> view = Metrics then Some (loadedCirclesMetricsAction r)
          else None)"

subsection \<open>What a run of the hook keeps\<close>

lemmas hook_defs = set_data_def setResponse_def setError_def setLoading_def call_started_def
  trigger_settled_def promise_settled_def call_settled_def

lemma fetch_step_unmounted:
  "\<lbrakk>fetch_step h i; \<not> hk_mounted h\<rbrakk> \<Longrightarrow> \<not> hk_mounted i \<and> hk_data i = hk_data h"
  by (erule fetch_stepE) (auto simp: hook_defs Let_def split: call_kind.splits settled.splits)

lemma fetch_step_error:
  "\<lbrakk>fetch_step h i; fd_error (hk_data h) \<noteq> None\<rbrakk> \<Longrightarrow> fd_error (hk_data i) \<noteq> None"
  by (erule fetch_stepE) (auto simp: hook_defs Let_def split: call_kind.splits settled.splits)

lemma fetch_steps_unmounted:
  "\<lbrakk>fetch_steps h i; \<not> hk_mounted h\<rbrakk> \<Longrightarrow> \<not> hk_mounted i \<and> hk_data i = hk_data h"
  by (induction rule: fetch_steps.induct) (use fetch_step_unmounted in fastforce)+

lemma fetch_steps_error:
  "\<lbrakk>fetch_steps h i; fd_error (hk_data h) \<noteq> None\<rbrakk> \<Longrightarrow> fd_error (hk_data i) \<noteq> None"
  by (induction rule: fetch_steps.induct) (use fetch_step_error in blast)+

text \<open>As long as \<open>promise\<close> is not used, the hook says it is loading only while a call is under
  way. The converse does not hold: the first of two answers ends the loading.\<close>

definition only_triggers :: "'r hook \<Rightarrow> bool" where
  "only_triggers h \<longleftrightarrow> list_all (\<lambda>c. snd c = Trigger) (hk_pending h)"

inductive trigger_steps :: "'r hook \<Rightarrow> 'r hook \<Rightarrow> bool" where
  start: "trigger_steps h h"
| step: "\<lbrakk>trigger_steps h i; fetch_step i j; only_triggers j\<rbrakk> \<Longrightarrow> trigger_steps h j"

lemma loading_while_pending:
  assumes "trigger_steps useFetch h" "hk_mounted h" "fd_loading (hk_data h)"
  shows "hk_pending h \<noteq> []"
proof -
  have "only_triggers h \<and> (hk_mounted h \<longrightarrow> fd_loading (hk_data h) \<longrightarrow> hk_pending h \<noteq> [])"
    if "trigger_steps g h" "g = useFetch" for g :: "'r hook" and h
    using that
  proof (induction rule: trigger_steps.induct)
    case (start h)
    then show ?case by (simp add: only_triggers_def useFetch_def)
  next
    case (step h i j)
    then have i: "only_triggers i" "hk_mounted i \<longrightarrow> fd_loading (hk_data i) \<longrightarrow> hk_pending i \<noteq> []"
      by simp_all
    have "hk_mounted j \<longrightarrow> fd_loading (hk_data j) \<longrightarrow> hk_pending j \<noteq> []"
      using step.hyps(2)
    proof (cases rule: fetch_step.cases)
      case (call kind)
      then show ?thesis by (simp add: hook_defs)
    next
      case (settle c out)
      then have "snd c = Trigger" using i by (auto simp: only_triggers_def list_all_iff)
      then show ?thesis using settle by (auto simp: hook_defs Let_def split: settled.splits)
    next
      case unmount
      then show ?thesis by simp
    qed
    then show ?case using step.hyps(3) by simp
  qed
  then show ?thesis using assms by blast
qed

text \<open> The fetch hook of the front end never changes after its component is unmounted; and
  once a call has failed its error is never taken back, so that no page a later call brings
  reaches the list of circles, however many succeed. \<close>

theorem fetch_error_is_final:
  assumes "fetch_steps h i"
  shows "(hk_mounted h \<or> hk_data i = hk_data h)
    \<and> (fd_error (hk_data h) = None
        \<or> fd_error (hk_data i) \<noteq> None \<and> useCircles_effect view (hk_data i) = None)"
proof -
  have "useCircles_effect view (hk_data i) = None" if "fd_error (hk_data i) \<noteq> None"
    using that by (auto simp: useCircles_effect_def split: option.split)
  then show ?thesis
    using fetch_steps_unmounted [OF assms] fetch_steps_error [OF assms] by blast
qed

definition failed_fetch :: "sent_page hook" where
  "failed_fetch = call_settled (0, Trigger) (Rejected (JsError ''Failed to fetch''))
     (call_started Trigger useFetch)"

definition first_page :: sent_page where
  "first_page = \<lparr>sp_content = Some [Entity ''c1'' [] []], sp_page = Some 0, sp_size = Some 1,
     sp_totalPages = Some 1, sp_last = Some True\<rparr>"

definition retried_fetch :: "sent_page hook" where
  "retried_fetch = call_settled (1, Trigger) (Resolved first_page) (call_started Trigger failed_fetch)"

lemma fetch_error_is_final_witness:
  "fd_response (hk_data retried_fetch) = Some first_page
   \<and> fd_error (hk_data retried_fetch) = Some (JsError ''Failed to fetch'')
   \<and> useCircles_effect List (hk_data retried_fetch) = None"
proof -
  have "fetch_steps failed_fetch retried_fetch"
    unfolding retried_fetch_def
    by (rule fetch_steps.step, rule fetch_steps.step, rule fetch_steps.start, rule fetch_step.call,
        rule fetch_step.settle) (simp add: failed_fetch_def useFetch_def hook_defs Let_def)
  from fetch_error_is_final [OF this, of List] show ?thesis
    by (simp add: retried_fetch_def failed_fetch_def useFetch_def hook_defs Let_def)
qed

text \<open>Answers are kept in the order they come, not in the order of the calls: the answer of an
  earlier call that is slow replaces that of a later one.\<close>

theorem slow_answer_wins:
  assumes "hk_mounted h"
  shows "fd_response (hk_data (call_settled (0, Trigger) (Resolved d0)
     (call_settled (1, Trigger) (Resolved d1) h))) = Some d0"
  using assms by (simp add: hook_defs Let_def)

text \<open>A rejected \<open>promise\<close> leaves the hook loading.\<close>

theorem rejected_promise_keeps_loading:
  "fd_loading (hk_data (call_settled (0, Promise) (Rejected e) (call_started Promise useFetch)))"
  by (simp add: hook_defs useFetch_def)

end
