(* ===== verification/GitForm.thy ===== *)
theory GitForm
  imports Queries
begin

text \<open>
  The address of the chart of a component: \<open>modules/Modules/Comparation/Form/helpers.ts\<close> makes
  the address of the provider's API from the fields of the form, and takes the fields back
  from an address when the form is opened to edit. Whether a text is a URL, and the search
  string of the page itself, are parameters.
\<close>

record helm =
  helmUrl :: string
  helmOrganization :: string
  helmRepository :: string
  helmProjectId :: string
  helmPath :: string
  helmBranch :: string

datatype git_provider = GITHUB | GITLAB

definition DEFAULT_BRANCH :: string where "DEFAULT_BRANCH = ''main''"

definition createGithubApi :: "helm \<Rightarrow> string" where
  "createGithubApi h =
     (let url = helmUrl h @ ''/repos/'' @ helmOrganization h @ ''/'' @ helmRepository h @ ''/contents'';
          url' = (if helmPath h \<noteq> [] then helmUrl h @ ''/repos/'' @ helmOrganization h @ ''/''
                    @ helmRepository h @ ''/contents/'' @ helmPath h else url);
          ps = [(''ref'', or_else (Some (helmBranch h)) DEFAULT_BRANCH)]
      in url' @ ''?'' @ serialize ps)"

definition createGitlabApi :: "helm \<Rightarrow> string" where
  "createGitlabApi h =
     (let url = helmUrl h @ ''/api/v4/projects/'' @ helmProjectId h @ ''/repository'';
          ps = [(''ref'', or_else (Some (helmBranch h)) DEFAULT_BRANCH)];
          ps' = (if helmPath h \<noteq> [] then ps @ [(''path'', helmPath h)] else ps)
      in url @ ''?'' @ serialize ps')"

definition createGitApi :: "helm \<Rightarrow> git_provider \<Rightarrow> string" where
  "createGitApi h p = (case p of GITHUB \<Rightarrow> createGithubApi h | GITLAB \<Rightarrow> createGitlabApi h)"

text \<open>The search string of a URL: after the first question mark, before a number sign.\<close>

definition search_of :: "string \<Rightarrow> string" where
  "search_of url = dropWhile (\<lambda>c. c \<noteq> CHR ''?'') (takeWhile (\<lambda>c. c \<noteq> CHR ''#'') url)"

definition getSearchParams :: "(string \<Rightarrow> bool) \<Rightarrow> string \<Rightarrow> string \<Rightarrow> params" where
  "getSearchParams is_url page_search url =
     (if is_url url then parse_query (search_of url) else parse_query page_search)"

text \<open>\<open>s.split(sep)\<close> for a separator that is not empty, \<open>s.indexOf(p)\<close> and
  \<open>xs.indexOf(x)\<close>, and \<open>xs[i]\<close>, which is \<open>undefined\<close> outside.\<close>

function split_text :: "string \<Rightarrow> string \<Rightarrow> string list" where
  "split_text sep s =
     (if s = [] then [[]]
      else if sep \<noteq> [] \<and> startsWith s sep then [] # split_text sep (drop (length sep) s)
      else (case split_text sep (tl s) of [] \<Rightarrow> [[hd s]] | p # ps \<Rightarrow> (hd s # p) # ps))"
  by pat_completeness auto
termination by (relation "measure (\<lambda>(sep, s). length s)") (auto simp: neq_Nil_conv)

declare split_text.simps [simp del]

fun index_of_text :: "string \<Rightarrow> string \<Rightarrow> int" where
  "index_of_text [] p = (if p = [] then 0 else - 1)"
| "index_of_text (c # cs) p =
     (if startsWith (c # cs) p then 0
      else (let i = index_of_text cs p in if i < 0 then - 1 else i + 1))"

fun index_of :: "'a list \<Rightarrow> 'a \<Rightarrow> int" where
  "index_of [] x = - 1"
| "index_of (y # ys) x = (if y = x then 0 else (let i = index_of ys x in if i < 0 then - 1 else i + 1))"

definition at :: "'a list \<Rightarrow> int \<Rightarrow> 'a option" where
  "at xs i = (if 0 \<le> i \<and> i < int (length xs) then Some (xs ! nat i) else None)"

text \<open>\<open>s.slice(0, i)\<close> and \<open>s.slice(i)\<close>; a negative index counts from the end.\<close>

definition slice_upto :: "int \<Rightarrow> 'a list \<Rightarrow> 'a list" where
  "slice_upto i xs = take (nat (if i < 0 then int (length xs) + i else i)) xs"

definition slice_from :: "int \<Rightarrow> 'a list \<Rightarrow> 'a list" where
  "slice_from i xs = drop (nat (if i < 0 then int (length xs) + i else i)) xs"

text \<open>
  \<open>setValue\<close> on the form: the fields that are set, with the values they get; \<open>None\<close> is
  \<open>null\<close> or \<open>undefined\<close>.
\<close>

type_synonym set_values = "(string \<times> string option) list"

definition destructGithub :: "(string \<Rightarrow> bool) \<Rightarrow> string \<Rightarrow> string \<Rightarrow> set_values" where
  "destructGithub is_url page_search url =
     (let ps = getSearchParams is_url page_search url;
          splitProtocol = split_text ''//'' url;
          splitUrl = map_option (split_char (CHR ''/'')) (at splitProtocol 1);
          reposPosition = (case splitUrl of None \<Rightarrow> None | Some u \<Rightarrow> Some (index_of u ''repos''));
          baseUrl = (case splitUrl of None \<Rightarrow> None
            | Some u \<Rightarrow> Some (join_with ''/'' (slice_upto (the reposPosition) u)));
          url' = in_template (at splitProtocol 0) @ ''//'' @ in_template baseUrl;
          segment = (\<lambda>k. case splitUrl of None \<Rightarrow> None | Some u \<Rightarrow> at u (the reposPosition + k));
          path = (case segment 4 of
              None \<Rightarrow> [] | Some s \<Rightarrow> if s = [] then [] else hd (split_char (CHR ''?'') s))
      in [(''helmUrl'', Some url'), (''helmOrganization'', segment 1), (''helmRepository'', segment 2),
          (''helmBranch'', get_param ''ref'' ps), (''helmPath'', Some path)])"

definition destructGitlab :: "(string \<Rightarrow> bool) \<Rightarrow> string \<Rightarrow> string \<Rightarrow> set_values" where
  "destructGitlab is_url page_search url =
     (let ps = getSearchParams is_url page_search url;
          baseUrlFind = ''/api/v4/projects'';
          baseUrlLocation = index_of_text url baseUrlFind;
          baseUrl = slice_upto baseUrlLocation url;
          leftInfo = slice_from (baseUrlLocation + int (length baseUrlFind) + 1) url;
          infoSplit = split_char (CHR ''/'') leftInfo
      in [(''helmUrl'', Some baseUrl), (''helmProjectId'', at infoSplit 0),
          (''helmBranch'', get_param ''ref'' ps), (''helmPath'', get_param ''path'' ps)])"

definition destructHelmUrl :: "(string \<Rightarrow> bool) \<Rightarrow> string \<Rightarrow> string \<Rightarrow> git_provider \<Rightarrow> set_values" where
  "destructHelmUrl is_url page_search url p =
     (case p of GITHUB \<Rightarrow> destructGithub is_url page_search url
      | GITLAB \<Rightarrow> destructGitlab is_url page_search url)"

definition findGitProvider :: "string \<Rightarrow> git_provider" where
  "findGitProvider url = (if contains_text url ''github'' then GITHUB else GITLAB)"

text \<open>\<open>None\<close> is \<open>true\<close>, a valid input.\<close>

definition validateSlash :: "string \<Rightarrow> string \<Rightarrow> string option" where
  "validateSlash input name =
     (if at input 0 = Some (CHR ''/'') then Some (''the '' @ name @ '' field should not start with \"/\"'')
      else if slice_from (- 1) input = ''/'' then Some (''the '' @ name @ '' field should not ends with \"/\"'')
      else None)"

definition validFields :: "(string \<times> string option) list \<Rightarrow> bool" where
  "validFields kvs = list_all (\<lambda>(k, v). v \<noteq> Some []) kvs"

subsection \<open>Taking an address apart\<close>

lemma contains_skip: "\<lbrakk>CHR ''/'' \<notin> set x\<rbrakk> \<Longrightarrow> contains_text (x @ t) ''//'' = contains_text t ''//''"
  by (induction x) (auto simp: startsWith_def)

lemma join_Cons: "xs \<noteq> [] \<Longrightarrow> join_with sep (x # xs) = x @ sep @ join_with sep xs"
  by (cases xs) simp_all

lemma join_append:
  "\<lbrakk>xs \<noteq> []; ys \<noteq> []\<rbrakk> \<Longrightarrow> join_with sep (xs @ ys) = join_with sep xs @ sep @ join_with sep ys"
proof (induction xs)
  case (Cons x xs)
  then show ?case by (cases "xs = []") (simp_all add: join_Cons)
qed simp

lemma set_join: "set (join_with sep xs) \<subseteq> set sep \<union> (\<Union>x \<in> set xs. set x)"
  by (induction sep xs rule: join_with.induct) auto

text \<open>Segments of a path: not empty, and without a slash.\<close>

definition segment_ok :: "string \<Rightarrow> bool" where
  "segment_ok x \<longleftrightarrow> x \<noteq> [] \<and> CHR ''/'' \<notin> set x"

lemma no_double_slash:
  "list_all segment_ok xs \<Longrightarrow> \<not> contains_text (join_with ''/'' xs) ''//''"
proof (induction xs)
  case Nil
  then show ?case by simp
next
  case (Cons x xs)
  then have x: "CHR ''/'' \<notin> set x" by (simp add: segment_ok_def)
  show ?case
  proof (cases "xs = []")
    case True
    then show ?thesis using contains_skip [OF x, of "[]"] by simp
  next
    case False
    then obtain y ys where xs: "xs = y # ys" by (cases xs) auto
    then have "segment_ok y" using Cons.prems by simp
    then have "\<not> startsWith (CHR ''/'' # join_with ''/'' xs) ''//''"
      by (cases y; cases ys) (auto simp: xs startsWith_def segment_ok_def)
    then show ?thesis
      using Cons contains_skip [OF x, of "''/'' @ join_with ''/'' xs"] False
      by (simp add: join_Cons)
  qed
qed

lemma split_text_whole: "\<not> contains_text s ''//'' \<Longrightarrow> split_text ''//'' s = [s]"
  by (induction s) (simp_all add: split_text.simps)

lemma split_text_protocol:
  "CHR ''/'' \<notin> set x \<Longrightarrow> split_text ''//'' (x @ ''//'' @ t) = x # split_text ''//'' t"
  by (induction x) (auto simp: split_text.simps [of _ "_ # _"] startsWith_def)

lemma index_of_append: "x \<notin> set xs \<Longrightarrow> index_of (xs @ x # ys) x = int (length xs)"
  by (induction xs) auto

lemma at_append: "at (xs @ ys) (int (length xs) + int k) = (if k < length ys then Some (ys ! k) else None)"
  by (simp add: at_def nth_append nat_add_distrib)

lemma index_of_text_first:
  "\<lbrakk>\<And>k. k < length u \<Longrightarrow> \<not> startsWith (drop k u @ v) p; startsWith v p\<rbrakk>
     \<Longrightarrow> index_of_text (u @ v) p = int (length u)"
proof (induction u)
  case Nil
  then show ?case by (cases v) (simp_all add: startsWith_def)
next
  case (Cons c u)
  have "\<not> startsWith (c # u @ v) p"
    using Cons.prems(1) [of 0] by simp
  moreover have "index_of_text (u @ v) p = int (length u)"
    using Cons.prems(1) [of "Suc k" for k] Cons.prems(2) by (intro Cons.IH) auto
  ultimately show ?case by simp
qed

lemma contains_drop: "\<lbrakk>k \<le> length s; startsWith (drop k s) p\<rbrakk> \<Longrightarrow> contains_text s p"
proof (induction s arbitrary: k)
  case Nil
  then show ?case by (simp add: startsWith_def)
next
  case (Cons c s)
  then show ?case by (cases k) auto
qed

text \<open>A text that does not overlap itself is first found where it is put.\<close>

lemma index_of_text_put:
  assumes "\<not> contains_text u p" "list_all (\<lambda>i. drop i p \<noteq> take (length p - i) p) [1..<length p]"
  shows "index_of_text (u @ p @ r) p = int (length u)"
proof (rule index_of_text_first)
  show "startsWith (p @ r) p" by (simp add: startsWith_def)
  fix k
  assume k: "k < length u"
  show "\<not> startsWith (drop k u @ p @ r) p"
  proof
    assume starts: "startsWith (drop k u @ p @ r) p"
    let ?i = "length u - k"
    show False
    proof (cases "length p \<le> ?i")
      case True
      then have "startsWith (drop k u) p"
        using starts by (simp add: startsWith_def)
      then show False
        using assms(1) contains_drop [of k u p] k by simp
    next
      case False
      then have "p = drop k u @ take (length p - ?i) p"
        using starts k by (simp add: startsWith_def)
      then have "drop ?i p = take (length p - ?i) p"
        using k by (metis append_eq_conv_conj length_drop)
      moreover have "?i \<in> set [1..<length p]"
        using False k by simp
      ultimately show False
        using assms(2) unfolding list_all_iff by blast
    qed
  qed
qed

subsection \<open>Reading back the fields of the form\<close>

lemma serialize_free:
  "c \<in> {CHR ''/'', CHR ''?'', CHR ''#''} \<Longrightarrow> c \<notin> set (serialize ps)"
  using set_join [of "''&''" "map (\<lambda>(n, v). form_encode n @ ''='' @ form_encode v) ps"]
    encoded_free [of c] unfolding serialize_def by force

lemma search_of_query:
  assumes "CHR ''?'' \<notin> set u" "CHR ''#'' \<notin> set u"
  shows "search_of (u @ ''?'' @ serialize ps) = CHR ''?'' # serialize ps"
proof -
  have "takeWhile (\<lambda>c. c \<noteq> CHR ''#'') (u @ ''?'' @ serialize ps) = u @ ''?'' @ serialize ps"
    using assms serialize_free [of "CHR ''#''" ps] by (auto simp: takeWhile_eq_all_conv)
  then have "search_of (u @ ''?'' @ serialize ps)
      = dropWhile (\<lambda>c. c \<noteq> CHR ''?'') (u @ ''?'' @ serialize ps)"
    by (simp only: search_of_def)
  also have "\<dots> = CHR ''?'' # serialize ps"
    using assms by (subst dropWhile_append2) auto
  finally show ?thesis .
qed

lemma getSearchParams_written:
  assumes "is_url (u @ ''?'' @ serialize ps)" "CHR ''?'' \<notin> set u" "CHR ''#'' \<notin> set u"
  shows "getSearchParams is_url search (u @ ''?'' @ serialize ps) = ps"
  using assms search_of_query [OF assms(2,3), of ps]
  by (simp add: getSearchParams_def parse_query_question parse_serialize)

lemma or_else_branch: "or_else (Some br) DEFAULT_BRANCH \<noteq> []"
  by (cases br) (simp_all add: DEFAULT_BRANCH_def)

definition plain :: "string \<Rightarrow> bool" where
  "plain x \<longleftrightarrow> CHR ''?'' \<notin> set x \<and> CHR ''#'' \<notin> set x"

text \<open>What GitLab's form may hold: the address of the server and the number of the project.\<close>

definition gitlab_form :: "helm \<Rightarrow> bool" where
  "gitlab_form h \<longleftrightarrow> plain (helmUrl h) \<and> \<not> contains_text (helmUrl h) ''/api/v4/projects''
     \<and> plain (helmProjectId h) \<and> segment_ok (helmProjectId h)"

definition branch_of :: "helm \<Rightarrow> string" where
  "branch_of h = or_else (Some (helmBranch h)) DEFAULT_BRANCH"

lemma gitlab_round_trip:
  assumes h: "gitlab_form h" and url: "is_url (createGitApi h GITLAB)"
  shows "destructHelmUrl is_url search (createGitApi h GITLAB) GITLAB =
    [(''helmUrl'', Some (helmUrl h)), (''helmProjectId'', Some (helmProjectId h)),
     (''helmBranch'', Some (branch_of h)),
     (''helmPath'', if helmPath h = [] then None else Some (helmPath h))]"
proof -
  let ?f = "''/api/v4/projects''" and ?u = "helmUrl h" and ?i = "helmProjectId h"
  let ?ps = "[(''ref'', branch_of h)] @ (if helmPath h \<noteq> [] then [(''path'', helmPath h)] else [])"
  let ?api = "?u @ ''/api/v4/projects/'' @ ?i @ ''/repository''"
  have api: "createGitApi h GITLAB = ?api @ ''?'' @ serialize ?ps"
    by (simp add: createGitApi_def createGitlabApi_def branch_of_def Let_def)
  have "CHR ''?'' \<notin> set ?api" "CHR ''#'' \<notin> set ?api"
    using h by (simp_all add: gitlab_form_def plain_def)
  then have ps: "getSearchParams is_url search (createGitApi h GITLAB) = ?ps"
    using getSearchParams_written url unfolding api by blast
  have "list_all (\<lambda>i. drop i ?f \<noteq> take (length ?f - i) ?f) [1..<length ?f]"
    by code_simp
  then have at_u: "index_of_text (?u @ ?f @ r) ?f = int (length ?u)" for r
    using h by (intro index_of_text_put) (simp_all add: gitlab_form_def)
  have found: "index_of_text (createGitApi h GITLAB) ?f = int (length ?u)"
    using at_u [of "''/'' @ ?i @ ''/repository?'' @ serialize ?ps"] unfolding api by simp
  have "slice_from (int (length ?u) + int (length ?f) + 1) (createGitApi h GITLAB)
      = ?i @ ''/'' @ ''repository?'' @ serialize ?ps"
    unfolding api by (simp add: slice_from_def nat_add_distrib)
  then have pid: "at (split_char (CHR ''/'') (slice_from (int (length ?u) + int (length ?f) + 1)
      (createGitApi h GITLAB))) 0 = Some ?i"
    using h by (simp add: gitlab_form_def segment_ok_def split_char_append at_def)
  have base: "slice_upto (int (length ?u)) (createGitApi h GITLAB) = ?u"
    unfolding api by (simp add: slice_upto_def)
  have "destructHelmUrl is_url search (createGitApi h GITLAB) GITLAB
      = [(''helmUrl'', Some ?u), (''helmProjectId'', Some ?i),
         (''helmBranch'', get_param ''ref'' ?ps), (''helmPath'', get_param ''path'' ?ps)]"
    unfolding destructHelmUrl_def git_provider.case destructGitlab_def Let_def ps found base pid
    by (rule refl)
  then show ?thesis
    by (simp add: get_param_def)
qed

text \<open>
  What GitHub's form may hold: the address of the API after the protocol, as segments; none
  of them is \<open>repos\<close>. The path in the repository is a list of segments too.
\<close>

definition github_form :: "helm \<Rightarrow> string \<Rightarrow> string list \<Rightarrow> string list \<Rightarrow> bool" where
  "github_form h proto host path \<longleftrightarrow>
     helmUrl h = proto @ ''//'' @ join_with ''/'' host \<and> plain proto \<and> CHR ''/'' \<notin> set proto
     \<and> host \<noteq> [] \<and> ''repos'' \<notin> set host \<and> helmPath h = join_with ''/'' path
     \<and> list_all (\<lambda>x. segment_ok x \<and> plain x) (host @ [helmOrganization h, helmRepository h] @ path)"

definition glue :: "string list \<Rightarrow> string \<Rightarrow> string list" where
  "glue xs t = butlast xs @ [last xs @ t]"

lemma join_glue: "xs \<noteq> [] \<Longrightarrow> join_with sep (glue xs t) = join_with sep xs @ t"
proof (induction xs)
  case (Cons x xs)
  then show ?case
    by (cases "xs = []") (simp_all add: glue_def join_Cons)
qed simp

lemma list_all_glue: "\<lbrakk>list_all segment_ok xs; xs \<noteq> []; CHR ''/'' \<notin> set t\<rbrakk> \<Longrightarrow> list_all segment_ok (glue xs t)"
  by (cases xs rule: rev_cases) (auto simp: glue_def segment_ok_def)

lemma hd_glue: "xs \<noteq> [] \<Longrightarrow> hd (glue xs t) = hd xs \<or> hd (glue xs t) = hd xs @ t"
  by (cases xs) (auto simp: glue_def)

lemma glue_append: "ys \<noteq> [] \<Longrightarrow> glue (xs @ ys) t = xs @ glue ys t"
  by (simp add: glue_def butlast_append)

lemma github_address:
  assumes "github_form h proto host path"
  shows "createGitApi h GITHUB = proto @ ''//'' @ join_with ''/''
      (host @ [''repos'', helmOrganization h, helmRepository h]
       @ glue (''contents'' # path) (''?'' @ serialize [(''ref'', branch_of h)]))"
proof (cases path)
  case Nil
  then show ?thesis
    using assms by (simp add: github_form_def createGitApi_def createGithubApi_def branch_of_def
        Let_def join_append join_Cons glue_def)
next
  case (Cons x xs)
  then have "helmPath h \<noteq> []"
    using assms by (cases xs) (auto simp: github_form_def segment_ok_def)
  then show ?thesis
    using assms Cons join_glue [of "''contents'' # path" "''/''"]
    by (simp add: github_form_def createGitApi_def createGithubApi_def branch_of_def
        Let_def join_append join_Cons glue_def)
qed

definition github_tail :: "helm \<Rightarrow> string list \<Rightarrow> string list" where
  "github_tail h path = glue (''contents'' # path) (''?'' @ serialize [(''ref'', branch_of h)])"

definition github_segments :: "helm \<Rightarrow> string list \<Rightarrow> string list \<Rightarrow> string list" where
  "github_segments h host path =
     host @ ''repos'' # helmOrganization h # helmRepository h # github_tail h path"

lemma github_split:
  assumes h: "github_form h proto host path"
  shows "split_text ''//'' (createGitApi h GITHUB) = [proto, join_with ''/'' (github_segments h host path)]"
    and "split_char (CHR ''/'') (join_with ''/'' (github_segments h host path)) = github_segments h host path"
proof -
  let ?segs = "github_segments h host path"
  have api: "createGitApi h GITHUB = proto @ ''//'' @ join_with ''/'' ?segs"
    using github_address [OF h] by (simp add: github_segments_def github_tail_def)
  have segs: "list_all segment_ok ?segs"
    using h list_all_glue [of "''contents'' # path" "''?'' @ serialize [(''ref'', branch_of h)]"]
      serialize_free [of "CHR ''/''" "[(''ref'', branch_of h)]"]
    by (auto simp: github_form_def list_all_iff segment_ok_def github_segments_def github_tail_def)
  have slash: "CHR ''/'' \<notin> set proto"
    using h by (simp add: github_form_def)
  show "split_text ''//'' (createGitApi h GITHUB) = [proto, join_with ''/'' ?segs]"
    unfolding api split_text_protocol [OF slash]
      split_text_whole [OF no_double_slash [OF segs]] by (rule refl)
  show "split_char (CHR ''/'') (join_with ''/'' ?segs) = ?segs"
    using segs by (intro split_char_join)
      (auto simp: list_all_iff segment_ok_def github_segments_def)
qed

lemma github_params:
  assumes h: "github_form h proto host path" and url: "is_url (createGitApi h GITHUB)"
  shows "getSearchParams is_url search (createGitApi h GITHUB) = [(''ref'', branch_of h)]"
proof -
  let ?mid = "[''repos'', helmOrganization h, helmRepository h]" and ?tl = "''contents'' # path"
  let ?t = "''?'' @ serialize [(''ref'', branch_of h)]"
  let ?u = "proto @ ''//'' @ join_with ''/'' ((host @ ?mid) @ ?tl)"
  have u: "createGitApi h GITHUB = ?u @ ?t"
    using github_address [OF h] join_glue [of "(host @ ?mid) @ ?tl" "''/''" ?t]
      glue_append [of ?tl "host @ ?mid" ?t] by simp
  have "plain ?u"
    using h set_join [of "''/''" "(host @ ?mid) @ ?tl"]
    by (fastforce simp: plain_def github_form_def list_all_iff)
  then show ?thesis
    using getSearchParams_written url unfolding u plain_def by blast
qed

lemma github_part:
  "at (github_segments h host path) (int (length host) + int k) =
     (let rest = ''repos'' # helmOrganization h # helmRepository h # github_tail h path
      in if k < length rest then Some (rest ! k) else None)"
  unfolding github_segments_def Let_def by (rule at_append)

lemma github_path:
  assumes h: "github_form h proto host path"
  shows "(case at (github_segments h host path) (int (length host) + 4) of None \<Rightarrow> []
      | Some s \<Rightarrow> if s = [] then [] else hd (split_char (CHR ''?'') s))
      = (case path of [] \<Rightarrow> [] | x # _ \<Rightarrow> x)"
proof (cases path)
  case Nil
  then show ?thesis
    using github_part [of h host path 4] by (simp add: glue_def github_tail_def)
next
  case (Cons x xs)
  let ?t = "''?'' @ serialize [(''ref'', branch_of h)]"
  have x: "x \<noteq> []" "CHR ''?'' \<notin> set x"
    using h Cons by (auto simp: github_form_def segment_ok_def plain_def)
  have "github_tail h path ! 1 = hd (glue path ?t)" "1 < length (github_tail h path)"
    using Cons by (auto simp: github_tail_def glue_def hd_append hd_conv_nth nth_append)
  then have "at (github_segments h host path) (int (length host) + 4) = Some (hd (glue path ?t))"
    using github_part [of h host path 4] by simp
  moreover have "hd (glue path ?t) = x \<or> hd (glue path ?t) = x @ ?t"
    using hd_glue [of path ?t] Cons by simp
  ultimately show ?thesis
    using x Cons by (auto simp: split_char_single split_char_append)
qed

lemma github_round_trip:
  assumes h: "github_form h proto host path" and url: "is_url (createGitApi h GITHUB)"
  shows "destructHelmUrl is_url search (createGitApi h GITHUB) GITHUB =
    [(''helmUrl'', Some (helmUrl h)), (''helmOrganization'', Some (helmOrganization h)),
     (''helmRepository'', Some (helmRepository h)), (''helmBranch'', Some (branch_of h)),
     (''helmPath'', Some (case path of [] \<Rightarrow> [] | x # _ \<Rightarrow> x))]"
proof -
  let ?segs = "github_segments h host path"
  have split: "map_option (split_char (CHR ''/''))
      (at (split_text ''//'' (createGitApi h GITHUB)) 1) = Some ?segs"
    and protocol: "at (split_text ''//'' (createGitApi h GITHUB)) 0 = Some proto"
    using github_split [OF h] by (simp_all add: at_def)
  have pos: "index_of ?segs ''repos'' = int (length host)"
    using h by (simp add: github_form_def github_segments_def index_of_append)
  have base: "slice_upto (int (length host)) ?segs = host"
    by (simp add: slice_upto_def github_segments_def)
  have params: "getSearchParams is_url search (createGitApi h GITHUB) = [(''ref'', branch_of h)]"
    using github_params h url .
  have helm: "helmUrl h = proto @ ''//'' @ join_with ''/'' host"
    using h by (simp add: github_form_def)
  have "destructHelmUrl is_url search (createGitApi h GITHUB) GITHUB =
    [(''helmUrl'', Some (proto @ ''//'' @ join_with ''/'' host)),
     (''helmOrganization'', at ?segs (int (length host) + 1)),
     (''helmRepository'', at ?segs (int (length host) + 2)),
     (''helmBranch'', get_param ''ref'' [(''ref'', branch_of h)]),
     (''helmPath'', Some (case path of [] \<Rightarrow> [] | x # _ \<Rightarrow> x))]"
    unfolding destructHelmUrl_def git_provider.case destructGithub_def Let_def split protocol
      params
      option.case option.sel pos base github_path [OF h] in_template_def by (rule refl)
  then show ?thesis
    using github_part [of h host path 1] github_part [of h host path 2]
    by (simp add: helm get_param_def)
qed

text \<open> C39: The address the form of a component makes for the API of its git provider is taken
  apart again into the fields it was made of: for GitLab all of them; for GitHub the path
  comes back up to its first slash only, so a chart in a nested directory is lost when the
  component is edited. \<close>

theorem git_address_round_trip:
  assumes "is_url (createGitApi h p)"
    and "case p of GITLAB \<Rightarrow> gitlab_form h | GITHUB \<Rightarrow> github_form h proto host path"
  shows "destructHelmUrl is_url search (createGitApi h p) p =
    (case p of
       GITLAB \<Rightarrow>
         [(''helmUrl'', Some (helmUrl h)), (''helmProjectId'', Some (helmProjectId h)),
          (''helmBranch'', Some (branch_of h)),
          (''helmPath'', if helmPath h = [] then None else Some (helmPath h))]
     | GITHUB \<Rightarrow>
         [(''helmUrl'', Some (helmUrl h)), (''helmOrganization'', Some (helmOrganization h)),
          (''helmRepository'', Some (helmRepository h)), (''helmBranch'', Some (branch_of h)),
          (''helmPath'', Some (case path of [] \<Rightarrow> [] | x # _ \<Rightarrow> x))])"
  using assms gitlab_round_trip github_round_trip by (cases p) simp_all

lemma git_address_round_trip_witness:
  "destructHelmUrl (\<lambda>_. True) [] (createGitApi \<lparr>helmUrl = ''https://api.github.com'',
       helmOrganization = ''zup'', helmRepository = ''charts'', helmProjectId = [],
       helmPath = ''team/app'', helmBranch = ''feat/x y''\<rparr> GITHUB) GITHUB
   = [(''helmUrl'', Some ''https://api.github.com''), (''helmOrganization'', Some ''zup''),
      (''helmRepository'', Some ''charts''), (''helmBranch'', Some ''feat/x y''),
      (''helmPath'', Some ''team'')]"
  using git_address_round_trip [of "\<lambda>_. True" "\<lparr>helmUrl = ''https://api.github.com'',
       helmOrganization = ''zup'', helmRepository = ''charts'', helmProjectId = [],
       helmPath = ''team/app'', helmBranch = ''feat/x y''\<rparr>" GITHUB "''https:''"
      "[''api.github.com'']" "[''team'', ''app'']" "[]"]
  by (simp add: github_form_def segment_ok_def plain_def branch_of_def)

end
