(* ===== verification/ReleaseForm.thy ===== *)
theory ReleaseForm
  imports Queries
begin

text \<open>
  The form that composes a release of a circle: \<open>modules/Circles/Release/Create/helpers.ts\<close>
  checks that no component is chosen twice, decides whether the form may be sent, and groups
  the rows of the form into the modules of the build.
\<close>

text \<open>A row of the form; a select nothing was chosen in is \<open>undefined\<close>.\<close>

record form_module =
  fm_module :: "string option"
  fm_component :: "string option"
  fm_tag :: "string option"

record module_form =
  mf_releaseName :: string
  mf_modules :: "form_module list"

subsection \<open>Components chosen twice\<close>

record field_error =
  fe_type :: string
  fe_message :: string

type_synonym form_errors = "(string \<times> field_error) list"

definition component_field :: "nat \<Rightarrow> string" where
  "component_field i = ''modules['' @ decimal i @ ''].component''"

definition conflict_with :: "nat \<Rightarrow> field_error" where
  "conflict_with i = \<lparr>fe_type = ''conflict with '' @ decimal i, fe_message = ''Component conflict''\<rparr>"

text \<open>lodash \<open>findLastIndex\<close>, with \<open>None\<close> for -1. The list \<open>matchedList\<close> of the code stays
  empty, so its test always lets the row through.\<close>

definition findLastIndex :: "('a \<Rightarrow> bool) \<Rightarrow> 'a list \<Rightarrow> nat option" where
  "findLastIndex P xs =
     (case rev (filter (\<lambda>i. P (xs ! i)) [0..<length xs]) of [] \<Rightarrow> None | i # _ \<Rightarrow> Some i)"

definition check_row :: "form_module list \<Rightarrow> nat \<Rightarrow> form_errors \<Rightarrow> form_errors" where
  "check_row modules index errs =
     (case findLastIndex (\<lambda>m. fm_component m = fm_component (modules ! index)) modules of
        None \<Rightarrow> errs
      | Some componentIndex \<Rightarrow>
          if componentIndex \<noteq> index then
            AList.update (component_field componentIndex) (conflict_with index)
              (AList.update (component_field index) (conflict_with componentIndex) errs)
          else errs)"

definition checkIfComponentConflict :: "form_module list \<Rightarrow> form_errors" where
  "checkIfComponentConflict modules = fold (check_row modules) [0..<length modules] []"

definition validationResolver :: "module_form \<Rightarrow> form_errors" where
  "validationResolver f =
     (let errs = checkIfComponentConflict (mf_modules f)
      in if mf_releaseName f = [] then
           AList.update ''releaseName''
             \<lparr>fe_type = ''releaseName.required'', fe_message = ''This field is required''\<rparr> errs
         else errs)"

subsection \<open>Whether the form may be sent\<close>

text \<open>The values of the form, in the order of its fields.\<close>

datatype field_value = Input string | Rows "form_module list"

fun valid_field :: "field_value \<Rightarrow> bool \<Rightarrow> bool" where
  "valid_field (Input v) ok = (if v = [] then False else ok)"
| "valid_field (Rows ms) ok = (\<not> list_ex (\<lambda>m. \<not> truthy (fm_tag m)) ms)"

definition validFields :: "(string \<times> field_value) list \<Rightarrow> bool" where
  "validFields vs = fold (\<lambda>(k, v). valid_field v) vs True"

definition MAX_LENGTH :: nat where "MAX_LENGTH = 63"

text \<open>What both callbacks are called with.\<close>

definition checkComponentAndVersionMaxLength :: "string \<Rightarrow> bool" where
  "checkComponentAndVersionMaxLength artifact =
     (length (hd (rev (split_char (CHR ''/'') artifact))) > MAX_LENGTH)"

subsection \<open>The modules of the build\<close>

record build_component =
  bc_id :: "string option"
  bc_version :: "string option"
  bc_artifact :: string

record build_module =
  bm_id :: "string option"
  bm_components :: "build_component list"

text \<open>\<open>const [, version] = str.split(':')\<close>.\<close>

definition getVersion :: "string \<Rightarrow> string option" where
  "getVersion s = (case split_char (CHR '':'') s of _ # v # _ \<Rightarrow> Some v | _ \<Rightarrow> None)"

text \<open>lodash \<open>groupBy\<close>: the groups in the order of their first element (the ids of modules do
  not look like array indices, which objects list first).\<close>

fun groupBy :: "('a \<Rightarrow> 'k) \<Rightarrow> 'a list \<Rightarrow> ('k \<times> 'a list) list" where
  "groupBy k [] = []"
| "groupBy k (x # xs) = (k x, x # filter (\<lambda>y. k y = k x) xs) # groupBy k (filter (\<lambda>y. k y \<noteq> k x) xs)"

definition build_component_of :: "form_module \<Rightarrow> build_component" where
  "build_component_of m = \<lparr>bc_id = fm_component m, bc_version = getVersion (the (fm_tag m)),
     bc_artifact = the (fm_tag m)\<rparr>"

text \<open>A row without a tag makes \<open>getVersion\<close> throw; the button is disabled then.\<close>

definition formatDataModules :: "form_module list \<Rightarrow> build_module list option" where
  "formatDataModules modules =
     (if list_ex (\<lambda>m. fm_tag m = None) modules then None
      else Some (map (\<lambda>(k, ms). \<lparr>bm_id = fm_module (hd ms), bm_components = map build_component_of ms\<rparr>)
             (groupBy fm_module modules)))"

record build_option =
  bo_value :: string
  bo_label :: string

record release_tag =
  rt_name :: string
  rt_artifact :: string

definition formatTagOptions :: "release_tag list \<Rightarrow> build_option list" where
  "formatTagOptions ts = map (\<lambda>t. \<lparr>bo_value = rt_artifact t, bo_label = rt_name t\<rparr>) ts"

subsection \<open>The check of the components is exact\<close>

lemma findLastIndex_Some:
  assumes "i < length xs" "P (xs ! i)"
  obtains j where "findLastIndex P xs = Some j" "j < length xs" "P (xs ! j)" "i \<le> j"
    "\<And>k. \<lbrakk>k < length xs; P (xs ! k)\<rbrakk> \<Longrightarrow> k \<le> j"
proof -
  let ?is = "filter (\<lambda>i. P (xs ! i)) [0..<length xs]"
  have "i \<in> set ?is" using assms by simp
  then obtain js j where js: "?is = js @ [j]"
    by (cases ?is rule: rev_cases) auto
  have "sorted ?is"
    by (intro sorted_wrt_filter sorted_upt)
  then have le: "k \<le> j" if "k \<in> set ?is" for k
    using that unfolding js by (auto simp: sorted_wrt_append)
  have mem: "k \<in> set ?is \<longleftrightarrow> k < length xs \<and> P (xs ! k)" for k
    by auto
  have "j \<in> set ?is" by (simp only: js) simp
  moreover have "findLastIndex P xs = Some j"
    by (simp add: findLastIndex_def js)
  ultimately show thesis
    using le mem assms by (intro that [of j]) blast+
qed

text \<open>The rows that share their component with another row.\<close>

definition conflicting :: "form_module list \<Rightarrow> nat \<Rightarrow> bool" where
  "conflicting modules i \<longleftrightarrow>
     i < length modules \<and>
     (\<exists>j < length modules. j \<noteq> i \<and> fm_component (modules ! j) = fm_component (modules ! i))"

lemma dom_update: "fst ` set (AList.update k v al) = insert k (fst ` set al)"
  using dom_update [of k v al] by (simp add: dom_map_of_conv_image_fst)

definition last_same :: "form_module list \<Rightarrow> nat \<Rightarrow> nat option" where
  "last_same modules i = findLastIndex (\<lambda>m. fm_component m = fm_component (modules ! i)) modules"

definition marked :: "form_module list \<Rightarrow> nat \<Rightarrow> nat set" where
  "marked modules i = (case last_same modules i of None \<Rightarrow> {} | Some j \<Rightarrow> if j = i then {} else {i, j})"

lemma check_row_keys:
  "fst ` set (check_row modules i errs) = fst ` set errs \<union> component_field ` marked modules i"
  by (auto simp: check_row_def dom_update marked_def last_same_def split: option.split)

lemma fold_check_keys:
  "fst ` set (fold (check_row modules) rows errs)
     = fst ` set errs \<union> component_field ` (\<Union>i \<in> set rows. marked modules i)"
  by (induction rows arbitrary: errs) (auto simp: check_row_keys)

lemma last_same_cases:
  assumes "i < length modules"
  obtains j where "last_same modules i = Some j" "j < length modules" "i \<le> j"
    "fm_component (modules ! j) = fm_component (modules ! i)"
    "\<And>k. \<lbrakk>k < length modules; fm_component (modules ! k) = fm_component (modules ! i)\<rbrakk> \<Longrightarrow> k \<le> j"
  using findLastIndex_Some [of i modules "\<lambda>m. fm_component m = fm_component (modules ! i)"] assms
  unfolding last_same_def by blast

lemma marked_conflicting: "i < length modules \<Longrightarrow> k \<in> marked modules i \<Longrightarrow> conflicting modules k"
proof -
  assume i: "i < length modules" and k: "k \<in> marked modules i"
  obtain j where j: "last_same modules i = Some j" "j < length modules"
      "fm_component (modules ! j) = fm_component (modules ! i)"
    using last_same_cases [OF i] by blast
  then have "j \<noteq> i" "k = i \<or> k = j"
    using k by (auto simp: marked_def split: if_splits)
  then show ?thesis
    using i j by (auto simp: conflicting_def)
qed

lemma conflicting_marked:
  assumes "conflicting modules i"
  shows "\<exists>k < length modules. i \<in> marked modules k"
proof -
  obtain k where k: "i < length modules" "k < length modules" "k \<noteq> i"
      "fm_component (modules ! k) = fm_component (modules ! i)"
    using assms by (auto simp: conflicting_def)
  obtain j where j: "last_same modules i = Some j" "k \<le> j"
    using last_same_cases [of i modules] k by blast
  show ?thesis
  proof (cases "j = i")
    case True
    then have "last_same modules k = Some i"
      using j k by (simp add: last_same_def)
    then show ?thesis using k by (auto simp: marked_def)
  next
    case False
    then show ?thesis using j k by (auto simp: marked_def)
  qed
qed

text \<open> C40: The form of a release reports a conflict at exactly the rows that share their
  component with another row, so it reports none if and only if no component is chosen twice. \<close>

theorem component_conflicts_are_exact:
  "fst ` set (checkIfComponentConflict modules) = component_field ` {i. conflicting modules i}
   \<and> (checkIfComponentConflict modules = [] \<longleftrightarrow> distinct (map fm_component modules))"
proof
  have "(\<Union>i \<in> set [0..<length modules]. marked modules i) = {i. conflicting modules i}"
    using marked_conflicting conflicting_marked by fastforce
  then show keys: "fst ` set (checkIfComponentConflict modules) = component_field ` {i. conflicting modules i}"
    by (simp add: checkIfComponentConflict_def fold_check_keys)
  have "checkIfComponentConflict modules = [] \<longleftrightarrow> {i. conflicting modules i} = {}"
    using arg_cong [OF keys, of "\<lambda>s. s = {}"] by simp
  also have "\<dots> \<longleftrightarrow> distinct (map fm_component modules)"
    by (auto simp: conflicting_def distinct_conv_nth)
  finally show "checkIfComponentConflict modules = [] \<longleftrightarrow> distinct (map fm_component modules)" .
qed

subsection \<open>The build has each module once\<close>

lemma groupBy_spec:
  "distinct (map fst (groupBy k xs)) \<and> set (map fst (groupBy k xs)) = k ` set xs
   \<and> list_all (\<lambda>(i, g). g = filter (\<lambda>x. k x = i) xs \<and> g \<noteq> []) (groupBy k xs)"
proof (induction k xs rule: groupBy.induct)
  case (1 k)
  then show ?case by simp
next
  case (2 k x xs)
  let ?rest = "filter (\<lambda>y. k y \<noteq> k x) xs"
  have "g = filter (\<lambda>y. k y = i) (x # xs) \<and> g \<noteq> []" if "(i, g) \<in> set (groupBy k ?rest)" for i g
  proof -
    have "i \<in> set (map fst (groupBy k ?rest))"
      using that by force
    then have "i \<in> k ` set ?rest"
      using 2 by blast
    then have "i \<noteq> k x" by auto
    moreover have "g = filter (\<lambda>y. k y = i) ?rest" "g \<noteq> []"
      using 2 that by (auto simp: list_all_iff)
    moreover have "filter (\<lambda>y. k y = i) ?rest = filter (\<lambda>y. k y = i) xs"
      using \<open>i \<noteq> k x\<close> by (simp, intro filter_cong) auto
    ultimately show ?thesis
      by simp
  qed
  then show ?case
    using 2 by (auto simp: list_all_iff)
qed

theorem build_groups_the_rows:
  assumes "formatDataModules modules = Some build"
  shows "distinct (map bm_id build) \<and> set (map bm_id build) = fm_module ` set modules
    \<and> list_all (\<lambda>b. bm_components b
        = map build_component_of (filter (\<lambda>m. fm_module m = bm_id b) modules)) build"
proof -
  let ?gs = "groupBy fm_module modules"
  have build: "build = map (\<lambda>(k, ms). \<lparr>bm_id = fm_module (hd ms),
      bm_components = map build_component_of ms\<rparr>) ?gs"
    using assms by (auto simp: formatDataModules_def split: if_splits)
  have group: "g = filter (\<lambda>m. fm_module m = k) modules \<and> fm_module (hd g) = k" if "(k, g) \<in> set ?gs" for k g
  proof -
    have g: "g = filter (\<lambda>m. fm_module m = k) modules" "g \<noteq> []"
      using groupBy_spec [of fm_module modules] that by (auto simp: list_all_iff)
    then have "hd g \<in> set (filter (\<lambda>m. fm_module m = k) modules)" by (metis hd_in_set)
    then show ?thesis using g by simp
  qed
  then have "map bm_id build = map fst ?gs"
    unfolding build by auto
  moreover have "list_all (\<lambda>b. bm_components b
        = map build_component_of (filter (\<lambda>m. fm_module m = bm_id b) modules)) build"
    using group unfolding build by (fastforce simp: list_all_iff)
  ultimately show ?thesis
    using groupBy_spec [of fm_module modules] by simp
qed

text \<open>The version of an image is what follows the first colon: with a port in the address of
  the registry it is not the version.\<close>

theorem version_of_registry_with_port:
  assumes "CHR '':'' \<notin> set host" "CHR '':'' \<notin> set repo" "CHR '':'' \<notin> set version"
  shows "getVersion (host @ '':'' @ repo @ '':'' @ version) = Some repo"
    and "getVersion (repo @ '':'' @ version) = Some version"
  using assms by (simp_all add: getVersion_def split_char_append split_char_single)

text \<open>Each array of the form overwrites what was found before it: with the rows after the name,
  the order the inputs are registered in, an empty name passes.\<close>

theorem rows_overwrite_the_name:
  "validFields [(''releaseName'', Input []), (''modules'', Rows ms)]
     = validFields [(''modules'', Rows ms)]"
  by (simp add: validFields_def)

end
