(* ===== verification/Commands.thy ===== *)
theory Commands
  imports Calls "HOL-Library.AList"
begin

text \<open>
  The callbacks of the hooks of the front end (\<open>modules/*/hooks.ts\<close> and the hooks beside them)
  that wait for a call and then set state and notify, as tasks: one definition for each,
  named after the hook and the function it returns. Cells are named after the variables.

  What they owe the user is stated for all of them at once: after a failure the status is
  not \<open>pending\<close> any more, and one error notification has been shown; the hooks that break
  this are listed with the failures they do not report.
\<close>

subsection \<open>The idioms of the callbacks\<close>

definition return :: task where "return = Finish (Returned Undefined)"
definition returning :: "json_value \<Rightarrow> task" where "returning v = Finish (Returned v)"
definition throwing :: "thing \<Rightarrow> task" where "throwing e = Finish (Threw (Reason e))"

definition set_cell :: "string \<Rightarrow> json_value \<Rightarrow> task \<Rightarrow> task" where
  "set_cell x v t = Do (SetCell x (Json v)) t"
definition set_status :: "string \<Rightarrow> task \<Rightarrow> task" where
  "set_status st t = Do (SetCell ''status'' (Json (Str st))) t"
definition noted :: "string \<Rightarrow> string \<Rightarrow> task \<Rightarrow> task" where
  "noted txt st t = Do (notify (Str txt) st) t"
definition note_value :: "json_value \<Rightarrow> string \<Rightarrow> task \<Rightarrow> task" where
  "note_value v st t = Do (notify v st) t"

text \<open>\<open>try { await call } catch\<close>.\<close>

definition calling :: "call \<Rightarrow> (json_value \<Rightarrow> task) \<Rightarrow> (thing \<Rightarrow> task) \<Rightarrow> task" where
  "calling c k h = Wait (Server c) (\<lambda>a. case a of Resolved v \<Rightarrow> k v | Rejected e \<Rightarrow> h e)"

text \<open>\<open>await e.json()\<close> and \<open>await e?.json?.()\<close>: only a response has a body.\<close>

definition read_body :: "thing \<Rightarrow> (json_value \<Rightarrow> task) \<Rightarrow> task" where
  "read_body e k = Wait (Body e) (\<lambda>a. case a of Resolved v \<Rightarrow> k v | Rejected x \<Rightarrow> throwing x)"

definition reading_json :: "thing \<Rightarrow> (json_value \<Rightarrow> task) \<Rightarrow> task" where
  "reading_json e k =
     (case e of JsError _ \<Rightarrow> throwing (JsError ''TypeError'') | Response _ \<Rightarrow> read_body e k)"

definition reading_json_if_any :: "thing \<Rightarrow> (json_value \<Rightarrow> task) \<Rightarrow> task" where
  "reading_json_if_any e k = (case e of JsError _ \<Rightarrow> k Undefined | Response _ \<Rightarrow> read_body e k)"

text \<open>\<open>v?.k\<close>, \<open>v?.[0]\<close>, \<open>v ?? d\<close>.\<close>

definition maybe_member :: "string \<Rightarrow> json_value \<Rightarrow> json_value" where
  "maybe_member k v = (case member_of k v of None \<Rightarrow> Undefined | Some u \<Rightarrow> u)"

definition maybe_first :: "json_value \<Rightarrow> json_value" where
  "maybe_first v = (case v of
     Arr [] \<Rightarrow> Undefined | Arr (x # xs) \<Rightarrow> x | Str [] \<Rightarrow> Undefined | Str (c # cs) \<Rightarrow> Str [c]
   | _ \<Rightarrow> maybe_member ''0'' v)"

definition nullish :: "json_value \<Rightarrow> json_value \<Rightarrow> json_value" where
  "nullish v d = (if v = Undefined \<or> v = Null then d else v)"

definition first_detail :: "json_value \<Rightarrow> json_value" where
  "first_detail v = maybe_member ''detail'' (maybe_first (maybe_member ''errors'' v))"

text \<open>\<open>v.k\<close>, which throws for \<open>undefined\<close> and \<open>null\<close>; and \<open>e.status\<close> in a text.\<close>

definition member :: "string \<Rightarrow> json_value \<Rightarrow> (json_value \<Rightarrow> task) \<Rightarrow> task" where
  "member k v f = (case member_of k v of None \<Rightarrow> throwing (JsError ''TypeError'') | Some u \<Rightarrow> f u)"

definition status_of :: "thing \<Rightarrow> string" where
  "status_of e = (case e of Response r \<Rightarrow> decimal (rs_status r) | JsError _ \<Rightarrow> ''undefined'')"

definition statusText_of :: "thing \<Rightarrow> string" where
  "statusText_of e = (case e of Response r \<Rightarrow> rs_statusText r | JsError _ \<Rightarrow> ''undefined'')"

text \<open>\<open>getMessageError\<close>.\<close>

definition getMessageError :: "thing \<Rightarrow> (json_value \<Rightarrow> task) \<Rightarrow> task" where
  "getMessageError e k =
     (let fallback = Str (status_of e @ '': '' @ statusText_of e)
      in case e of
           JsError _ \<Rightarrow> k fallback
         | Response _ \<Rightarrow> Wait (Body e) (\<lambda>a. case a of
             Rejected _ \<Rightarrow> k fallback
           | Resolved err \<Rightarrow> (case member_of ''message'' err of None \<Rightarrow> k fallback | Some m \<Rightarrow> k m)))"

subsection \<open>Users\<close>

definition useUser_findByEmail :: "page \<Rightarrow> string \<Rightarrow> task" where
  "useUser_findByEmail p email =
     (let handler = \<lambda>e. Do (SetCell ''error'' (Reason e))
            (if \<not> isIDMEnabled p
             then noted (''Error when trying to fetch the user info for '' @ email) ''error'' return
             else return)
      in if email = [] then return
         else case findUserByEmail_call p email of
           None \<Rightarrow> handler (JsError ''InvalidCharacterError'')
         | Some c \<Rightarrow> calling c (\<lambda>res. set_cell ''user'' res (returning res)) handler)"

definition useCreateUser_create :: "json_value \<Rightarrow> task" where
  "useCreateUser_create user =
     (if truthy_value user then
        calling (createNewUser user) (\<lambda>res. set_cell ''newUser'' res (returning res))
          (\<lambda>e. reading_json e (\<lambda>err. member ''message'' err (\<lambda>m. note_value m ''error'' return)))
      else return)"

definition useUpdateName_updateNameById :: "string \<Rightarrow> string \<Rightarrow> task" where
  "useUpdateName_updateNameById i name =
     set_status ''pending'' (calling (patchProfileById i name)
       (\<lambda>res. set_cell ''user'' res (set_status ''resolved'' (returning res)))
       (\<lambda>e. set_status ''rejected'' (reading_json_if_any e (\<lambda>err.
          note_value (maybe_member ''message'' err) ''error'' (Finish (Threw (Json err)))))))"

definition useResetPassword_resetPassword :: "string \<Rightarrow> task" where
  "useResetPassword_resetPassword i =
     set_status ''pending'' (calling (resetPasswordById i)
       (\<lambda>putResponse. set_cell ''response'' putResponse (set_status ''resolved'' return))
       (\<lambda>e. reading_json e (\<lambda>err.
          note_value (maybe_member ''message'' err) ''error'' (set_status ''rejected'' return))))"

definition useChangePassword_updatePassword :: "json_value \<Rightarrow> task" where
  "useChangePassword_updatePassword d =
     set_status ''pending'' (calling (changePassword d)
       (\<lambda>_. noted ''Password changed successfully.'' ''success'' (set_status ''resolved'' return))
       (\<lambda>e. noted ''it was not possible to change the password.'' ''error''
          (set_status ''rejected'' return)))"

subsection \<open>Tokens\<close>

text \<open>\<open>useFindAll\<close> has a status of its own, the cell \<open>x\<close>.\<close>

definition useFindAll_getTokens :: "string \<Rightarrow> string option \<Rightarrow> string option \<Rightarrow> task" where
  "useFindAll_getTokens x name page =
     set_cell x (Str ''pending'') (Do (Dispatched ''TOKENS/CLEAR'' Undefined)
       (calling (tokens_findAll name page)
          (\<lambda>res. Do (Dispatched ''TOKENS/LOADED'' res) (set_cell x (Str ''resolved'') return))
          (\<lambda>e. set_cell x (Str ''rejected'') return)))"

text \<open>\<open>useFind\<close> and \<open>useRegenerate\<close> differ in the call only.\<close>

definition keep_answer :: "call \<Rightarrow> task" where
  "keep_answer c =
     set_status ''pending'' (calling c
       (\<lambda>d. set_status ''resolved'' (set_cell ''response'' d (returning d)))
       (\<lambda>e. set_status ''rejected'' return))"

definition useFind_getById :: "string \<Rightarrow> task" where
  "useFind_getById i = keep_answer (tokens_findById i)"
definition useRegenerate_regenerateById :: "string \<Rightarrow> task" where
  "useRegenerate_regenerateById i = keep_answer (tokens_regenerate i)"

definition useRevoke_revokeById :: "string \<Rightarrow> task" where
  "useRevoke_revokeById i =
     set_status ''pending'' (calling (tokens_revoke i)
       (\<lambda>d. and_then_do (useFindAll_getTokens ''getTokens.status'' None None)
          (\<lambda>_. set_status ''resolved'' (set_cell ''response'' d (returning d))))
       (\<lambda>e. set_status ''rejected'' return))"

definition useSave_save :: "json_value \<Rightarrow> task" where
  "useSave_save t =
     set_status ''pending'' (calling (tokens_create t)
       (\<lambda>d. and_then_do (useFindAll_getTokens ''getTokens.status'' None None)
          (\<lambda>_. set_status ''resolved'' (set_cell ''response'' d (returning d))))
       (\<lambda>e. getMessageError e (\<lambda>m. note_value m ''error'' (set_status ''rejected'' return))))"

subsection \<open>Workspaces\<close>

definition useWorkspace_getWorkspace :: "string option \<Rightarrow> task" where
  "useWorkspace_getWorkspace i =
     Look ''workspace'' (\<lambda>w. Do (SetCell ''workspace'' w) (set_status ''pending'' (calling (workspaces_findById i)
       (\<lambda>res. set_cell ''workspace'' res (set_status ''resolved''
          (Do (Dispatched ''WORKSPACES/LOADED_WORKSPACE'' res) return)))
       (\<lambda>e. if status_of e \<noteq> ''403'' then
               Do (SetCell ''workspace'' w) (set_status ''rejected''
                 (noted (''['' @ status_of e @ ''] Could not list'') ''error'' return))
            else return))))"

definition useWorkspaceUpdateName_updateWorkspaceName :: "string \<Rightarrow> string \<Rightarrow> task" where
  "useWorkspaceUpdateName_updateWorkspaceName w name =
     calling (updateName w name) (\<lambda>_. return)
       (\<lambda>e. noted (''['' @ status_of e @ ''] Could not update'') ''error'' return)"

text \<open>\<open>{...data, ...}\<close>: the keys that are there keep their places.\<close>

definition with_keys :: "(string \<times> json_value) list \<Rightarrow> js_value \<Rightarrow> js_value" where
  "with_keys new v =
     Json (Obj (fold (\<lambda>(k, u). AList.update k u) new (case v of Json (Obj ps) \<Rightarrow> ps | _ \<Rightarrow> [])))"

text \<open>\<open>reset.current ? new : [...data.workspaces, ...new]\<close>; what is spread must be an array.\<close>

definition next_workspaces :: "js_value \<Rightarrow> js_value \<Rightarrow> json_value \<Rightarrow> json_value option" where
  "next_workspaces reset d new =
     (if truthy_js reset then Some new
      else case (case d of Json v \<Rightarrow> maybe_member ''workspaces'' v | Reason _ \<Rightarrow> Undefined, new) of
        (Arr xs, Arr ys) \<Rightarrow> Some (Arr (xs @ ys)) | _ \<Rightarrow> None)"

definition got_workspaces :: "js_value \<Rightarrow> task \<Rightarrow> json_value \<Rightarrow> json_value \<Rightarrow> task" where
  "got_workspaces d fails new l =
     Look ''reset'' (\<lambda>reset. case next_workspaces reset d new of
       None \<Rightarrow> fails
     | Some ws \<Rightarrow> set_cell ''data'' (Obj [(''workspaces'', ws), (''last'', l), (''status'', Str ''resolved'')])
         (set_cell ''reset'' (Bool False) return))"

text \<open>\<open>data\<close> is the one of the render the function was made in.\<close>

definition useWorkspaces_getWorkspaces :: "page \<Rightarrow> browser \<Rightarrow> string option \<Rightarrow> string option \<Rightarrow> task" where
  "useWorkspaces_getWorkspaces p b name page =
     Look ''data'' (\<lambda>d.
       let fails = Do (SetCell ''data'' (with_keys [(''status'', Str ''rejected'')] d)) return
       in Do (SetCell ''data'' (with_keys [(''status'', Str ''pending'')] d))
         (case (isRoot p b, getProfileByKey p ''id'' b) of
            (None, _) \<Rightarrow> fails
          | (Some r, i) \<Rightarrow>
              if truthy_value r then
                calling (workspaces_findAll name page)
                  (\<lambda>res. case (member_of ''content'' res, member_of ''last'' res) of
                     (Some content, Some l) \<Rightarrow> got_workspaces d fails content l
                   | _ \<Rightarrow> fails) (\<lambda>e. fails)
              else (case i of
                      None \<Rightarrow> fails
                    | Some userId \<Rightarrow>
                        calling (findWorkspacesByUserId (to_text userId) name)
                          (\<lambda>res. got_workspaces d fails res (Bool True)) (\<lambda>e. fails))))"

text \<open>The list of the form of a token asks for all workspaces, whoever the user is.\<close>

definition useWorkspaces_getWorkspaces_modal :: "string option \<Rightarrow> string option \<Rightarrow> task" where
  "useWorkspaces_getWorkspaces_modal name page =
     Look ''data'' (\<lambda>d.
       let fails = Do (SetCell ''data'' (with_keys [(''status'', Str ''rejected'')] d)) return
       in Do (SetCell ''data'' (with_keys [(''status'', Str ''pending'')] d))
         (calling (workspaces_findAll name page)
            (\<lambda>res. case (member_of ''content'' res, member_of ''last'' res) of
               (Some content, Some l) \<Rightarrow> got_workspaces d fails content l
             | _ \<Rightarrow> fails) (\<lambda>e. fails)))"

definition useWorkspaces_resetWorkspaces :: task where
  "useWorkspaces_resetWorkspaces = set_cell ''reset'' (Bool True) return"

subsection \<open>Settings\<close>

text \<open>The removals of a credential: notified either way, with a status of their own.\<close>

definition removing :: "call \<Rightarrow> string \<Rightarrow> string \<Rightarrow> task" where
  "removing c done_text what =
     set_status ''pending'' (calling c
       (\<lambda>res. set_status ''resolved'' (noted done_text ''success'' (returning res)))
       (\<lambda>e. set_status ''rejected''
          (noted (''['' @ status_of e @ ''] '' @ what @ '' could not be removed.'') ''error'' return)))"

definition useDeleteRegistry_deleteRegistry :: "string \<Rightarrow> task" where
  "useDeleteRegistry_deleteRegistry w =
     removing (delConfig w registry_configPath Undefined) ''Success deleting registry'' ''Registry''"
definition useDeleteUserGroup_remove :: "string \<Rightarrow> string \<Rightarrow> task" where
  "useDeleteUserGroup_remove i g =
     removing (userGroup_detach i g) ''Success deleting user group'' ''User Group''"
definition useDeleteDatasource_removeDatasource :: "string \<Rightarrow> task" where
  "useDeleteDatasource_removeDatasource i =
     removing (deleteDatasource i) ''Success deleting Datasources'' ''Datasource''"

definition useDeleteCircleMatcher_deleteCircleMatcher :: "string \<Rightarrow> task" where
  "useDeleteCircleMatcher_deleteCircleMatcher w =
     calling (delConfig w circleMatcher_configPath Undefined)
       (\<lambda>res. noted ''Success deleting circle matcher'' ''success'' (returning res))
       (\<lambda>e. noted (''['' @ status_of e @ ''] Circle Matcher could not be removed.'') ''error'' return)"

text \<open>The call that removes the configuration itself is not waited for; and what is printed as the
  status of the error is the \<open>status\<close> of its body.\<close>

definition useCDConfiguration_remove :: "string \<Rightarrow> string \<Rightarrow> task" where
  "useCDConfiguration_remove w i =
     set_status ''pending'' (calling (delConfig w deployment_configPath (Str i))
       (\<lambda>_. Fork (calling (removeDeploymentConfiguration i) returning throwing)
          (noted ''Success deleting deployment configuration'' ''success'' (set_status ''resolved'' return)))
       (\<lambda>e. set_status ''rejected'' (Fork (reading_json e (\<lambda>err. member ''status'' err (\<lambda>st.
          note_value (Str (to_text st @ '': '' @ to_text (maybe_member ''message'' err))) ''error'' return)))
          return)))"

text \<open>The four functions of \<open>useWebhook\<close> fail in the same way.\<close>

definition webhook_failed :: "thing \<Rightarrow> task" where
  "webhook_failed e = set_status ''rejected'' (reading_json e (\<lambda>err. member ''message'' err (\<lambda>m.
     noted (''['' @ status_of e @ ''] '' @ to_text m) ''error'' (Finish (Threw (Json err))))))"

definition useWebhook_save :: "json_value \<Rightarrow> task" where
  "useWebhook_save webhook =
     set_status ''pending'' (calling (webhook_saveConfig webhook)
       (\<lambda>res. set_status ''resolved'' (returning res)) webhook_failed)"
definition useWebhook_remove :: "string \<Rightarrow> task" where
  "useWebhook_remove i =
     set_status ''pending'' (calling (webhook_delConfig i)
       (\<lambda>res. set_status ''resolved'' (noted ''Success deleting webhook'' ''success'' (returning res)))
       webhook_failed)"
definition useWebhook_list :: "string \<Rightarrow> task" where
  "useWebhook_list i =
     set_status ''pending'' (calling (webhook_getConfig i)
       (\<lambda>res. set_status ''resolved'' (returning res)) webhook_failed)"
definition useWebhook_edit :: "string \<Rightarrow> string list \<Rightarrow> task" where
  "useWebhook_edit i v =
     set_status ''pending'' (calling (webhook_editConfig i v)
       (\<lambda>res. set_status ''resolved'' (returning res)) webhook_failed)"

definition keep_error :: "thing \<Rightarrow> task" where
  "keep_error e = reading_json e (\<lambda>err. set_cell ''response'' Null (set_cell ''error'' err return))"

definition useRegistryTestConnection :: "json_value \<Rightarrow> task" where
  "useRegistryTestConnection registry =
     (if truthy_value registry then
        set_status ''pending'' (calling (testRegistryConnection registry)
          (\<lambda>res. set_cell ''response'' res (set_status ''resolved'' (returning res)))
          (\<lambda>e. set_status ''rejected'' (keep_error e)))
      else return)"
definition useRegistryValidateConnection :: "string \<Rightarrow> task" where
  "useRegistryValidateConnection i =
     (if i = [] then return
      else calling (validateConnection i)
        (\<lambda>res. set_cell ''response'' res (returning res)) keep_error)"

text \<open>\<open>JSON.parse\<close> of the text of the body is its JSON.\<close>

definition useTestConnection_save :: "(json_value \<Rightarrow> call) \<Rightarrow> json_value \<Rightarrow> task" where
  "useTestConnection_save testConnection d =
     set_cell ''loading'' (Bool True) (calling (testConnection d)
       (\<lambda>_. set_cell ''response'' (Obj [(''status'', Str ''success''), (''message'', Str ''Successful connection'')])
          (set_cell ''loading'' (Bool False) return))
       (\<lambda>e. set_cell ''loading'' (Bool False) (case e of
          JsError _ \<Rightarrow> return
        | Response _ \<Rightarrow> Fork (read_body e (\<lambda>parsedError.
            set_cell ''response'' (Obj [(''status'', Str ''error''),
              (''message'', let m = maybe_member ''message'' parsedError
                 in if truthy_value m then m else Str ''error when trying to connect.'')]) return)) return)))"

definition useActionData_getActionData :: task where
  "useActionData_getActionData =
     set_status ''pending'' (calling getAllActions
       (\<lambda>res. set_cell ''actionResponse'' res (set_status ''resolved'' (returning res)))
       (\<lambda>e. set_status ''rejected'' return))"

text \<open>A removal that notifies but has no status.\<close>

definition deleting :: "call \<Rightarrow> string \<Rightarrow> string \<Rightarrow> task" where
  "deleting c done_text failed_text =
     calling c (\<lambda>res. noted done_text ''success'' (returning res))
       (\<lambda>e. noted failed_text ''error'' return)"

definition useDeleteAction_settings :: "string \<Rightarrow> task" where
  "useDeleteAction_settings i =
     deleting (deleteActionById i) ''Success deleting action'' ''Error metric action''"

definition usePlugins_getPlugins :: "string \<Rightarrow> task" where
  "usePlugins_getPlugins category =
     calling (getPluginsByCategory category) (\<lambda>res. set_cell ''plugins'' res (returning res)) (\<lambda>e. return)"

definition useCreateAction_createAction :: "json_value \<Rightarrow> task" where
  "useCreateAction_createAction d =
     set_status ''pending'' (calling (createAction_call d)
       (\<lambda>res. set_status ''resolved'' (returning res))
       (\<lambda>e. set_status ''rejected''
          (let parse = (case e of
                 JsError _ \<Rightarrow> throwing (JsError ''TypeError'')
               | Response _ \<Rightarrow> Fork (read_body e (\<lambda>parsedError.
                   set_cell ''validationError'' parsedError
                     (note_value (first_detail parsedError) ''error'' return))) return)
           in if status_of e = ''504'' then noted ''Gateway timeout'' ''error'' parse else parse)))"

subsection \<open>Circles and releases\<close>

text \<open>\<open>promise\<close> of \<open>useFetch\<close>: the hook's \<open>loading\<close> stays set when the call is rejected.\<close>

definition promise :: "call \<Rightarrow> (json_value \<Rightarrow> task) \<Rightarrow> (thing \<Rightarrow> task) \<Rightarrow> task" where
  "promise c k h = set_cell ''loading'' (Bool True) (calling c (\<lambda>v. set_cell ''loading'' (Bool False) (k v)) h)"

definition useCirclePolling_pollingCircle :: "string \<Rightarrow> task" where
  "useCirclePolling_pollingCircle i =
     set_status ''pending'' (promise (findCircleById (Some i))
       (\<lambda>d. set_cell ''response'' d (set_status ''resolved'' return))
       (\<lambda>e. set_status ''rejected'' return))"
definition useCircleUndeploy_undeployRelease :: "json_value \<Rightarrow> task" where
  "useCircleUndeploy_undeployRelease d =
     (if truthy_value d then
        set_status ''pending'' (promise (undeploy (to_text (maybe_member ''id'' d)))
          (\<lambda>_. set_status ''resolved'' return) (\<lambda>e. set_status ''rejected'' return))
      else return)"
definition resetStatus :: task where
  "resetStatus = set_status ''idle'' return"

text \<open>\<open>const [tag] = res\<close> throws when \<open>res\<close> has no iterator.\<close>

definition first_of :: "json_value \<Rightarrow> json_value option" where
  "first_of v = (case v of
     Arr [] \<Rightarrow> Some Undefined | Arr (x # xs) \<Rightarrow> Some x
   | Str [] \<Rightarrow> Some Undefined | Str (c # cs) \<Rightarrow> Some (Str [c]) | _ \<Rightarrow> None)"

definition useComponentTags_getComponentTag :: "string \<Rightarrow> string \<Rightarrow> (string \<times> given_value) list \<Rightarrow> task" where
  "useComponentTags_getComponentTag m i ps =
     (if map_of ps ''name'' \<in> {None, Some (OneText [])} then return
      else set_status ''pending'' (calling (findComponentTags m i ps)
        (\<lambda>res. case first_of res of
           None \<Rightarrow> set_status ''rejected'' return
         | Some tag \<Rightarrow> set_cell ''tag'' tag (set_status ''resolved'' (returning tag)))
        (\<lambda>e. set_status ''rejected'' return)))"

definition useCircleDeployLogs_getLogsData :: "string \<Rightarrow> task" where
  "useCircleDeployLogs_getLogsData i = calling (findDeployLogsByDeploymentId i) returning (\<lambda>e. return)"

definition useManagerMember_managerMemberUserGroup :: "bool \<Rightarrow> string \<Rightarrow> string \<Rightarrow> task" where
  "useManagerMember_managerMemberUserGroup checked g m =
     set_status ''pending'' (promise
       (if checked then addMemberToUserGroup g (Obj [(''memberId'', Str m)]) else removeMemberToUserGroup g m)
       (\<lambda>_. set_status ''resolved'' return) (\<lambda>e. set_status ''rejected'' return))"

text \<open>Nothing handles the rejection of the removal of a component.\<close>

definition useDeleteComponent_removeComponent :: "string \<Rightarrow> string \<Rightarrow> task" where
  "useDeleteComponent_removeComponent m i =
     set_status [] (promise (deleteComponent m i) (\<lambda>_. set_status ''resolved'' return) throwing)"

subsection \<open>Metrics of a circle\<close>

text \<open>\<open>responseError.json().then(...)\<close> of the metrics, which is not waited for.\<close>

definition detail_or :: "string \<Rightarrow> thing \<Rightarrow> task" where
  "detail_or txt e = (case e of
     JsError _ \<Rightarrow> throwing (JsError ''TypeError'')
   | Response _ \<Rightarrow> Fork (read_body e (\<lambda>err. note_value (nullish (first_detail err) (Str txt)) ''error'' return)) return)"

definition listing :: "string \<Rightarrow> call \<Rightarrow> task" where
  "listing x c =
     set_status ''pending'' (calling c (\<lambda>res. set_cell x res (set_status ''resolved'' (returning res)))
       (\<lambda>e. set_status ''rejected'' return))"

definition getMetricsgroupsResume :: "(string \<times> given_value) list \<Rightarrow> task" where
  "getMetricsgroupsResume d = listing ''resume'' (getMetricsGroupsResumeById (buildParams d))"
definition getMetricsGroups :: "string \<Rightarrow> task" where
  "getMetricsGroups c = listing ''metricsGroups'' (getAllMetricsGroupsById c)"
definition getMetricsProviders :: task where
  "getMetricsProviders =
     calling getAllMetricsProviders (\<lambda>res. set_cell ''providers'' res (returning res)) (\<lambda>e. return)"

definition useSaveMetric_saveMetric :: "string \<Rightarrow> string \<Rightarrow> json_value \<Rightarrow> task" where
  "useSaveMetric_saveMetric metricId g d =
     set_status ''pending'' (calling
       (if metricId \<noteq> [] then updateMetric g (to_text (maybe_member ''id'' d)) d else createMetric g d)
       (\<lambda>res. set_status ''resolved'' (returning res))
       (\<lambda>e. set_status ''rejected'' (detail_or ''Error on save metric'' e)))"

definition getAllDataSourceMetrics_task :: "string \<Rightarrow> task" where
  "getAllDataSourceMetrics_task i = calling (getAllDataSourceMetrics i) returning (\<lambda>e. return)"

definition useCreateMetricsGroup_createMetricsGroup :: "string \<Rightarrow> string \<Rightarrow> string \<Rightarrow> task" where
  "useCreateMetricsGroup_createMetricsGroup g name c =
     (let d = Obj [(''name'', Str name), (''circleId'', Str c)]
      in set_status ''pending'' (calling (if g \<noteq> [] then updateMetricGroup d g else createMetricGroup d)
        (\<lambda>res. set_status ''resolved'' (returning res))
        (\<lambda>e. set_status ''rejected'' (detail_or ''Error on save metric group'' e))))"

definition useDeleteMetricsGroup_deleteMetricsGroup :: "string \<Rightarrow> task" where
  "useDeleteMetricsGroup_deleteMetricsGroup g =
     deleting (deleteMetricGroup g) ''Success deleting metrics group'' ''Error deleting metrics group''"
definition useDeleteMetric_deleteMetric :: "string \<Rightarrow> string \<Rightarrow> task" where
  "useDeleteMetric_deleteMetric g i =
     deleting (deleteMetricByMetricId g i) ''Success deleting metric'' ''Error metric delete''"

definition getMetricByQuery :: "string \<Rightarrow> (string \<times> given_value) list \<Rightarrow> task" where
  "getMetricByQuery g d =
     calling (getChartDataByQuery g (buildParams d)) returning
       (\<lambda>e. noted ''Error on loading metric chart data'' ''error'' return)"
definition getAllActionsTypesData :: task where
  "getAllActionsTypesData = calling getAllActionsTypes returning (\<lambda>e. return)"

definition useSaveAction_saveAction :: "string \<Rightarrow> json_value \<Rightarrow> task" where
  "useSaveAction_saveAction actionId d =
     (let nickname = to_text (maybe_member ''nickname'' d);
          verb = (if actionId \<noteq> [] then ''edit'' else ''added'')
      in set_status ''pending'' (calling
        (if actionId \<noteq> [] then updateAction d actionId else createAction_group d)
        (\<lambda>res. set_status ''resolved''
           (noted (''The action '' @ nickname @ '' was successfully '' @ verb) ''success'' (returning res)))
        (\<lambda>e. set_status ''rejected''
           (noted (''An error occurred while trying to create the '' @ nickname @ '' '' @ verb) ''error'' return))))"

definition useDeleteAction_group :: "string \<Rightarrow> string \<Rightarrow> task" where
  "useDeleteAction_group i name =
     deleting (deleteActionByActionId i) (''The action '' @ name @ '' was successfully deleted.'')
       (''Error deleting the action '' @ name)"

text \<open>Only a success ends the loading.\<close>

definition getActionGroup :: "string \<Rightarrow> task" where
  "getActionGroup i =
     set_cell ''isLoading'' (Bool True) (calling (getGroupActionById i)
       (\<lambda>res. set_cell ''actionData'' res (set_cell ''isLoading'' (Bool False) (returning res)))
       (\<lambda>e. return))"

end
