(* ===== verification/Reports.thy ===== *)
theory Reports
  imports Commands
begin

text \<open>
  What the callbacks of the hooks owe the user, for every order in which calls are made and
  answered: a status that leaves \<open>pending\<close>, and one notification of each failure. The
  contracts are the locales of \<open>Tasks\<close>; here they are shown of the hooks of the code.
\<close>

named_theorems hook_defs \<open>the callbacks of the hooks\<close>
named_theorems idioms \<open>what the idioms of the callbacks do, in terms of their parts\<close>

lemmas [hook_defs] =
  useUpdateName_updateNameById_def useResetPassword_resetPassword_def
  useChangePassword_updatePassword_def useFindAll_getTokens_def useFind_getById_def
  useRegenerate_regenerateById_def keep_answer_def useRevoke_revokeById_def useSave_save_def
  useWorkspaceUpdateName_updateWorkspaceName_def removing_def useDeleteRegistry_deleteRegistry_def
  useDeleteUserGroup_remove_def useDeleteDatasource_removeDatasource_def
  useDeleteCircleMatcher_deleteCircleMatcher_def useWebhook_save_def useWebhook_remove_def
  useWebhook_list_def useWebhook_edit_def useRegistryTestConnection_def useActionData_getActionData_def
  deleting_def useDeleteAction_settings_def useCreateAction_createAction_def
  useCirclePolling_pollingCircle_def useCircleUndeploy_undeployRelease_def resetStatus_def
  useComponentTags_getComponentTag_def useManagerMember_managerMemberUserGroup_def promise_def
  listing_def getMetricsgroupsResume_def getMetricsGroups_def useSaveMetric_saveMetric_def
  useCreateMetricsGroup_createMetricsGroup_def useDeleteMetricsGroup_deleteMetricsGroup_def
  useDeleteMetric_deleteMetric_def useSaveAction_saveAction_def useDeleteAction_group_def
  useCDConfiguration_remove_def useCreateUser_create_def

subsection \<open>The idioms\<close>

lemma and_then_do_calling [idioms]:
  "and_then_do (calling c f h) k = calling c (\<lambda>v. and_then_do (f v) k) (\<lambda>e. and_then_do (h e) k)"
  by (auto simp: calling_def split: settled.split)

lemma and_then_do_idioms [idioms]:
  "and_then_do (set_cell x v t) k = set_cell x v (and_then_do t k)"
  "and_then_do return k = k (Returned Undefined)"
  by (simp_all add: set_cell_def return_def)

lemma settles_idioms [idioms]:
  "settles x p return \<longleftrightarrow> \<not> p"
  "settles x p (returning v) \<longleftrightarrow> \<not> p"
  "settles x p (throwing e) \<longleftrightarrow> \<not> p"
  "settles x p (set_cell y v t) \<longleftrightarrow> settles x (if y = x then v = Str ''pending'' else p) t"
  "settles x p (set_status st t) \<longleftrightarrow> settles x (if x = ''status'' then st = ''pending'' else p) t"
  "settles x p (noted txt st t) \<longleftrightarrow> settles x p t"
  "settles x p (note_value v st t) \<longleftrightarrow> settles x p t"
  "settles x p (calling c k h) \<longleftrightarrow> (\<forall>v. settles x p (k v)) \<and> (\<forall>e. settles x p (h e))"
  "settles x p (read_body e k) \<longleftrightarrow>
     (case body_of e of Resolved v \<Rightarrow> settles x p (k v) | Rejected r \<Rightarrow> \<not> p)"
  by (auto simp: return_def returning_def throwing_def set_cell_def set_status_def noted_def
      note_value_def notify_def calling_def read_body_def pending_text_def possible_def
      split: settled.splits)

lemma settles_reading [idioms]:
  "settles x p (reading_json e k) \<longleftrightarrow>
     (case body_of e of Resolved v \<Rightarrow> settles x p (k v) | Rejected r \<Rightarrow> \<not> p)"
  "(\<And>v. settles x False (k v)) \<Longrightarrow> settles x False (reading_json_if_any e k)"
  "(\<And>v. settles x False (f v)) \<Longrightarrow> settles x False (member n v f)"
  by (auto simp: reading_json_def reading_json_if_any_def member_def settles_idioms body_of_def
      split: thing.splits settled.splits option.splits)

lemma error_note_notify:
  "error_note (''NOTIFICATION/TOOGLE'', Obj [(''text'', v), (''status'', Str st)]) \<longleftrightarrow> st = ''error''"
  by (simp add: error_note_def)

lemma error_note_other [simp]: "ty \<noteq> ''NOTIFICATION/TOOGLE'' \<Longrightarrow> \<not> error_note (ty, pl)"
  by (simp add: error_note_def)

lemma errs_idioms [idioms]:
  "errs mine n return \<longleftrightarrow> n = 0"
  "errs mine n (returning v) \<longleftrightarrow> n = 0"
  "errs mine n (throwing e) \<longleftrightarrow> n = 0"
  "errs mine n (set_cell y v t) \<longleftrightarrow> errs mine n t"
  "errs mine n (set_status st t) \<longleftrightarrow> errs mine n t"
  "errs mine n (noted txt st t) \<longleftrightarrow>
     (if st = ''error'' then n > 0 \<and> errs mine (n - 1) t else errs mine n t)"
  "errs mine n (note_value v st t) \<longleftrightarrow>
     (if st = ''error'' then n > 0 \<and> errs mine (n - 1) t else errs mine n t)"
  "errs mine n (calling c k h) \<longleftrightarrow> \<not> mine c \<and> (\<forall>v. errs mine n (k v)) \<and> (\<forall>e. errs mine n (h e))"
  "errs mine n (read_body e k) \<longleftrightarrow>
     (case body_of e of Resolved v \<Rightarrow> errs mine n (k v) | Rejected r \<Rightarrow> n = 0)"
  "errs mine n (Fork s return) \<longleftrightarrow> errs mine n s"
  by (auto simp: return_def returning_def throwing_def set_cell_def set_status_def noted_def
      note_value_def notify_def calling_def read_body_def possible_def
      error_note_notify body_of_def split: settled.splits thing.splits)

lemma reports_idioms [idioms]:
  "reports mine ok return"
  "reports mine ok (set_cell y v t) \<longleftrightarrow> reports mine ok t"
  "reports mine ok (set_status st t) \<longleftrightarrow> reports mine ok t"
  "reports mine ok (calling c k h) \<longleftrightarrow>
     mine c \<and> (\<forall>v. errs mine 0 (k v)) \<and> (\<forall>e. ok e \<longrightarrow> errs mine 1 (h e))"
  by (auto simp: return_def set_cell_def set_status_def calling_def)

lemma methods [idioms]:
  "cl_method (get_call u) = ''GET''" "cl_method (post_call u d) = ''POST''"
  "cl_method (put_call u d) = ''PUT''" "cl_method (delete_call u d) = ''DELETE''"
  "cl_method (patch_call u d) = ''PATCH''" "cl_method (patch_one u t q v) = ''PATCH''"
  by (simp_all add: get_call_def post_call_def put_call_def delete_call_def patch_call_def patch_one_def)

subsection \<open>The status of a hook\<close>

text \<open>The callbacks that keep a status, but for those that break the contract.\<close>

inductive_set status_callbacks :: "task set" where
  "useUpdateName_updateNameById i n \<in> status_callbacks"
| "useChangePassword_updatePassword d \<in> status_callbacks"
| "useFind_getById i \<in> status_callbacks"
| "useRegenerate_regenerateById i \<in> status_callbacks"
| "useRevoke_revokeById i \<in> status_callbacks"
| "useSave_save d \<in> status_callbacks"
| "useFindAll_getTokens ''status'' name q \<in> status_callbacks"
| "useDeleteRegistry_deleteRegistry w \<in> status_callbacks"
| "useDeleteUserGroup_remove i g \<in> status_callbacks"
| "useDeleteDatasource_removeDatasource i \<in> status_callbacks"
| "useCDConfiguration_remove w i \<in> status_callbacks"
| "useWebhook_save d \<in> status_callbacks"
| "useWebhook_remove i \<in> status_callbacks"
| "useWebhook_list i \<in> status_callbacks"
| "useWebhook_edit i v \<in> status_callbacks"
| "useRegistryTestConnection d \<in> status_callbacks"
| "useActionData_getActionData \<in> status_callbacks"
| "useCreateAction_createAction d \<in> status_callbacks"
| "useCirclePolling_pollingCircle i \<in> status_callbacks"
| "useCircleUndeploy_undeployRelease d \<in> status_callbacks"
| "resetStatus \<in> status_callbacks"
| "useComponentTags_getComponentTag m i ps \<in> status_callbacks"
| "useManagerMember_managerMemberUserGroup b g m \<in> status_callbacks"
| "getMetricsgroupsResume ps \<in> status_callbacks"
| "getMetricsGroups i \<in> status_callbacks"
| "useSaveMetric_saveMetric j g d \<in> status_callbacks"
| "useCreateMetricsGroup_createMetricsGroup g n i \<in> status_callbacks"
| "useSaveAction_saveAction i d \<in> status_callbacks"

lemma settles_parts:
  "settles ''status'' q (webhook_failed e)"
  "settles ''status'' False (keep_error e)"
  "settles ''status'' False (detail_or txt e)"
  by (auto simp: webhook_failed_def keep_error_def detail_or_def idioms
      split: settled.split thing.split)

lemma settles_getMessageError:
  "(\<And>m. settles x p (k m)) \<Longrightarrow> settles x p (getMessageError e k)"
  by (auto simp: getMessageError_def Let_def split: thing.split settled.split option.split)

lemma status_callbacks_settle: "t \<in> status_callbacks \<Longrightarrow> settles ''status'' False t"
  by (erule status_callbacks.cases)
     (auto simp: hook_defs idioms settles_parts Let_def intro!: settles_getMessageError
        split: settled.split thing.split option.split)

interpretation callbacks: status_protocol status_callbacks "''status''"
  by unfold_locales (rule status_callbacks_settle)

subsection \<open>The notification of a failure\<close>

definition mutation :: "call \<Rightarrow> bool" where
  "mutation c \<longleftrightarrow> cl_method c \<noteq> ''GET''"

text \<open>The callbacks that change something and notify their failures in a text of their own: every
  failure is reported. The others take the text from the body of the answer.\<close>

inductive_set plain_mutations :: "task set" where
  "useChangePassword_updatePassword d \<in> plain_mutations"
| "useSave_save d \<in> plain_mutations"
| "useWorkspaceUpdateName_updateWorkspaceName w n \<in> plain_mutations"
| "useDeleteRegistry_deleteRegistry w \<in> plain_mutations"
| "useDeleteUserGroup_remove i g \<in> plain_mutations"
| "useDeleteDatasource_removeDatasource i \<in> plain_mutations"
| "useDeleteCircleMatcher_deleteCircleMatcher w \<in> plain_mutations"
| "useDeleteAction_settings i \<in> plain_mutations"
| "useDeleteMetricsGroup_deleteMetricsGroup g \<in> plain_mutations"
| "useDeleteMetric_deleteMetric g i \<in> plain_mutations"
| "useSaveAction_saveAction i d \<in> plain_mutations"
| "useDeleteAction_group i n \<in> plain_mutations"

inductive_set body_mutations :: "task set" where
  "useCreateUser_create d \<in> body_mutations"
| "useUpdateName_updateNameById i n \<in> body_mutations"
| "useResetPassword_resetPassword i \<in> body_mutations"
| "useWebhook_save d \<in> body_mutations"
| "useWebhook_remove i \<in> body_mutations"
| "useWebhook_edit i v \<in> body_mutations"
| "useCreateAction_createAction d \<in> body_mutations"
| "useSaveMetric_saveMetric j g d \<in> body_mutations"
| "useCreateMetricsGroup_createMetricsGroup g n i \<in> body_mutations"

text \<open>A failure that says what it is: an answer whose body can be read, and which is not the timeout
  of a gateway.\<close>

definition told :: "thing \<Rightarrow> bool" where
  "told e = (case e of
     JsError _ \<Rightarrow> False
   | Response r \<Rightarrow> (case rs_json r of None \<Rightarrow> False | Some v \<Rightarrow> v \<noteq> Undefined \<and> v \<noteq> Null) \<and> rs_status r \<noteq> 504)"

lemma told_response:
  "told e \<Longrightarrow> \<exists>r v. e = Response r \<and> rs_status r \<noteq> 504 \<and> body_of e = Resolved v \<and> v \<noteq> Undefined \<and> v \<noteq> Null"
  by (cases e) (auto simp: told_def body_of_def split: option.splits)

lemma errs_told:
  assumes "told e" "\<And>v. \<lbrakk>v \<noteq> Undefined; v \<noteq> Null\<rbrakk> \<Longrightarrow> errs mine n (k v)"
  shows "errs mine n (read_body e k)" "errs mine n (reading_json e k)" "errs mine n (reading_json_if_any e k)"
  using told_response [OF assms(1)] assms(2)
  by (auto simp: errs_idioms reading_json_def reading_json_if_any_def)

lemma errs_member:
  "\<lbrakk>v \<noteq> Undefined; v \<noteq> Null; \<And>u. errs mine n (f u)\<rbrakk> \<Longrightarrow> errs mine n (member k v f)"
  by (cases v) (simp_all add: member_def)

lemma errs_detail_or: "told e \<Longrightarrow> errs mine (Suc 0) (detail_or txt e)"
  using told_response [of e] by (auto simp: detail_or_def idioms)

lemma status_not_504: "told e \<Longrightarrow> status_of e \<noteq> ''504''"
proof -
  assume "told e"
  then obtain r where r: "e = Response r" "rs_status r \<noteq> 504" using told_response by blast
  have "''504'' = decimal 504" by code_simp
  then show ?thesis using r by (simp add: status_of_def)
qed

lemma errs_getMessageError:
  "(\<And>m. errs mine n (k m)) \<Longrightarrow> errs mine n (getMessageError e k)"
  by (auto simp: getMessageError_def Let_def split: thing.split settled.split option.split)

lemma plain_mutations_report: "t \<in> plain_mutations \<Longrightarrow> reports mutation (\<lambda>_. True) t"
  by (erule plain_mutations.cases)
     (auto simp: hook_defs idioms mutation_def Let_def delConfig_def userGroup_detach_def
        deleteDatasource_def deleteActionById_def deleteMetricGroup_def deleteMetricByMetricId_def
        deleteActionByActionId_def updateName_def changePassword_def tokens_create_def
        tokens_findAll_def updateAction_def createAction_group_def
        intro!: errs_getMessageError split: settled.split thing.split option.split)

interpretation plain: reporting plain_mutations mutation "\<lambda>_. True"
  by unfold_locales (rule plain_mutations_report)

lemma body_mutations_report: "t \<in> body_mutations \<Longrightarrow> reports mutation told t"
proof (erule body_mutations.cases)
  fix d assume "t = useCreateAction_createAction d"
  moreover have "errs mutation 1 (case e of
       JsError _ \<Rightarrow> throwing (JsError ''TypeError'')
     | Response _ \<Rightarrow> Fork (read_body e (\<lambda>parsedError. set_cell ''validationError'' parsedError
         (note_value (first_detail parsedError) ''error'' return))) return)" if "told e" for e
    using told_response [OF that] by (auto simp: idioms)
  ultimately show ?thesis
    by (simp add: hook_defs idioms mutation_def createAction_call_def status_not_504 Let_def)
qed (auto simp: hook_defs idioms mutation_def Let_def createNewUser_def patchProfileById_def
       resetPasswordById_def webhook_failed_def webhook_saveConfig_def webhook_delConfig_def
       webhook_editConfig_def createMetric_def updateMetric_def createMetricGroup_def updateMetricGroup_def
     intro!: errs_told errs_member errs_detail_or)

interpretation told: reporting "plain_mutations \<union> body_mutations" mutation told
proof
  have "reports mutation ok t" if "reports mutation (\<lambda>_. True) t" for ok t
    using that by (induction t) (auto split: awaited.splits)
  then show "reports mutation told t" if "t \<in> plain_mutations \<union> body_mutations" for t
    using that plain_mutations_report body_mutations_report by blast
qed

lemma failed_rejected: "failed mine wa \<Longrightarrow> \<exists>e. snd wa = Rejected e"
  by (auto simp: failed_def split: prod.splits awaited.splits settled.splits)

lemma runs_mono: "\<lbrakk>runs rs A m0 tr m; A \<subseteq> B\<rbrakk> \<Longrightarrow> runs rs B m0 tr m"
  by (induction rule: runs.induct) (auto intro: runs.intros)



subsection \<open>Runs of one callback\<close>

definition at_rest :: machine where
  "at_rest = initial_machine [(''status'', Json (Str ''idle''))]"

text \<open>A callback that is called, and the answer to its first call.\<close>

definition once_answered :: "task \<Rightarrow> json_value settled \<Rightarrow> machine" where
  "once_answered t a = resume 0 a (advance t at_rest)"

lemma at_rest_simps [simp]:
  "running at_rest = []" "dispatched at_rest = []" "mounted at_rest"
  "cell at_rest ''status'' = Json (Str ''idle'')"
  by (simp_all add: at_rest_def initial_machine_def cell_def)

lemma once_answered_runs:
  assumes "running (advance t at_rest) \<noteq> []" "possible (fst (hd (running (advance t at_rest)))) a"
  shows "runs [] {t} at_rest [(fst (hd (running (advance t at_rest))), a)] (once_answered t a)"
proof -
  have "runs [] {t} at_rest [] (advance t at_rest)"
    by (rule runs.called [OF runs.start]) simp_all
  then show ?thesis
    using runs.answered [of "[]" "{t}" at_rest "[]" "advance t at_rest" 0 a "once_answered t a"] assms
    by (simp add: once_answered_def hd_conv_nth)
qed

lemmas run_defs = once_answered_def resume_def drop_nth_def calling_def set_status_def set_cell_def
  noted_def note_value_def notify_def return_def returning_def throwing_def cell_def error_notes_def

lemma failed_delete:
  fixes a defines "t \<equiv> useDeleteMetric_deleteMetric ''g'' ''m''"
    and "c \<equiv> deleteMetricByMetricId ''g'' ''m''"
  shows "map fst (running (advance t at_rest)) = [Server c]"
    "running (once_answered t a) = []"
  by (simp_all add: t_def c_def useDeleteMetric_deleteMetric_def deleting_def run_defs split: settled.split)



subsection \<open>What is not reported\<close>

text \<open>The callbacks that read the text of the notification from the answer say nothing when there
  is no answer: the server cannot be reached, or the refresh of the page interrupts.\<close>

theorem failures_without_answer_are_silent:
  "truthy_value d \<Longrightarrow> dispatched (once_answered (useCreateUser_create d) (Rejected (JsError s))) = []"
  "dispatched (once_answered (useResetPassword_resetPassword i) (Rejected (JsError s))) = []"
  "dispatched (once_answered (useWebhook_save d) (Rejected (JsError s))) = []"
  "dispatched (once_answered (useSaveMetric_saveMetric j g d) (Rejected (JsError s))) = []"
  "dispatched (once_answered (useCreateMetricsGroup_createMetricsGroup g n i) (Rejected (JsError s))) = []"
  "dispatched (once_answered (useCreateAction_createAction d) (Rejected (JsError s))) = []"
  by (simp_all add: hook_defs run_defs webhook_failed_def reading_json_def detail_or_def status_of_def Let_def)

text \<open>Two statuses stay pending: that of a new password when there is no answer, and that of a
  workspace the user may not see.\<close>

theorem statuses_that_stay_pending:
  "running (once_answered (useResetPassword_resetPassword i) (Rejected (JsError s))) = []"
  "cell (once_answered (useResetPassword_resetPassword i) (Rejected (JsError s))) ''status'' = pending_text"
  "rs_status r = 403 \<Longrightarrow>
     cell (once_answered (useWorkspace_getWorkspace w) (Rejected (Response r))) ''status'' = pending_text"
proof -
  have d: "decimal 403 = ''403''" by code_simp
  show "running (once_answered (useResetPassword_resetPassword i) (Rejected (JsError s))) = []"
    "cell (once_answered (useResetPassword_resetPassword i) (Rejected (JsError s))) ''status'' = pending_text"
    by (simp_all add: hook_defs run_defs reading_json_def pending_text_def)
  show "cell (once_answered (useWorkspace_getWorkspace w) (Rejected (Response r))) ''status'' = pending_text"
    if "rs_status r = 403"
    using that by (simp add: useWorkspace_getWorkspace_def run_defs status_of_def d pending_text_def)
qed

text \<open>A removal of a deployment configuration is announced when only its link to the workspace is
  gone: the configuration's own removal is under way, and when it fails nobody is told.\<close>

theorem removal_announced_too_early:
  fixes w i v e defines "m \<equiv> once_answered (useCDConfiguration_remove w i) (Resolved v)"
  shows "(''NOTIFICATION/TOOGLE'', Obj [(''text'', Str ''Success deleting deployment configuration''),
       (''status'', Str ''success'')]) \<in> set (dispatched m)"
    "map fst (running m) = [Server (removeDeploymentConfiguration i)]"
    "error_notes (resume 0 (Rejected e) m) = 0"
  by (simp_all add: m_def hook_defs run_defs error_note_def)

text \<open>A gateway that answers 504 with a body is reported twice.\<close>

theorem gateway_timeout_reported_twice:
  assumes "rs_status r = 504" "rs_json r = Some v"
  shows "error_notes (resume 0 (Resolved v)
      (once_answered (useCreateAction_createAction d) (Rejected (Response r)))) = 2"
proof -
  have "decimal 504 = ''504''" by code_simp
  then show ?thesis
    using assms by (simp add: hook_defs run_defs status_of_def read_body_def error_note_def Let_def)
qed

text \<open>A component that could not be removed: the user is not told, and the hook keeps loading.\<close>

theorem failed_removal_of_component:
  fixes c i e defines "m \<equiv> once_answered (useDeleteComponent_removeComponent c i) (Rejected e)"
  shows "running m = []" "dispatched m = []" "cell m ''status'' = Json (Str [])"
    "cell m ''loading'' = Json (Bool True)"
  by (simp_all add: m_def useDeleteComponent_removeComponent_def promise_def run_defs)

text \<open>The data of an action that could not be read leaves its form loading.\<close>

theorem failed_action_keeps_loading:
  "cell (once_answered (getActionGroup i) (Rejected e)) ''isLoading'' = Json (Bool True)"
  by (simp add: getActionGroup_def run_defs)

subsection \<open>Workspaces, page by page\<close>

text \<open>The workspaces in the cell \<open>data\<close>.\<close>

definition listed :: "machine \<Rightarrow> json_value list \<Rightarrow> bool" where
  "listed m ws \<longleftrightarrow> (\<exists>ps. cell m ''data'' = Json (Obj ps) \<and> map_of ps ''workspaces'' = Some (Arr ws))"

definition page_answer :: "json_value list \<Rightarrow> bool \<Rightarrow> json_value settled" where
  "page_answer ws l = Resolved (Obj [(''content'', Arr ws), (''last'', Bool l)])"

definition page_scrolled :: "task \<Rightarrow> json_value list \<times> bool \<Rightarrow> machine \<Rightarrow> machine" where
  "page_scrolled t wl m = resume (length (running m)) (page_answer (fst wl) (snd wl)) (advance t m)"

lemma drop_nth_last [simp]: "drop_nth (length xs) (xs @ [x]) = xs"
  by (simp add: drop_nth_def)

lemma listed_with_keys:
  "listed m ws \<Longrightarrow> next_workspaces reset (cell m ''data'') (Arr xs)
     = Some (Arr (if truthy_js reset then xs else ws @ xs))"
  by (auto simp: listed_def next_workspaces_def maybe_member_def)

lemma page_scrolled_once:
  assumes "t = useWorkspaces_getWorkspaces p b name page \<and> isRoot p b = Some v \<and> truthy_value v
      \<or> t = useWorkspaces_getWorkspaces_modal name page"
    and "mounted m" "listed m ws" "\<not> truthy_js (cell m ''reset'')"
  shows "listed (page_scrolled t wl m) (ws @ fst wl) \<and> mounted (page_scrolled t wl m)
    \<and> \<not> truthy_js (cell (page_scrolled t wl m) ''reset'') \<and> running (page_scrolled t wl m) = running m"
  using assms(1)
proof
  assume "t = useWorkspaces_getWorkspaces_modal name page"
  then show ?thesis
    using assms(2-4) listed_with_keys [OF assms(3), of "cell m ''reset''" "fst wl"]
    by (simp add: page_scrolled_def page_answer_def useWorkspaces_getWorkspaces_modal_def
        got_workspaces_def run_defs listed_def Let_def)
next
  assume "t = useWorkspaces_getWorkspaces p b name page \<and> isRoot p b = Some v \<and> truthy_value v"
  then show ?thesis
    using assms(2-4) listed_with_keys [OF assms(3), of "cell m ''reset''" "fst wl"]
    by (simp add: page_scrolled_def page_answer_def useWorkspaces_getWorkspaces_def
        got_workspaces_def run_defs listed_def Let_def)
qed

text \<open>Pages that are asked for one after the other add up, in their order.\<close>

theorem scrolled_workspaces:
  assumes "t = useWorkspaces_getWorkspaces p b name page \<and> isRoot p b = Some v \<and> truthy_value v
      \<or> t = useWorkspaces_getWorkspaces_modal name page"
    and "mounted m" "listed m ws" "\<not> truthy_js (cell m ''reset'')"
  shows "listed (fold (page_scrolled t) wls m) (ws @ concat (map fst wls))"
  using assms(2-4)
proof (induction wls arbitrary: m ws)
  case (Cons wl wls)
  then show ?case
    using page_scrolled_once [OF assms(1) Cons.prems, of wl] Cons.IH [of "page_scrolled t wl m" "ws @ fst wl"]
    by simp
qed simp

end
