(* ===== verification/Reactions.thy ===== *)
theory Reactions
  imports Reports Fetching
begin

text \<open>
  The hooks of the front end that fetch with \<open>useFetch\<close> and answer in effects (\<open>useEffect\<close>): a
  function of the hook triggers a call, and effects that depend on its response or its error
  notify, change the state of the page or make the next call. A hook is the list of its
  effects, in the order React runs them, and the tasks of its functions.

  The cells of a fetch are its \<open>response\<close>, \<open>error\<close> and \<open>loading\<close>, under the name of the fetch;
  \<open>search\<close> is the query of the location, \<open>localStorage.workspace\<close> the workspace that is stored.
\<close>

subsection \<open>Fetching\<close>

definition trigger_settled_task :: "string \<Rightarrow> json_value settled \<Rightarrow> task" where
  "trigger_settled_task f a =
     (let finally = set_cell (f @ ''.loading'') (Bool False) return
      in case a of
           Resolved d \<Rightarrow> set_cell (f @ ''.response'') d finally
         | Rejected e \<Rightarrow> Do (SetCell (f @ ''.error'') (Reason e)) finally)"

definition trigger :: "string \<Rightarrow> call \<Rightarrow> task" where
  "trigger f c = set_cell (f @ ''.loading'') (Bool True) (Wait (Server c) (trigger_settled_task f))"

text \<open>\<open>if (response)\<close> and \<open>if (error)\<close>, and the error of a fetch.\<close>

definition if_set :: "js_value \<Rightarrow> (json_value \<Rightarrow> task) \<Rightarrow> task \<Rightarrow> task" where
  "if_set v k t = (case v of Json d \<Rightarrow> if truthy_value d then k d else t | Reason e \<Rightarrow> t)"

definition if_failed :: "js_value \<Rightarrow> (thing \<Rightarrow> task) \<Rightarrow> task \<Rightarrow> task" where
  "if_failed v k t = (case v of Json d \<Rightarrow> t | Reason e \<Rightarrow> k e)"

definition text_of :: "js_value \<Rightarrow> string" where
  "text_of v = (case v of Json d \<Rightarrow> to_text d | Reason e \<Rightarrow> ''[object Object]'')"

definition value_of :: "js_value \<Rightarrow> json_value" where
  "value_of v = (case v of Json d \<Rightarrow> d | Reason e \<Rightarrow> Undefined)"

text \<open>The text most effects make of an error: \<open>`${error.status}: ${e?.message}`\<close>.\<close>

definition status_and_message :: "thing \<Rightarrow> json_value \<Rightarrow> json_value" where
  "status_and_message e body = Str (status_of e @ '': '' @ to_text (maybe_member ''message'' body))"

definition report_body :: "thing \<Rightarrow> task" where
  "report_body e = reading_json e (\<lambda>body. note_value (status_and_message e body) ''error'' return)"
definition report_body_if_any :: "thing \<Rightarrow> task" where
  "report_body_if_any e =
     reading_json_if_any e (\<lambda>body. note_value (status_and_message e body) ''error'' return)"

text \<open>An effect that reports the error of a fetch with a text made of its status.\<close>

definition on_error :: "string \<Rightarrow> (thing \<Rightarrow> task) \<Rightarrow> reaction" where
  "on_error f k = \<lparr>rx_deps = [f @ ''.error''], rx_body = \<lambda>c. if_failed (c (f @ ''.error'')) k return\<rparr>"
definition on_response :: "string \<Rightarrow> (json_value \<Rightarrow> task) \<Rightarrow> reaction" where
  "on_response f k = \<lparr>rx_deps = [f @ ''.response''], rx_body = \<lambda>c. if_set (c (f @ ''.response'')) k return\<rparr>"

subsection \<open>Users\<close>

definition useDeleteUser :: "reaction list" where
  "useDeleteUser =
     [\<lparr>rx_deps = [''delete.response'', ''delete.error'', ''userName''],
       rx_body = \<lambda>c.
         if truthy_js (c ''delete.error'') then
           noted (''The user '' @ text_of (c ''userName'') @ '' could not be deleted.'') ''error'' return
         else if truthy_js (c ''delete.response'') then
           set_cell ''userStatus'' (Str ''Deleted'')
             (noted (''The user '' @ text_of (c ''userName'') @ '' has been deleted.'') ''success'' return)
         else return\<rparr>]"

definition useDeleteUser_delUser :: "string \<Rightarrow> string \<Rightarrow> task" where
  "useDeleteUser_delUser i name = set_cell ''userName'' (Str name) (trigger ''delete'' (deleteUserById i))"

definition useUsers :: "reaction list" where
  "useUsers =
     [\<lparr>rx_deps = [''users.response'', ''users.error''],
       rx_body = \<lambda>c. if \<not> truthy_js (c ''users.error'')
         then Do (Dispatched ''USERS/LOADED_USERS'' (value_of (c ''users.response''))) return
         else return\<rparr>]"

definition useUsers_filterUsers :: "string \<Rightarrow> string \<Rightarrow> task" where
  "useUsers_filterUsers name page = trigger ''users'' (findAllUsers (Some name) None (Some page))"

subsection \<open>Groups of users\<close>

definition useFindAllUserGroup :: "reaction list" where
  "useFindAllUserGroup =
     [on_response ''groups'' (\<lambda>r. Do (Dispatched ''USERS_GROUP/LOADED_USERS_GROUP'' r) return)]"

definition useFindAllUserGroup_loadUserGroupList :: "string option \<Rightarrow> string option \<Rightarrow> task" where
  "useFindAllUserGroup_loadUserGroupList name page =
     trigger ''groups'' (findAllUserGroup name (Some (or_zero page)))"

definition useFindUserGroupByID_loadUserGroup :: "string \<Rightarrow> task" where
  "useFindUserGroupByID_loadUserGroup i = trigger ''group'' (findUserGroupById i)"
definition useListUser_loadUserList :: "string \<Rightarrow> task" where
  "useListUser_loadUserList email = trigger ''users'' (findAllUsers None (Some email) None)"

text \<open>\<open>modules/Groups/helpers.ts\<close>: the groups that are open in the query of the location.\<close>

definition getSelectedUserGroups :: "string \<Rightarrow> string list" where
  "getSelectedUserGroups search = rev (getAll ''usergroup'' (getQueryStrings search))"

definition delParamUserGroup :: "string \<Rightarrow> string \<Rightarrow> string" where
  "delParamUserGroup i search =
     serialize (map (\<lambda>g. (''usergroup'', g))
       (filter (\<lambda>g. g \<noteq> i) (getAll ''usergroup'' (getQueryStrings search))))"

definition addParamUserGroup :: "string \<Rightarrow> string \<Rightarrow> string" where
  "addParamUserGroup i search =
     (if i \<in> set (getSelectedUserGroups search) then delParamUserGroup i search
      else serialize (getQueryStrings search @ [(''usergroup'', i)]))"

definition isActiveById :: "string \<Rightarrow> string \<Rightarrow> bool" where
  "isActiveById i search \<longleftrightarrow> list_ex (\<lambda>g. contains_text g i) (getSelectedUserGroups search)"

definition push_search :: "(string \<Rightarrow> string) \<Rightarrow> task \<Rightarrow> task" where
  "push_search f t = Look ''search'' (\<lambda>v. set_cell ''search'' (Str (f (text_of v))) t)"

text \<open>The list is loaded by the effect of \<open>useFindAllUserGroup\<close>, and again by that of its client.\<close>

definition reload_groups :: "task \<Rightarrow> reaction" where
  "reload_groups t = on_response ''groups'' (\<lambda>r. Do (Dispatched ''USERS_GROUP/RESET_USERS_GROUP'' Undefined)
     (Do (Dispatched ''USERS_GROUP/LOADED_USERS_GROUP'' r) t))"

definition useCreateUserGroup :: "reaction list" where
  "useCreateUserGroup = useFindAllUserGroup
     @ [reload_groups return,
        on_response ''save'' (\<lambda>r. Fork (useFindAllUserGroup_loadUserGroupList None None)
          (push_search (addParamUserGroup (to_text (maybe_member ''id'' r) @ ''~edit'')) return))]"

definition useCreateUserGroup_createUserGroup :: "string \<Rightarrow> task" where
  "useCreateUserGroup_createUserGroup name = trigger ''save'' (saveUserGroup (Obj [(''name'', Str name)]))"

definition useUpdateUserGroup :: "reaction list" where
  "useUpdateUserGroup =
     [on_response ''update'' (\<lambda>r. set_status ''resolved'' (Do (Dispatched ''USERS_GROUP/EDIT_USERS_GROUP'' r) return)),
      on_error ''update'' (\<lambda>e. set_status ''rejected'' return)]"

definition useUpdateUserGroup_doUpdateUserGroup :: "string \<Rightarrow> string \<Rightarrow> task" where
  "useUpdateUserGroup_doUpdateUserGroup i name =
     set_status ''pending'' (trigger ''update'' (updateUserGroup i (Obj [(''name'', Str name)])))"

definition useDeleteUserGroup :: "reaction list" where
  "useDeleteUserGroup = useFindAllUserGroup
     @ [on_response ''delete'' (\<lambda>_. useFindAllUserGroup_loadUserGroupList None None),
        reload_groups (set_cell ''isFinished'' (Bool True) return),
        \<lparr>rx_deps = [''delete.response'', ''delete.error''],
         rx_body = \<lambda>c.
           if truthy_js (c ''delete.error'') then noted ''The user group could not be deleted.'' ''error'' return
           else if truthy_js (c ''delete.response'') then
             noted ''The user group has been deleted.'' ''success'' return
           else return\<rparr>]"

definition useDeleteUserGroup_doDeleteUserGroup :: "string \<Rightarrow> task" where
  "useDeleteUserGroup_doDeleteUserGroup i = trigger ''delete'' (deleteUserGroup i)"

subsection \<open>Modules and components\<close>

definition useFindAllModules :: "reaction list" where
  "useFindAllModules = [on_response ''modules'' (\<lambda>r. Do (Dispatched ''MODULES/LIST'' r) return)]"

definition useFindAllModules_getAllModules :: "string option \<Rightarrow> string option \<Rightarrow> task" where
  "useFindAllModules_getAllModules name page = trigger ''modules'' (modules_findAll name (Some (or_zero page)))"

definition useFindModule :: "reaction list" where
  "useFindModule = [on_error ''module'' report_body_if_any]"
definition useFindModule_getModuleById :: "string \<Rightarrow> task" where
  "useFindModule_getModuleById i = trigger ''module'' (modules_findById i)"

definition reload_modules :: "reaction" where
  "reload_modules = on_response ''modules'' (\<lambda>r. Do (Dispatched ''MODULES/RESET'' Undefined)
     (Do (Dispatched ''MODULES/LIST'' r) return))"

definition useSaveModule :: "reaction list" where
  "useSaveModule = useFindAllModules
     @ [on_response ''create'' (\<lambda>r. push_search (updateUntitledParam ''module'' (to_text (maybe_member ''id'' r)))
          (useFindAllModules_getAllModules None None)),
        reload_modules,
        on_error ''create'' report_body]"
definition useSaveModule_saveModule :: "json_value \<Rightarrow> task" where
  "useSaveModule_saveModule d = trigger ''create'' (modules_create d)"

text \<open>The module of the component the hook is used in is an argument: its id and its name.\<close>

definition useDeleteModule :: "string \<Rightarrow> string \<Rightarrow> reaction list" where
  "useDeleteModule i name = useFindAllModules
     @ [on_response ''delete'' (\<lambda>_. useFindAllModules_getAllModules None None),
        on_response ''modules'' (\<lambda>r. push_search (delParam ''module'' i)
          (Do (Dispatched ''MODULES/RESET'' Undefined) (Do (Dispatched ''MODULES/LIST'' r) return))),
        \<lparr>rx_deps = [''delete.error'', ''delete.response''],
         rx_body = \<lambda>c. if_failed (c ''delete.error'') report_body_if_any
           (if_set (c ''delete.response'')
              (\<lambda>_. noted (''The module '' @ name @ '' has been deleted'') ''success'' return) return)\<rparr>]"
definition useDeleteModule_removeModule :: "string \<Rightarrow> task" where
  "useDeleteModule_removeModule i = trigger ''delete'' (deleteModule i)"

definition useUpdateModule :: "reaction list" where
  "useUpdateModule = useFindAllModules
     @ [\<lparr>rx_deps = [''moduleId'', ''modules.response''],
         rx_body = \<lambda>c. if_set (c ''modules.response'') (\<lambda>_. push_search
           (updateParam ''module'' (text_of (c ''moduleId'')) (text_of (c ''moduleId'') @ ''~view'')) return) return\<rparr>]"
definition useUpdateModule_updateModule :: "string \<Rightarrow> json_value \<Rightarrow> task" where
  "useUpdateModule_updateModule i d =
     set_status ''pending'' (set_cell ''moduleId'' (Str i) (promise (modules_update i d)
       (\<lambda>_. Do (Dispatched ''MODULES/RESET'' Undefined)
          (Fork (useFindAllModules_getAllModules None None) (set_status ''resolved'' return)))
       (\<lambda>e. set_status ''rejected''
          (noted (status_of e @ '': '' @ statusText_of e) ''error'' return))))"

definition useSaveComponent :: "reaction list" where
  "useSaveComponent = [on_error ''component'' report_body]"
definition useSaveComponent_saveComponent :: "string \<Rightarrow> json_value \<Rightarrow> task" where
  "useSaveComponent_saveComponent m d = trigger ''component'' (createComponent m d)"
definition useUpdateComponent :: "reaction list" where
  "useUpdateComponent = [on_error ''component'' report_body]"
definition useUpdateComponent_updateComponent :: "string \<Rightarrow> string \<Rightarrow> json_value \<Rightarrow> task" where
  "useUpdateComponent_updateComponent m i d = trigger ''component'' (updateComponent m i d)"

text \<open>The error of \<open>useDeleteComponent\<close> is never set: its call is made with \<open>promise\<close>.\<close>

definition useDeleteComponent :: "reaction list" where
  "useDeleteComponent = [on_error ''component'' report_body]"

subsection \<open>Workspaces\<close>

definition useSaveWorkspace :: "reaction list" where
  "useSaveWorkspace =
     [\<lparr>rx_deps = [''workspace.error'', ''workspace.response''],
       rx_body = \<lambda>c. if_set (c ''workspace.response'') (\<lambda>r. set_cell ''localStorage.workspace'' r return)
         (if_failed (c ''workspace.error'') report_body_if_any return)\<rparr>]"
definition useSaveWorkspace_save :: "json_value \<Rightarrow> task" where
  "useSaveWorkspace_save d = trigger ''workspace'' (saveWorkspaceName d)"

subsection \<open>Circles and releases\<close>

definition useCircle_loadCircle :: "string \<Rightarrow> task" where
  "useCircle_loadCircle i = trigger ''circle'' (findCircleById (Some i))"
definition useCircle_loadComponents :: "string \<Rightarrow> task" where
  "useCircle_loadComponents i = trigger ''components'' (findComponents i)"

definition useDeleteCircle :: "reaction list" where
  "useDeleteCircle =
     [\<lparr>rx_deps = [''delete.response'', ''delete.error'', ''circleName''],
       rx_body = \<lambda>c.
         if truthy_js (c ''delete.error'') then
           noted (''The circle '' @ text_of (c ''circleName'') @ '' could not be deleted.'') ''error'' return
         else if truthy_js (c ''delete.response'') then
           set_cell ''circleStatus'' (Str ''Deleted'')
             (noted (''The circle '' @ text_of (c ''circleName'') @ '' has been deleted.'') ''success'' return)
         else return\<rparr>]"

text \<open>A circle that is deployed has a \<open>deployStatus\<close>.\<close>

definition useDeleteCircle_delCircle :: "string \<Rightarrow> string option \<Rightarrow> string \<Rightarrow> task" where
  "useDeleteCircle_delCircle i deployStatus name =
     set_cell ''circleName'' (Str name)
       (if deployStatus = None then trigger ''delete'' (deleteCircleById i)
        else noted (''The circle '' @ name @ '' could not be deleted.'') ''error'' return)"

definition useCircles :: "circle_view \<Rightarrow> reaction list" where
  "useCircles ty =
     [\<lparr>rx_deps = [''circles.response'', ''circles.error''],
       rx_body = \<lambda>c. if_set (c ''circles.response'')
         (\<lambda>r. if truthy_js (c ''circles.error'') then return
              else Do (Dispatched (case ty of List \<Rightarrow> ''CIRCLES/LOADED_CIRCLES''
                | Metrics \<Rightarrow> ''CIRCLE/LOADED_CIRCLES_METRICS'') r) return) return\<rparr>]"

definition useCircles_filterCircles :: "string option \<Rightarrow> string \<Rightarrow> string option \<Rightarrow> task" where
  "useCircles_filterCircles name st page =
     (if st = ''actives'' then trigger ''circles'' (findAllCircles (Some True) name page)
      else if st = ''inactives'' then trigger ''circles'' (findAllCircles (Some False) name page)
      else return)"

definition useSaveCirclePercentage :: "reaction list" where
  "useSaveCirclePercentage = [on_error ''save'' (\<lambda>_. noted ''Error to save circle'' ''error'' return)]"
definition useSaveCirclePercentage_saveCirclePercentage :: "string \<Rightarrow> json_value \<Rightarrow> task" where
  "useSaveCirclePercentage_saveCirclePercentage i d = trigger ''save''
     (if i \<noteq> NEW_TAB then updateCirclePercentage (maybe_member ''percentage'' d) (maybe_member ''name'' d) i
      else createCirclePercentage d)"

definition useCirclePercentage :: "reaction list" where
  "useCirclePercentage = [on_error ''circles'' (\<lambda>_. noted ''Error to fetch percentage circle'' ''error'' return)]"
definition useCirclePercentage_filterCircles :: "string option \<Rightarrow> string \<Rightarrow> task" where
  "useCirclePercentage_filterCircles name st =
     (if st = ''actives'' then trigger ''circles'' (findPercentageCircles (Some True) name)
      else if st = ''inactives'' then trigger ''circles'' (findPercentageCircles (Some False) name)
      else return)"

definition useSaveCircleManually :: "reaction list" where
  "useSaveCircleManually = [on_error ''save'' (\<lambda>_. noted ''Error to save circle'' ''error'' return)]"
definition useSaveCircleManually_saveCircleManually :: "string \<Rightarrow> json_value \<Rightarrow> task" where
  "useSaveCircleManually_saveCircleManually i d = trigger ''save''
     (if i \<noteq> NEW_TAB then updateCircleManually (maybe_member ''rules'' d) (maybe_member ''name'' d) i
      else createCircleManually d)"

text \<open>\<open>buildFormData\<close>: the file and its key are left out when they are empty.\<close>

definition buildFormData :: "string \<Rightarrow> string option \<Rightarrow> string option \<Rightarrow> (string \<times> string) list" where
  "buildFormData name f keyName =
     [(''name'', name)] @ (case f of None \<Rightarrow> [] | Some x \<Rightarrow> [(''file'', x)])
     @ (if truthy keyName then [(''keyName'', the keyName)] else [])"

definition useSaveCircleWithFile :: "reaction list" where
  "useSaveCircleWithFile = [on_error ''save'' (\<lambda>_. noted ''Error performing upload'' ''error'' return)]"
definition useSaveCircleWithFile_saveCircleWithFile :: "string \<Rightarrow> string \<Rightarrow> string option \<Rightarrow> string option \<Rightarrow> task" where
  "useSaveCircleWithFile_saveCircleWithFile i name f keyName =
     (let d = buildFormData name f keyName
      in trigger ''save'' (if i \<noteq> NEW_TAB then updateCircleWithFile d i else createCircleWithFile d))"

definition useCircleMatcher_tryout :: "reaction list" where
  "useCircleMatcher_tryout =
     [on_error ''circles'' (\<lambda>_. noted ''Error performing circle matcher try out'' ''error'' return)]"
definition useCircleMatcher_identifyCircles :: "json_value \<Rightarrow> task" where
  "useCircleMatcher_identifyCircles d = trigger ''circles'' (circleMatcherIdentify d)"

definition useComposeBuild :: "reaction list" where
  "useComposeBuild = [on_error ''build'' report_body]"
definition useComposeBuild_composeBuild :: "json_value \<Rightarrow> task" where
  "useComposeBuild_composeBuild d = trigger ''build'' (composeBuild d)"
definition useCreateDeployment :: "reaction list" where
  "useCreateDeployment = [on_error ''deploy'' report_body]"
definition useCreateDeployment_createDeployment :: "json_value \<Rightarrow> task" where
  "useCreateDeployment_createDeployment d = trigger ''deploy'' (createDeployment_call d)"
definition useFindBuilds_getBuilds :: "(string \<times> given_value) list \<Rightarrow> task" where
  "useFindBuilds_getBuilds d = trigger ''builds'' (findBuilds d)"

definition useCircleDeployHistory_getCircleReleases :: "(string \<times> given_value) list \<Rightarrow> string \<Rightarrow> task" where
  "useCircleDeployHistory_getCircleReleases d i = trigger ''releases'' (getDeployHistoryByCircleId (buildParams d) i)"

subsection \<open>Charts of metrics\<close>

definition useCircles_findAllCirclesData :: task where
  "useCircles_findAllCirclesData = trigger ''circles'' findAllCirclesMetrics"
definition useCirclesHistory_getCirclesHistory :: "(string \<times> given_value) list \<Rightarrow> task" where
  "useCirclesHistory_getCirclesHistory d = trigger ''circles'' (findAllCirclesHistory (buildParams d))"
definition useCirclesReleases_getCircleReleases :: "(string \<times> given_value) list \<Rightarrow> string \<Rightarrow> task" where
  "useCirclesReleases_getCircleReleases d i = trigger ''releases'' (findAllCirclesReleases (buildParams d) i)"
definition useDeployMetric_searchDeployMetrics :: "(string \<times> given_value) list \<Rightarrow> task" where
  "useDeployMetric_searchDeployMetrics d = trigger ''deploys'' (findDeployMetrics (buildParams d))"
definition useReleaseHistory_getReleaseHistory :: "(string \<times> given_value) list \<Rightarrow> json_value \<Rightarrow> task" where
  "useReleaseHistory_getReleaseHistory d h = trigger ''releases'' (findAllReleases (buildParams d) h)"

subsection \<open>Settings\<close>

text \<open>\<open>`[${error.status}] ...`\<close>, and the effects that say a removal worked.\<close>

definition bracketed :: "string \<Rightarrow> thing \<Rightarrow> task" where
  "bracketed txt e = noted (''['' @ status_of e @ ''] '' @ txt) ''error'' return"
definition removed_note :: "string \<Rightarrow> reaction" where
  "removed_note txt = on_response ''remove'' (\<lambda>_. noted txt ''success'' return)"

text \<open>One effect for the errors of the two calls of a \<open>save\<close>.\<close>

definition save_errors :: "(thing \<Rightarrow> task) \<Rightarrow> (thing \<Rightarrow> task) \<Rightarrow> reaction" where
  "save_errors on_save on_add =
     \<lparr>rx_deps = [''save.error'', ''add.error''],
      rx_body = \<lambda>c. if_failed (c ''save.error'') on_save (if_failed (c ''add.error'') on_add return)\<rparr>"

definition add_saved :: "string \<Rightarrow> string \<Rightarrow> reaction" where
  "add_saved w path = on_response ''save'' (\<lambda>r. trigger ''add'' (addConfig w path (maybe_member ''id'' r)))"

definition useRegistry :: "string \<Rightarrow> reaction list" where
  "useRegistry w =
     [add_saved w registry_configPath,
      save_errors (bracketed ''Registry could not be saved.'') (bracketed ''Registry could not be patched.''),
      on_error ''remove'' (bracketed ''Registry could not be removed.''),
      removed_note ''Success deleting registry'']"
definition useRegistry_save :: "json_value \<Rightarrow> task" where
  "useRegistry_save d = trigger ''save'' (registry_create d)"
definition useRegistry_remove :: "string \<Rightarrow> task" where
  "useRegistry_remove w = trigger ''remove'' (delConfig w registry_configPath Undefined)"

definition useCDConfiguration :: "string \<Rightarrow> reaction list" where
  "useCDConfiguration w =
     [add_saved w deployment_configPath,
      save_errors (bracketed ''Deployment Configuration could not be saved.'')
        (bracketed ''Deployment Configuration could not be patched.'')]"
definition useCDConfiguration_save :: "json_value \<Rightarrow> task" where
  "useCDConfiguration_save d = trigger ''save'' (deploymentConfiguration_create d)"

definition report_message :: "thing \<Rightarrow> task" where
  "report_message e = reading_json e (\<lambda>body. note_value (maybe_member ''message'' body) ''error'' return)"

definition useGit :: "string \<Rightarrow> reaction list" where
  "useGit w =
     [add_saved w git_configPath,
      save_errors report_message report_message,
      on_error ''remove'' (bracketed ''Git could not be removed.'')]"
definition useGit_save :: "json_value \<Rightarrow> task" where
  "useGit_save d = trigger ''save'' (git_create d)"
definition useGit_remove :: "string \<Rightarrow> task" where
  "useGit_remove w = trigger ''remove'' (delConfig w git_configPath Undefined)"

definition useCircleMatcher_settings :: "reaction list" where
  "useCircleMatcher_settings =
     [on_error ''add'' (bracketed ''Circle Matcher could not be saved.''),
      on_error ''remove'' (bracketed ''Circle Matcher could not be removed.''),
      removed_note ''Success deleting circle matcher'']"
definition useCircleMatcher_save :: "string \<Rightarrow> string \<Rightarrow> task" where
  "useCircleMatcher_save w url = trigger ''add'' (addConfig w circleMatcher_configPath (Str url))"
definition useCircleMatcher_remove :: "string \<Rightarrow> task" where
  "useCircleMatcher_remove w = trigger ''remove'' (delConfig w circleMatcher_configPath Undefined)"

definition ALREADY_ASSOCIATED_CODE :: string where
  "ALREADY_ASSOCIATED_CODE = ''USER_GROUP_ALREADY_ASSOCIATED''"
definition ALREADY_ASSOCIATED_MESSAGE :: string where
  "ALREADY_ASSOCIATED_MESSAGE = ''user.group.already.associated''"

definition association_text :: "json_value \<Rightarrow> string" where
  "association_text e =
     (let code = (if maybe_member ''code'' e = Str ALREADY_ASSOCIATED_CODE then ''422''
            else ALREADY_ASSOCIATED_CODE);
          message = (if maybe_member ''message'' e = Str ALREADY_ASSOCIATED_MESSAGE
            then ''Group already associated to this workspace'' else ALREADY_ASSOCIATED_MESSAGE)
      in ''['' @ code @ ''] '' @ message)"

definition useUserGroup :: "reaction list" where
  "useUserGroup =
     [on_error ''save'' (\<lambda>err. reading_json err (\<lambda>e. noted (association_text e) ''error'' return)),
      on_error ''groups'' (bracketed ''User Group could not be fetched.''),
      on_error ''remove'' (bracketed ''User Group could not be removed.''),
      removed_note ''Success deleting user group'']"
definition useUserGroup_save :: "string \<Rightarrow> json_value \<Rightarrow> task" where
  "useUserGroup_save i role = trigger ''save'' (userGroup_create i role)"
definition useUserGroup_getAll :: task where
  "useUserGroup_getAll = trigger ''groups'' userGroup_findAll"
definition useUserGroup_remove :: "string \<Rightarrow> string \<Rightarrow> task" where
  "useUserGroup_remove i g = trigger ''remove'' (userGroup_detach i g)"
definition useRole_getAll :: task where
  "useRole_getAll = trigger ''roles'' roles_findAll"

definition useDatasource :: "reaction list" where
  "useDatasource =
     [on_error ''save'' (bracketed ''Datasource could not be saved.''),
      on_error ''all'' (bracketed ''Dat could not be fetched.''),
      on_error ''remove'' (bracketed ''Datasource could not be removed.''),
      removed_note ''Success deleting Datasources'']"
definition useDatasource_save :: "json_value \<Rightarrow> task" where
  "useDatasource_save d = trigger ''save'' (createDatasource d)"
definition useDatasource_getAll :: task where
  "useDatasource_getAll = trigger ''all'' getAllDatasources"
definition useDatasource_remove :: "string \<Rightarrow> task" where
  "useDatasource_remove i = trigger ''remove'' (deleteDatasource i)"
definition usePlugins_getAll :: task where
  "usePlugins_getAll = trigger ''plugins'' getAllPlugins"

subsection \<open>Rendering comes to an end\<close>

inductive_set effect_hooks :: "reaction list set" where
  "useDeleteUser \<in> effect_hooks"
| "useUsers \<in> effect_hooks"
| "useFindAllUserGroup \<in> effect_hooks"
| "useCreateUserGroup \<in> effect_hooks"
| "useUpdateUserGroup \<in> effect_hooks"
| "useDeleteUserGroup \<in> effect_hooks"
| "useFindAllModules \<in> effect_hooks"
| "useFindModule \<in> effect_hooks"
| "useSaveModule \<in> effect_hooks"
| "useDeleteModule i n \<in> effect_hooks"
| "useUpdateModule \<in> effect_hooks"
| "useSaveComponent \<in> effect_hooks"
| "useUpdateComponent \<in> effect_hooks"
| "useDeleteComponent \<in> effect_hooks"
| "useSaveWorkspace \<in> effect_hooks"
| "useDeleteCircle \<in> effect_hooks"
| "useCircles ty \<in> effect_hooks"
| "useSaveCirclePercentage \<in> effect_hooks"
| "useCirclePercentage \<in> effect_hooks"
| "useSaveCircleManually \<in> effect_hooks"
| "useSaveCircleWithFile \<in> effect_hooks"
| "useCircleMatcher_tryout \<in> effect_hooks"
| "useComposeBuild \<in> effect_hooks"
| "useCreateDeployment \<in> effect_hooks"
| "useRegistry w \<in> effect_hooks"
| "useCDConfiguration w \<in> effect_hooks"
| "useGit w \<in> effect_hooks"
| "useCircleMatcher_settings \<in> effect_hooks"
| "useUserGroup \<in> effect_hooks"
| "useDatasource \<in> effect_hooks"

lemma sets_now_idioms [idioms]:
  "sets_now return = {}"
  "sets_now (set_cell x v t) = insert x (sets_now t)"
  "sets_now (set_status st t) = insert ''status'' (sets_now t)"
  "sets_now (noted txt st t) = sets_now t"
  "sets_now (note_value v st t) = sets_now t"
  "sets_now (trigger f c) = {f @ ''.loading''}"
  "sets_now (push_search g t) = insert ''search'' (sets_now t)"
  "sets_now (read_body e k) = {}"
  "sets_now (reading_json e k) = {}"
  by (auto simp: return_def set_cell_def set_status_def noted_def note_value_def notify_def
      trigger_def push_search_def read_body_def reading_json_def throwing_def split: thing.split)

lemma sets_now_report [idioms]:
  "sets_now (report_body e) = {}" "sets_now (report_body_if_any e) = {}"
  "sets_now (report_message e) = {}" "sets_now (bracketed txt e) = {}"
  by (auto simp: report_body_def report_body_if_any_def report_message_def bracketed_def
      reading_json_if_any_def idioms split: thing.split)

lemma sets_now_if:
  "sets_now (if_set v k t) \<subseteq> sets_now t \<union> (\<Union>d. sets_now (k d))"
  "sets_now (if_failed v h t) \<subseteq> sets_now t \<union> (\<Union>e. sets_now (h e))"
  by (auto simp: if_set_def if_failed_def split: js_value.splits if_splits)

text \<open>What an effect may set at once, for any cells.\<close>

definition may_set :: "reaction \<Rightarrow> string set" where
  "may_set r = (\<Union>c. sets_now (rx_body r c))"

lemma may_set_on:
  "may_set (on_error f h) \<subseteq> (\<Union>e. sets_now (h e))" "may_set (on_response f k) \<subseteq> (\<Union>d. sets_now (k d))"
  "may_set (save_errors h g) \<subseteq> (\<Union>e. sets_now (h e)) \<union> (\<Union>e. sets_now (g e))"
proof -
  show "may_set (on_error f h) \<subseteq> (\<Union>e. sets_now (h e))"
    using sets_now_if(2) [of _ h return] by (auto simp: may_set_def on_error_def idioms)
  show "may_set (on_response f k) \<subseteq> (\<Union>d. sets_now (k d))"
    using sets_now_if(1) [of _ k return] by (auto simp: may_set_def on_response_def idioms)
  have "sets_now (if_failed v h (if_failed u g return)) \<subseteq> (\<Union>e. sets_now (h e)) \<union> (\<Union>e. sets_now (g e))" for v u
    using sets_now_if(2) [of v h "if_failed u g return"] sets_now_if(2) [of u g return]
    by (auto simp: idioms)
  then show "may_set (save_errors h g) \<subseteq> (\<Union>e. sets_now (h e)) \<union> (\<Union>e. sets_now (g e))"
    unfolding may_set_def save_errors_def by (intro UN_least) simp
qed

lemma quietI:
  assumes "\<And>r. r \<in> set rs \<Longrightarrow> may_set r \<subseteq> S" "\<And>r. r \<in> set rs \<Longrightarrow> set (rx_deps r) \<inter> S = {}"
  shows "quiet rs"
  unfolding quiet_def
proof (intro ballI allI)
  fix r r' c assume r: "r \<in> set rs" "r' \<in> set rs"
  have "sets_now (rx_body r c) \<subseteq> S"
    using assms(1) [OF r(1)] by (auto simp: may_set_def)
  then show "sets_now (rx_body r c) \<inter> set (rx_deps r') = {}"
    using assms(2) [OF r(2)] by blast
qed

text \<open>The cells that effects set are never those they depend on: their names end otherwise.\<close>

definition set_by_effects :: "string set" where
  "set_by_effects = {''userStatus'', ''circleStatus'', ''status'', ''isFinished'', ''search'',
     ''localStorage.workspace'', ''groups.loading'', ''modules.loading'', ''add.loading''}"

lemma deps_on [simp]:
  "rx_deps (on_error f h) = [f @ ''.error'']" "rx_deps (on_response f k) = [f @ ''.response'']"
  "rx_deps (save_errors h g) = [''save.error'', ''add.error'']"
  by (simp_all add: on_error_def on_response_def save_errors_def)

definition quiet_reaction :: "reaction \<Rightarrow> bool" where
  "quiet_reaction r \<longleftrightarrow> may_set r \<subseteq> set_by_effects \<and> set (rx_deps r) \<inter> set_by_effects = {}"

lemma quiet_reactions: "list_all quiet_reaction rs \<Longrightarrow> quiet rs"
  by (rule quietI [of _ set_by_effects]) (auto simp: quiet_reaction_def list_all_iff)

lemma response_not_set [simp]: "f @ ''.response'' \<notin> set_by_effects" "f @ ''.error'' \<notin> set_by_effects"
proof -
  have "drop (length s - 6) s \<noteq> ''.error''" "drop (length s - 9) s \<noteq> ''.response''" if "s \<in> set_by_effects" for s
    using that by (auto simp: set_by_effects_def)
  from this [of "f @ ''.error''"] this [of "f @ ''.response''"]
  show "f @ ''.response'' \<notin> set_by_effects" "f @ ''.error'' \<notin> set_by_effects" by auto
qed

lemma quiet_on:
  "(\<And>e. sets_now (h e) \<subseteq> set_by_effects) \<Longrightarrow> quiet_reaction (on_error f h)"
  "(\<And>d. sets_now (k d) \<subseteq> set_by_effects) \<Longrightarrow> quiet_reaction (on_response f k)"
  "\<lbrakk>\<And>e. sets_now (h e) \<subseteq> set_by_effects; \<And>e. sets_now (g e) \<subseteq> set_by_effects\<rbrakk>
    \<Longrightarrow> quiet_reaction (save_errors h g)"
proof -
  show "quiet_reaction (on_error f h)"
    if "\<And>e. sets_now (h e) \<subseteq> set_by_effects"
    using may_set_on(1) [of f h] that unfolding quiet_reaction_def by (auto simp: UN_subset_iff)
  show "quiet_reaction (on_response f k)"
    if "\<And>d. sets_now (k d) \<subseteq> set_by_effects"
    using may_set_on(2) [of f k] that unfolding quiet_reaction_def by (auto simp: UN_subset_iff)
  show "quiet_reaction (save_errors h g)"
    if "\<And>e. sets_now (h e) \<subseteq> set_by_effects" "\<And>e. sets_now (g e) \<subseteq> set_by_effects"
  proof -
    have "may_set (save_errors h g) \<subseteq> set_by_effects"
      by (rule subset_trans [OF may_set_on(3)]) (simp add: UN_subset_iff that)
    then show ?thesis by (simp add: quiet_reaction_def set_by_effects_def)
  qed
qed

lemma quiet_plain:
  "\<lbrakk>\<And>c. sets_now (b c) \<subseteq> set_by_effects; set ds \<inter> set_by_effects = {}\<rbrakk>
    \<Longrightarrow> quiet_reaction \<lparr>rx_deps = ds, rx_body = b\<rparr>"
  by (simp add: quiet_reaction_def may_set_def UN_subset_iff)

lemmas effect_hook_defs = useDeleteUser_def useUsers_def useFindAllUserGroup_def useCreateUserGroup_def
  useUpdateUserGroup_def useDeleteUserGroup_def useFindAllModules_def useFindModule_def useSaveModule_def
  useDeleteModule_def useUpdateModule_def useSaveComponent_def useUpdateComponent_def
  useDeleteComponent_def useSaveWorkspace_def useDeleteCircle_def useCircles_def
  useSaveCirclePercentage_def useCirclePercentage_def useSaveCircleManually_def
  useSaveCircleWithFile_def useCircleMatcher_tryout_def useComposeBuild_def useCreateDeployment_def
  useRegistry_def useCDConfiguration_def useGit_def useCircleMatcher_settings_def useUserGroup_def
  useDatasource_def add_saved_def removed_note_def reload_groups_def reload_modules_def

lemma sets_now_Do [idioms]: "sets_now (Do (Dispatched ty pl) t) = sets_now t" "sets_now (Fork s t) = sets_now s \<union> sets_now t"
  by simp_all

lemma sets_now_if_set:
  "\<lbrakk>\<And>d. sets_now (k d) \<subseteq> S; sets_now t \<subseteq> S\<rbrakk> \<Longrightarrow> sets_now (if_set v k t) \<subseteq> S"
  "\<lbrakk>\<And>e. sets_now (h e) \<subseteq> S; sets_now t \<subseteq> S\<rbrakk> \<Longrightarrow> sets_now (if_failed v h t) \<subseteq> S"
  using sets_now_if by blast+

lemma sets_now_ite:
  "\<lbrakk>sets_now s \<subseteq> S; sets_now t \<subseteq> S\<rbrakk> \<Longrightarrow> sets_now (if b then s else t) \<subseteq> S"
  by simp

lemma set_by_effects_members [simp]:
  "''userStatus'' \<in> set_by_effects" "''circleStatus'' \<in> set_by_effects" "''status'' \<in> set_by_effects"
  "''isFinished'' \<in> set_by_effects" "''search'' \<in> set_by_effects"
  "''localStorage.workspace'' \<in> set_by_effects" "''groups.loading'' \<in> set_by_effects"
  "''modules.loading'' \<in> set_by_effects" "''add.loading'' \<in> set_by_effects"
  by (simp_all add: set_by_effects_def)

lemma other_deps [simp]:
  "''delete.response'' \<notin> set_by_effects" "''delete.error'' \<notin> set_by_effects" "''userName'' \<notin> set_by_effects"
  "''users.response'' \<notin> set_by_effects" "''users.error'' \<notin> set_by_effects" "''circleName'' \<notin> set_by_effects"
  "''moduleId'' \<notin> set_by_effects" "''modules.response'' \<notin> set_by_effects"
  "''workspace.response'' \<notin> set_by_effects" "''workspace.error'' \<notin> set_by_effects"
  "''circles.response'' \<notin> set_by_effects" "''circles.error'' \<notin> set_by_effects"
  by (simp_all add: set_by_effects_def)

lemmas quiet_intros = quiet_on quiet_plain sets_now_if_set sets_now_ite conjI

lemma effect_hooks_quiet: "rs \<in> effect_hooks \<Longrightarrow> quiet rs"
  apply (rule quiet_reactions, erule effect_hooks.cases)
  apply (simp_all only: effect_hook_defs list.pred_inject append.simps simp_thms)
  apply ((intro quiet_intros)?; simp add: idioms useFindAllUserGroup_loadUserGroupList_def
        useFindAllModules_getAllModules_def)+
  done

text \<open> C29: React stops rendering: after any change of state, and when the component is mounted, the
  effects of each hook run in one round, which changes nothing they depend on. \<close>

theorem effects_come_to_rest:
  assumes "rs \<in> effect_hooks"
  shows "(\<exists>m'. render_loop rs old m = Some m' \<and> (mounted m \<longrightarrow> due rs m m' = []))
    \<and> (\<exists>m'. mount rs init = Some m' \<and> due rs (initial_machine init) m' = [])"
proof -
  have q: "quiet rs" using assms by (rule effect_hooks_quiet)
  have "due rs m (effects_of (due rs old m) m) = []"
    by (rule due_quiet [OF q]) (simp add: due_def)
  moreover have "due rs (initial_machine init) (effects_of rs (initial_machine init)) = []"
    by (rule due_quiet [OF q]) simp
  ultimately show ?thesis
    by (simp add: render_loop_quiet [OF q] mount_quiet [OF q] rendered_def)
qed

lemma effects_come_to_rest_witness:
  "\<exists>m'. render_loop useDeleteUser at_rest (perform (SetCell ''userName'' (Json (Str ''Ana''))) at_rest) = Some m'"
  using effects_come_to_rest [OF effect_hooks.intros(1)] by blast

subsection \<open>A deletion that failed\<close>

text \<open>The effect of a deletion looks at the error first, and the error of a fetch is never cleared.\<close>

locale deletion_hook =
  fixes rs :: "reaction list" and ops :: "task set" and st :: string
    and subj :: string and bad :: "(string \<Rightarrow> js_value) \<Rightarrow> json_value" and good :: "(string \<Rightarrow> js_value) \<Rightarrow> json_value"
  assumes effect: "rs = [\<lparr>rx_deps = [''delete.response'', ''delete.error'', subj],
        rx_body = \<lambda>c. if truthy_js (c ''delete.error'') then Do (notify (bad c) ''error'') return
          else if truthy_js (c ''delete.response'') then
            set_cell st (Str ''Deleted'') (Do (notify (good c) ''success'') return)
          else return\<rparr>]"
    and called_ops: "t \<in> ops \<Longrightarrow> \<exists>v. (\<exists>c. t = set_cell subj v (trigger ''delete'' c))
      \<or> (\<exists>x. t = set_cell subj v (Do (notify x ''error'') return))"
    and names: "st \<notin> {subj, ''delete.loading'', ''delete.response'', ''delete.error''}"
      "subj \<notin> {''delete.loading'', ''delete.response'', ''delete.error''}"
    and still: "quiet rs"
begin

definition only_deletions :: "machine \<Rightarrow> bool" where
  "only_deletions m \<longleftrightarrow> list_all (\<lambda>wk. snd wk = trigger_settled_task ''delete'') (running m)"

definition has_failed :: "machine \<Rightarrow> bool" where
  "has_failed m \<longleftrightarrow> \<not> mounted m \<or> truthy_js (cell m ''delete.error'')"

definition only_errors :: "machine \<Rightarrow> machine \<Rightarrow> bool" where
  "only_errors m m' \<longleftrightarrow> cell m' st = cell m st
     \<and> (\<exists>ns. dispatched m' = dispatched m @ ns \<and> list_all error_note ns)"

lemma only_errors_refl: "only_errors m m"
  by (simp add: only_errors_def)

lemma only_errors_trans: "\<lbrakk>only_errors m n; only_errors n k\<rbrakk> \<Longrightarrow> only_errors m k"
  by (auto simp: only_errors_def)

lemma note_in_error [simp]: "error_note (''NOTIFICATION/TOOGLE'', Obj [(''text'', v), (''status'', Str ''error'')])"
  by (simp add: error_note_def)

lemmas step_defs = set_cell_def return_def trigger_def notify_def cell_def only_deletions_def
  has_failed_def only_errors_def

lemma called_function:
  assumes "t \<in> ops"
  shows "only_deletions m \<Longrightarrow> only_deletions (advance t m)" "has_failed m \<Longrightarrow> has_failed (advance t m)"
    "only_errors m (advance t m)"
proof -
  obtain v where "(\<exists>c. t = set_cell subj v (trigger ''delete'' c))
      \<or> (\<exists>x. t = set_cell subj v (Do (notify x ''error'') return))"
    using called_ops [OF assms] by blast
  then show "only_deletions m \<Longrightarrow> only_deletions (advance t m)" "has_failed m \<Longrightarrow> has_failed (advance t m)"
    "only_errors m (advance t m)"
    using names by (auto simp: step_defs)
qed

lemma answered_call:
  assumes "only_deletions m" "i < length (running m)"
  shows "only_deletions (resume i a m)" "has_failed m \<Longrightarrow> has_failed (resume i a m)"
    "only_errors m (resume i a m)" "a = Rejected e \<Longrightarrow> has_failed (resume i a m)"
proof -
  have k: "snd (running m ! i) = trigger_settled_task ''delete''"
    using assms by (simp add: only_deletions_def list_all_length)
  have rest: "list_all (\<lambda>wk. snd wk = trigger_settled_task ''delete'') (drop_nth i (running m))"
    using assms(1) drop_nth_subset [of i "running m"] by (auto simp: only_deletions_def list_all_iff)
  show "only_deletions (resume i a m)" "has_failed m \<Longrightarrow> has_failed (resume i a m)"
    "only_errors m (resume i a m)" "a = Rejected e \<Longrightarrow> has_failed (resume i a m)"
    using rest names
    by (auto simp: resume_def k trigger_settled_task_def Let_def step_defs split: settled.split)
qed

lemma effects_after_failure:
  assumes "has_failed m" "only_deletions m"
  shows "has_failed (rendered rs old m)" "only_deletions (rendered rs old m)"
    "only_errors m (rendered rs old m)"
  using assms
  by (auto simp: rendered_def effects_of_def due_def effect step_defs split: if_splits)

lemma effects_keep_calls: "only_deletions m \<Longrightarrow> only_deletions (rendered rs old m)"
  by (auto simp: rendered_def effects_of_def due_def effect step_defs split: if_splits)

lemma step_after_failure:
  assumes "runs rs ops m tr m'" "only_deletions m" "has_failed m"
  shows "only_deletions m' \<and> has_failed m' \<and> only_errors m m'"
  using assms
proof (induction rule: runs.induct)
  case start
  then show ?case by (simp add: only_errors_refl)
next
  case (called tr n t n')
  then have "n' = rendered rs n (advance t n)"
    using render_loop_quiet [OF still] by simp
  then show ?case
    using called called_function [of t n] effects_after_failure [of "advance t n" n]
    by (blast intro: only_errors_trans)
next
  case (answered tr n i a n')
  then have "n' = rendered rs n (resume i a n)"
    using render_loop_quiet [OF still] by simp
  then show ?case
    using answered answered_call [of n i] effects_after_failure [of "resume i a n" n]
    by (blast intro: only_errors_trans)
next
  case (unmounted tr n)
  then show ?case by (simp add: only_deletions_def has_failed_def only_errors_def cell_def)
qed

lemma failure_is_kept:
  assumes "runs rs ops m tr m'" "only_deletions m"
  shows "only_deletions m' \<and> ((\<exists>w e. (w, Rejected e) \<in> set tr) \<longrightarrow> has_failed m')"
  using assms
proof (induction rule: runs.induct)
  case (called tr n t n')
  then have "n' = rendered rs n (advance t n)"
    using render_loop_quiet [OF still] by simp
  then show ?case
    using called called_function [of t n] effects_after_failure [of "advance t n" n]
      effects_keep_calls [of "advance t n" n] by blast
next
  case (answered tr n i a n')
  then have n': "n' = rendered rs n (resume i a n)" and d: "only_deletions n"
    using render_loop_quiet [OF still] by simp_all
  have "has_failed (resume i a n)"
    if "(w, Rejected e) \<in> set (tr @ [(fst (running n ! i), a)])" for w e
    using that answered answered_call [OF d answered.hyps(2)] by auto
  then show ?case
    using n' answered_call(1) [OF d answered.hyps(2)] effects_after_failure [of "resume i a n" n]
      effects_keep_calls [of "resume i a n" n] by blast
qed (auto simp: only_deletions_def has_failed_def)

lemma failed_deletion:
  assumes "mount rs init = Some m0" "runs rs ops m0 tr m" "(w, Rejected e) \<in> set tr" "runs rs ops m tr' m'"
  shows "only_errors m m'"
proof -
  have "only_deletions (initial_machine init)" by (simp add: only_deletions_def initial_machine_def)
  then have "only_deletions m0"
    using assms(1) mount_quiet [OF still]
    by (auto simp: effects_of_def effect step_defs split: if_splits)
  then show ?thesis
    using failure_is_kept [OF assms(2)] assms(3) step_after_failure [OF assms(4)] by blast
qed

end

definition deletes_user :: "task set" where
  "deletes_user = {t. \<exists>i name. t = useDeleteUser_delUser i name}"
definition deletes_circle :: "task set" where
  "deletes_circle = {t. \<exists>i st name. t = useDeleteCircle_delCircle i st name}"

lemma deletes_user_shape:
  "t \<in> deletes_user \<Longrightarrow> \<exists>v c. t = set_cell ''userName'' v (trigger ''delete'' c)"
  by (auto simp: deletes_user_def useDeleteUser_delUser_def)

lemma deletes_circle_shape:
  assumes "t \<in> deletes_circle"
  shows "\<exists>v. (\<exists>c. t = set_cell ''circleName'' v (trigger ''delete'' c))
    \<or> (\<exists>x. t = set_cell ''circleName'' v (Do (notify x ''error'') return))"
proof -
  obtain i st name where "t = useDeleteCircle_delCircle i st name"
    using assms by (auto simp: deletes_circle_def)
  then show ?thesis
    by (cases "st = None") (auto simp: useDeleteCircle_delCircle_def noted_def)
qed

interpretation user: deletion_hook useDeleteUser deletes_user "''userStatus''" "''userName''"
    "\<lambda>c. Str (''The user '' @ text_of (c ''userName'') @ '' could not be deleted.'')"
    "\<lambda>c. Str (''The user '' @ text_of (c ''userName'') @ '' has been deleted.'')"
proof
  show "quiet useDeleteUser" by (intro effect_hooks_quiet effect_hooks.intros)
qed (auto simp: useDeleteUser_def noted_def dest!: deletes_user_shape)

interpretation circle: deletion_hook useDeleteCircle deletes_circle "''circleStatus''" "''circleName''"
    "\<lambda>c. Str (''The circle '' @ text_of (c ''circleName'') @ '' could not be deleted.'')"
    "\<lambda>c. Str (''The circle '' @ text_of (c ''circleName'') @ '' has been deleted.'')"
proof
  show "quiet useDeleteCircle" by (intro effect_hooks_quiet effect_hooks.intros)
qed (auto simp: useDeleteCircle_def noted_def dest!: deletes_circle_shape)


text \<open>One call of \<open>delUser\<close>, with its answer.\<close>

definition after_render :: "reaction list \<Rightarrow> (machine \<Rightarrow> machine) \<Rightarrow> machine \<Rightarrow> machine" where
  "after_render rs f m = rendered rs m (f m)"

definition user_deleted :: "string \<Rightarrow> string \<Rightarrow> json_value settled \<Rightarrow> machine \<Rightarrow> machine" where
  "user_deleted i name a m = after_render useDeleteUser (resume 0 a)
     (after_render useDeleteUser (advance (useDeleteUser_delUser i name)) m)"

definition new_user_hook :: machine where
  "new_user_hook = effects_of useDeleteUser (initial_machine [])"

lemmas user_hook_defs = user_deleted_def after_render_def rendered_def effects_of_def due_def
  useDeleteUser_def useDeleteUser_delUser_def trigger_def trigger_settled_task_def Let_def run_defs
  text_of_def is_object_def new_user_hook_def initial_machine_def

lemma new_user_hook_mount: "mount useDeleteUser [] = Some new_user_hook"
  using mount_quiet [OF effect_hooks_quiet [OF effect_hooks.intros(1)], of "[]"] by (simp add: new_user_hook_def)

text \<open>A deletion that is answered at once is reported, and closes the tab.\<close>

theorem first_deletion_is_reported:
  fixes i name ps
  defines "m \<equiv> user_deleted i name (Resolved (Obj ps)) new_user_hook"
  shows "dispatched m = [(''NOTIFICATION/TOOGLE'', Obj [(''text'',
      Str (''The user '' @ name @ '' has been deleted.'')), (''status'', Str ''success'')])]"
    "cell m ''userStatus'' = Json (Str ''Deleted'')"
  by (simp_all add: m_def user_hook_defs)

lemma rendered_user [simp]:
  "running (rendered useDeleteUser old m) = running m" "mounted (rendered useDeleteUser old m) = mounted m"
  by (simp_all add: rendered_def effects_of_def due_def useDeleteUser_def run_defs)

lemma resume_trigger:
  assumes "running m = [(w, trigger_settled_task f)]"
  shows "running (resume 0 a m) = []" "mounted (resume 0 a m) = mounted m"
  using assms by (cases a; simp add: trigger_settled_task_def run_defs Let_def)+

lemma user_deleted_runs:
  assumes "running m = []" "mounted m"
  shows "runs useDeleteUser deletes_user m [(Server (deleteUserById i), a)] (user_deleted i name a m)"
    "running (user_deleted i name a m) = []" "mounted (user_deleted i name a m)"
proof -
  let ?t = "useDeleteUser_delUser i name"
  let ?n = "after_render useDeleteUser (advance ?t) m"
  have q: "quiet useDeleteUser" by (intro effect_hooks_quiet effect_hooks.intros)
  have "?t \<in> deletes_user" by (auto simp: deletes_user_def)
  then have "runs useDeleteUser deletes_user m [] ?n"
    by (rule runs.called [OF runs.start]) (simp add: render_loop_quiet [OF q] after_render_def)
  moreover have n: "running ?n = [(Server (deleteUserById i), trigger_settled_task ''delete'')]" "mounted ?n"
    using assms by (simp_all add: after_render_def useDeleteUser_delUser_def trigger_def run_defs)
  moreover have "render_loop useDeleteUser ?n (resume 0 a ?n) = Some (user_deleted i name a m)"
    by (simp add: render_loop_quiet [OF q] after_render_def user_deleted_def)
  ultimately show "runs useDeleteUser deletes_user m [(Server (deleteUserById i), a)] (user_deleted i name a m)"
    using runs.answered [of useDeleteUser deletes_user m "[]" ?n 0 a] by (simp add: possible_def)
  show "running (user_deleted i name a m) = []" "mounted (user_deleted i name a m)"
    using n resume_trigger [OF n(1), of a] by (simp_all add: user_deleted_def after_render_def [of _ "resume 0 a"])
qed

definition failed_user :: machine where
  "failed_user = user_deleted ''u1'' ''Ana'' (Rejected (JsError ''Failed to fetch'')) new_user_hook"
definition retried_user :: machine where
  "retried_user = user_deleted ''u1'' ''Ana'' (Resolved (Obj [])) failed_user"


text \<open>A second deletion with the same hook is reported before it is answered: the name has changed,
  and the response of the first is still there.\<close>

theorem next_deletion_reported_early:
  fixes i name
  assumes "mounted m" "running m = []" "\<not> truthy_js (cell m ''delete.error'')"
    "truthy_js (cell m ''delete.response'')" "cells m ''userName'' \<noteq> (0, Json (Str name))"
  defines "n \<equiv> after_render useDeleteUser (advance (useDeleteUser_delUser i name)) m"
  shows "last (dispatched n) = (''NOTIFICATION/TOOGLE'', Obj [(''text'',
      Str (''The user '' @ name @ '' has been deleted.'')), (''status'', Str ''success'')])"
    "map fst (running n) = [Server (deleteUserById i)]"
  using assms(1-5) by (simp_all add: n_def user_hook_defs)

subsection \<open>A list that is loaded again\<close>

text \<open>An object that is set is a new one: no cell holds it yet.\<close>

definition allocated :: "machine \<Rightarrow> bool" where
  "allocated m \<longleftrightarrow> (\<forall>x. fst (cells m x) \<le> objects m)"

lemma allocated_perform: "allocated m \<Longrightarrow> allocated (perform d m)"
  by (cases d) (auto simp: allocated_def le_SucI)

lemma allocated_advance: "allocated m \<Longrightarrow> allocated (advance t m)"
  by (induction t arbitrary: m) (auto simp: allocated_perform, simp add: allocated_def)

lemma allocated_rendered: "allocated m \<Longrightarrow> allocated (rendered rs old m)"
proof -
  have "allocated (fold (\<lambda>r. advance (rx_body r c)) todo n)" if "allocated n"
    for c n and todo :: "reaction list"
    using that by (induction todo arbitrary: n) (simp_all add: allocated_advance)
  then show "allocated m \<Longrightarrow> allocated (rendered rs old m)"
    by (simp add: rendered_def effects_of_def)
qed

lemma allocated_runs: "\<lbrakk>runs rs ops m tr m'; quiet rs; allocated m\<rbrakk> \<Longrightarrow> allocated m'"
proof (induction rule: runs.induct)
  case (called tr n t n')
  then show ?case by (auto simp: render_loop_quiet allocated_advance allocated_rendered)
next
  case (answered tr n i a n')
  have "allocated (resume i a n)"
    unfolding resume_def using answered by (intro allocated_advance) (simp add: allocated_def)
  then show ?case using answered by (auto simp: render_loop_quiet allocated_rendered)
qed (auto simp: allocated_def)

lemma allocated_initial: "allocated (initial_machine init)"
  by (simp add: allocated_def initial_machine_def)

text \<open>After a group is created or deleted the list is asked for again. Its answer is loaded twice,
  with a reset between the two: the list of the state is the page that was answered, whatever
  it was before.\<close>

theorem reloaded_groups:
  assumes "mounted m" "allocated m" "i < length (running m)" "snd (running m ! i) = trigger_settled_task ''groups''"
  shows "dispatched (after_render useCreateUserGroup (resume i (Resolved (Obj r))) m)
      = dispatched m @ [(''USERS_GROUP/LOADED_USERS_GROUP'', Obj r), (''USERS_GROUP/RESET_USERS_GROUP'', Undefined),
          (''USERS_GROUP/LOADED_USERS_GROUP'', Obj r)]"
    "\<exists>t. run (\<lambda>s a. Some (userGroupReducer s a))
        [loadUserGroupsAction g, resetUserGroupsAction, loadUserGroupsAction g] s = Some t
      \<and> pg_content (ug_list t) = page_content (Some g)"
proof -
  have "cells m ''groups.response'' \<noteq> (Suc (objects m), Json (Obj r))"
    using assms(2) by (auto simp: allocated_def dest: spec [of _ "''groups.response''"])
  then show "dispatched (after_render useCreateUserGroup (resume i (Resolved (Obj r))) m)
      = dispatched m @ [(''USERS_GROUP/LOADED_USERS_GROUP'', Obj r), (''USERS_GROUP/RESET_USERS_GROUP'', Undefined),
          (''USERS_GROUP/LOADED_USERS_GROUP'', Obj r)]"
    using assms by (simp add: after_render_def rendered_def effects_of_def due_def useCreateUserGroup_def
        useFindAllUserGroup_def reload_groups_def on_response_def if_set_def trigger_settled_task_def
        resume_def is_object_def set_cell_def return_def cell_def)
  obtain u where "Some (userGroupReducer s (loadUserGroupsAction g)) = Some u" by simp
  then show "\<exists>t. run (\<lambda>s a. Some (userGroupReducer s a))
        [loadUserGroupsAction g, resetUserGroupsAction, loadUserGroupsAction g] s = Some t
      \<and> pg_content (ug_list t) = page_content (Some g)"
    using group_list.scrolled [of "[g]" u] by simp
qed

subsection \<open>A credential that is saved\<close>

text \<open>What was saved is then linked to the workspace, by a call of its own.\<close>

theorem saved_credential_is_linked:
  assumes "mounted m" "allocated m" "i < length (running m)" "snd (running m ! i) = trigger_settled_task ''save''"
    and "(rs, path) \<in> {(useRegistry w, registry_configPath), (useCDConfiguration w, deployment_configPath),
      (useGit w, git_configPath)}"
  shows "map fst (running (after_render rs (resume i (Resolved (Obj r))) m))
    = map fst (drop_nth i (running m)) @ [Server (addConfig w path (maybe_member ''id'' (Obj r)))]"
proof -
  have "cells m ''save.response'' \<noteq> (Suc (objects m), Json (Obj r))"
    using assms(2) by (auto simp: allocated_def dest: spec [of _ "''save.response''"])
  then show ?thesis
    using assms by (auto simp: after_render_def rendered_def effects_of_def due_def useRegistry_def
        useCDConfiguration_def useGit_def add_saved_def save_errors_def removed_note_def on_error_def
        on_response_def if_set_def trigger_settled_task_def trigger_def
        resume_def is_object_def set_cell_def return_def cell_def)
qed

text \<open>Whatever keeps a group from being added to a workspace, the user reads that it is there
  already: the code and the message start as those of that error.\<close>

theorem every_failure_reads_already_associated:
  assumes "maybe_member ''code'' e \<noteq> Str ALREADY_ASSOCIATED_CODE"
    "maybe_member ''message'' e \<noteq> Str ALREADY_ASSOCIATED_MESSAGE"
  shows "association_text e = ''[USER_GROUP_ALREADY_ASSOCIATED] user.group.already.associated''"
  using assms by (simp add: association_text_def ALREADY_ASSOCIATED_CODE_def ALREADY_ASSOCIATED_MESSAGE_def Let_def)

end
