(* ===== verification/Access.thy ===== *)
theory Access
  imports Commands Queries "HOL-Library.List_Lexorder" "HOL-Library.Char_ord"
begin

text \<open>
  What a user may do in the front end: the abilities (\<open>core/utils/abilities.ts\<close>), the guards of
  the pages (\<open>containers/PrivateRoute\<close>, \<open>modules/Main\<close>) and of the buttons (\<open>containers/Can\<close>), the
  menu (\<open>modules/Main/Sidebar\<close>), and the scopes of an access token (\<open>modules/Tokens\<close>). The
  abilities are a list of rules kept beside the page; the library that looks a rule up is the
  parameter \<open>relevant\<close>.
\<close>

subsection \<open>Abilities\<close>

type_synonym rule = "string \<times> string"

definition subjects :: "string list" where
  "subjects = [''modules'', ''circles'', ''deploy'', ''maintenance'']"
definition actions :: "string list" where "actions = [''write'', ''read'']"

text \<open>\<open>[sub, act = 'write'] = role.split('_')\<close>.\<close>

definition rule_of :: "string \<Rightarrow> rule" where
  "rule_of role = (case split_char CHR ''_'' role of
      sub # act # _ \<Rightarrow> (act, sub)
    | [sub] \<Rightarrow> (''write'', sub)
    | [] \<Rightarrow> (''write'', []))"

text \<open>The permissions of a workspace are an array of strings by their type.\<close>

definition string_list :: "json_value \<Rightarrow> string list option" where
  "string_list v = (case v of
      Arr xs \<Rightarrow> if list_all (\<lambda>x. case x of Str _ \<Rightarrow> True | _ \<Rightarrow> False) xs
                then Some (map to_text xs) else None
    | _ \<Rightarrow> None)"

definition root_rules :: "rule list" where
  "root_rules = (''root'', ''root'') # concat (map (\<lambda>subject. map (\<lambda>action. (action, subject)) actions) subjects)"

definition setUserAbilities :: "page \<Rightarrow> browser \<Rightarrow> rule list option" where
  "setUserAbilities p b = Option.bind (isRoot p b) (\<lambda>root.
     if truthy_value root then Some root_rules
     else map_option (map rule_of) (string_list (getPermissions p b)))"

type_synonym rule_lookup = "rule list \<Rightarrow> string option \<Rightarrow> string \<Rightarrow> rule option"

text \<open>The library finds a rule for an action on a subject exactly when there is one, apart from
  its wild cards.\<close>

definition casl_law :: "rule_lookup \<Rightarrow> bool" where
  "casl_law relevant \<longleftrightarrow> (\<forall>rules a s. (\<forall>(x, y) \<in> set rules. x \<noteq> ''manage'' \<and> y \<noteq> ''all'')
     \<longrightarrow> ((relevant rules (Some a) s \<noteq> None) \<longleftrightarrow> (a, s) \<in> set rules))"

definition lookup_of_role :: "rule_lookup \<Rightarrow> rule list \<Rightarrow> string \<Rightarrow> rule option" where
  "lookup_of_role relevant rules role = (case split_char CHR ''_'' role of
      sub # act # _ \<Rightarrow> relevant rules (Some act) sub
    | [sub] \<Rightarrow> relevant rules None sub
    | [] \<Rightarrow> None)"

definition hasPermission :: "rule_lookup \<Rightarrow> rule list \<Rightarrow> string \<Rightarrow> bool" where
  "hasPermission relevant rules role = (lookup_of_role relevant rules role \<noteq> None)"

text \<open>The page is allowed when the role that was found is not empty.\<close>

definition isAllowed :: "rule_lookup \<Rightarrow> rule list \<Rightarrow> string list \<Rightarrow> bool" where
  "isAllowed relevant rules allowedRoles =
     (case List.find (\<lambda>role. lookup_of_role relevant rules role \<noteq> None) allowedRoles of
        None \<Rightarrow> False | Some role \<Rightarrow> role \<noteq> [])"

definition checkWorkspaceStatus :: "rule_lookup \<Rightarrow> rule list \<Rightarrow> json_value \<Rightarrow> string \<Rightarrow> bool" where
  "checkWorkspaceStatus relevant rules workspace_status role =
     ((if hasPermission relevant rules ''maintenance_write'' \<and> role \<notin> set [''maintenance_write'']
       then workspace_status else Str ''COMPLETE'') = Str ''COMPLETE'')"

text \<open>Whether a button inside \<open>Can I=... a=...\<close> keeps its handlers.\<close>

definition Can :: "rule_lookup \<Rightarrow> rule list \<Rightarrow> json_value \<Rightarrow> bool \<Rightarrow> string \<Rightarrow> string \<Rightarrow> bool" where
  "Can relevant rules workspace_status allowedRoutes I a =
     (relevant rules (Some I) a \<noteq> None \<and> allowedRoutes
      \<and> checkWorkspaceStatus relevant rules workspace_status (a @ ''_'' @ I))"

definition page_roles :: "(string \<times> string list) list" where
  "page_roles = [(''/tokens'', [''root_root'']), (''/users'', [''root_root'']), (''/groups'', [''root_root'']),
     (''/circles'', [''circles_read'']), (''/modules'', [''modules_read'']),
     (''/settings'', [''maintenance_write'']), (''/metrics'', [''circles_read''])]"

definition page_open :: "rule_lookup \<Rightarrow> rule list \<Rightarrow> string \<Rightarrow> bool" where
  "page_open relevant rules path =
     (case map_of page_roles path of None \<Rightarrow> True | Some roles \<Rightarrow> isAllowed relevant rules roles)"

text \<open>A click on a workspace of the menu: where it goes, and the abilities after it.\<close>

definition workspace_clicked ::
  "page \<Rightarrow> rule_lookup \<Rightarrow> json_value \<Rightarrow> browser \<Rightarrow> (browser \<times> rule list \<times> string) option" where
  "workspace_clicked p relevant w b =
     (let b1 = saveWorkspace p w b in
      map_option (\<lambda>rules. (b1, rules,
          if maybe_member ''status'' w = Str ''INCOMPLETE'' \<and> hasPermission relevant rules ''maintenance_write''
          then ''/settings/credentials'' else ''/circles''))
        (setUserAbilities p b1))"

subsection \<open>What the abilities allow\<close>

text \<open>A role of the form \<open>subject_action\<close>, apart from the wild cards of the library.\<close>

definition plain_role :: "string \<Rightarrow> bool" where
  "plain_role r \<longleftrightarrow> (\<exists>sub act. r = sub @ ''_'' @ act \<and> CHR ''_'' \<notin> set sub \<and> CHR ''_'' \<notin> set act
     \<and> act \<noteq> ''manage'' \<and> sub \<noteq> ''all'')"

lemma split_role:
  assumes "CHR ''_'' \<notin> set sub" "CHR ''_'' \<notin> set act"
  shows "split_char CHR ''_'' (sub @ CHR ''_'' # act) = [sub, act]"
  using assms by (induction sub) (auto simp: split_char_single)

lemma plain_role_rule:
  assumes "plain_role r"
  obtains sub act where "split_char CHR ''_'' r = [sub, act]" "rule_of r = (act, sub)"
    "r = sub @ ''_'' @ act" "act \<noteq> ''manage''" "sub \<noteq> ''all''"
proof -
  obtain sub act where r: "r = sub @ CHR ''_'' # act" "CHR ''_'' \<notin> set sub" "CHR ''_'' \<notin> set act"
    "act \<noteq> ''manage''" "sub \<noteq> ''all''"
    using assms by (auto simp: plain_role_def)
  then show thesis
    using that [of sub act] split_role [OF r(2,3)] by (simp add: rule_of_def)
qed

lemma rule_of_eq:
  assumes "plain_role r" "plain_role r'"
  shows "rule_of r = rule_of r' \<longleftrightarrow> r = r'"
proof -
  obtain sub act where "rule_of r = (act, sub)" "r = sub @ ''_'' @ act"
    by (rule plain_role_rule [OF assms(1)])
  moreover obtain sub' act' where "rule_of r' = (act', sub')" "r' = sub' @ ''_'' @ act'"
    by (rule plain_role_rule [OF assms(2)])
  ultimately show ?thesis by (metis Pair_inject)
qed

definition tame :: "rule list \<Rightarrow> bool" where
  "tame rules \<longleftrightarrow> (\<forall>(x, y) \<in> set rules. x \<noteq> ''manage'' \<and> y \<noteq> ''all'')"

lemma hasPermission_iff:
  assumes "casl_law relevant" "tame rules" "plain_role r"
  shows "lookup_of_role relevant rules r \<noteq> None \<longleftrightarrow> rule_of r \<in> set rules"
proof -
  obtain sub act where "split_char CHR ''_'' r = [sub, act]" "rule_of r = (act, sub)"
    by (rule plain_role_rule [OF assms(3)])
  then show ?thesis
    using assms(1,2) unfolding casl_law_def tame_def by (simp add: lookup_of_role_def)
qed

lemma isAllowed_iff:
  assumes "casl_law relevant" "tame rules" "\<forall>r \<in> set roles. plain_role r"
  shows "isAllowed relevant rules roles \<longleftrightarrow> (\<exists>r \<in> set roles. rule_of r \<in> set rules)"
proof -
  have "r \<noteq> []" if "plain_role r" for r using that by (auto simp: plain_role_def)
  then have "isAllowed relevant rules roles \<longleftrightarrow> (\<exists>r \<in> set roles. lookup_of_role relevant rules r \<noteq> None)"
    using assms(3) unfolding isAllowed_def by (induction roles) auto
  then show ?thesis using hasPermission_iff [OF assms(1,2)] assms(3) by blast
qed

lemma root_rules_simps [simp]:
  "set root_rules = {(''root'', ''root''), (''write'', ''modules''), (''read'', ''modules''),
     (''write'', ''circles''), (''read'', ''circles''), (''write'', ''deploy''), (''read'', ''deploy''),
     (''write'', ''maintenance''), (''read'', ''maintenance'')}"
  by (auto simp: root_rules_def subjects_def actions_def)

lemma plain_roles [simp]:
  "plain_role ''root_root''" "plain_role ''circles_read''" "plain_role ''modules_read''"
  "plain_role ''maintenance_write''" "plain_role ''deploy_write''" "plain_role ''circles_write''"
proof -
  have plain: "plain_role (sub @ ''_'' @ act)"
    if "CHR ''_'' \<notin> set sub" "CHR ''_'' \<notin> set act" "act \<noteq> ''manage''" "sub \<noteq> ''all''" for sub act
    using that unfolding plain_role_def by blast
  show "plain_role ''root_root''" using plain [of "''root''" "''root''"] by simp
  show "plain_role ''circles_read''" using plain [of "''circles''" "''read''"] by simp
  show "plain_role ''modules_read''" using plain [of "''modules''" "''read''"] by simp
  show "plain_role ''maintenance_write''" using plain [of "''maintenance''" "''write''"] by simp
  show "plain_role ''deploy_write''" using plain [of "''deploy''" "''write''"] by simp
  show "plain_role ''circles_write''" using plain [of "''circles''" "''write''"] by simp
qed

lemma page_roles_plain: "map_of page_roles path = Some roles \<Longrightarrow> \<forall>r \<in> set roles. plain_role r"
  by (auto simp: page_roles_def split: if_splits)

text \<open>A user who is not root sees the pages whose role is among the permissions of the workspace, root
  sees all of them.\<close>

theorem page_guards:
  assumes "casl_law relevant" "setUserAbilities p b = Some rules"
    and "isRoot p b = Some v"
    and "string_list (getPermissions p b) = Some ps" "\<forall>r \<in> set ps. plain_role r"
  shows "page_open relevant rules path \<longleftrightarrow>
    truthy_value v \<or> (case map_of page_roles path of None \<Rightarrow> True | Some roles \<Rightarrow> set roles \<inter> set ps \<noteq> {})"
proof (cases "map_of page_roles path")
  case (Some roles)
  have plain: "\<forall>r \<in> set roles. plain_role r" by (rule page_roles_plain [OF Some])
  show ?thesis
  proof (cases "truthy_value v")
    case True
    then have rules: "rules = root_rules" using assms(2,3) by (simp add: setUserAbilities_def)
    have "isAllowed relevant rules roles \<longleftrightarrow> (\<exists>r \<in> set roles. rule_of r \<in> set root_rules)"
      unfolding rules by (rule isAllowed_iff [OF assms(1) _ plain]) (simp add: tame_def)
    also have "\<dots>" using Some by (auto simp: page_roles_def rule_of_def split: if_splits)
    finally show ?thesis using True Some by (simp add: page_open_def)
  next
    case False
    then have rules: "rules = map rule_of ps" using assms(2-4) by (simp add: setUserAbilities_def)
    have "tame rules" using assms(5) by (force simp: rules tame_def elim: plain_role_rule)
    from isAllowed_iff [OF assms(1) this plain] show ?thesis
      using False Some plain assms(5) rule_of_eq by (auto simp: page_open_def rules image_iff)
  qed
qed (simp add: page_open_def)

lemma page_guards_witness:
  "\<exists>relevant :: rule_lookup. casl_law relevant"
  by (rule exI [of _ "\<lambda>rules a s. case a of None \<Rightarrow> None | Some x \<Rightarrow> if (x, s) \<in> set rules then Some (x, s) else None"])
    (simp add: casl_law_def)

text \<open>
  The abilities are set when the program starts and when a workspace is chosen. A login through
  the identity manager starts the program without a profile and saves it later: root is kept out
  of its pages until the page is loaded again.
\<close>

theorem root_needs_a_reload:
  assumes "casl_law relevant" "getProfile p b = Obj []" "getPermissions p b = Arr []"
    and "setUserAbilities p b = Some rules"
    and "saveProfile p user b = Some b'" "isRoot p b' = Some v" "truthy_value v"
  shows "\<not> page_open relevant rules ''/users''"
    "\<exists>rules'. setUserAbilities p b' = Some rules' \<and> page_open relevant rules' ''/users''"
proof -
  have "rules = []"
    using assms(2-4) by (simp add: setUserAbilities_def isRoot_def getProfileByKey_def string_list_def)
  then show "\<not> page_open relevant rules ''/users''"
    using isAllowed_iff [OF assms(1), of "[]" "[''root_root'']"]
    by (simp add: page_open_def page_roles_def tame_def)
  have "isAllowed relevant root_rules [''root_root'']"
    using isAllowed_iff [OF assms(1), of root_rules "[''root_root'']"] by (simp add: tame_def rule_of_def)
  then show "\<exists>rules'. setUserAbilities p b' = Some rules' \<and> page_open relevant rules' ''/users''"
    using assms(6,7) by (simp add: setUserAbilities_def page_open_def page_roles_def)
qed

subsection \<open>The scopes of an access token\<close>

definition scope_step :: "string \<Rightarrow> (string \<times> string) list \<Rightarrow> (string \<times> string) list" where
  "scope_step permission result =
     (let parts = split_char CHR ''_'' permission; subject = hd parts
      in if List.find (\<lambda>r. fst r = subject \<and> snd r \<noteq> ''read'') result \<noteq> None then result
         else result @ [(subject, if 1 < length parts \<and> parts ! 1 = ''write'' then ''All permissions'' else ''read'')])"

definition getScopes :: "string list \<Rightarrow> (string \<times> string) list" where
  "getScopes permissions = fold scope_step (rev (sort permissions)) []"

definition scope_role :: "string \<Rightarrow> bool" where
  "scope_role r \<longleftrightarrow> (\<exists>s. CHR ''_'' \<notin> set s \<and> (r = s @ ''_read'' \<or> r = s @ ''_write''))"

lemma append_less [simp]: "(s :: string) @ t < s @ u \<longleftrightarrow> t < u"
  by (induction s) auto

lemma read_before_write: "s @ ''_read'' < s @ ''_write''"
proof -
  have "CHR ''r'' < CHR ''w''" by code_simp
  then show ?thesis by simp
qed

lemma split_scope [simp]:
  "CHR ''_'' \<notin> set s \<Longrightarrow> split_char CHR ''_'' (s @ ''_read'') = [s, ''read'']"
  "CHR ''_'' \<notin> set s \<Longrightarrow> split_char CHR ''_'' (s @ ''_write'') = [s, ''write'']"
  using split_role [of s "''read''"] split_role [of s "''write''"] by simp_all

definition scopes_of :: "string set \<Rightarrow> (string \<times> string) set" where
  "scopes_of P = {(s, q). CHR ''_'' \<notin> set s
     \<and> (if s @ ''_write'' \<in> P then q = ''All permissions'' else s @ ''_read'' \<in> P \<and> q = ''read'')}"

lemma found_iff: "List.find P xs \<noteq> None \<longleftrightarrow> (\<exists>x \<in> set xs. P x)"
  unfolding find_None_iff by blast

lemma scope_step_role:
  assumes "CHR ''_'' \<notin> set s"
  shows "scope_step (s @ ''_read'') res
      = (if \<exists>x \<in> set res. fst x = s \<and> snd x \<noteq> ''read'' then res else res @ [(s, ''read'')])"
    "scope_step (s @ ''_write'') res
      = (if \<exists>x \<in> set res. fst x = s \<and> snd x \<noteq> ''read'' then res else res @ [(s, ''All permissions'')])"
  using assms by (simp_all only: scope_step_def split_scope found_iff Let_def list.sel) simp_all

lemma scopes_of_insert:
  assumes "CHR ''_'' \<notin> set s"
  shows "scopes_of (insert (s @ ''_write'') P)
      = insert (s, ''All permissions'') (scopes_of P - {(s, ''read'')})"
    "scopes_of (insert (s @ ''_read'') P)
      = (if s @ ''_write'' \<in> P then scopes_of P else insert (s, ''read'') (scopes_of P))"
proof -
  have ends: "a @ ''_read'' \<noteq> b @ ''_write''" "b @ ''_write'' \<noteq> a @ ''_read''" for a b :: string
    using arg_cong [of "a @ ''_read''" "b @ ''_write''" last] by auto
  show "scopes_of (insert (s @ ''_write'') P)
      = insert (s, ''All permissions'') (scopes_of P - {(s, ''read'')})"
    using assms ends unfolding scopes_of_def by auto
  show "scopes_of (insert (s @ ''_read'') P)
      = (if s @ ''_write'' \<in> P then scopes_of P else insert (s, ''read'') (scopes_of P))"
    using assms ends unfolding scopes_of_def by auto
qed

lemma scopes_of_descending:
  assumes "sorted_wrt (\<lambda>x y. y < x) ps" "\<forall>r \<in> set ps. scope_role r"
  shows "set (fold scope_step ps []) = scopes_of (set ps) \<and> distinct (map fst (fold scope_step ps []))"
  using assms
proof (induction ps rule: rev_induct)
  case Nil
  then show ?case by (simp add: scopes_of_def)
next
  case (snoc r ps)
  let ?res = "fold scope_step ps []"
  have IH: "set ?res = scopes_of (set ps)" "distinct (map fst ?res)"
    and above: "\<forall>x \<in> set ps. r < x"
    using snoc by (auto simp: sorted_wrt_append)
  obtain s where s: "CHR ''_'' \<notin> set s" and r: "r = s @ ''_read'' \<or> r = s @ ''_write''"
    using snoc.prems(2) by (auto simp: scope_role_def)
  have new: "r \<notin> set ps" using above by auto
  from r show ?case
  proof
    assume r: "r = s @ ''_read''"
    have "(\<exists>x \<in> set ?res. fst x = s \<and> snd x \<noteq> ''read'') \<longleftrightarrow> s @ ''_write'' \<in> set ps"
      using s unfolding IH(1) scopes_of_def by (auto simp: Bex_def)
    moreover have "s \<notin> fst ` set ?res" if "s @ ''_write'' \<notin> set ps"
      using that new unfolding IH(1) scopes_of_def r by auto
    ultimately show ?thesis
      using IH s by (simp add: r scope_step_role scopes_of_insert)
  next
    assume r: "r = s @ ''_write''"
    have "s @ ''_read'' \<notin> set ps" using above read_before_write [of s] r by auto
    then have "s \<notin> fst ` set ?res"
      using new unfolding IH(1) scopes_of_def r by auto
    moreover from this have "(s, ''read'') \<notin> scopes_of (set ps)" unfolding IH(1) by force
    ultimately show ?thesis
      using IH s by (auto simp: r scope_step_role scopes_of_insert image_iff)
  qed
qed

text \<open>The scopes shown for a token: one for each subject, all permissions when it may write.\<close>

theorem getScopes_exact:
  assumes "distinct ps" "\<forall>r \<in> set ps. scope_role r"
  shows "set (getScopes ps) = scopes_of (set ps)" "distinct (map fst (getScopes ps))"
proof -
  have "sorted_wrt (<) (sort ps)" using assms(1) by (simp add: strict_sorted_iff)
  then have "sorted_wrt (\<lambda>x y. y < x) (rev (sort ps))" by (simp add: sorted_wrt_rev)
  from scopes_of_descending [OF this] assms(2)
  show "set (getScopes ps) = scopes_of (set ps)" "distinct (map fst (getScopes ps))"
    by (simp_all add: getScopes_def)
qed

subsection \<open>The menu\<close>

record menu_item =
  mi_id :: string
  mi_icon :: string
  mi_text :: string
  mi_to :: string
  mi_action :: "string option"
  mi_subject :: "string option"

definition genMenuId :: "string \<Rightarrow> string" where
  "genMenuId route = ''menu'' @ join_with ''-'' (split_char CHR ''/'' route)"

definition entry_for :: "string \<Rightarrow> string \<Rightarrow> string \<Rightarrow> (string \<times> string) option \<Rightarrow> menu_item" where
  "entry_for route icon label needs =
     \<lparr>mi_id = genMenuId route, mi_icon = icon, mi_text = label, mi_to = route,
      mi_action = map_option fst needs, mi_subject = map_option snd needs\<rparr>"

definition workspaceMenu :: "menu_item list" where
  "workspaceMenu =
     [entry_for ''/circles'' ''circles'' ''Circles'' (Some (''read'', ''circles'')),
      entry_for ''/modules'' ''modules'' ''Modules'' (Some (''read'', ''modules'')),
      entry_for ''/metrics'' ''metrics'' ''Metrics'' (Some (''read'', ''circles'')),
      entry_for ''/settings/credentials'' ''settings'' ''Settings'' (Some (''write'', ''maintenance''))]"

definition mainMenu :: "menu_item list" where
  "mainMenu =
     [entry_for ''/workspaces'' ''workspaces'' ''Workspaces'' None,
      entry_for ''/account/profile'' ''account'' ''Account'' None]"

definition rootMainMenu :: "menu_item list" where
  "rootMainMenu =
     [entry_for ''/workspaces'' ''workspace'' ''Workspaces'' None,
      entry_for ''/tokens'' ''token'' ''Access tokens'' None,
      entry_for ''/users'' ''user'' ''Users'' None,
      entry_for ''/groups'' ''users'' ''User Group'' None,
      entry_for ''/account/profile'' ''account'' ''Account'' None]"

text \<open>The search does not end at the first menu with the page: its callback returns nothing.\<close>

definition getItems :: "bool \<Rightarrow> string \<Rightarrow> menu_item list" where
  "getItems is_root pathname =
     (let path = (case split_char CHR ''/'' pathname of _ # x # _ \<Rightarrow> x | _ \<Rightarrow> ''undefined'');
          menus = (if is_root then [workspaceMenu, rootMainMenu] else [workspaceMenu, mainMenu])
      in fold (\<lambda>menu currentMenu. fold (\<lambda>item shown.
                 if contains_text (mi_to item) (''/'' @ path) then menu else shown) menu currentMenu)
           menus [])"

text \<open>On each page of a menu the sidebar shows that menu.\<close>

theorem menu_of_page:
  "list_all (\<lambda>item. getItems True (mi_to item) = workspaceMenu) workspaceMenu"
  "list_all (\<lambda>item. getItems False (mi_to item) = workspaceMenu) workspaceMenu"
  "list_all (\<lambda>item. getItems True (mi_to item) = rootMainMenu) rootMainMenu"
  "list_all (\<lambda>item. getItems False (mi_to item) = mainMenu) mainMenu"
  by code_simp+

end
