(* ===== verification/CirclePanel.thy ===== *)
theory CirclePanel
  imports Access Reactions
begin

text \<open>
  The panel of one circle (\<open>modules/Circles/Comparation/Item\<close>): the circle it shows and how it
  follows a deployment under way by polling, what its buttons allow, and the editor of its
  segmentation (\<open>CreateSegments\<close>), with the limit of a percentage. A percentage is a rational.
\<close>

datatype DEPLOYMENT_STATUS = DEPLOYING | UNDEPLOYING | DEPLOYED

datatype matcher_type = SIMPLE_KV | REGULAR | PERCENTAGE

record panel_deployment =
  pd_id :: "string option"
  pd_status :: DEPLOYMENT_STATUS

record panel_circle =
  pc_id :: string
  pc_name :: string
  pc_deployment :: "panel_deployment option"
  pc_matcherType :: "matcher_type option"
  pc_percentage :: rat

definition DEFAULT_CIRCLE :: string where "DEFAULT_CIRCLE = ''Default''"

subsection \<open>What the buttons allow\<close>

definition isDefaultCircle :: "string option \<Rightarrow> bool" where
  "isDefaultCircle name \<longleftrightarrow> name = Some DEFAULT_CIRCLE"

definition isDeploying :: "DEPLOYMENT_STATUS option \<Rightarrow> bool" where
  "isDeploying s \<longleftrightarrow> s = Some DEPLOYING"

definition isUndeploying :: "DEPLOYMENT_STATUS option \<Rightarrow> bool" where
  "isUndeploying s \<longleftrightarrow> s = Some UNDEPLOYING"

definition isBusy :: "DEPLOYMENT_STATUS option \<Rightarrow> bool" where
  "isBusy s \<longleftrightarrow> isDeploying s \<or> isUndeploying s"

definition deployment_of :: "panel_circle option \<Rightarrow> panel_deployment option" where
  "deployment_of c = Option.bind c pc_deployment"

definition status_shown :: "panel_circle option \<Rightarrow> DEPLOYMENT_STATUS option" where
  "status_shown c = map_option pd_status (deployment_of c)"

definition hasDeploy :: "panel_circle option \<Rightarrow> bool" where
  "hasDeploy c \<longleftrightarrow> deployment_of c \<noteq> None"

definition isUndeployable :: "panel_circle option \<Rightarrow> bool" where
  "isUndeployable c \<longleftrightarrow> hasDeploy c \<and> \<not> isDefaultCircle (map_option pc_name c) \<and> \<not> isBusy (status_shown c)"

definition getTooltipMessage :: "rule_lookup \<Rightarrow> rule list \<Rightarrow> panel_circle option \<Rightarrow> string" where
  "getTooltipMessage relevant rules c =
     (let default = isDefaultCircle (map_option pc_name c); may = hasPermission relevant rules ''deploy_write''
      in if default \<and> \<not> hasDeploy c then ''Default circle cannot be deleted.''
         else if default \<and> hasDeploy c then
           ''Default circle is deployed to all<br /> users, so it cannot be deleted.''
         else if hasDeploy c \<and> may then
           ''Active circle cannot be deleted,<br />you can undeploy first and then<br /> delete this circle.''
         else if \<not> may \<and> \<not> hasDeploy c then ''Not allowed''
         else if \<not> may then ''Not allowed''
         else [])"

definition cannotCircleBeDeleted :: "rule_lookup \<Rightarrow> rule list \<Rightarrow> panel_circle option \<Rightarrow> bool" where
  "cannotCircleBeDeleted relevant rules c \<longleftrightarrow>
     isUndeployable c \<or> isDefaultCircle (map_option pc_name c) \<or> \<not> hasPermission relevant rules ''circles_write''"

definition status_text :: "DEPLOYMENT_STATUS \<Rightarrow> string" where
  "status_text s = (case s of DEPLOYING \<Rightarrow> ''DEPLOYING'' | UNDEPLOYING \<Rightarrow> ''UNDEPLOYING'' | DEPLOYED \<Rightarrow> ''DEPLOYED'')"

text \<open>A new name: sent for a circle with rules, sent for one with a file, only shown for others.\<close>

datatype name_saving = Sent task | OnlyShown panel_circle

definition saveCircleName :: "string \<Rightarrow> bool \<Rightarrow> panel_circle \<Rightarrow> json_value \<Rightarrow> string \<Rightarrow> name_saving" where
  "saveCircleName i isEditing c rules name =
     (if isEditing \<and> pc_matcherType c = Some REGULAR then
        Sent (useSaveCircleManually_saveCircleManually i (Obj [(''rules'', rules), (''name'', Str name)]))
      else if isEditing \<and> pc_matcherType c = Some SIMPLE_KV then
        Sent (useSaveCircleWithFile_saveCircleWithFile i name None None)
      else OnlyShown (c\<lparr>pc_name := name\<rparr>))"

subsection \<open>Following a deployment\<close>

text \<open>The circle shown, the last answer of a poll, the timer, and the polls under way.\<close>

record panel =
  panel_circle :: "panel_circle option"
  poll_response :: "panel_circle option"
  poll_timer :: "string option"
  polls :: "string list"
  list_updates :: nat
  panel_action :: string

definition new_panel :: panel where
  "new_panel = \<lparr>panel_circle = None, poll_response = None, poll_timer = None, polls = [],
     list_updates = 0, panel_action = []\<rparr>"

text \<open>The effect on a changed circle: the old timer is cleared, and set when there is something to
  follow.\<close>

definition follow :: "panel \<Rightarrow> panel" where
  "follow m = m\<lparr>poll_timer :=
     (if isBusy (status_shown (panel_circle m)) then map_option pc_id (panel_circle m) else None)\<rparr>"

definition undeploy_seen :: "panel \<Rightarrow> bool" where
  "undeploy_seen m \<longleftrightarrow> poll_response m \<noteq> None \<and> deployment_of (poll_response m) = None
     \<and> status_shown (panel_circle m) = Some UNDEPLOYING"

definition set_circle :: "panel_circle \<Rightarrow> panel \<Rightarrow> panel" where
  "set_circle c m =
     (let m1 = m\<lparr>panel_circle := Some c\<rparr>
      in follow (if undeploy_seen m1
                 then m1\<lparr>panel_circle := poll_response m1, list_updates := Suc (list_updates m1)\<rparr>
                 else m1))"

text \<open>An answer of a poll: the first effect asks for the list when an undeployment has ended, the
  second one shows the answer.\<close>

definition set_response :: "panel_circle \<Rightarrow> panel \<Rightarrow> panel" where
  "set_response c m =
     (let m1 = m\<lparr>poll_response := Some c\<rparr>
      in follow (m1\<lparr>panel_circle := Some c,
           list_updates := (if undeploy_seen m1 then Suc (list_updates m1) else list_updates m1)\<rparr>))"

text \<open>\<open>handleDelete\<close> hands the status of the deployment to \<open>delCircle\<close>, closes the question and asks
  for the list.\<close>

definition handleDelete :: "string \<Rightarrow> panel_circle \<Rightarrow> panel \<Rightarrow> task \<times> panel" where
  "handleDelete i c m =
     (useDeleteCircle_delCircle i (map_option status_text (status_shown (Some c))) (pc_name c),
      m\<lparr>panel_action := [], list_updates := Suc (list_updates m)\<rparr>)"

datatype panel_event =
    Loaded panel_circle
  | Fired
  | Polled nat "panel_circle option"
  | Undeployed
  | Released panel_deployment
  | Updated panel_circle

definition with_status :: "DEPLOYMENT_STATUS \<Rightarrow> panel_circle \<Rightarrow> panel_circle" where
  "with_status s c = c\<lparr>pc_deployment := Some (case pc_deployment c of
     None \<Rightarrow> \<lparr>pd_id = None, pd_status = s\<rparr> | Some d \<Rightarrow> d\<lparr>pd_status := s\<rparr>)\<rparr>"

fun panel_step :: "panel_event \<Rightarrow> panel \<Rightarrow> panel" where
  "panel_step (Loaded c) m = set_circle c m"
| "panel_step Fired m = (case poll_timer m of
      None \<Rightarrow> m
    | Some i \<Rightarrow> m\<lparr>poll_timer := None, polls := polls m @ [i]\<rparr>)"
| "panel_step (Polled k a) m =
     (if k < length (polls m) then
        (let m1 = m\<lparr>polls := drop_nth k (polls m)\<rparr>
         in case a of None \<Rightarrow> m1 | Some c \<Rightarrow> set_response c m1)
      else m)"
| "panel_step Undeployed m = (case panel_circle m of
      None \<Rightarrow> m | Some c \<Rightarrow> set_circle (with_status UNDEPLOYING c) m)"
| "panel_step (Released d) m = (case panel_circle m of
      None \<Rightarrow> m
    | Some c \<Rightarrow> (let m1 = set_circle (c\<lparr>pc_deployment := Some d\<rparr>) m
                in m1\<lparr>list_updates := Suc (list_updates m1)\<rparr>))"
| "panel_step (Updated c) m = set_circle c m"

definition busy_shown :: "panel \<Rightarrow> bool" where
  "busy_shown m \<longleftrightarrow> isBusy (status_shown (panel_circle m))"

lemmas panel_defs = set_circle_def set_response_def follow_def undeploy_seen_def busy_shown_def Let_def

lemma followed [simp]:
  "busy_shown (follow m) = busy_shown m" "polls (follow m) = polls m" "panel_circle (follow m) = panel_circle m"
  "poll_timer (follow m) = (if busy_shown m then map_option pc_id (panel_circle m) else None)"
  by (simp_all add: panel_defs)

text \<open>The timer is the one of the circle that is shown, and what is busy is followed.\<close>

definition follows :: "panel_event list \<Rightarrow> panel \<Rightarrow> bool" where
  "follows evs m \<longleftrightarrow>
     (poll_timer m = None \<or> busy_shown m \<and> poll_timer m = map_option pc_id (panel_circle m))
     \<and> (busy_shown m \<and> poll_timer m = None \<and> polls m = [] \<longrightarrow> (\<exists>k. Polled k None \<in> set evs))"

lemma busy_has_circle: "busy_shown m \<Longrightarrow> panel_circle m \<noteq> None"
  by (cases "panel_circle m")
    (auto simp: busy_shown_def status_shown_def deployment_of_def isBusy_def isDeploying_def isUndeploying_def)

lemma follows_follow: "follows evs (follow m)"
  using busy_has_circle [of m] by (auto simp: follows_def)

lemma follows_set: "follows evs (set_circle c m)" "follows evs (set_response c m)"
  unfolding set_circle_def set_response_def Let_def by (rule follows_follow)+

lemma follows_updates [simp]: "follows evs (m\<lparr>list_updates := n\<rparr>) = follows evs m"
  by (simp add: follows_def busy_shown_def)

lemma follows_more: "follows evs m \<Longrightarrow> follows (evs @ [e]) m"
  by (auto simp: follows_def)

lemma follows_step:
  assumes "follows evs m"
  shows "follows (evs @ [e]) (panel_step e m)"
proof (cases e)
  case (Polled k a)
  show ?thesis
  proof (cases "k < length (polls m)")
    case True
    then show ?thesis
    proof (cases a)
      case None
      with True Polled show ?thesis using assms by (auto simp: follows_def busy_shown_def)
    next
      case (Some c)
      with True Polled show ?thesis by (simp add: Let_def follows_set)
    qed
  next
    case False
    with Polled show ?thesis using follows_more [OF assms] by simp
  qed
next
  case Fired
  then show ?thesis using follows_more [OF assms, of e] by (auto simp: follows_def busy_shown_def split: option.split)
next
  case Undeployed
  then show ?thesis using follows_more [OF assms, of e] by (auto simp: follows_set split: option.split)
next
  case (Released d)
  then show ?thesis
    using follows_more [OF assms, of e] by (auto simp: follows_set Let_def split: option.split)
qed (simp_all add: follows_set)

lemma follows_run: "follows evs (fold panel_step evs new_panel)"
proof (induction evs rule: rev_induct)
  case Nil
  have "\<not> busy_shown new_panel" using busy_has_circle [of new_panel] by (auto simp: new_panel_def)
  then show ?case by (simp add: follows_def) (simp add: new_panel_def)
qed (simp add: follows_step)

definition polling_event :: "panel_event \<Rightarrow> bool" where
  "polling_event e \<longleftrightarrow> (e = Fired \<or> (\<exists>k a. e = Polled k a))"

lemma stopped:
  "\<lbrakk>list_all polling_event es; poll_timer m = None; polls m = []\<rbrakk> \<Longrightarrow> fold panel_step es m = m"
  by (induction es) (auto simp: polling_event_def)


definition ex_busy_circle :: panel_circle where
  "ex_busy_circle = \<lparr>pc_id = ''c1'', pc_name = ''blue'',
     pc_deployment = Some \<lparr>pd_id = Some ''d1'', pd_status = DEPLOYING\<rparr>,
     pc_matcherType = Some REGULAR, pc_percentage = 0\<rparr>"


subsection \<open>Deleting a circle\<close>

text \<open>A circle with a deployment is not deleted: the request is not sent, the user is told.\<close>

theorem active_circle_is_not_deleted:
  assumes "pc_deployment c \<noteq> None" "mounted m"
  shows "running (advance (fst (handleDelete i c pn)) m) = running m"
    "error_notes (advance (fst (handleDelete i c pn)) m) = Suc (error_notes m)"
  using assms
  by (auto simp: handleDelete_def status_shown_def deployment_of_def useDeleteCircle_delCircle_def
      set_cell_def noted_def notify_def return_def error_notes_def error_note_def)

text \<open>While a circle is being deployed its button for deleting is on, under a tooltip that says it
  cannot be deleted.\<close>

theorem busy_circle_offers_deletion:
  assumes "hasPermission relevant rules ''circles_write''" "hasPermission relevant rules ''deploy_write''"
    and "isBusy (status_shown (Some c))" "pc_name c \<noteq> DEFAULT_CIRCLE"
  shows "\<not> cannotCircleBeDeleted relevant rules (Some c)"
    "getTooltipMessage relevant rules (Some c)
      = ''Active circle cannot be deleted,<br />you can undeploy first and then<br /> delete this circle.''"
proof -
  have "hasDeploy (Some c)"
    using assms(3) by (auto simp: hasDeploy_def status_shown_def isBusy_def isDeploying_def isUndeploying_def)
  then show "\<not> cannotCircleBeDeleted relevant rules (Some c)"
    "getTooltipMessage relevant rules (Some c)
      = ''Active circle cannot be deleted,<br />you can undeploy first and then<br /> delete this circle.''"
    using assms by (simp_all add: cannotCircleBeDeleted_def isUndeployable_def isDefaultCircle_def
        getTooltipMessage_def Let_def)
qed

text \<open>The new name of a circle with a percentage is shown and sent nowhere: the next answer of the
  server brings the old one back.\<close>

theorem name_of_percentage_circle_is_not_saved:
  "pc_matcherType c = Some PERCENTAGE \<Longrightarrow>
     saveCircleName i True c rules name = OnlyShown (c\<lparr>pc_name := name\<rparr>)"
  by (simp add: saveCircleName_def)

subsection \<open>Percentages\<close>

text \<open>What is left of the open sea, from the sum over the active circles.\<close>

definition limitPercentage :: "rat \<Rightarrow> rat" where
  "limitPercentage sumPercentage = (if 0 < sumPercentage then 100 - sumPercentage else 100)"

definition editingPercentageLimit :: "rat \<Rightarrow> bool \<Rightarrow> rat \<Rightarrow> rat" where
  "editingPercentageLimit limit deployed percentage =
     (if 0 < limit \<and> deployed then limit + percentage
      else if 0 < limit \<and> \<not> deployed then limit
      else percentage)"

text \<open>\<open>None\<close> is a valid value; the other result is the message.\<close>

definition validatePercentage :: "(rat \<Rightarrow> string) \<Rightarrow> rat \<Rightarrow> rat \<Rightarrow> string option" where
  "validatePercentage num v limitValue =
     (if limitValue < v then Some (''Percentage should be lower than '' @ num limitValue @ ''.'')
      else if v < 0 then Some ''Percentage cannot be negative.''
      else None)"

definition checkIfReleaseIsEnabled :: "rat \<Rightarrow> panel_circle \<Rightarrow> bool" where
  "checkIfReleaseIsEnabled sumPercentage c \<longleftrightarrow>
     \<not> (100 - sumPercentage < pc_percentage c \<and> pc_deployment c = None)"

text \<open>
  The panel keeps the active percentages within 100: a value it accepts for an active circle fits
  beside the other active circles, and a circle that is not active can only be released when it
  fits.
\<close>

theorem percentages_fit:
  fixes others :: rat and used
  defines "used \<equiv> \<lambda>c :: panel_circle. others + (if pc_deployment c \<noteq> None then pc_percentage c else 0)"
  assumes "0 \<le> others" "0 \<le> pc_percentage c" "used c \<le> 100"
  shows "\<lbrakk>pc_deployment c \<noteq> None; validatePercentage num v
      (editingPercentageLimit (limitPercentage (used c)) True (pc_percentage c)) = None\<rbrakk>
      \<Longrightarrow> 0 \<le> v \<and> used (c\<lparr>pc_percentage := v\<rparr>) \<le> 100"
    "\<lbrakk>pc_deployment c = None; checkIfReleaseIsEnabled (used c) c\<rbrakk>
      \<Longrightarrow> used (c\<lparr>pc_deployment := Some d\<rparr>) \<le> 100"
  using assms by (auto simp: validatePercentage_def editingPercentageLimit_def limitPercentage_def
      checkIfReleaseIsEnabled_def split: if_splits)

subsection \<open>Changing the kind of a segmentation\<close>

datatype segment_type = CREATE_MANUALLY | IMPORT_CSV | BY_PERCENTAGE

datatype warning_message =
    CSV_TO_MANUAL | PERCENTAGE_TO_MANUAL | MANUAL_TO_CSV | PERCENTAGE_TO_CSV
  | MANUAL_TO_PERCENTAGE | CSV_TO_PERCENTAGE

record segments_panel =
  activeSegment :: "segment_type option"
  warningMessage :: "warning_message option"
  rules_kept :: bool

datatype segment_event = ClickCreateManually | ClickImportCSV | ClickPercentage | Continue | Dismiss | CircleChanged

text \<open>The effect of the first rendering, and of a changed circle, opens the kind the circle has.\<close>

definition own_segment :: "matcher_type option \<Rightarrow> segment_type" where
  "own_segment matcher =
     (if matcher = Some REGULAR then CREATE_MANUALLY
      else if matcher = Some PERCENTAGE then BY_PERCENTAGE else IMPORT_CSV)"

definition segments_opened :: "bool \<Rightarrow> matcher_type option \<Rightarrow> segments_panel" where
  "segments_opened isEditing matcher =
     \<lparr>activeSegment = (if isEditing then Some (own_segment matcher) else None),
      warningMessage = None, rules_kept = True\<rparr>"

definition onContinue :: "segments_panel \<Rightarrow> segments_panel" where
  "onContinue s =
     (if warningMessage s \<in> {Some CSV_TO_MANUAL, Some PERCENTAGE_TO_MANUAL} then
        s\<lparr>warningMessage := None, activeSegment := Some CREATE_MANUALLY, rules_kept := False\<rparr>
      else if warningMessage s \<in> {Some MANUAL_TO_CSV, Some PERCENTAGE_TO_CSV} then
        s\<lparr>warningMessage := None, activeSegment := Some IMPORT_CSV\<rparr>
      else s\<lparr>warningMessage := None, activeSegment := Some BY_PERCENTAGE\<rparr>)"

fun segment_step :: "bool \<Rightarrow> matcher_type option \<Rightarrow> segment_event \<Rightarrow> segments_panel \<Rightarrow> segments_panel" where
  "segment_step isEditing matcher ClickCreateManually s =
     (if isEditing \<and> matcher = Some SIMPLE_KV then s\<lparr>warningMessage := Some CSV_TO_MANUAL\<rparr>
      else if isEditing \<and> matcher = Some PERCENTAGE then s\<lparr>warningMessage := Some PERCENTAGE_TO_MANUAL\<rparr>
      else s\<lparr>activeSegment := Some CREATE_MANUALLY\<rparr>)"
| "segment_step isEditing matcher ClickImportCSV s =
     (if isEditing \<and> matcher = Some REGULAR then s\<lparr>warningMessage := Some MANUAL_TO_CSV\<rparr>
      else if isEditing \<and> matcher = Some PERCENTAGE then s\<lparr>warningMessage := Some PERCENTAGE_TO_CSV\<rparr>
      else s\<lparr>activeSegment := Some IMPORT_CSV\<rparr>)"
| "segment_step isEditing matcher ClickPercentage s =
     (if isEditing \<and> matcher = Some REGULAR then s\<lparr>warningMessage := Some MANUAL_TO_PERCENTAGE\<rparr>
      else if isEditing \<and> matcher = Some SIMPLE_KV then s\<lparr>warningMessage := Some CSV_TO_PERCENTAGE\<rparr>
      else s\<lparr>activeSegment := Some BY_PERCENTAGE\<rparr>)"
| "segment_step isEditing matcher Continue s = (if warningMessage s = None then s else onContinue s)"
| "segment_step isEditing matcher Dismiss s = s\<lparr>warningMessage := None\<rparr>"
| "segment_step isEditing matcher CircleChanged s =
     (if isEditing then s\<lparr>activeSegment := Some (own_segment matcher)\<rparr> else s)"

fun warned_from :: "warning_message \<Rightarrow> matcher_type" where
  "warned_from CSV_TO_MANUAL = SIMPLE_KV" | "warned_from CSV_TO_PERCENTAGE = SIMPLE_KV"
| "warned_from PERCENTAGE_TO_MANUAL = PERCENTAGE" | "warned_from PERCENTAGE_TO_CSV = PERCENTAGE"
| "warned_from MANUAL_TO_CSV = REGULAR" | "warned_from MANUAL_TO_PERCENTAGE = REGULAR"

fun warned_to :: "warning_message \<Rightarrow> segment_type" where
  "warned_to CSV_TO_MANUAL = CREATE_MANUALLY" | "warned_to CSV_TO_PERCENTAGE = BY_PERCENTAGE"
| "warned_to PERCENTAGE_TO_MANUAL = CREATE_MANUALLY" | "warned_to PERCENTAGE_TO_CSV = IMPORT_CSV"
| "warned_to MANUAL_TO_CSV = IMPORT_CSV" | "warned_to MANUAL_TO_PERCENTAGE = BY_PERCENTAGE"

lemma warning_of_circle:
  "warningMessage (fold (segment_step True (Some k)) evs (segments_opened True (Some k))) = Some w
     \<Longrightarrow> warned_from w = k"
proof (induction evs arbitrary: w rule: rev_induct)
  case Nil
  then show ?case by (simp add: segments_opened_def)
next
  case (snoc e evs)
  then show ?case by (cases e; cases k) (auto simp: onContinue_def split: if_splits)
qed

lemma own_or_confirmed:
  assumes "warningMessage s = None \<or> (\<exists>w. warningMessage s = Some w \<and> warned_from w = k)"
    and "activeSegment (segment_step True (Some k) e s) \<noteq> activeSegment s"
  shows "activeSegment (segment_step True (Some k) e s) = Some (own_segment (Some k))
    \<or> (e = Continue \<and> (\<exists>w. warningMessage s = Some w \<and> warned_from w = k
         \<and> activeSegment (segment_step True (Some k) e s) = Some (warned_to w)))"
proof (cases e)
  case Continue
  then obtain w where w: "warningMessage s = Some w" "warned_from w = k"
    using assms by auto
  then show ?thesis using Continue by (cases w) (simp_all add: onContinue_def)
qed (use assms(2) in \<open>cases k; simp add: own_segment_def\<close>)+

text \<open>
  Whatever is clicked in the editor of an existing circle, another kind of segmentation than the
  one it has is opened only by confirming the warning of this very change.
\<close>

theorem segmentation_change_is_confirmed:
  fixes k evs
  defines "s \<equiv> fold (segment_step True (Some k)) evs (segments_opened True (Some k))"
  assumes "activeSegment (segment_step True (Some k) e s) \<noteq> activeSegment s"
  shows "activeSegment (segment_step True (Some k) e s) = Some (own_segment (Some k))
    \<or> (e = Continue \<and> (\<exists>w. warningMessage s = Some w \<and> warned_from w = k
         \<and> activeSegment (segment_step True (Some k) e s) = Some (warned_to w)))"
  using own_or_confirmed [OF _ assms(2)] warning_of_circle [of k evs] unfolding s_def
  by (metis option.exhaust)

end
