(* ===== verification/OpenSea.thy ===== *)
theory OpenSea
  imports CirclePanel
begin

text \<open>
  The percentages of the circles of a workspace (\<open>modules/Circles/Comparation/Item\<close>): what the
  panels accept, one after the other, for circles that share the open sea. Each panel asks for
  the sum of the active circles before it acts; a request the server refuses changes nothing
  and is left out of a run.
\<close>

definition is_active :: "panel_circle \<Rightarrow> bool" where
  "is_active c \<longleftrightarrow> pc_deployment c \<noteq> None"

text \<open>The answer of the server: \<open>content[0].sumPercentage\<close>.\<close>

definition sum_active :: "panel_circle list \<Rightarrow> rat" where
  "sum_active cs = sum_list (map pc_percentage (filter is_active cs))"

text \<open>The form: what is left, whether the slider is drawn, and its limit.\<close>

definition isUnable :: "bool \<Rightarrow> rat \<Rightarrow> bool" where
  "isUnable isEditing limit \<longleftrightarrow> \<not> isEditing \<and> limit = 0"

definition slider_limit :: "bool \<Rightarrow> rat \<Rightarrow> panel_circle \<Rightarrow> rat" where
  "slider_limit isEditing limit c =
     (if isEditing then editingPercentageLimit limit (is_active c) (pc_percentage c) else limit)"

definition saves_percentage :: "bool \<Rightarrow> rat \<Rightarrow> panel_circle \<Rightarrow> rat \<Rightarrow> bool" where
  "saves_percentage isEditing sumPercentage c v \<longleftrightarrow>
     (let limit = limitPercentage sumPercentage
      in \<not> isUnable isEditing limit
         \<and> validatePercentage (\<lambda>_. []) v (slider_limit isEditing limit c) = None)"

definition availableOpenSeaPercentage :: "rat \<Rightarrow> rat" where
  "availableOpenSeaPercentage sumPercentage = 100 - sumPercentage"

datatype sea_event = SaveNew panel_circle rat | SaveValue nat rat | Release nat panel_deployment
  | Undeploy nat | Delete nat

fun sea_step :: "panel_circle list \<Rightarrow> sea_event \<Rightarrow> panel_circle list" where
  "sea_step cs (SaveNew c v) =
     (if saves_percentage False (sum_active cs) c v
      then cs @ [c\<lparr>pc_percentage := v, pc_deployment := None\<rparr>] else cs)"
| "sea_step cs (SaveValue i v) =
     (if i < length cs \<and> saves_percentage True (sum_active cs) (cs ! i) v
      then cs[i := (cs ! i)\<lparr>pc_percentage := v\<rparr>] else cs)"
| "sea_step cs (Release i d) =
     (if i < length cs \<and> checkIfReleaseIsEnabled (sum_active cs) (cs ! i)
      then cs[i := (cs ! i)\<lparr>pc_deployment := Some d\<rparr>] else cs)"
| "sea_step cs (Undeploy i) =
     (if i < length cs \<and> isUndeployable (Some (cs ! i))
      then cs[i := (cs ! i)\<lparr>pc_deployment := None\<rparr>] else cs)"
| "sea_step cs (Delete i) =
     (if i < length cs \<and> \<not> is_active (cs ! i) then take i cs @ drop (Suc i) cs else cs)"

subsection \<open>The bounds\<close>

definition sea_bounds :: "panel_circle list \<Rightarrow> bool" where
  "sea_bounds cs \<longleftrightarrow> list_all (\<lambda>c. 0 \<le> pc_percentage c \<and> pc_percentage c \<le> 100) cs \<and> sum_active cs \<le> 100"

definition share :: "panel_circle \<Rightarrow> rat" where
  "share c = (if is_active c then pc_percentage c else 0)"

lemma sum_active_share: "sum_active cs = sum_list (map share cs)"
  by (induction cs) (simp_all add: sum_active_def share_def)

lemma sum_active_update:
  assumes "i < length cs"
  shows "sum_active (cs[i := c]) = sum_active cs - share (cs ! i) + share c"
  using assms unfolding sum_active_share by (induction cs arbitrary: i) (auto simp: less_Suc_eq_0_disj)

lemma sum_active_nonneg: "list_all (\<lambda>c. 0 \<le> pc_percentage c) cs \<Longrightarrow> 0 \<le> sum_active cs"
  by (induction cs) (simp_all add: sum_active_def)

lemma share_bounds:
  assumes "list_all (\<lambda>c. 0 \<le> pc_percentage c) cs" "i < length cs"
  shows "0 \<le> share (cs ! i)" "share (cs ! i) \<le> sum_active cs"
proof -
  show "0 \<le> share (cs ! i)" using assms by (simp add: share_def list_all_length)
  have "0 \<le> sum_active (cs[i := (cs ! i)\<lparr>pc_deployment := None\<rparr>])"
    using assms by (intro sum_active_nonneg) (auto simp: list_all_length nth_list_update)
  then show "share (cs ! i) \<le> sum_active cs"
    unfolding sum_active_update [OF assms(2)] by (simp add: share_def is_active_def)
qed

text \<open>The limit of an active circle is exact: it is what the other active circles leave.\<close>

lemma saves_exactly:
  assumes "0 \<le> pc_percentage c" "pc_percentage c \<le> s" "s \<le> 100" "is_active c"
  shows "saves_percentage True s c v \<longleftrightarrow> 0 \<le> v \<and> s - pc_percentage c + v \<le> 100"
  using assms by (auto simp: saves_percentage_def isUnable_def slider_limit_def validatePercentage_def
      editingPercentageLimit_def limitPercentage_def Let_def split: if_splits)

lemma saves_bounds:
  assumes "saves_percentage e s c v" "0 \<le> s" "s \<le> 100" "pc_percentage c \<le> 100" "is_active c \<Longrightarrow> pc_percentage c \<le> s"
  shows "0 \<le> v" "v \<le> 100"
  using assms by (auto simp: saves_percentage_def isUnable_def slider_limit_def validatePercentage_def
      editingPercentageLimit_def limitPercentage_def Let_def split: if_splits)

lemma sea_bounds_update:
  assumes "sea_bounds cs" "i < length cs" "0 \<le> pc_percentage c" "pc_percentage c \<le> 100"
    and "sum_active cs - share (cs ! i) + share c \<le> 100"
  shows "sea_bounds (cs[i := c])"
  using assms unfolding sea_bounds_def sum_active_update [OF assms(2)]
  by (auto simp: list_all_length nth_list_update)

lemma sea_step_bounds:
  assumes inv: "sea_bounds cs"
  shows "sea_bounds (sea_step cs e)"
proof -
  have nonneg: "list_all (\<lambda>c. 0 \<le> pc_percentage c) cs" using inv by (simp add: sea_bounds_def list_all_iff)
  note sum = sum_active_nonneg [OF nonneg] share_bounds [OF nonneg]
  have total: "sum_active cs \<le> 100" using inv by (simp add: sea_bounds_def)
  have each: "0 \<le> pc_percentage (cs ! i)" "pc_percentage (cs ! i) \<le> 100" if "i < length cs" for i
    using inv that by (simp_all add: sea_bounds_def list_all_length)
  show ?thesis
  proof (cases e)
    case (SaveNew c v)
    have "0 \<le> v \<and> v \<le> 100" if "saves_percentage False (sum_active cs) c v"
      using that sum(1) total by (auto simp: saves_percentage_def isUnable_def slider_limit_def
          validatePercentage_def limitPercentage_def Let_def split: if_splits)
    then show ?thesis using inv by (auto simp: SaveNew sea_bounds_def sum_active_def is_active_def)
  next
    case (SaveValue i v)
    show ?thesis
    proof (cases "i < length cs \<and> saves_percentage True (sum_active cs) (cs ! i) v")
      case ok: True
      then have i: "i < length cs" and saves: "saves_percentage True (sum_active cs) (cs ! i) v" by simp_all
      have own: "is_active (cs ! i) \<Longrightarrow> pc_percentage (cs ! i) \<le> sum_active cs"
        using sum(3) [OF i] by (simp add: share_def)
      have v: "0 \<le> v" "v \<le> 100"
        using saves_bounds [OF saves sum(1) total each(2) [OF i] own] by simp_all
      have "sum_active cs - share (cs ! i) + share ((cs ! i)\<lparr>pc_percentage := v\<rparr>) \<le> 100"
        using saves saves_exactly [OF each(1) [OF i] own total] total
        by (cases "is_active (cs ! i)") (simp_all add: share_def is_active_def)
      with sea_bounds_update [OF inv i] v show ?thesis by (simp add: SaveValue i saves)
    qed (auto simp: SaveValue inv)
  next
    case (Release i d)
    show ?thesis
    proof (cases "i < length cs \<and> checkIfReleaseIsEnabled (sum_active cs) (cs ! i)")
      case ok: True
      then have i: "i < length cs" by simp
      have "sum_active cs - share (cs ! i) + share ((cs ! i)\<lparr>pc_deployment := Some d\<rparr>) \<le> 100"
        using ok total by (cases "is_active (cs ! i)")
          (simp_all add: share_def is_active_def checkIfReleaseIsEnabled_def)
      with sea_bounds_update [OF inv i, of "(cs ! i)\<lparr>pc_deployment := Some d\<rparr>"] each [OF i] show ?thesis
        using ok by (simp add: Release)
    qed (auto simp: Release inv)
  next
    case (Undeploy i)
    show ?thesis
    proof (cases "i < length cs \<and> isUndeployable (Some (cs ! i))")
      case ok: True
      then have i: "i < length cs" by simp
      have "sum_active cs - share (cs ! i) + share ((cs ! i)\<lparr>pc_deployment := None\<rparr>) \<le> 100"
        using sum(2) [OF i] total by (simp add: share_def is_active_def)
      with sea_bounds_update [OF inv i, of "(cs ! i)\<lparr>pc_deployment := None\<rparr>"] each [OF i] show ?thesis
        using ok by (simp add: Undeploy)
    qed (auto simp: Undeploy inv)
  next
    case (Delete i)
    show ?thesis
    proof (cases "i < length cs \<and> \<not> is_active (cs ! i)")
      case True
      then have cs: "cs = take i cs @ cs ! i # drop (Suc i) cs" by (simp add: id_take_nth_drop)
      have "sum_active cs = sum_active (take i cs @ drop (Suc i) cs)"
        by (subst cs) (use True in \<open>simp add: sum_active_def\<close>)
      moreover have "list_all P cs \<Longrightarrow> list_all P (take i cs @ drop (Suc i) cs)" for P
        by (subst (asm) cs) simp
      ultimately show ?thesis using inv True by (simp add: Delete sea_bounds_def)
    qed (auto simp: Delete inv)
  qed
qed


text \<open>Two circles of 60 and 40 percent: released they fill the sea, and a third one is not saved.\<close>

definition ex_sea :: "sea_event list" where
  "ex_sea = [SaveNew ex_busy_circle 60, SaveNew ex_busy_circle 40, Release 0 \<lparr>pd_id = None, pd_status = DEPLOYED\<rparr>,
     Release 1 \<lparr>pd_id = None, pd_status = DEPLOYED\<rparr>, SaveNew ex_busy_circle 1, SaveValue 0 61]"


end
