(* ===== verification/Widgets.thy ===== *)
theory Widgets
  imports Commands Queries
begin

text \<open>
  Small machines of the front end: the list with a box for all options
  (\<open>core/components/Form/Select/MultiCheck\<close>), the editor for JSON (\<open>core/components/Editor\<close>), the
  list that loads page after page (\<open>core/hooks/useInfiniteScroll.ts\<close>), the members of a user
  group (\<open>modules/Groups/Tabs\<close>) and the wizard of the settings (\<open>core/utils/config.ts\<close>,
  \<open>modules/Settings/helpers.ts\<close>).
\<close>

subsection \<open>A list with a box for all\<close>

text \<open>An option is named by its value, and \<open>*\<close> is the value of \<open>allOption\<close>.\<close>

definition allOption :: string where "allOption = ''*''"

definition handleChange :: "string list \<Rightarrow> string \<Rightarrow> string list \<Rightarrow> string list" where
  "handleChange selected action options =
     (if selected \<noteq> [] then
        if last selected = allOption then allOption # options
        else if length selected = length options then
          (if allOption \<in> set selected then filter (\<lambda>x. x \<noteq> allOption) selected
           else if action = ''select-option'' then allOption # options else [])
        else selected
      else selected)"

text \<open>What the library of the list hands on: a click adds an option or takes it away, the
  backspace key takes away the last one.\<close>

datatype check_event = Clicked string | Backspace

fun check_step :: "string list \<Rightarrow> check_event \<Rightarrow> string list \<Rightarrow> string list" where
  "check_step options (Clicked x) selected =
     (if x \<in> set selected then handleChange (filter (\<lambda>y. y \<noteq> x) selected) ''deselect-option'' options
      else handleChange (selected @ [x]) ''select-option'' options)"
| "check_step options Backspace selected =
     (if selected = [] then selected else handleChange (butlast selected) ''pop-value'' options)"

definition check_offered :: "string list \<Rightarrow> check_event \<Rightarrow> bool" where
  "check_offered options e \<longleftrightarrow> (case e of Clicked x \<Rightarrow> x \<in> set (allOption # options) | Backspace \<Rightarrow> True)"

text \<open>Either all is checked, or some options but not all of them.\<close>

definition checked_well :: "string list \<Rightarrow> string list \<Rightarrow> bool" where
  "checked_well options selected \<longleftrightarrow>
     selected = allOption # options
     \<or> allOption \<notin> set selected \<and> distinct selected \<and> set selected \<subset> set options"

definition good_options :: "string list \<Rightarrow> bool" where
  "good_options options \<longleftrightarrow> distinct options \<and> allOption \<notin> set options \<and> 2 \<le> length options"

lemma fewer_checked:
  assumes "distinct options" "distinct selected" "set selected \<subset> set options"
  shows "length selected < length options"
  using psubset_card_mono [OF finite_set assms(3)] assms(1,2) by (simp add: distinct_card)

lemma last_not_all: "\<lbrakk>allOption \<notin> set xs; xs \<noteq> []\<rbrakk> \<Longrightarrow> last xs \<noteq> allOption"
  by (metis last_in_set)

lemma partial_kept:
  assumes "allOption \<notin> set selected" "length selected < length options"
  shows "handleChange selected action options = selected"
  using assms last_not_all [of selected] by (simp add: handleChange_def)

lemma one_left_out:
  assumes "allOption \<notin> set xs" "xs \<noteq> []" "Suc (length xs) = length options"
  shows "handleChange (allOption # xs) action options = xs"
proof -
  have "filter (\<lambda>x. x \<noteq> allOption) xs = xs" using assms(1) by (auto simp: filter_id_conv)
  then show ?thesis using assms last_not_all [of xs] by (simp add: handleChange_def)
qed

lemma without_one:
  assumes "distinct options" "x \<in> set options"
  shows "Suc (length (filter (\<lambda>y. y \<noteq> x) options)) = length options"
proof -
  obtain as bs where s: "options = as @ x # bs" using assms(2) by (auto simp: in_set_conv_decomp)
  then have "filter (\<lambda>y. y \<noteq> x) as = as" "filter (\<lambda>y. y \<noteq> x) bs = bs"
    using assms(1) by (auto simp: filter_id_conv)
  with s show ?thesis by simp
qed

lemma full_clicked:
  assumes "good_options options" "x \<in> set (allOption # options)"
  shows "checked_well options (check_step options (Clicked x) (allOption # options))"
proof (cases "x = allOption")
  case True
  have "filter (\<lambda>y. y \<noteq> allOption) options = options"
    using assms(1) by (auto simp: good_options_def filter_id_conv)
  moreover have o: "options \<noteq> []" using assms(1) by (auto simp: good_options_def)
  moreover have "last options \<noteq> allOption"
    using assms(1) o by (intro last_not_all) (simp_all add: good_options_def)
  ultimately show ?thesis
    using assms(1) True by (auto simp: handleChange_def checked_well_def good_options_def)
next
  case False
  let ?xs = "filter (\<lambda>y. y \<noteq> x) options"
  have x: "x \<in> set options" using False assms(2) by simp
  have len: "Suc (length ?xs) = length options"
    using assms(1) x by (intro without_one) (simp add: good_options_def)
  then have "?xs \<noteq> []" using assms(1) by (auto simp: good_options_def)
  then have "check_step options (Clicked x) (allOption # options) = ?xs"
    using one_left_out [of ?xs options] len assms False by (auto simp: good_options_def)
  moreover have "set ?xs \<subset> set options" using x by auto
  ultimately show ?thesis
    using assms(1) by (simp add: checked_well_def good_options_def)
qed

lemma partial_clicked:
  assumes g: "good_options options" and sel: "allOption \<notin> set selected" "distinct selected" "set selected \<subset> set options"
    and x: "x \<in> set (allOption # options)"
  shows "checked_well options (check_step options (Clicked x) selected)"
proof -
  have len: "length selected < length options"
    using fewer_checked [of options selected] g sel by (simp add: good_options_def)
  consider "x = allOption" | "x \<in> set selected" | "x \<noteq> allOption" "x \<notin> set selected" "x \<in> set options"
    using x by auto
  then show ?thesis
  proof cases
    case 1
    then show ?thesis using sel(1) by (simp add: handleChange_def checked_well_def)
  next
    case 2
    let ?s = "filter (\<lambda>y. y \<noteq> x) selected"
    have "length ?s < length options" using len length_filter_le [of "\<lambda>y. y \<noteq> x" selected] by linarith
    then show ?thesis
      using 2 sel partial_kept [of ?s options] by (auto simp: checked_well_def)
  next
    case 3
    then have d: "distinct (selected @ [x])" "set (selected @ [x]) \<subseteq> set options" using sel by auto
    show ?thesis
    proof (cases "length (selected @ [x]) = length options")
      case True
      then show ?thesis using 3 sel(1) by (simp add: handleChange_def checked_well_def)
    next
      case False
      with len have less: "length (selected @ [x]) < length options" by simp
      have "card (set (selected @ [x])) < card (set options)"
        using less distinct_card [OF d(1)] distinct_card [of options] g by (simp only: good_options_def)
      then have "set (selected @ [x]) \<subset> set options" using d(2) by (metis nat_neq_iff psubsetI)
      moreover have "check_step options (Clicked x) selected = selected @ [x]"
        using 3 sel(1) partial_kept [OF _ less] by simp
      ultimately show ?thesis
        using d(1) 3(1) sel(1) unfolding checked_well_def by (intro disjI2) simp
    qed
  qed
qed

lemma full_backspace:
  assumes g: "good_options options"
  shows "checked_well options (check_step options Backspace (allOption # options))"
proof -
  let ?xs = "butlast options" and ?x = "last options"
  have ne: "options \<noteq> []" using g by (auto simp: good_options_def)
  then have o: "options = ?xs @ [?x]" by simp
  have len: "Suc (length ?xs) = length options" using ne by simp
  have "?xs \<noteq> []" using g len by (metis One_nat_def Suc_n_not_le_n good_options_def list.size(3) numeral_2_eq_2)
  moreover have "allOption \<notin> set ?xs" using g by (auto simp: good_options_def dest: in_set_butlastD)
  ultimately have "handleChange (allOption # ?xs) ''pop-value'' options = ?xs"
    using len by (intro one_left_out)
  then have "check_step options Backspace (allOption # options) = ?xs" using ne by simp
  moreover have "?x \<notin> set ?xs"
  proof -
    have "distinct (?xs @ [?x])" using g by (simp only: append_butlast_last_id [OF ne] good_options_def)
    then show ?thesis by (simp only: distinct_append) simp
  qed
  moreover have "?x \<in> set options" using ne by simp
  ultimately show ?thesis
    using g by (auto simp: checked_well_def good_options_def distinct_butlast dest: in_set_butlastD)
qed

lemma checked_step:
  assumes g: "good_options options" and w: "checked_well options selected" and e: "check_offered options e"
  shows "checked_well options (check_step options e selected)"
proof (cases "selected = allOption # options")
  case True
  then show ?thesis
    using e full_clicked [OF g] full_backspace [OF g]
    by (cases e) (simp_all only: check_offered_def check_event.case)
next
  case False
  then have part: "allOption \<notin> set selected" "distinct selected" "set selected \<subset> set options"
    using w by (simp_all add: checked_well_def)
  show ?thesis
  proof (cases e)
    case (Clicked x)
    then show ?thesis
      using partial_clicked [OF g part] e by (simp only: check_offered_def check_event.case)
  next
    case Backspace
    have "length selected < length options"
      using fewer_checked [of options selected] g part by (simp add: good_options_def)
    then have "handleChange (butlast selected) ''pop-value'' options = butlast selected"
      using part(1) by (intro partial_kept) (auto dest: in_set_butlastD)
    then show ?thesis
      using part Backspace by (auto simp: checked_well_def distinct_butlast dest: in_set_butlastD)
  qed
qed

text \<open>
  In a list with two options or more the box for all is checked exactly when all of them are,
  whatever is clicked.
\<close>

theorem all_checked_iff_each:
  assumes "good_options options" "list_all (check_offered options) evs"
  shows "allOption \<in> set (fold (check_step options) evs [])
    \<longleftrightarrow> set options \<subseteq> set (fold (check_step options) evs [])"
proof -
  have "checked_well options selected \<Longrightarrow> checked_well options (fold (check_step options) evs selected)" for selected
    using assms(2) by (induction evs arbitrary: selected) (simp_all add: checked_step [OF assms(1)])
  moreover have "checked_well options []"
    using assms(1) by (cases options) (auto simp: checked_well_def good_options_def)
  ultimately have "checked_well options (fold (check_step options) evs [])" by blast
  then show ?thesis by (auto simp: checked_well_def)
qed

text \<open>With a single option neither it nor all can be unchecked by a click on the option.\<close>

theorem single_option_stays_checked:
  "x \<noteq> allOption \<Longrightarrow> check_step [x] (Clicked x) [allOption, x] = [allOption, x]"
  by (simp add: handleChange_def)

subsection \<open>Page after page\<close>

text \<open>What the observer of the loader reports, and what the hook remembers.\<close>

record entry =
  isIntersecting :: bool
  intersectionRatio :: rat
  entry_y :: rat

record scroller =
  sc_page :: nat
  previousY :: rat
  previousRatio :: rat
  loaded_pages :: "nat list"

definition observe :: "entry \<Rightarrow> scroller \<Rightarrow> scroller" where
  "observe e s =
     (let s1 = (if isIntersecting e \<and> previousRatio s \<le> intersectionRatio e
                   \<and> (previousY s = 0 \<or> entry_y e < previousY s)
                then s\<lparr>sc_page := Suc (sc_page s), loaded_pages := loaded_pages s @ [Suc (sc_page s)]\<rparr>
                else s)
      in s1\<lparr>previousY := entry_y e, previousRatio := intersectionRatio e\<rparr>)"

text \<open>An empty list starts again from the first page.\<close>

definition resetPage :: "scroller \<Rightarrow> scroller" where
  "resetPage s = s\<lparr>sc_page := 0, loaded_pages := []\<rparr>"

text \<open>The pages asked for since the list was empty are 1, 2, 3, ..., each once.\<close>

theorem pages_are_consecutive:
  assumes "loaded_pages s = [1..<Suc (sc_page s)]"
  shows "loaded_pages (fold (\<lambda>e. case e of None \<Rightarrow> resetPage | Some x \<Rightarrow> observe x) es s)
    = [1..<Suc (sc_page (fold (\<lambda>e. case e of None \<Rightarrow> resetPage | Some x \<Rightarrow> observe x) es s))]"
  using assms
proof (induction es arbitrary: s)
  case (Cons e es)
  show ?case
    using Cons.prems by (cases e) (simp_all add: Cons.IH resetPage_def observe_def Let_def)
qed simp

subsection \<open>The members of a group\<close>

record group_user =
  gu_id :: string
  gu_name :: string
  gu_email :: "string option"

text \<open>A user without an e-mail address is always found: \<open>undefined !== -1\<close>.\<close>

definition filterSelectedUsers :: "(string \<Rightarrow> string) \<Rightarrow> string \<Rightarrow> (group_user \<times> bool) list \<Rightarrow> (group_user \<times> bool) list" where
  "filterSelectedUsers lower search =
     filter (\<lambda>(u, checked). case gu_email u of None \<Rightarrow> True | Some e \<Rightarrow> contains_text (lower e) (lower search))"

definition getNotIncludedUsers ::
  "(string \<Rightarrow> string) \<Rightarrow> string \<Rightarrow> (group_user \<times> bool) list \<Rightarrow> (group_user \<times> bool) list \<Rightarrow> (group_user \<times> bool) list" where
  "getNotIncludedUsers lower search selectedUsers filteredUsers =
     (let filteredSelectedUsers = filterSelectedUsers lower search selectedUsers
      in filter (\<lambda>noMember. \<not> list_ex (\<lambda>member. gu_name (fst noMember) = gu_name (fst member)) filteredSelectedUsers)
           filteredUsers)"

definition diffCheckedUsers ::
  "(string \<Rightarrow> string) \<Rightarrow> string \<Rightarrow> group_user list \<Rightarrow> group_user list \<Rightarrow> (group_user \<times> bool) list" where
  "diffCheckedUsers lower search selectedUsers filteredUsers =
     (let filteredSelectedUsers = filterSelectedUsers lower search (map (\<lambda>u. (u, True)) selectedUsers)
      in filteredSelectedUsers
         @ getNotIncludedUsers lower search filteredSelectedUsers (map (\<lambda>u. (u, False)) filteredUsers))"

definition matches_search :: "(string \<Rightarrow> string) \<Rightarrow> string \<Rightarrow> group_user \<Rightarrow> bool" where
  "matches_search lower search u \<longleftrightarrow>
     (case gu_email u of None \<Rightarrow> True | Some e \<Rightarrow> contains_text (lower e) (lower search))"

lemma diffCheckedUsers_lists:
  "diffCheckedUsers lower search members found =
     map (\<lambda>u. (u, True)) (filter (matches_search lower search) members)
     @ map (\<lambda>u. (u, False)) (filter (\<lambda>u. \<forall>m \<in> set members. matches_search lower search m \<longrightarrow> gu_name u \<noteq> gu_name m) found)"
proof -
  have f: "filterSelectedUsers lower search (map (\<lambda>u. (u, c)) us)
      = map (\<lambda>u. (u, c)) (filter (matches_search lower search) us)" for us c
    by (induction us) (simp_all add: filterSelectedUsers_def matches_search_def)
  show ?thesis
    by (simp add: diffCheckedUsers_def getNotIncludedUsers_def Let_def f filter_map comp_def list_ex_iff)
      (simp add: filterSelectedUsers_def matches_search_def filter_map comp_def Ball_def imp_conjL)
qed

text \<open>When no two users have the same name: the members that match are checked, the others that were
  found are not.\<close>

theorem members_are_checked:
  assumes "inj_on gu_name (set members \<union> set found)"
  shows "set (diffCheckedUsers lower search members found)
    = {(u, True) | u. u \<in> set members \<and> matches_search lower search u}
      \<union> {(u, False) | u. u \<in> set found \<and> \<not> (u \<in> set members \<and> matches_search lower search u)}"
proof -
  have "u \<in> set members \<and> matches_search lower search u
      \<longleftrightarrow> (\<exists>m \<in> set members. matches_search lower search m \<and> gu_name u = gu_name m)"
    if "u \<in> set found" for u
    using inj_onD [OF assms, of u] that by auto
  then have "{u \<in> set found. \<forall>m \<in> set members. matches_search lower search m \<longrightarrow> gu_name u \<noteq> gu_name m}
      = {u \<in> set found. \<not> (u \<in> set members \<and> matches_search lower search u)}" by blast
  then show ?thesis unfolding diffCheckedUsers_lists set_append set_map set_filter by (simp only:) blast
qed

text \<open>A user with the name of a member cannot be added: the list leaves them out.\<close>

theorem namesake_is_left_out:
  assumes "m \<in> set members" "matches_search lower search m" "gu_name u = gu_name m" "u \<notin> set members"
  shows "u \<notin> fst ` set (diffCheckedUsers lower search members found)"
  using assms unfolding diffCheckedUsers_lists by auto

subsection \<open>The wizard\<close>

definition getConfig :: "page \<Rightarrow> browser \<Rightarrow> json_value" where
  "getConfig p b =
     (case Option.bind (atob p (or_null (localStorage b ''config''))) (json_read p) of
        None \<Rightarrow> Obj [] | Some v \<Rightarrow> v)"

definition getConfigByKey :: "page \<Rightarrow> string \<Rightarrow> browser \<Rightarrow> json_value" where
  "getConfigByKey p key b = maybe_member key (getConfig p b)"

definition setConfig :: "page \<Rightarrow> string \<Rightarrow> json_value \<Rightarrow> browser \<Rightarrow> browser option" where
  "setConfig p key v b =
     (let config = (case getConfig p b of Obj ps \<Rightarrow> ps | _ \<Rightarrow> [])
      in map_option (\<lambda>t. setItem ''config'' t b) (btoa p (json_text p (Obj (AList.update key v config)))))"

definition items_of :: "json_value \<Rightarrow> json_value list" where
  "items_of v = (case v of Arr xs \<Rightarrow> xs | _ \<Rightarrow> [])"

text \<open>\<open>None\<close> is the exception of \<open>btoa\<close> or of a profile that is not there.\<close>

definition wizard_key :: "page \<Rightarrow> browser \<Rightarrow> json_value option" where
  "wizard_key p b = map_option Str (Option.bind (getProfileByKey p ''email'' b) (\<lambda>e. btoa p (to_text e)))"

definition getWizardByUser :: "page \<Rightarrow> browser \<Rightarrow> json_value option" where
  "getWizardByUser p b =
     (let wizard = items_of (getConfigByKey p ''wizard'' b)
      in if wizard = [] then Some (Obj [(''enabled'', Bool True)])
         else map_option (\<lambda>key. case List.find (\<lambda>i. maybe_member ''email'' i = key) wizard of
             None \<Rightarrow> Obj [(''enabled'', Bool True)] | Some i \<Rightarrow> i) (wizard_key p b))"

definition removeWizard :: "page \<Rightarrow> browser \<Rightarrow> browser option" where
  "removeWizard p b = Option.bind (wizard_key p b) (\<lambda>key. setConfig p ''wizard''
     (Arr (filter (\<lambda>i. \<not> truthy_value (maybe_member ''enabled'' i) \<and> maybe_member ''mail'' i \<noteq> key)
       (items_of (getConfigByKey p ''wizard'' b)))) b)"

definition setWizard :: "page \<Rightarrow> bool \<Rightarrow> browser \<Rightarrow> browser option" where
  "setWizard p enabled b = Option.bind (getWizardByUser p b) (\<lambda>own. Option.bind (wizard_key p b) (\<lambda>key.
     (let wizard = items_of (getConfigByKey p ''wizard'' b)
      in setConfig p ''wizard'' (Arr
           (if maybe_member ''email'' own \<notin> {Undefined, Null, Str []} then
              map (\<lambda>i. if maybe_member ''email'' i = key
                       then (case i of Obj ps \<Rightarrow> Obj (AList.update ''enabled'' (Bool enabled) ps) | _ \<Rightarrow> i) else i) wizard
            else wizard @ [Obj [(''email'', key), (''enabled'', Bool enabled)]])) b)))"

definition config_law :: "page \<Rightarrow> bool" where
  "config_law p \<longleftrightarrow> base64_law p \<and> (\<forall>ps. json_read p (json_text p (Obj ps)) = Some (Obj ps))"

lemma setConfig_read:
  assumes "config_law p" "setConfig p key v b = Some b'"
  shows "getConfigByKey p key b' = v" "getProfileByKey p k b' = getProfileByKey p k b"
  using assms
  by (auto simp: config_law_def base64_law_def setConfig_def getConfigByKey_def getConfig_def Let_def
      setItem_def or_null_def maybe_member_def update_conv' getProfileByKey_def getProfile_def profileKey_def)

definition enabled_now :: "bool \<Rightarrow> json_value \<Rightarrow> json_value" where
  "enabled_now e i = (case i of Obj ps \<Rightarrow> Obj (AList.update ''enabled'' (Bool e) ps) | _ \<Rightarrow> i)"

lemma enabled_now_member:
  "maybe_member ''email'' (enabled_now e i) = maybe_member ''email'' i"
  "maybe_member ''email'' i = Str x \<Longrightarrow> maybe_member ''enabled'' (enabled_now e i) = Bool e"
  by (cases i; auto simp: enabled_now_def maybe_member_def update_conv')+

lemma find_enabled_now:
  assumes "key = Str x" "\<exists>i \<in> set xs. maybe_member ''email'' i = key"
  shows "\<exists>i. List.find (\<lambda>i. maybe_member ''email'' i = key)
      (map (\<lambda>i. if maybe_member ''email'' i = key then enabled_now e i else i) xs) = Some i
    \<and> maybe_member ''enabled'' i = Bool e"
  using assms by (induction xs) (auto simp: enabled_now_member)

lemma find_appended:
  "\<forall>i \<in> set xs. \<not> P i \<Longrightarrow> P y \<Longrightarrow> List.find P (xs @ [y]) = Some y"
  by (induction xs) auto

text \<open>Each user reads back what they answered.\<close>

theorem wizard_is_remembered:
  assumes law: "config_law p" and key: "wizard_key p b = Some (Str x)" "x \<noteq> []"
    and set: "setWizard p e b = Some b'"
  shows "\<exists>i. getWizardByUser p b' = Some i \<and> maybe_member ''enabled'' i = Bool e"
proof -
  let ?w = "items_of (getConfigByKey p ''wizard'' b)" and ?mine = "\<lambda>i. maybe_member ''email'' i = Str x"
  obtain own where own: "getWizardByUser p b = Some own" using set by (auto simp: setWizard_def bind_eq_Some_conv)
  define new where "new = (if maybe_member ''email'' own \<notin> {Undefined, Null, Str []}
      then map (\<lambda>i. if ?mine i then enabled_now e i else i) ?w
      else ?w @ [Obj [(''email'', Str x), (''enabled'', Bool e)]])"
  have stored: "setConfig p ''wizard'' (Arr new) b = Some b'"
    using set own key by (simp add: setWizard_def new_def enabled_now_def Let_def cong: map_cong if_cong)
  have after: "getConfigByKey p ''wizard'' b' = Arr new" "wizard_key p b' = Some (Str x)"
    using setConfig_read [OF law stored] key by (simp_all add: wizard_key_def)
  have default: "maybe_member ''email'' (Obj [(''enabled'', Bool True)]) = Undefined"
    by (simp add: maybe_member_def)
  have mine: "(\<exists>i \<in> set ?w. ?mine i) \<longleftrightarrow> maybe_member ''email'' own \<notin> {Undefined, Null, Str []}"
  proof (cases "List.find ?mine ?w")
    case None
    then have "own = Obj [(''enabled'', Bool True)]"
      using own key by (auto simp: getWizardByUser_def Let_def split: if_splits)
    with None default show ?thesis by (auto simp: find_None_iff)
  next
    case (Some i)
    then have i: "i \<in> set ?w" "?mine i" by (auto simp: find_Some_iff in_set_conv_nth)
    then have "own = i"
      using Some own key by (auto simp: getWizardByUser_def Let_def split: if_splits)
    with i key(2) show ?thesis by auto
  qed
  have "\<exists>i. List.find ?mine new = Some i \<and> maybe_member ''enabled'' i = Bool e"
  proof (cases "maybe_member ''email'' own \<notin> {Undefined, Null, Str []}")
    case True
    then show ?thesis
      using find_enabled_now [of "Str x" x ?w e] mine unfolding new_def if_P [OF True] by blast
  next
    case False
    have "List.find ?mine (?w @ [Obj [(''email'', Str x), (''enabled'', Bool e)]])
        = Some (Obj [(''email'', Str x), (''enabled'', Bool e)])"
      using mine False by (intro find_appended) (auto simp: maybe_member_def)
    with False show ?thesis unfolding new_def if_not_P [OF False] by (simp add: maybe_member_def)
  qed
  moreover from this have "new \<noteq> []" by auto
  ultimately show ?thesis
    using after by (auto simp: getWizardByUser_def items_of_def)
qed

text \<open>The filter of \<open>removeWizard\<close> looks at a field \<open>mail\<close> that no item has: it takes away the items
  of all users whose wizard is on, and never the own one that is off.\<close>

theorem removeWizard_misses_the_user:
  assumes "config_law p" "wizard_key p b = Some (Str x)" "removeWizard p b = Some b'"
    and "\<forall>i \<in> set (items_of (getConfigByKey p ''wizard'' b)). maybe_member ''mail'' i = Undefined"
  shows "getConfigByKey p ''wizard'' b' =
    Arr (filter (\<lambda>i. \<not> truthy_value (maybe_member ''enabled'' i)) (items_of (getConfigByKey p ''wizard'' b)))"
proof -
  have "filter (\<lambda>i. \<not> truthy_value (maybe_member ''enabled'' i) \<and> maybe_member ''mail'' i \<noteq> Str x)
      (items_of (getConfigByKey p ''wizard'' b))
    = filter (\<lambda>i. \<not> truthy_value (maybe_member ''enabled'' i)) (items_of (getConfigByKey p ''wizard'' b))"
    using assms(4) by (intro filter_cong) auto
  then show ?thesis
    using setConfig_read(1) [OF assms(1)] assms(2,3) by (simp add: removeWizard_def)
qed

subsection \<open>The editor for JSON\<close>

text \<open>A text area: its value, the text of the element, and the selection, which the browser keeps
  within the value.\<close>

record text_area =
  ta_value :: string
  ta_content :: string
  selectionStart :: nat
  selectionEnd :: nat

definition TAB :: string where "TAB = ''  ''"

definition line_break :: string where "line_break = [CHR 0x0A]"

definition insertValue :: "string \<Rightarrow> nat \<Rightarrow> text_area \<Rightarrow> text_area" where
  "insertValue v caretPosition t =
     (let new = take (selectionStart t) (ta_value t) @ v @ drop (selectionEnd t) (ta_value t);
          caret = min (selectionEnd t + caretPosition) (length new)
      in t\<lparr>ta_value := new, selectionStart := caret, selectionEnd := caret\<rparr>)"

definition getLastTabs :: "text_area \<Rightarrow> string" where
  "getLastTabs t =
     filter (\<lambda>c. c \<noteq> CHR ''{'' \<and> c \<noteq> CHR ''['')
       (hd (split_char CHR 0x22 (last (split_char CHR 0x0A (take (selectionEnd t) (ta_value t))))))"

definition onPressTab :: "text_area \<Rightarrow> text_area" where
  "onPressTab = insertValue TAB (length TAB)"

definition onPressEnter :: "text_area \<Rightarrow> text_area" where
  "onPressEnter t =
     (let lastChar = take 1 (drop (selectionStart t - 1) (take (selectionStart t) (ta_content t)))
      in if lastChar \<in> {''{'', ''[''} then
           (let lastTabs = getLastTabs t; tabs = lastTabs @ TAB; insertion = line_break @ tabs;
                complete = (if lastTabs = [] then line_break else tabs @ line_break @ lastTabs)
            in insertValue (insertion @ complete) (length insertion) t)
         else if lastChar = '','' then
           (let insertion = line_break @ getLastTabs t in insertValue insertion (length insertion) t)
         else insertValue line_break 1 t)"

definition handleKeyDown :: "string \<Rightarrow> text_area \<Rightarrow> text_area" where
  "handleKeyDown k t = (if k = ''Tab'' then onPressTab t else if k = ''Enter'' then onPressEnter t else t)"

text \<open>
  What is inserted takes the place of the selection. The caret is put where it belongs when nothing
  is selected, and too far by the length of the selection otherwise.
\<close>

theorem caret_after_insertion:
  assumes "ta_value t = before @ sel @ rest" "selectionStart t = length before"
    "selectionEnd t = length before + length sel" "n \<le> length v"
  shows "ta_value (insertValue v n t) = before @ v @ rest"
    "sel = [] \<Longrightarrow> selectionStart (insertValue v n t) = length before + n"
    "length sel \<le> length rest \<Longrightarrow> selectionStart (insertValue v n t) = length before + n + length sel"
  using assms by (simp_all add: insertValue_def Let_def)

text \<open>Enter after an opening brace at the start of a line puts the caret on an indented line of its
  own, before the closing brace.\<close>

theorem enter_opens_a_block:
  assumes "ta_value t = before @ ''{'' @ rest" "ta_content t = ta_value t"
    "selectionStart t = Suc (length before)" "selectionEnd t = selectionStart t"
    "before = [] \<or> last before = CHR 0x0A"
  shows "ta_value (onPressEnter t) = before @ ''{'' @ line_break @ TAB @ line_break @ rest"
    "selectionStart (onPressEnter t) = length before + 4"
proof -
  have "last (split_char CHR 0x0A (before @ ''{'')) = ''{''"
  proof (cases before rule: rev_cases)
    case (snoc ys y)
    then show ?thesis using assms(5) split_char_append_last [of "CHR 0x0A" "''{''" ys] by simp
  qed simp
  then have tabs: "getLastTabs t = []" using assms by (simp add: getLastTabs_def)
  then show "ta_value (onPressEnter t) = before @ ''{'' @ line_break @ TAB @ line_break @ rest"
    "selectionStart (onPressEnter t) = length before + 4"
    using assms by (simp_all add: onPressEnter_def insertValue_def Let_def line_break_def TAB_def)
qed

end
