(* ===== verification/MetricPanels.thy ===== *)
theory MetricPanels
  imports Widgets
begin

text \<open>
  The metrics of a circle (\<open>modules/Circles/Comparation/Item/MetricsGroups\<close>) and of a workspace
  (\<open>modules/Metrics\<close>): the series of a chart and their filter, the requests the forms send, and
  the panel that shows one group (\<open>MetricsGroupCard\<close>, \<open>MonitoringMetrics\<close>) over the answers of the
  metrics server. A number is a rational.
\<close>

subsection \<open>Options and payloads\<close>

record select_option =
  so_value :: string
  so_label :: string

definition conditionOptions :: "select_option list" where
  "conditionOptions = [\<lparr>so_value = ''EQUAL'', so_label = ''Equal''\<rparr>,
     \<lparr>so_value = ''GREATER_THAN'', so_label = ''Greater than''\<rparr>,
     \<lparr>so_value = ''LOWER_THAN'', so_label = ''Lower than''\<rparr>]"

definition operatorsOptions :: "select_option list" where
  "operatorsOptions = [\<lparr>so_value = ''='', so_label = ''Equal''\<rparr>,
     \<lparr>so_value = ''!='', so_label = ''Different''\<rparr>, \<lparr>so_value = ''!~'', so_label = ''Regex''\<rparr>]"

definition getSelectDefaultValue :: "string \<Rightarrow> select_option list \<Rightarrow> select_option option" where
  "getSelectDefaultValue i options = find (\<lambda>x. so_value x = i) options"

definition getCondition_option :: "string \<Rightarrow> select_option option" where
  "getCondition_option condition = find (\<lambda>x. condition = so_value x) conditionOptions"

definition getOperator :: "string \<Rightarrow> select_option option" where
  "getOperator operator = find (\<lambda>x. operator = so_value x) operatorsOptions"

definition normalizeMetricOptions :: "string list \<Rightarrow> select_option list" where
  "normalizeMetricOptions = map (\<lambda>item. \<lparr>so_value = item, so_label = item\<rparr>)"

record threshold_status =
  ts_icon :: string
  ts_color :: string
  ts_message :: string
  ResumeMessage :: string

definition getThresholdStatus :: "string \<Rightarrow> threshold_status" where
  "getThresholdStatus st =
     (if st = ''REACHED'' then
        \<lparr>ts_icon = ''bell'', ts_color = ''reached'', ts_message = ''This metric has reached its goal.'',
         ResumeMessage = ''This metrics group has reached its goal.''\<rparr>
      else if st = ''ERROR'' then
        \<lparr>ts_icon = ''error'', ts_color = ''error'', ts_message = ''An error occurred in this metric.'',
         ResumeMessage = ''There is at least one error in your metrics group.''\<rparr>
      else
        \<lparr>ts_icon = ''bell'', ts_color = ''active'', ts_message = ''This metric has not yet reached its goal.'',
         ResumeMessage = ''This metrics group has not yet reached its goal.''\<rparr>)"

record action_form =
  af_nickname :: string
  af_actionId :: string
  af_circleId :: "string option"

record promotion =
  destinationCircleId :: "string option"
  originCircleId :: string
  promotion_workspace :: string

record action_payload =
  ap_metricsGroupId :: string
  ap_actionId :: string
  ap_nickname :: string
  executionParameters :: promotion

definition createCirclePromotionPayload :: "string \<Rightarrow> action_form \<Rightarrow> string \<Rightarrow> promotion" where
  "createCirclePromotionPayload workspace_id data cid =
     \<lparr>destinationCircleId = af_circleId data, originCircleId = cid, promotion_workspace = workspace_id\<rparr>"

text \<open>\<open>None\<close> when the type of the action has no payload: the call of \<open>undefined\<close> throws.\<close>

definition createActionPayload :: "string \<Rightarrow> action_form \<Rightarrow> string \<Rightarrow> string \<Rightarrow> string \<Rightarrow> action_payload option" where
  "createActionPayload workspace_id data group_id cid selectedAction =
     map_option (\<lambda>payload. \<lparr>ap_metricsGroupId = group_id, ap_actionId = af_actionId data,
         ap_nickname = af_nickname data, executionParameters = payload\<rparr>)
       (map_of [(''circledeployment'', createCirclePromotionPayload workspace_id data cid),
                (''circleundeployment'', createCirclePromotionPayload workspace_id data cid)] selectedAction)"

text \<open>Saving an action: what is sent and whether the form still says that it is saving, before
  the answer. The exception comes after the state was set.\<close>

definition save_action_form :: "string \<Rightarrow> action_form \<Rightarrow> string \<Rightarrow> string \<Rightarrow> string \<Rightarrow> action_payload list \<times> bool" where
  "save_action_form workspace_id data group_id cid selectedAction =
     (case createActionPayload workspace_id data group_id cid selectedAction of
        None \<Rightarrow> ([], True) | Some payload \<Rightarrow> ([payload], True))"

definition action_saved :: "action_payload list \<times> bool \<Rightarrow> action_payload list \<times> bool" where
  "action_saved s = (case fst s of [] \<Rightarrow> s | p # ps \<Rightarrow> (ps, False))"

text \<open>An action of a type the form does not know is not sent, and the form waits for ever.\<close>

theorem unknown_action_stays_saving:
  assumes "selectedAction \<notin> {''circledeployment'', ''circleundeployment''}"
  shows "(action_saved ^^ n) (save_action_form w data g c selectedAction) = ([], True)"
proof -
  have start: "save_action_form w data g c selectedAction = ([], True)"
    using assms by (simp add: save_action_form_def createActionPayload_def)
  show ?thesis unfolding start by (induction n) (simp_all add: action_saved_def)
qed

subsection \<open>Series\<close>

record measured =
  period_s :: rat
  measured_total :: rat

record metric_result =
  mr_metric :: string
  mr_result :: "measured list"

record chart_series =
  series_name :: string
  series_data :: "(rat \<times> rat) list"

definition buildSeriesData :: "measured list \<Rightarrow> (rat \<times> rat) list" where
  "buildSeriesData = map (\<lambda>item. (period_s item * 1000, measured_total item))"

definition getMetricSeries :: "metric_result list \<Rightarrow> chart_series list" where
  "getMetricSeries = map (\<lambda>item. \<lparr>series_name = mr_metric item, series_data = buildSeriesData (mr_result item)\<rparr>)"

text \<open>\<open>None\<close>: nothing was selected yet.\<close>

definition filterMetricsSeries :: "chart_series list \<Rightarrow> select_option list option \<Rightarrow> chart_series list" where
  "filterMetricsSeries data selectFilters =
     (case selectFilters of
        None \<Rightarrow> data
      | Some filters \<Rightarrow>
          if filters \<noteq> [] \<and> so_value (hd filters) = allOption then data
          else filter (\<lambda>item. find (\<lambda>f. so_label f = series_name item) filters \<noteq> None) data)"

definition normalizeCircleParams :: "string list \<Rightarrow> string list" where
  "normalizeCircleParams circles = (let filteredCircles = (if allOption \<in> set circles then [] else circles) in filteredCircles)"

record deploy_metrics =
  successful_in_period :: "(string \<times> rat) list"
  failed_in_period :: "(string \<times> rat) list"
  average_in_period :: "(string \<times> rat) list"

text \<open>\<open>None\<close> while the metrics are loading.\<close>

definition getDeploySeries :: "deploy_metrics option \<Rightarrow> (string \<times> string \<times> (string \<times> rat) list) list" where
  "getDeploySeries data =
     (let part = (\<lambda>f. case data of None \<Rightarrow> [] | Some d \<Rightarrow> f d)
      in [(''Deploy'', ''column'', part successful_in_period), (''Error'', ''column'', part failed_in_period),
          (''Avarege time'', ''area'', part average_in_period)])"

definition getPlotOption :: "(string \<times> string \<times> (string \<times> rat) list) list \<Rightarrow> string" where
  "getPlotOption deploySeries =
     (let third = (\<lambda>k. 2 < length (snd (snd (deploySeries ! k))))
      in if \<not> (third 0 \<or> third 1) then ''25%'' else ''50%'')"

text \<open>With the list of circles checked well, the request names the circles that are checked; the
  box for all is the same as no box.\<close>

theorem circles_of_the_request:
  assumes "checked_well options selected"
  shows "normalizeCircleParams selected = (if selected = allOption # options then [] else selected)"
    "normalizeCircleParams [] = normalizeCircleParams (allOption # options)"
  using assms by (auto simp: checked_well_def normalizeCircleParams_def)

lemma filterMetricsSeries_labels:
  "filterMetricsSeries data (Some filters) =
     (if filters \<noteq> [] \<and> so_value (hd filters) = allOption then data
      else filter (\<lambda>item. series_name item \<in> so_label ` set filters) data)"
proof -
  have "find (\<lambda>f. so_label f = n) filters \<noteq> None \<longleftrightarrow> n \<in> so_label ` set filters" for n
    by (auto simp: find_None_iff)
  then show ?thesis by (simp add: filterMetricsSeries_def)
qed

subsection \<open>The panel of a group\<close>

datatype chart_period = Hour | Day | Week | Month

fun period_of :: "chart_period \<Rightarrow> string" where
  "period_of Hour = ''1h''" | "period_of Day = ''1d''" | "period_of Week = ''1w''" | "period_of Month = ''1m''"

fun interval_of :: "chart_period \<Rightarrow> string" where
  "interval_of Hour = ''5m''" | "interval_of Day = ''1h''" | "interval_of Week = ''1d''" | "interval_of Month = ''1w''"

text \<open>The state of the card (\<open>chartOpen\<close>, \<open>selectMetric\<close>) and, while the chart is open, of the
  chart, with the requests under way: their period and interval.\<close>

record chart_panel =
  chartOpen :: bool
  selectMetric :: "select_option list option"
  chart_period :: string
  chart_interval :: string
  chartData :: "chart_series list"
  chartDataLoading :: bool
  asked :: "(string \<times> string) list"

datatype chart_event = ViewChart | ChoosePeriod chart_period | SelectMetrics "select_option list"
  | MetricsAnswered "metric_result list option"

definition closed_panel :: chart_panel where
  "closed_panel = \<lparr>chartOpen = False, selectMetric = None, chart_period = ''1h'', chart_interval = ''5m'',
     chartData = [], chartDataLoading = True, asked = []\<rparr>"

text \<open>The effect of \<open>MonitoringMetrics\<close> on its period and interval.\<close>

definition ask_metrics :: "chart_panel \<Rightarrow> chart_panel" where
  "ask_metrics m = m\<lparr>chartDataLoading := True, asked := asked m @ [(chart_period m, chart_interval m)]\<rparr>"

definition handleViewChart :: "chart_panel \<Rightarrow> chart_panel" where
  "handleViewChart m =
     (let m1 = m\<lparr>chartOpen := \<not> chartOpen m, selectMetric := None\<rparr>
      in if chartOpen m1
         then ask_metrics (m1\<lparr>chart_period := ''1h'', chart_interval := ''5m'', chartData := [], asked := []\<rparr>)
         else m1\<lparr>asked := []\<rparr>)"

definition handleChangePeriod :: "chart_panel \<Rightarrow> chart_panel" where
  "handleChangePeriod m = (if selectMetric m = None \<or> selectMetric m = Some [] then m\<lparr>selectMetric := None\<rparr> else m)"

definition toogleChartPeriod :: "string \<Rightarrow> string \<Rightarrow> chart_panel \<Rightarrow> chart_panel" where
  "toogleChartPeriod chartPeriod chartInterval m =
     (let m1 = (handleChangePeriod m)\<lparr>chart_period := chartPeriod, chart_interval := chartInterval\<rparr>
      in if chart_period m1 = chart_period m \<and> chart_interval m1 = chart_interval m then m1 else ask_metrics m1)"

text \<open>A failed request gives \<open>undefined\<close>, of which there are no series. What comes for a chart that
  was closed is set on a component that is gone.\<close>

fun chart_step :: "chart_event \<Rightarrow> chart_panel \<Rightarrow> chart_panel" where
  "chart_step ViewChart m = handleViewChart m"
| "chart_step (ChoosePeriod p) m =
     (if chartOpen m \<and> \<not> chartDataLoading m then toogleChartPeriod (period_of p) (interval_of p) m else m)"
| "chart_step (SelectMetrics s) m = (if chartOpen m then m\<lparr>selectMetric := Some s\<rparr> else m)"
| "chart_step (MetricsAnswered a) m =
     (case asked m of
        [] \<Rightarrow> m
      | q # qs \<Rightarrow> m\<lparr>chartData := getMetricSeries (case a of None \<Rightarrow> [] | Some r \<Rightarrow> r),
                    chartDataLoading := False, asked := qs\<rparr>)"

text \<open>A run over a server that answers each period with what it has for it.\<close>

fun served :: "(string \<Rightarrow> string \<Rightarrow> metric_result list option) \<Rightarrow> chart_event \<Rightarrow> chart_panel \<Rightarrow> bool" where
  "served server (MetricsAnswered a) m \<longleftrightarrow> (case asked m of [] \<Rightarrow> True | (p, i) # qs \<Rightarrow> a = server p i)"
| "served server _ m \<longleftrightarrow> True"

inductive chart_run :: "(string \<Rightarrow> string \<Rightarrow> metric_result list option) \<Rightarrow> chart_panel \<Rightarrow> bool"
  for server :: "string \<Rightarrow> string \<Rightarrow> metric_result list option" where
  closed: "chart_run server closed_panel"
| step: "chart_run server m \<Longrightarrow> served server e m \<Longrightarrow> chart_run server (chart_step e m)"

definition chart_inv :: "(string \<Rightarrow> string \<Rightarrow> metric_result list option) \<Rightarrow> chart_panel \<Rightarrow> bool" where
  "chart_inv server m \<longleftrightarrow>
     (if chartOpen m then
        (chart_period m, chart_interval m) \<in> range (\<lambda>p. (period_of p, interval_of p))
        \<and> (if chartDataLoading m then asked m = [(chart_period m, chart_interval m)]
           else asked m = [] \<and> chartData m = getMetricSeries (case server (chart_period m) (chart_interval m) of
                  None \<Rightarrow> [] | Some r \<Rightarrow> r))
      else asked m = [])"

lemma chart_inv_step:
  assumes "chart_inv server m" "served server e m"
  shows "chart_inv server (chart_step e m)"
proof (cases e)
  case ViewChart
  have "(''1h'', ''5m'') \<in> range (\<lambda>p. (period_of p, interval_of p))" by (rule range_eqI [of _ _ Hour]) simp
  then show ?thesis
    using assms(1) by (simp add: ViewChart chart_inv_def handleViewChart_def ask_metrics_def Let_def)
next
  case (ChoosePeriod p)
  then show ?thesis
    using assms(1) by (simp add: chart_inv_def toogleChartPeriod_def handleChangePeriod_def ask_metrics_def Let_def)
next
  case (SelectMetrics s)
  then show ?thesis using assms(1) by (simp add: chart_inv_def)
next
  case (MetricsAnswered a)
  then show ?thesis
    using assms by (cases "asked m") (auto simp: chart_inv_def split: if_splits)
qed

text \<open>
  Whatever is clicked and whenever the server answers, an open chart that is not loading shows
  the series of the chosen period, none when its request failed; while it is loading, the one
  request under way is for the chosen period. That the buttons are off while it loads is what
  keeps a late answer from another period away.
\<close>

theorem chart_shows_chosen_period:
  assumes "chart_run server m" "chartOpen m"
  shows "(chart_period m, chart_interval m) \<in> range (\<lambda>p. (period_of p, interval_of p))
    \<and> (if chartDataLoading m then asked m = [(chart_period m, chart_interval m)]
       else chartData m = getMetricSeries (case server (chart_period m) (chart_interval m) of
              None \<Rightarrow> [] | Some r \<Rightarrow> r))"
proof -
  have "chart_inv server m"
    using assms(1) by (induction rule: chart_run.induct) (simp_all add: chart_inv_step, simp add: chart_inv_def closed_panel_def)
  then show ?thesis using assms(2) by (simp add: chart_inv_def split: if_splits)
qed

end
