(* ===== verification/FormPanels.thy ===== *)
theory FormPanels
  imports Commands
begin

text \<open>
  Two forms that decide by comparing what is typed with what was there before: the test of a
  connection (\<open>Settings/Credentials/Sections/Registry/Form.tsx\<close> and \<open>Git/Form.tsx\<close> over
  \<open>core/hooks/useTestConnection.ts\<close>), and the form of a component
  (\<open>modules/Modules/Comparation/Form/Component.tsx\<close>).
\<close>

subsection \<open>The test of a connection\<close>

text \<open>
  The state of the form and of the hook, the tests under way and the refusals whose text is
  being read, each with the form it was made for. \<open>tc_about\<close> is the form that the answer shown was
  made for, which the code does not keep.
\<close>

record 'f tester =
  typed_form :: 'f
  lastTestedForm :: "'f option"
  tc_status :: string
  tc_message :: "string option"
  tc_loading :: bool
  tc_tests :: "'f list"
  tc_texts :: "'f list"
  tc_about :: "'f option"

datatype 'f test_event = Typed 'f | ClickTest | Connected | Refused | Unreachable
  | TextRead nat "string option option"

definition resetTestConnection :: "'f tester \<Rightarrow> 'f tester" where
  "resetTestConnection s = s\<lparr>tc_status := ''idle'', tc_message := None, tc_about := None\<rparr>"

text \<open>The effect on the form and the answer.\<close>

definition forget_old_answer :: "'f tester \<Rightarrow> 'f tester" where
  "forget_old_answer s =
     (if truthy (tc_message s) \<and> Some (typed_form s) \<noteq> lastTestedForm s then resetTestConnection s else s)"

text \<open>The button is off while it loads. \<open>TextRead\<close>: the text is not JSON, or JSON with or without a
  message. A refusal stops the loading before its text is read; without an answer there is no
  text.\<close>

fun tester_step :: "'f test_event \<Rightarrow> 'f tester \<Rightarrow> 'f tester" where
  "tester_step (Typed f) s = forget_old_answer (s\<lparr>typed_form := f\<rparr>)"
| "tester_step ClickTest s =
     (if tc_loading s then s
      else s\<lparr>lastTestedForm := Some (typed_form s), tc_loading := True, tc_tests := tc_tests s @ [typed_form s]\<rparr>)"
| "tester_step Connected s =
     (case tc_tests s of
        [] \<Rightarrow> s
      | f # fs \<Rightarrow> forget_old_answer (s\<lparr>tc_status := ''success'', tc_message := Some ''Successful connection'',
          tc_about := Some f, tc_loading := False, tc_tests := fs\<rparr>))"
| "tester_step Refused s =
     (case tc_tests s of
        [] \<Rightarrow> s | f # fs \<Rightarrow> s\<lparr>tc_loading := False, tc_tests := fs, tc_texts := tc_texts s @ [f]\<rparr>)"
| "tester_step Unreachable s =
     (case tc_tests s of [] \<Rightarrow> s | f # fs \<Rightarrow> s\<lparr>tc_loading := False, tc_tests := fs\<rparr>)"
| "tester_step (TextRead k parsed) s =
     (if k < length (tc_texts s) then
        (let s1 = s\<lparr>tc_texts := drop_nth k (tc_texts s)\<rparr>
         in case parsed of
              None \<Rightarrow> s1
            | Some m \<Rightarrow> forget_old_answer (s1\<lparr>tc_status := ''error'',
                tc_message := Some (or_else m ''error when trying to connect.''),
                tc_about := Some (tc_texts s ! k)\<rparr>))
      else s)"

definition new_tester :: "'f \<Rightarrow> 'f tester" where
  "new_tester f = \<lparr>typed_form = f, lastTestedForm = None, tc_status = ''idle'', tc_message = None,
     tc_loading = False, tc_tests = [], tc_texts = [], tc_about = None\<rparr>"

text \<open>No new test is started while the text of a refusal is being read.\<close>

fun patient :: "'f test_event list \<Rightarrow> 'f tester \<Rightarrow> bool" where
  "patient [] s \<longleftrightarrow> True"
| "patient (e # es) s \<longleftrightarrow> (e = ClickTest \<longrightarrow> tc_texts s = []) \<and> patient es (tester_step e s)"

definition one_test :: "'f tester \<Rightarrow> bool" where
  "one_test s \<longleftrightarrow> tc_tests s = [] \<and> tc_texts s = [] \<and> \<not> tc_loading s
     \<or> (\<exists>f. lastTestedForm s = Some f
          \<and> (tc_tests s = [f] \<and> tc_texts s = [] \<and> tc_loading s
             \<or> tc_tests s = [] \<and> tc_texts s = [f] \<and> \<not> tc_loading s))"

definition answer_fits :: "'f tester \<Rightarrow> bool" where
  "answer_fits s \<longleftrightarrow> tc_status s = ''idle'' \<and> tc_message s = None
     \<or> truthy (tc_message s) \<and> tc_about s = Some (typed_form s) \<and> lastTestedForm s = Some (typed_form s)"

lemma forget_simps [simp]:
  "tc_tests (forget_old_answer s) = tc_tests s" "tc_texts (forget_old_answer s) = tc_texts s"
  "tc_loading (forget_old_answer s) = tc_loading s" "lastTestedForm (forget_old_answer s) = lastTestedForm s"
  by (simp_all add: forget_old_answer_def resetTestConnection_def)

lemma one_test_forget [simp]: "one_test (forget_old_answer s) = one_test s"
  by (simp add: one_test_def)

lemma forget_fits:
  "truthy (tc_message s) \<Longrightarrow> tc_about s = lastTestedForm s \<Longrightarrow> answer_fits (forget_old_answer s)"
  "tc_status s = ''idle'' \<and> tc_message s = None \<Longrightarrow> answer_fits (forget_old_answer s)"
  by (auto simp: forget_old_answer_def resetTestConnection_def answer_fits_def truthy_def)

lemma error_text_some [simp]: "or_else m ''error when trying to connect.'' \<noteq> []"
  by (simp add: or_else_def split: option.split)

lemma one_test_step:
  assumes "one_test s" "e = ClickTest \<longrightarrow> tc_texts s = []"
  shows "one_test (tester_step e s)"
proof (cases e)
  case (Typed f)
  have "one_test (s\<lparr>typed_form := f\<rparr>)" using assms(1) by (simp add: one_test_def)
  then show ?thesis by (simp add: Typed)
next
  case (TextRead k parsed)
  have "one_test (s\<lparr>tc_texts := drop_nth k (tc_texts s)\<rparr>)" if "k < length (tc_texts s)"
    using assms(1) that by (auto simp: one_test_def drop_nth_def)
  moreover have "one_test (t\<lparr>tc_status := x, tc_message := y, tc_about := z\<rparr>) = one_test t" for t :: "'a tester" and x y z
    by (simp add: one_test_def)
  ultimately show ?thesis using assms(1) by (simp add: TextRead Let_def split: option.split)
qed (use assms in \<open>auto simp: one_test_def\<close>)

lemma answer_fits_step:
  assumes one: "one_test s" and fits: "answer_fits s"
  shows "answer_fits (tester_step e s)"
proof (cases e)
  case (Typed f)
  have "answer_fits (forget_old_answer (s\<lparr>typed_form := f\<rparr>))"
  proof (cases "tc_status s = ''idle'' \<and> tc_message s = None")
    case True
    then show ?thesis by (intro forget_fits(2)) simp
  next
    case False
    then show ?thesis using fits by (intro forget_fits(1)) (auto simp: answer_fits_def)
  qed
  then show ?thesis by (simp add: Typed)
next
  case Connected
  show ?thesis
  proof (cases "tc_tests s")
    case (Cons f fs)
    then have "lastTestedForm s = Some f" using one by (auto simp: one_test_def)
    with Cons show ?thesis by (simp add: Connected forget_fits)
  qed (simp add: Connected fits)
next
  case (TextRead k parsed)
  have kept: "answer_fits (s\<lparr>tc_texts := xs\<rparr>)" for xs using fits by (simp add: answer_fits_def)
  show ?thesis
  proof (cases "k < length (tc_texts s)")
    case True
    then have "lastTestedForm s = Some (tc_texts s ! k)" using one by (auto simp: one_test_def)
    then have "answer_fits (forget_old_answer (s\<lparr>tc_texts := drop_nth k (tc_texts s), tc_status := ''error'',
        tc_message := Some (or_else m ''error when trying to connect.''), tc_about := Some (tc_texts s ! k)\<rparr>))"
      for m by (intro forget_fits(1)) simp_all
    then show ?thesis using True kept by (simp add: TextRead Let_def split: option.split)
  qed (simp add: TextRead fits)
next
  case ClickTest
  then show ?thesis using fits by (auto simp: answer_fits_def)
next
  case Refused
  then show ?thesis using fits by (auto simp: answer_fits_def split: list.split)
next
  case Unreachable
  then show ?thesis using fits by (auto simp: answer_fits_def split: list.split)
qed

text \<open>
  An answer that is shown is about the form that is typed: the effect takes it away as soon as
  the form is another one, and the button lets one test run at a time; for runs in which no
  test is started while the text of a refusal is being read.
\<close>

theorem shown_answer_is_about_the_form:
  assumes "s = fold tester_step es (new_tester f)" "patient es (new_tester f)" "tc_status s \<noteq> ''idle''"
  shows "tc_about s = Some (typed_form s)"
proof -
  have "answer_fits (fold tester_step es t)" if "one_test t" "answer_fits t" "patient es t" for t
    using that by (induction es arbitrary: t) (simp_all add: one_test_step answer_fits_step)
  then have "answer_fits s"
    using assms(1,2) by (simp add: one_test_def answer_fits_def new_tester_def)
  then show ?thesis using assms(3) by (simp add: answer_fits_def)
qed

text \<open>Without it the error of an old test is shown for the form that is being tested.\<close>

theorem late_error_is_about_another_form:
  "(let s = fold tester_step [ClickTest, Refused, Typed ''new'', ClickTest, TextRead 0 (Some None)] (new_tester ''old'')
    in tc_status s = ''error'' \<and> typed_form s = ''new'' \<and> tc_about s = Some ''old'')"
  by code_simp

subsection \<open>The form of a component\<close>

record component_values =
  cv_name :: string
  cv_latency :: string
  cv_error :: string
  cv_host :: string
  cv_gateway :: string

text \<open>The values of the fields that are drawn: the advanced ones only when they are shown.\<close>

definition getValues :: "bool \<Rightarrow> component_values \<Rightarrow> (string \<times> string) list" where
  "getValues isAdvancedOptions v =
     [(''name'', cv_name v), (''latencyThreshold'', cv_latency v), (''errorThreshold'', cv_error v)]
     @ (if isAdvancedOptions then [(''hostValue'', cv_host v), (''gatewayName'', cv_gateway v)] else [])"

text \<open>The component as it is kept; an attribute it does not have is an empty text.\<close>

definition kept_values :: "component_values \<Rightarrow> (string \<times> string) list" where
  "kept_values v = [(''name'', cv_name v), (''latencyThreshold'', cv_latency v), (''errorThreshold'', cv_error v),
     (''hostValue'', cv_host v), (''gatewayName'', cv_gateway v)]"

definition component_isDisabled :: "component_values \<Rightarrow> bool \<Rightarrow> component_values \<Rightarrow> bool" where
  "component_isDisabled prior isAdvancedOptions v =
     (let form = getValues isAdvancedOptions v;
          restForm = filter (\<lambda>(k, x). k \<in> {''name'', ''latencyThreshold'', ''errorThreshold''}) form;
          isInvalid = list_ex (\<lambda>(k, x). x = []) restForm
      in map_of (kept_values prior) = map_of form \<or> isInvalid)"

definition component_onSubmit ::
  "string \<Rightarrow> string option \<Rightarrow> bool \<Rightarrow> component_values \<Rightarrow> string \<times> string option \<times> (string \<times> string) list" where
  "component_onSubmit module_id component_id isAdvancedOptions v =
     (module_id, component_id, getValues isAdvancedOptions v)"

lemma form_equals_kept:
  "map_of (kept_values prior) = map_of (getValues advanced v) \<longleftrightarrow> advanced \<and> prior = v"
proof
  assume eq: "map_of (kept_values prior) = map_of (getValues advanced v)"
  have "map_of (kept_values prior) k = map_of (getValues advanced v) k" for k by (simp add: eq)
  from this [of "''name''"] this [of "''latencyThreshold''"] this [of "''errorThreshold''"]
    this [of "''hostValue''"] this [of "''gatewayName''"]
  show "advanced \<and> prior = v"
    by (cases advanced) (simp_all add: kept_values_def getValues_def)
qed (simp add: kept_values_def getValues_def)

text \<open>
  With the advanced options shown the button is off exactly for a form that is unchanged or
  incomplete. With the options hidden an unchanged form can be saved, and whatever is saved
  leaves the host and the gateway out: the \<open>PUT\<close> takes them from a component that had them.
\<close>

theorem component_form_is_compared:
  "component_isDisabled prior True v \<longleftrightarrow> v = prior \<or> cv_name v = [] \<or> cv_latency v = [] \<or> cv_error v = []"
  "component_isDisabled prior False v \<longleftrightarrow> cv_name v = [] \<or> cv_latency v = [] \<or> cv_error v = []"
  "map_of (snd (snd (component_onSubmit m c False v))) ''hostValue'' = None"
  "map_of (snd (snd (component_onSubmit m c False v))) ''gatewayName'' = None"
  by (auto simp: component_isDisabled_def form_equals_kept Let_def component_onSubmit_def, auto simp: getValues_def)

end
