(* ===== verification/Inputs.thy ===== *)
theory Inputs
  imports Gateway
begin

text \<open>
  What the user types and where it goes: the rules of a password (\<open>core/components/CheckPassword\<close>),
  the number field (\<open>core/components/Form/Number\<close>), the addresses with parameters and the history
  (\<open>core/utils/routes.ts\<close>), and the small checks beside them (\<open>core/utils/validations.ts\<close>,
  \<open>http.ts\<close>). A character is a code unit.
\<close>

subsection \<open>Passwords\<close>

record check_point =
  cp_name :: string
  cp_rule :: "string \<Rightarrow> string \<Rightarrow> bool"
  cp_message :: string

definition between :: "char \<Rightarrow> char \<Rightarrow> char \<Rightarrow> bool" where
  "between a c z \<longleftrightarrow> (of_char a :: nat) \<le> of_char c \<and> (of_char c :: nat) \<le> of_char z"

definition DEFAULT_MAX_LENGTH :: nat where "DEFAULT_MAX_LENGTH = 100"

definition special_characters :: string where
  "special_characters = ''!@#$%^&*(),.?'' @ [CHR 0x22] @ '':{}|<>''"

definition checkPoints :: "check_point list" where
  "checkPoints =
     [\<lparr>cp_name = ''Uppercase'', cp_rule = \<lambda>pass confirm. list_ex (\<lambda>c. between CHR ''A'' c CHR ''Z'') pass,
        cp_message = ''Must have at least one uppercase character''\<rparr>,
      \<lparr>cp_name = ''Lowercase'', cp_rule = \<lambda>pass confirm. list_ex (\<lambda>c. between CHR ''a'' c CHR ''z'') pass,
        cp_message = ''Must have at least one lowercase character''\<rparr>,
      \<lparr>cp_name = ''Numbers'', cp_rule = \<lambda>pass confirm. list_ex (\<lambda>c. between CHR ''0'' c CHR ''9'') pass,
        cp_message = ''Must have at least one number''\<rparr>,
      \<lparr>cp_name = ''Special Character'', cp_rule = \<lambda>pass confirm. list_ex (\<lambda>c. c \<in> set special_characters) pass,
        cp_message = ''Must have at least one special character''\<rparr>,
      \<lparr>cp_name = ''Minimum 10 and max of 100 characters'',
        cp_rule = \<lambda>pass confirm. 10 \<le> length pass \<and> length pass \<le> DEFAULT_MAX_LENGTH,
        cp_message = ''Must be between 10 and 100 characters''\<rparr>,
      \<lparr>cp_name = ''Confirm password'', cp_rule = \<lambda>pass confirm. pass \<noteq> [] \<and> pass = confirm,
        cp_message = ''Passwords do not match''\<rparr>]"

record CheckPassword =
  oldPassword :: "string option"
  newPassword :: "string option"
  confirmPassword :: "string option"

type_synonym field_errors = "(string \<times> (string \<times> string)) list"

definition given :: "string option \<Rightarrow> string" where
  "given v = (case v of None \<Rightarrow> [] | Some s \<Rightarrow> s)"

definition check_point_step :: "CheckPassword \<Rightarrow> check_point \<Rightarrow> field_errors \<Rightarrow> field_errors" where
  "check_point_step data checkPoint error =
     (let isValid = cp_rule checkPoint (given (newPassword data)) (given (confirmPassword data));
          field = (if cp_name checkPoint \<noteq> ''Confirm password'' then ''newPassword'' else ''confirmPassword'')
      in if \<not> isValid then AList.update field (cp_name checkPoint, cp_message checkPoint) error else error)"

definition password_resolver :: "CheckPassword \<Rightarrow> field_errors" where
  "password_resolver data =
     (let error = fold (check_point_step data) checkPoints []
      in if DEFAULT_MAX_LENGTH < length (given (oldPassword data))
         then AList.update ''oldPassword'' (''MaxLength'', ''Maximum of 100 characters'') error else error)"

text \<open>The message of a field is that of the last rule it breaks.\<close>

lemma check_points_of_field:
  "map_of (fold (check_point_step data) cps error) field =
     (case rev (filter (\<lambda>c. field = (if cp_name c \<noteq> ''Confirm password'' then ''newPassword'' else ''confirmPassword'')
            \<and> \<not> cp_rule c (given (newPassword data)) (given (confirmPassword data))) cps) of
        [] \<Rightarrow> map_of error field | c # _ \<Rightarrow> Some (cp_name c, cp_message c))"
  by (induction cps arbitrary: error)
    (auto simp: check_point_step_def Let_def update_conv' split: list.split)

lemma no_error_of_field:
  "map_of (fold (check_point_step data) cps error) field = None \<longleftrightarrow> map_of error field = None \<and>
     list_all (\<lambda>c. field = (if cp_name c \<noteq> ''Confirm password'' then ''newPassword'' else ''confirmPassword'')
       \<longrightarrow> cp_rule c (given (newPassword data)) (given (confirmPassword data))) cps"
  by (induction cps arbitrary: error) (auto simp: check_point_step_def Let_def update_conv')

lemma password_resolver_fields:
  "field \<noteq> ''oldPassword'' \<Longrightarrow>
     map_of (password_resolver data) field = map_of (fold (check_point_step data) checkPoints []) field"
  "map_of (password_resolver data) ''oldPassword'' = None \<longleftrightarrow> length (given (oldPassword data)) \<le> 100"
proof -
  have "map_of (fold (check_point_step data) checkPoints []) ''oldPassword'' = None"
    by (simp add: no_error_of_field list_all_iff)
  then show "map_of (password_resolver data) ''oldPassword'' = None \<longleftrightarrow> length (given (oldPassword data)) \<le> 100"
    by (simp add: password_resolver_def Let_def update_conv' DEFAULT_MAX_LENGTH_def)
qed (simp add: password_resolver_def Let_def update_conv')

theorem password_errors_are_exact:
  "(map_of (password_resolver data) ''newPassword'' = None \<longleftrightarrow>
      list_all (\<lambda>c. cp_rule c (given (newPassword data)) []) (take 5 checkPoints))
   \<and> (map_of (password_resolver data) ''confirmPassword'' = None \<longleftrightarrow>
      given (newPassword data) \<noteq> [] \<and> given (newPassword data) = given (confirmPassword data))
   \<and> (map_of (password_resolver data) ''oldPassword'' = None \<longleftrightarrow> length (given (oldPassword data)) \<le> 100)"
proof -
  have field: "map_of (password_resolver data) field = None \<longleftrightarrow> list_all (\<lambda>c. field =
      (if cp_name c \<noteq> ''Confirm password'' then ''newPassword'' else ''confirmPassword'')
      \<longrightarrow> cp_rule c (given (newPassword data)) (given (confirmPassword data))) checkPoints"
    if "field \<noteq> ''oldPassword''" for field
    unfolding password_resolver_fields(1) [OF that] no_error_of_field by simp
  have "map_of (password_resolver data) ''newPassword'' = None \<longleftrightarrow>
      list_all (\<lambda>c. cp_rule c (given (newPassword data)) []) (take 5 checkPoints)"
    by (subst field) (simp_all add: checkPoints_def)
  moreover have "map_of (password_resolver data) ''confirmPassword'' = None \<longleftrightarrow>
      given (newPassword data) \<noteq> [] \<and> given (newPassword data) = given (confirmPassword data)"
    by (subst field) (simp_all add: checkPoints_def)
  ultimately show ?thesis using password_resolver_fields(2) by simp
qed

text \<open>One character class decides: the message of the length is shown before that of a missing
  digit, since the rules are tried in turn and the last one stays.\<close>

lemma password_message:
  "map_of (password_resolver \<lparr>oldPassword = None, newPassword = Some ''abc'', confirmPassword = None\<rparr>) ''newPassword''
     = Some (''Minimum 10 and max of 100 characters'', ''Must be between 10 and 100 characters'')"
  by code_simp

subsection \<open>Numbers\<close>

definition isNumber :: "string \<Rightarrow> bool" where
  "isNumber value \<longleftrightarrow> list_ex (\<lambda>c. c = CHR ''.'' \<or> between CHR ''0'' c CHR ''9'') value"

definition isIntoMax :: "string \<Rightarrow> int \<Rightarrow> bool" where
  "isIntoMax value maximum \<longleftrightarrow> (case parseInt value of None \<Rightarrow> False | Some n \<Rightarrow> maximum < n)"

text \<open>A key pressed where the caret is: the check takes the key for the last one.\<close>

definition onKeyPress :: "int \<Rightarrow> string \<Rightarrow> string \<Rightarrow> char \<Rightarrow> string" where
  "onKeyPress maximum before_caret after_caret key =
     (let futureValue = (before_caret @ after_caret) @ [key]
      in if \<not> isNumber [key] \<or> isIntoMax futureValue maximum then before_caret @ after_caret
         else before_caret @ [key] @ after_caret)"

theorem typed_number_stays_below_maximum:
  assumes "0 \<le> maximum"
  shows "\<not> isIntoMax (fold (\<lambda>key v. onKeyPress maximum v [] key) keys []) maximum"
proof -
  have "\<not> isIntoMax (fold (\<lambda>key v. onKeyPress maximum v [] key) keys v) maximum" if "\<not> isIntoMax v maximum" for v
    using that by (induction keys arbitrary: v) (simp_all add: onKeyPress_def Let_def)
  moreover have "\<not> isIntoMax [] maximum"
  proof -
    have "parseInt [] = None" by code_simp
    then show ?thesis by (simp add: isIntoMax_def)
  qed
  ultimately show ?thesis by simp
qed

text \<open>With the caret in front, the check looks at another number than the one that appears.\<close>

theorem number_typed_in_front_passes_maximum:
  "onKeyPress 50 [] ''1'' CHR ''9'' = ''91'' \<and> isIntoMax ''91'' 50"
  by code_simp

subsection \<open>Addresses with parameters\<close>

definition is_word :: "char \<Rightarrow> bool" where
  "is_word c \<longleftrightarrow> between CHR ''A'' c CHR ''Z'' \<or> between CHR ''a'' c CHR ''z'' \<or> between CHR ''0'' c CHR ''9''
     \<or> c = CHR ''_''"

text \<open>The matches of \<open>/:+\w*/g\<close>.\<close>

function path_params :: "string \<Rightarrow> string list" where
  "path_params s =
     (let rest = dropWhile (\<lambda>c. c \<noteq> CHR '':'') s;
          name = dropWhile (\<lambda>c. c = CHR '':'') rest
      in if rest = [] then []
         else (takeWhile (\<lambda>c. c = CHR '':'') rest @ takeWhile is_word name) # path_params (dropWhile is_word name))"
  by auto
termination
proof (relation "measure length")
  show "wf (measure length)" by simp
next
  fix s rest name :: string
  assume rest: "rest = dropWhile (\<lambda>c. c \<noteq> CHR '':'') s" and name: "name = dropWhile (\<lambda>c. c = CHR '':'') rest"
    and some: "rest \<noteq> []"
  have "hd rest = CHR '':''" using some hd_dropWhile [of "\<lambda>c. c \<noteq> CHR '':''" s] by (simp add: rest)
  with some obtain cs where "rest = CHR '':'' # cs" by (cases rest) auto
  then have "length name \<le> length cs" by (simp add: name length_dropWhile_le)
  moreover have "length rest \<le> length s" by (simp add: rest length_dropWhile_le)
  ultimately show "(dropWhile is_word name, s) \<in> measure length"
    using \<open>rest = CHR '':'' # cs\<close> length_dropWhile_le [of is_word name] by simp
qed

declare path_params.simps [simp del]

text \<open>\<open>s.replace(p, r)\<close> of texts: the first occurrence, with the patterns of \<open>$\<close> in what replaces it.\<close>

fun find_text :: "string \<Rightarrow> string \<Rightarrow> (string \<times> string) option" where
  "find_text [] p = (if p = [] then Some ([], []) else None)"
| "find_text (c # cs) p =
     (if startsWith (c # cs) p then Some ([], drop (length p) (c # cs))
      else map_option (\<lambda>(a, z). (c # a, z)) (find_text cs p))"

fun expand :: "string \<Rightarrow> string \<Rightarrow> string \<Rightarrow> string \<Rightarrow> string" where
  "expand a m z [] = []"
| "expand a m z [c] = [c]"
| "expand a m z (c # d # cs) =
     (if c = CHR ''$'' \<and> d = CHR ''$'' then CHR ''$'' # expand a m z cs
      else if c = CHR ''$'' \<and> d = CHR ''&'' then m @ expand a m z cs
      else if c = CHR ''$'' \<and> d = CHR 0x60 then a @ expand a m z cs
      else if c = CHR ''$'' \<and> d = CHR 0x27 then z @ expand a m z cs
      else c # expand a m z (d # cs))"

definition js_replace :: "string \<Rightarrow> string \<Rightarrow> string \<Rightarrow> string" where
  "js_replace s p r =
     (case find_text s p of None \<Rightarrow> s | Some (a, z) \<Rightarrow> a @ expand a p z r @ z)"

definition replaceRoute :: "string \<Rightarrow> string list \<Rightarrow> string list \<Rightarrow> string" where
  "replaceRoute path pathParams params =
     foldl (\<lambda>newPath (pathParam, param). js_replace newPath pathParam param) path (zip pathParams params)"

definition getPath :: "string \<Rightarrow> string list \<Rightarrow> string" where
  "getPath path params =
     (let pathParams = path_params path
      in if pathParams = [] then path
         else if length pathParams \<noteq> length params then path
         else replaceRoute path pathParams params)"

text \<open>
  The history of the router: the entry that is shown, those behind it, latest first, and those
  ahead of it. Going further than the entries reach does nothing.
\<close>

record nav_history =
  behind :: "string list"
  shown_path :: string
  ahead :: "string list"

definition nav_push :: "string \<Rightarrow> string list \<Rightarrow> nav_history \<Rightarrow> nav_history" where
  "nav_push path args h = \<lparr>behind = shown_path h # behind h, shown_path = getPath path args, ahead = []\<rparr>"

definition nav_replace :: "string \<Rightarrow> string list \<Rightarrow> nav_history \<Rightarrow> nav_history" where
  "nav_replace path args h = h\<lparr>shown_path := getPath path args\<rparr>"

definition one_back :: "nav_history \<Rightarrow> nav_history" where
  "one_back h = (case behind h of
     [] \<Rightarrow> h | x # xs \<Rightarrow> \<lparr>behind = xs, shown_path = x, ahead = shown_path h # ahead h\<rparr>)"

definition one_ahead :: "nav_history \<Rightarrow> nav_history" where
  "one_ahead h = (case ahead h of
     [] \<Rightarrow> h | x # xs \<Rightarrow> \<lparr>behind = shown_path h # behind h, shown_path = x, ahead = xs\<rparr>)"

definition nav_go :: "int \<Rightarrow> nav_history \<Rightarrow> nav_history" where
  "nav_go index h =
     (if 0 \<le> index then if nat index \<le> length (ahead h) then (one_ahead ^^ nat index) h else h
      else if nat (- index) \<le> length (behind h) then (one_back ^^ nat (- index)) h else h)"

definition nav_goBack :: "nav_history \<Rightarrow> nav_history" where
  "nav_goBack = nav_go (- 1)"

text \<open>Going ahead undoes going back, as far as one got.\<close>

lemma one_ahead_back: "behind h \<noteq> [] \<Longrightarrow> one_ahead (one_back h) = h"
  by (cases "behind h") (simp_all add: one_back_def one_ahead_def)

lemma back_and_ahead: "n \<le> length (behind h) \<Longrightarrow> (one_ahead ^^ n) ((one_back ^^ n) h) = h"
proof (induction n arbitrary: h)
  case (Suc n)
  then have "n \<le> length (behind (one_back h))" and some: "behind h \<noteq> []"
    by (cases "behind h"; simp add: one_back_def)+
  have "(one_ahead ^^ Suc n) ((one_back ^^ Suc n) h) = one_ahead ((one_ahead ^^ n) ((one_back ^^ n) (one_back h)))"
    by (simp only: funpow.simps(2) [of n one_ahead] funpow_Suc_right [of n one_back] comp_apply)
  also have "\<dots> = one_ahead (one_back h)" by (simp only: Suc.IH [OF \<open>n \<le> length (behind (one_back h))\<close>])
  finally show ?case by (simp only: one_ahead_back [OF some])
qed simp

theorem going_back_after_push:
  "shown_path (nav_goBack (nav_push path args h)) = shown_path h"
  "nav_go 1 (nav_goBack (nav_push path args h)) = nav_push path args h"
  by (simp_all add: nav_goBack_def nav_go_def nav_push_def one_back_def one_ahead_def)

definition isRootRoute :: "string \<Rightarrow> bool" where
  "isRootRoute route \<longleftrightarrow> contains_text route ''root''"

definition getRoles :: "page \<Rightarrow> browser \<Rightarrow> json_value" where
  "getRoles p b =
     (case member_of ''permissions'' (getWorkspace p b) of
        None \<Rightarrow> Arr [] | Some v \<Rightarrow> if truthy_value v then v else Arr [])"

definition pushTo :: "string \<Rightarrow> browser \<Rightarrow> browser" where
  "pushTo = redirectTo"

text \<open>\<open>generatePath\<close> is the router's; a port in the path must not be taken for a parameter.\<close>

definition generatePathV1 ::
  "(string \<Rightarrow> (string \<times> string) list \<Rightarrow> string) \<Rightarrow> string \<Rightarrow> string \<Rightarrow> (string \<times> string) list \<Rightarrow> string" where
  "generatePathV1 generatePath portLegacyDevelopment path params =
     generatePath path (fold (\<lambda>(k, v). AList.update k v) params
       [(portLegacyDevelopment, CHR '':'' # portLegacyDevelopment)])"

definition getParamByHash :: "string \<Rightarrow> string \<Rightarrow> string option" where
  "getParamByHash param hash = get_param param (parse_query (js_replace hash ''#'' ''?''))"

lemma expand_plain: "CHR ''$'' \<notin> set r \<Longrightarrow> expand a m z r = r"
  by (induction a m z r rule: expand.induct) auto

lemma find_text_first:
  "CHR '':'' \<notin> set a \<Longrightarrow> find_text (a @ (CHR '':'' # n) @ z) (CHR '':'' # n) = Some (a, z)"
  by (induction a) (auto simp: startsWith_def)

lemma js_replace_first:
  assumes "CHR '':'' \<notin> set a" "CHR ''$'' \<notin> set v"
  shows "js_replace (a @ (CHR '':'' # n) @ z) (CHR '':'' # n) v = a @ v @ z"
  using find_text_first [OF assms(1), of n z] by (simp add: js_replace_def expand_plain [OF assms(2)])

text \<open>An address in pieces: what stands before a parameter, and its name; then what is left.\<close>

type_synonym pieces = "(string \<times> string) list"

definition template :: "pieces \<Rightarrow> string \<Rightarrow> string" where
  "template ps rest = concat (map (\<lambda>(before, name). before @ CHR '':'' # name) ps) @ rest"

fun filled :: "pieces \<Rightarrow> string list \<Rightarrow> string \<Rightarrow> string" where
  "filled ((before, name) # ps) (v # vs) rest = before @ v @ filled ps vs rest"
| "filled _ _ rest = rest"

fun plain_pieces :: "pieces \<Rightarrow> string \<Rightarrow> bool" where
  "plain_pieces [] rest \<longleftrightarrow> CHR '':'' \<notin> set rest"
| "plain_pieces ((before, name) # ps) rest \<longleftrightarrow> CHR '':'' \<notin> set before \<and> name \<noteq> [] \<and> list_all is_word name
     \<and> (template ps rest = [] \<or> \<not> is_word (hd (template ps rest))) \<and> plain_pieces ps rest"

lemma word_no_colon: "is_word c \<Longrightarrow> c \<noteq> CHR '':''"
  by (auto simp: is_word_def between_def)

lemma path_params_colon:
  assumes "dropWhile (\<lambda>c. c \<noteq> CHR '':'') s = CHR '':'' # t" "t = [] \<or> hd t \<noteq> CHR '':''"
  shows "path_params s = (CHR '':'' # takeWhile is_word t) # path_params (dropWhile is_word t)"
proof -
  have "takeWhile (\<lambda>c. c = CHR '':'') t = []" "dropWhile (\<lambda>c. c = CHR '':'') t = t"
    using assms(2) by (cases t; auto)+
  then show ?thesis
    by (subst path_params.simps) (simp add: assms(1) Let_def del: dropWhile_eq_Nil_conv)
qed

lemma path_params_template:
  "plain_pieces ps rest \<Longrightarrow> path_params (template ps rest) = map (\<lambda>p. CHR '':'' # snd p) ps"
proof (induction ps)
  case Nil
  then have "dropWhile (\<lambda>c. c \<noteq> CHR '':'') rest = []" by (auto simp: dropWhile_eq_Nil_conv)
  then show ?case by (simp add: template_def path_params.simps Let_def)
next
  case (Cons p ps)
  obtain before name where p: "p = (before, name)" by (cases p)
  let ?z = "template ps rest"
  have ok: "CHR '':'' \<notin> set before" "name \<noteq> []" "list_all is_word name" "plain_pieces ps rest"
    "?z = [] \<or> \<not> is_word (hd ?z)" using Cons.prems by (simp_all add: p)
  have s: "template (p # ps) rest = before @ CHR '':'' # name @ ?z" by (simp add: template_def p)
  have start: "dropWhile (\<lambda>c. c \<noteq> CHR '':'') (template (p # ps) rest) = CHR '':'' # name @ ?z"
    using ok(1) unfolding s by (subst dropWhile_append2) auto
  have "hd name \<noteq> CHR '':''" using ok(2,3) word_no_colon by (cases name) auto
  then have first: "name @ ?z = [] \<or> hd (name @ ?z) \<noteq> CHR '':''" using ok(2) by simp
  have "takeWhile is_word ?z = []" "dropWhile is_word ?z = ?z" using ok(5) by (cases ?z; auto)+
  then have word: "takeWhile is_word (name @ ?z) = name" "dropWhile is_word (name @ ?z) = ?z"
    using ok(3) by (simp_all add: takeWhile_append dropWhile_append list_all_iff)
  show ?case
    unfolding path_params_colon [OF start first] word Cons.IH [OF ok(4)] by (simp add: p)
qed

lemma replaceRoute_template:
  "\<lbrakk>plain_pieces ps rest; length vs = length ps; CHR '':'' \<notin> set a;
    list_all (\<lambda>v. CHR '':'' \<notin> set v \<and> CHR ''$'' \<notin> set v) vs\<rbrakk>
   \<Longrightarrow> replaceRoute (a @ template ps rest) (map (\<lambda>p. CHR '':'' # snd p) ps) vs = a @ filled ps vs rest"
proof (induction ps arbitrary: a vs)
  case Nil
  then show ?case by (simp add: replaceRoute_def template_def)
next
  case (Cons p ps)
  obtain before name where p: "p = (before, name)" by (cases p)
  from Cons.prems(2) obtain v us where vs: "vs = v # us" by (cases vs) auto
  have s: "a @ template (p # ps) rest = (a @ before) @ (CHR '':'' # name) @ template ps rest"
    by (simp add: template_def p)
  have "js_replace (a @ template (p # ps) rest) (CHR '':'' # name) v = (a @ before) @ v @ template ps rest"
    unfolding s by (rule js_replace_first) (use Cons.prems in \<open>simp_all add: p vs\<close>)
  then have "replaceRoute (a @ template (p # ps) rest) (map (\<lambda>p. CHR '':'' # snd p) (p # ps)) vs
      = replaceRoute ((a @ before @ v) @ template ps rest) (map (\<lambda>p. CHR '':'' # snd p) ps) us"
    by (simp add: replaceRoute_def vs p)
  also have "\<dots> = (a @ before @ v) @ filled ps us rest"
    by (rule Cons.IH) (use Cons.prems in \<open>simp_all add: p vs\<close>)
  finally show ?case by (simp add: p vs)
qed

text \<open>The parameters of an address are filled in the order of the arguments, whatever their names.\<close>

theorem getPath_fills_parameters:
  assumes "plain_pieces ps rest" "length vs = length ps"
    and "list_all (\<lambda>v. CHR '':'' \<notin> set v \<and> CHR ''$'' \<notin> set v) vs"
  shows "getPath (template ps rest) vs = filled ps vs rest"
  using replaceRoute_template [OF assms(1,2) _ assms(3), of "[]"] assms(2)
  by (cases "ps = []") (simp_all add: getPath_def Let_def path_params_template [OF assms(1)] template_def [of "[]"])

text \<open>A value with a colon is taken for the next parameter.\<close>

theorem value_with_colon_is_filled_again:
  "getPath ''/a/:x/b/:y'' [''1:y'', ''2''] = ''/a/12/b/:y''"
  by code_simp

subsection \<open>Small checks\<close>

definition filledFields :: "(string \<times> string) list \<Rightarrow> bool" where
  "filledFields vs = fold (\<lambda>(field, value) status. if value = [] then False else status) vs True"

text \<open>What a validation of the form gives back: true, the message, or the empty value itself.\<close>

datatype notice = Valid | Message string | Falsy

definition isNotBlank :: "string \<Rightarrow> notice" where
  "isNotBlank value =
     (if value = [] then Falsy
      else if js_trim value \<noteq> [] then Valid else Message ''Cannot start with whitespaces'')"

definition isErrorCode :: "nat \<Rightarrow> bool" where
  "isErrorCode httpCode \<longleftrightarrow> 400 \<le> httpCode \<and> httpCode < 599"

definition themeByHttpCode :: "nat \<Rightarrow> string" where
  "themeByHttpCode httpCode =
     (if httpCode = 418 then ''primary'' else if isErrorCode httpCode then ''error'' else ''success'')"

text \<open>The e-mail addresses of the users of each group.\<close>

definition hasUserDuplication :: "string list list \<Rightarrow> string \<Rightarrow> bool" where
  "hasUserDuplication userGroups email \<longleftrightarrow>
     1 < length (fold (\<lambda>users result. case find (\<lambda>user. user = email) users of
         None \<Rightarrow> result | Some user \<Rightarrow> result @ [user]) userGroups [])"

theorem duplication_is_membership_of_two_groups:
  "hasUserDuplication userGroups email \<longleftrightarrow> 2 \<le> length (filter (\<lambda>users. email \<in> set users) userGroups)"
proof -
  have counted: "length (fold (\<lambda>users result. case find (\<lambda>user. user = email) users of
      None \<Rightarrow> result | Some user \<Rightarrow> result @ [user]) gs acc)
    = length acc + length (filter (\<lambda>users. email \<in> set users) gs)" for gs acc
  proof (induction gs arbitrary: acc)
    case (Cons users gs)
    have "find (\<lambda>user. user = email) users = (if email \<in> set users then Some email else None)"
      by (induction users) auto
    then show ?case using Cons.IH by simp
  qed simp
  show ?thesis unfolding hasUserDuplication_def counted by (simp add: less_eq_Suc_le numeral_2_eq_2)
qed

lemma filledFields_iff: "filledFields vs \<longleftrightarrow> list_all (\<lambda>(field, value). value \<noteq> []) vs"
proof -
  have "fold (\<lambda>(field, value) status. if value = [] then False else status) fs status
      \<longleftrightarrow> status \<and> list_all (\<lambda>(field, value). value \<noteq> []) fs" for fs :: "(string \<times> string) list" and status
    by (induction fs arbitrary: status) (simp_all add: case_prod_beta)
  then show ?thesis by (simp add: filledFields_def)
qed

text \<open>\<open>inRange\<close> leaves its end out: the last status of a server error counts as a success.\<close>

theorem last_error_code_is_a_success:
  "themeByHttpCode 599 = ''success''"
  "400 \<le> c \<Longrightarrow> c < 599 \<Longrightarrow> c \<noteq> 418 \<Longrightarrow> themeByHttpCode c = ''error''"
  by (simp_all add: themeByHttpCode_def isErrorCode_def)

end
