(* ===== verification/Spec2Isabelle.thy ===== *)
theory Spec2Isabelle
  imports Guarantees Interleaving Handover Routing Convergence Rendering Requests Listing EventLogs Config Database
    Segments Sessions Gateway UiState Fetching GitForm ReleaseForm Reactions OpenSea MetricPanels FormPanels Inputs
begin

text \<open>
  A model of the TypeScript programs of CharlesCD: \<^bold>\<open>butler\<close> (\<open>src/butler\<close>), the operator that
  deploys circles to Kubernetes, and the logic of the \<^bold>\<open>front end\<close> (\<open>src/ui\<close>) that does not
  draw. A circle is a group of users that gets its own version of some components; Istio
  routes a request to the version of the circle it names.

  \<^bold>\<open>How butler works.\<close> A request \<open>POST /v2/deployments\<close> passes the validation and four pipes,
  renders the charts of its components (read from GitHub or GitLab, templated by helm), and
  in one transaction stores the deployment, makes it the current one of its circle in place
  of the previous one, and writes two custom resources to the cluster: one for the
  deployment, named after its circle, and one for the routing of the namespace. The
  metacontroller answers to these resources by calling two hooks. The deployment hook says
  which manifests should run, keeps those of the previous deployment until the new ones are
  ready, and records the deployment as healthy. The routes hook says which Istio manifests
  should exist, records which circles are routed, and notifies the Moove service of success.
  A scheduler marks executions that took too long as timed out, notifies their failure and
  rolls the circle back to its previous deployment. A watcher stores Kubernetes events as
  logs.

  \<^bold>\<open>How the code is written down.\<close> An asynchronous method is an action on the state \<open>world\<close>
  (tables, cluster, notifications) that gives a value or an exception (\<open>Effects\<close>); a class or
  interface is a record, an enum a datatype, an array a list, a nullable property an option,
  a dictionary an association list in insertion order. Names are the names of the code. What
  is not under \<open>src\<close> is a parameter: the Kubernetes API, HTTP, helm, the clock, Joi, lodash on
  objects, the LRU cache, react-hook-form, base64, JSON of objects; where a theorem relies on
  one, its documented behaviour is a named hypothesis (\<open>object_api_law\<close>, \<open>uniqBy_law\<close>,
  \<open>joi_law\<close>, \<open>field_array_law\<close>, \<open>base64_law\<close>, ...) and the theorem has an instance with concrete
  functions. Standard JavaScript (arrays, strings, \<open>parseInt\<close>, \<open>Number\<close>, \<open>URLSearchParams\<close>, JSON of
  arrays of strings) is defined. A JSON value of the front end is a \<open>json_value\<close>.

  \<^bold>\<open>The theories of butler.\<close>
  \<^item> \<open>Prelude\<close>: JavaScript strings, arrays and fallible traversals; the shared collections.
    \<open>Exceptions\<close>, \<open>Domain\<close>, \<open>Effects\<close>: errors, rows and requests, actions.
  \<^item> \<open>Store\<close> (\<open>api/deployments/repository\<close>): the queries and updates of the four tables.
    \<open>Fleet\<close>: the invariant of the rows and the locales \<open>deployment_rewrite\<close> and
    \<open>lowering_rewrite\<close> of what an update owes it, interpreted on each update of the code.
  \<^item> \<open>Lodash\<close>, \<open>Json\<close>: the laws of lodash; \<open>JSON.stringify\<close> and \<open>parse\<close>, with their round trip.
  \<^item> \<open>Istio\<close> (\<open>core/integrations/utils\<close>), \<open>Cluster\<close> (\<open>core/integrations/k8s\<close>), \<open>Moove\<close>
    (\<open>core/integrations/moove\<close>): manifests, custom resources, notifications with retries.
  \<^item> \<open>Reconcile\<close> (\<open>operator/use-cases\<close>, \<open>operator/utils\<close>): the two hooks. \<open>Deployments\<close>
    (\<open>api/deployments/use-cases\<close>, \<open>pipes\<close>, \<open>operator/cron\<close>): requests and the scheduler.
    \<open>System\<close>: requests, hooks and ticks as one step relation, \<open>reachable\<close> states, and the proof
    that each operation keeps the invariant. \<open>Examples\<close>: a concrete run.
  \<^item> \<open>Charts\<close>, \<open>Helm\<close> (\<open>core/integrations/github\<close>, \<open>gitlab\<close>, \<open>core/manifests\<close>): the walks of a
    remote directory, the locale \<open>chart_repository\<close> interpreted on both, the command line.
  \<^item> \<open>Validation\<close>, \<open>Executions\<close>, \<open>Events\<close>, \<open>Config\<close>: request schemas, listing, event logs and their
    watcher, the configuration. \<open>Schema\<close>, \<open>Migrations\<close>: SQL statements over a schema and the 48
    migrations.

  \<^bold>\<open>What the lemmas of butler show.\<close> \<open>Guarantees\<close> (C1-C9): a circle has at most one current
  deployment in every reachable state and rollbacks go to its predecessor; creation is all or
  nothing on the tables; timeouts and undeployments do what they promise; a success is
  notified once; and the two situations in which the scheduler breaks these promises.
  \<open>Interleaving\<close> (C26): creations whose transactions overlap, where the promise of one current
  deployment fails. \<open>Handover\<close> (C37): creations whose resources are applied in another order than they
  committed.
  \<open>Routing\<close> (C10-C12), \<open>Hooks\<close> (C13-C17), \<open>Convergence\<close> (C18, C19): traffic goes to declared
  subsets only, for exactly the users of the circle; the old version stays until the new one
  is ready; the hooks have a fixed point. \<open>Rendering\<close> (C20, C21), \<open>Requests\<close> (C22),
  \<open>Listing\<close> (C24), \<open>EventLogs\<close> (C27), \<open>Config\<close>, \<open>Database\<close> (C31, C32): charts are read
  completely, accepted requests are well formed, pages cover every execution once, logs are
  only added, the migrations build what the entities need; and where the code fails to.

  \<^bold>\<open>The front end.\<close> Its state is separate from butler's and reaches it only through the Moove
  service.
  \<^item> \<open>Segments\<close> (\<open>modules/Circles/Segments\<close>): the editor of the rules of a circle; clicks are a
    step relation over the form and the pending removal, which C34 refines to edits in place;
    C35 is the invariant of the form.
  \<^item> \<open>Sessions\<close> (\<open>core/utils/auth.ts\<close> and the stores beside it, \<open>core/providers/base\<close>,
    \<open>core/providers/auth.ts\<close>, \<open>modules/Auth/Login\<close>): tokens, requests, logout and login over the
    state of the page. C36: with the identity manager off a refused request never gets its
    token renewed.
  \<^item> \<open>Gateway\<close> (\<open>Routes.tsx\<close>, \<open>modules/Auth/hooks.ts\<close>): the way in through the identity manager, as
    the chain of its effects. C33: the pages open only for a user the server has named.
  \<^item> \<open>Fetching\<close> (\<open>useFetch\<close> of \<open>core/providers/base/hooks.ts\<close>, \<open>useCircles\<close>): the fetch hook as a
    machine over the calls under way, answered in any order: it is silent once unmounted, and an
    error is never taken back.
  \<^item> \<open>UiState\<close> (\<open>core/state\<close>, \<open>modules/*/state\<close>): the reducers; the locale \<open>slice_reducer\<close> (an action of
    another slice changes nothing) is interpreted on all seven, \<open>paged_reducer\<close> (pages are
    appended) on the six with lists. Actions of different slices commute.
  \<^item> \<open>Queries\<close> (\<open>core/utils/path.ts\<close>, \<open>query.ts\<close>): the form encoding with its round trip, tabs as a
    list. \<open>GitForm\<close> (\<open>modules/Modules/Comparation/Form\<close>): C39, the address of a chart and back.
    \<open>ReleaseForm\<close> (\<open>modules/Circles/Release/Create\<close>): C40, the check of the components is exact.
  \<^item> \<open>Tasks\<close>: how the hooks run. A callback is a \<open>task\<close>: it writes cells (the states of its
    component and the fields of the page), dispatches, and stops at each \<open>await\<close>; the machine
    keeps the tasks that wait, each with its call, and goes on with the answer. An effect is a
    \<open>reaction\<close>: React runs it after a render in which one of its dependencies changed, and
    renders again while the effects change something (\<open>render_loop\<close>, which need not end). \<open>runs\<close>
    are the histories of calls of callbacks and answers, in any order. The locale
    \<open>status_protocol\<close> is what a callback owes its status, \<open>reporting\<close> what it owes the user.
  \<^item> \<open>Calls\<close> (\<open>core/providers\<close>): the requests. \<open>Commands\<close> (\<open>modules/*/hooks.ts\<close>, the sections of the
    settings): the callbacks. \<open>Reports\<close> interprets the two locales on them. C25: a status does
    not stay pending. C28: a failure is shown once.
  \<^item> \<open>Reactions\<close> (the same files): the hooks with effects over \<open>useFetch\<close>. C29: their effects come
    to rest after one round. C23: a hook whose deletion failed never reports a deletion again;
    the locale \<open>deletion_hook\<close> has both hooks of this form.

  \<^item> \<open>Access\<close> (\<open>core/utils/abilities.ts\<close>, \<open>containers\<close>, \<open>modules/Main\<close>, \<open>modules/Tokens\<close>): which pages
    and buttons are open to whom, the menus, the scopes of a token.
  \<^item> \<open>CirclePanel\<close> (\<open>modules/Circles/Comparation/Item\<close>): the panel of a circle as a machine over loads,
    timers and polls. C30: a deployment under way is followed, until a poll fails.
    \<open>OpenSea\<close>: the percentages of all circles. C38: they stay within their bounds.
  \<^item> \<open>Widgets\<close>: the list with a box for all, the JSON editor, the list that loads page after page,
    the members of a group, the wizard. \<open>MetricPanels\<close>: the metrics of a circle; an open chart
    shows the chosen period. \<open>Inputs\<close>: passwords, numbers, addresses with parameters, the history.
    \<open>FormPanels\<close>: the test of a connection, whose answer is about the form that is typed unless
    the text of an error comes late; the form of a component.

  \<^bold>\<open>Bounds and fuel.\<close> The walks of GitHub and GitLab take fuel, which only bounds the depth of
  the remote tree: the theorems about them say that fuel above the depth of the tree gives
  the result. A retried call makes at most one call more than its maximum. The
  rounds of rendering (\<open>render_loop\<close>) and of creating an unknown user (\<open>visit\<close>) need not end, and
  have the value \<open>None\<close> then. All other definitions terminate on their own: loops are recursions
  on lists or numbers. Integers are unbounded where the code's numbers are counts far below
  \<open>2 ^ 53\<close>; sizes in pixels, percentages and parsed numbers are rationals.

  \<^bold>\<open>Not modelled.\<close> In butler: NestJS modules and the start of the server (declarations), the
  console logger, an interface nothing uses, the effect on rows of the migrations that
  rewrite rows (a new database has none). Interleavings are modelled between requests, hooks
  and ticks, inside one scheduler tick, between the transactions of creations, and between
  their commits and what they apply; not at the other awaits of a request. In the front end: the
  components and styles, the hooks of the browser (workers, intervals, clicks outside), the
  options of the charts, the forms of the settings beyond what they send and test. The Kotlin,
  Java and Go services (Moove, Villager, circle matcher, Gate, Compass, Hermes), the Keycloak
  console and the charts and scripts of the installation are other programs.
\<close>

end
